(* ===== verification/Prelude.thy ===== *)
theory Prelude
  imports Main "HOL-Library.Char_ord" "HOL-Library.List_Lexorder" "HOL-Library.AList"
begin

text \<open>
  Shared vocabulary of the development: the part of Go's standard library the program uses on
  strings, numbers, slices and maps, and the lemmas every component rests on.

  A Go string is a byte sequence, here a \<^typ>\<open>string\<close>. Case folding and white space are
  modelled on ASCII, where the byte and the rune view agree; bytes from 0x80 on are letters
  that are neither folded nor trimmed. A Go \<open>int\<close> is an \<^typ>\<open>int\<close>, with the 64-bit range
  written out in \<open>atoi\<close>, the one place where the program turns outside text into a number.
  A fallible operation returns a sum: \<^term>\<open>Inl e\<close> for a returned error, \<^term>\<open>Inr x\<close> for a
  result. A Go map whose iteration order the program observes is an association list; its order
  stands for the order in which the runtime happens to iterate.
\<close>

named_theorems go_str \<open>facts about the string operations\<close>
named_theorems go_seq \<open>facts about slices, sorting and de-duplication\<close>

section \<open>Errors as values\<close>

fun rbind :: "'e + 'a \<Rightarrow> ('a \<Rightarrow> 'e + 'b) \<Rightarrow> 'e + 'b" where
  "rbind (Inl e) f = Inl e"
| "rbind (Inr x) f = f x"

fun map_err :: "('e \<Rightarrow> 'f) \<Rightarrow> 'e + 'a \<Rightarrow> 'f + 'a" where
  "map_err g (Inl e) = Inl (g e)"
| "map_err g (Inr x) = Inr x"

lemma rbind_Inr_iff: "rbind m f = Inr y \<longleftrightarrow> (\<exists>x. m = Inr x \<and> f x = Inr y)"
  by (cases m) auto

lemma rbind_Inl_iff: "rbind m f = Inl e \<longleftrightarrow> m = Inl e \<or> (\<exists>x. m = Inr x \<and> f x = Inl e)"
  by (cases m) auto

lemma rbind_InrE:
  assumes "rbind m f = Inr y"
  obtains x where "m = Inr x" "f x = Inr y"
  using assms by (auto simp: rbind_Inr_iff)

lemma map_err_Inl_iff: "map_err g m = Inl e \<longleftrightarrow> (\<exists>x. m = Inl x \<and> e = g x)"
  by (cases m) auto

lemma map_err_Inr_iff [simp]: "map_err g m = Inr y \<longleftrightarrow> m = Inr y"
  by (cases m) auto

section \<open>Characters and case\<close>

definition is_space :: "char \<Rightarrow> bool" where
  "is_space c \<longleftrightarrow> c = CHR '' '' \<or> c = CHR 0x09 \<or> c = CHR 0x0A \<or> c = CHR 0x0B \<or> c = CHR 0x0C \<or> c = CHR 0x0D"

definition is_digit :: "char \<Rightarrow> bool" where
  "is_digit c \<longleftrightarrow> CHR ''0'' \<le> c \<and> c \<le> CHR ''9''"

definition lower_char :: "char \<Rightarrow> char" where
  "lower_char c = (if CHR ''A'' \<le> c \<and> c \<le> CHR ''Z'' then char_of (of_char c + 32 :: nat) else c)"

definition upper_char :: "char \<Rightarrow> char" where
  "upper_char c = (if CHR ''a'' \<le> c \<and> c \<le> CHR ''z'' then char_of (of_char c - 32 :: nat) else c)"

definition to_lower :: "string \<Rightarrow> string" where
  "to_lower s = map lower_char s"

definition to_upper :: "string \<Rightarrow> string" where
  "to_upper s = map upper_char s"

definition equal_fold :: "string \<Rightarrow> string \<Rightarrow> bool" where
  "equal_fold s t \<longleftrightarrow> to_lower s = to_lower t"

lemma lower_char_range:
  "CHR ''A'' \<le> c \<Longrightarrow> c \<le> CHR ''Z'' \<Longrightarrow> (of_char (lower_char c) :: nat) = of_char c + 32"
  by (simp add: lower_char_def less_eq_char_def)

lemma lower_char_idem [simp]: "lower_char (lower_char c) = lower_char c"
proof (cases "CHR ''A'' \<le> c \<and> c \<le> CHR ''Z''")
  case True
  then have "(of_char (lower_char c) :: nat) \<ge> 97"
    by (simp add: lower_char_range) (simp add: less_eq_char_def)
  then have "\<not> lower_char c \<le> CHR ''Z''"
    by (simp add: less_eq_char_def)
  then show ?thesis by (subst lower_char_def) simp
next
  case False
  then have "lower_char c = c" by (auto simp: lower_char_def)
  then show ?thesis by simp
qed

lemma lower_char_cases:
  obtains "lower_char c = c" | "CHR ''a'' \<le> lower_char c" "lower_char c \<le> CHR ''z''"
proof (cases "CHR ''A'' \<le> c \<and> c \<le> CHR ''Z''")
  case True
  then have r: "(of_char (lower_char c) :: nat) = of_char c + 32" by (simp add: lower_char_range)
  have "CHR ''a'' \<le> lower_char c" "lower_char c \<le> CHR ''z''"
    using True by (simp_all add: less_eq_char_def r)
  then show thesis by (rule that(2))
next
  case False
  then show thesis by (auto simp: lower_char_def intro: that(1))
qed

text \<open>A character outside both letter ranges is the image of itself only.\<close>

lemma lower_char_eq_nonletter:
  assumes "\<not> (CHR ''A'' \<le> x \<and> x \<le> CHR ''Z'')" "\<not> (CHR ''a'' \<le> x \<and> x \<le> CHR ''z'')"
  shows "lower_char c = x \<longleftrightarrow> c = x"
proof
  assume "lower_char c = x"
  with assms(2) show "c = x" by (cases c rule: lower_char_cases) auto
next
  assume "c = x"
  with assms(1) show "lower_char c = x" by (auto simp: lower_char_def)
qed

lemma is_space_lower_char [simp]: "is_space (lower_char c) = is_space c"
proof -
  have n: "lower_char c = x \<longleftrightarrow> c = x"
    if "x \<in> {CHR '' '', CHR 0x09, CHR 0x0A, CHR 0x0B, CHR 0x0C, CHR 0x0D}" for x
    using that by (intro lower_char_eq_nonletter) (auto simp: less_eq_char_def)
  show ?thesis by (simp add: is_space_def n)
qed

lemma to_lower_simps [simp]:
  "to_lower [] = []"
  "to_lower (c # cs) = lower_char c # to_lower cs"
  "to_lower (s @ t) = to_lower s @ to_lower t"
  by (simp_all add: to_lower_def)

lemma to_lower_idem [simp]: "to_lower (to_lower s) = to_lower s"
  by (induction s) auto

lemma to_lower_eq_Nil [simp]: "to_lower s = [] \<longleftrightarrow> s = []"
  by (simp add: to_lower_def)

lemma length_to_lower [simp]: "length (to_lower s) = length s"
  by (simp add: to_lower_def)

lemma equal_fold_refl [simp]: "equal_fold s s"
  by (simp add: equal_fold_def)

section \<open>Trimming\<close>

definition trim_left :: "(char \<Rightarrow> bool) \<Rightarrow> string \<Rightarrow> string" where
  "trim_left p s = dropWhile p s"

definition trim_right :: "(char \<Rightarrow> bool) \<Rightarrow> string \<Rightarrow> string" where
  "trim_right p s = rev (dropWhile p (rev s))"

definition trim_space :: "string \<Rightarrow> string" where
  "trim_space s = trim_right is_space (trim_left is_space s)"

lemma trim_space_Nil [simp]: "trim_space [] = []"
  by (simp add: trim_space_def trim_left_def trim_right_def)

lemma rev_dropWhile_hd:
  "dropWhile p s = s \<Longrightarrow> dropWhile p (rev (dropWhile p (rev s))) = rev (dropWhile p (rev s))"
proof (cases "rev (dropWhile p (rev s))")
  case Nil
  then show ?thesis by (simp only: Nil dropWhile.simps)
next
  case (Cons c cs)
  assume s: "dropWhile p s = s"
  obtain us where "rev s = us @ dropWhile p (rev s)"
    by (metis takeWhile_dropWhile_id)
  then have "s = rev (dropWhile p (rev s)) @ rev us"
    by (metis rev_append rev_rev_ident)
  with Cons have "s = c # cs @ rev us" by simp
  with s have "\<not> p c" by (metis dropWhile.simps(2) list.distinct(1) dropWhile_eq_Cons_conv)
  with Cons show ?thesis by simp
qed

lemma trim_space_edges:
  "trim_left is_space (trim_space s) = trim_space s"
  "trim_right is_space (trim_space s) = trim_space s"
proof -
  show "trim_left is_space (trim_space s) = trim_space s"
    unfolding trim_space_def trim_left_def trim_right_def
    by (rule rev_dropWhile_hd) simp
  show "trim_right is_space (trim_space s) = trim_space s"
    by (simp add: trim_space_def trim_right_def)
qed

lemma trim_space_idem [simp]: "trim_space (trim_space s) = trim_space s"
  by (metis trim_space_def trim_space_edges)

lemma dropWhile_map_lower: "dropWhile is_space (map lower_char s) = map lower_char (dropWhile is_space s)"
  by (induction s) auto

lemma trim_space_to_lower: "trim_space (to_lower s) = to_lower (trim_space s)"
  by (simp add: trim_space_def trim_left_def trim_right_def to_lower_def dropWhile_map_lower rev_map)

lemma set_trim_space: "set (trim_space s) \<subseteq> set s"
proof
  fix x
  assume "x \<in> set (trim_space s)"
  then have "x \<in> set (dropWhile is_space (rev (dropWhile is_space s)))"
    by (simp add: trim_space_def trim_left_def trim_right_def)
  then have "x \<in> set (dropWhile is_space s)" by (force dest: set_dropWhileD)
  then show "x \<in> set s" by (rule set_dropWhileD)
qed

lemma trim_space_id:
  assumes "s = [] \<or> (\<not> is_space (hd s) \<and> \<not> is_space (last s))"
  shows "trim_space s = s"
proof (cases "s = []")
  case False
  with assms have h: "dropWhile is_space s = s"
    by (cases s) auto
  from False assms have "dropWhile is_space (rev s) = rev s"
    by (cases s rule: rev_cases) auto
  with h show ?thesis by (simp add: trim_space_def trim_left_def trim_right_def)
qed simp

lemma trim_space_no_space: "\<forall>c\<in>set s. \<not> is_space c \<Longrightarrow> trim_space s = s"
  by (rule trim_space_id) (cases "s = []", auto)

section \<open>Prefixes, suffixes and substrings\<close>

fun cut_prefix :: "string \<Rightarrow> string \<Rightarrow> string option" where
  "cut_prefix [] s = Some s"
| "cut_prefix (p # ps) [] = None"
| "cut_prefix (p # ps) (c # cs) = (if p = c then cut_prefix ps cs else None)"

definition has_prefix :: "string \<Rightarrow> string \<Rightarrow> bool" where
  "has_prefix s p \<longleftrightarrow> cut_prefix p s \<noteq> None"

definition trim_prefix :: "string \<Rightarrow> string \<Rightarrow> string" where
  "trim_prefix s p = (case cut_prefix p s of Some r \<Rightarrow> r | None \<Rightarrow> s)"

definition cut_suffix :: "string \<Rightarrow> string \<Rightarrow> string option" where
  "cut_suffix p s = map_option rev (cut_prefix (rev p) (rev s))"

definition trim_suffix :: "string \<Rightarrow> string \<Rightarrow> string" where
  "trim_suffix s p = (case cut_suffix p s of Some r \<Rightarrow> r | None \<Rightarrow> s)"

fun contains_str :: "string \<Rightarrow> string \<Rightarrow> bool" where
  "contains_str [] sub = (sub = [])"
| "contains_str (c # cs) sub = (has_prefix (c # cs) sub \<or> contains_str cs sub)"

definition contains_any :: "string \<Rightarrow> string \<Rightarrow> bool" where
  "contains_any s chars = list_ex (\<lambda>c. c \<in> set chars) s"

definition trim_right_any :: "string \<Rightarrow> string \<Rightarrow> string" where
  "trim_right_any s chars = trim_right (\<lambda>c. c \<in> set chars) s"

lemma cut_prefix_Some: "cut_prefix p s = Some r \<longleftrightarrow> s = p @ r"
  by (induction p s rule: cut_prefix.induct) auto

lemma cut_prefix_append [simp]: "cut_prefix p (p @ r) = Some r"
  by (simp add: cut_prefix_Some)

lemma has_prefix_iff: "has_prefix s p \<longleftrightarrow> (\<exists>r. s = p @ r)"
  by (auto simp: has_prefix_def cut_prefix_Some)

lemma has_prefix_append [simp]: "has_prefix (p @ r) p"
  by (simp add: has_prefix_def)

lemma cut_suffix_Some: "cut_suffix p s = Some r \<longleftrightarrow> s = r @ p"
proof -
  have "cut_suffix p s = Some r \<longleftrightarrow> cut_prefix (rev p) (rev s) = Some (rev r)"
    by (auto simp: cut_suffix_def)
  then show ?thesis by (simp add: cut_prefix_Some flip: rev_append)
qed

lemma trim_suffix_cases:
  obtains r where "s = r @ p" "trim_suffix s p = r" | "trim_suffix s p = s"
proof (cases "cut_suffix p s")
  case None
  then have "trim_suffix s p = s" by (simp add: trim_suffix_def)
  then show thesis by (rule that(2))
next
  case (Some r)
  then have "trim_suffix s p = r" by (simp add: trim_suffix_def)
  moreover from Some have "s = r @ p" by (simp add: cut_suffix_Some)
  ultimately show thesis using that(1) by blast
qed

lemma set_trim_suffix: "set (trim_suffix s p) \<subseteq> set s"
  by (cases s p rule: trim_suffix_cases) auto

lemma contains_str_append [simp]: "contains_str (xs @ sub @ ys) sub"
proof (induction xs)
  case Nil
  show ?case
  proof (cases "sub @ ys")
    case (Cons a list)
    have "has_prefix (sub @ ys) sub" by simp
    with Cons show ?thesis by simp
  qed simp
qed auto

lemma contains_str_iff: "contains_str s sub \<longleftrightarrow> (\<exists>xs ys. s = xs @ sub @ ys)"
proof
  show "contains_str s sub \<Longrightarrow> \<exists>xs ys. s = xs @ sub @ ys"
  proof (induction s)
    case (Cons c cs)
    from Cons.prems consider r where "c # cs = sub @ r" | "contains_str cs sub"
      by (auto simp: has_prefix_iff)
    then show ?case
    proof cases
      case 1
      then show ?thesis by (metis append_Nil)
    next
      case 2
      with Cons.IH show ?thesis by (metis append_Cons)
    qed
  qed simp
qed auto

section \<open>Splitting and joining\<close>

fun cut :: "char \<Rightarrow> string \<Rightarrow> (string \<times> string) option" where
  "cut c [] = None"
| "cut c (x # xs) = (if x = c then Some ([], xs) else map_option (apfst (Cons x)) (cut c xs))"

fun split_by :: "(char \<Rightarrow> bool) \<Rightarrow> string \<Rightarrow> string list" where
  "split_by p [] = [[]]"
| "split_by p (x # xs) = (if p x then [] # split_by p xs
     else case split_by p xs of [] \<Rightarrow> [[x]] | y # ys \<Rightarrow> (x # y) # ys)"

definition split_on :: "char \<Rightarrow> string \<Rightarrow> string list" where
  "split_on c = split_by (\<lambda>x. x = c)"

definition fields_func :: "(char \<Rightarrow> bool) \<Rightarrow> string \<Rightarrow> string list" where
  "fields_func p s = filter (\<lambda>x. x \<noteq> []) (split_by p s)"

definition fields_ws :: "string \<Rightarrow> string list" where
  "fields_ws = fields_func is_space"

fun join :: "string \<Rightarrow> string list \<Rightarrow> string" where
  "join sep [] = []"
| "join sep [x] = x"
| "join sep (x # y # zs) = x @ sep @ join sep (y # zs)"

lemma cut_Some: "cut c s = Some (a, b) \<longleftrightarrow> s = a @ c # b \<and> c \<notin> set a"
proof (induction s arbitrary: a)
  case (Cons x s)
  then show ?case by (cases a) auto
qed simp

lemma cut_append [simp]: "c \<notin> set a \<Longrightarrow> cut c (a @ c # b) = Some (a, b)"
  by (simp add: cut_Some)

lemma cut_None: "cut c s = None \<longleftrightarrow> c \<notin> set s"
  by (induction s) auto

lemma split_by_not_Nil [simp]: "split_by p s \<noteq> []"
  by (induction s) (auto split: list.splits)

lemma split_by_no_sep: "x \<in> set (split_by p s) \<Longrightarrow> c \<in> set x \<Longrightarrow> \<not> p c"
proof (induction s arbitrary: x)
  case (Cons a s)
  obtain y ys where ys: "split_by p s = y # ys"
    by (cases "split_by p s") auto
  from Cons.prems ys Cons.IH [of y] Cons.IH [of x] show ?case by (auto split: if_splits)
qed simp

lemma split_by_chars: "x \<in> set (split_by p s) \<Longrightarrow> set x \<subseteq> set s"
proof (induction s arbitrary: x)
  case (Cons a s)
  obtain y ys where ys: "split_by p s = y # ys"
    by (cases "split_by p s") auto
  from Cons.prems ys Cons.IH [of y] Cons.IH [of x] show ?case by (auto split: if_splits)
qed simp

lemma split_by_id: "\<forall>c\<in>set s. \<not> p c \<Longrightarrow> split_by p s = [s]"
  by (induction s) auto

lemma split_by_append:
  "\<forall>c\<in>set a. \<not> p c \<Longrightarrow> p x \<Longrightarrow> split_by p (a @ x # b) = a # split_by p b"
  by (induction a) auto

lemma join_Cons: "xs \<noteq> [] \<Longrightarrow> join sep (x # xs) = x @ sep @ join sep xs"
  by (cases xs) auto

lemma join_Cons_append: "join sep ((a @ x) # xs) = a @ join sep (x # xs)"
  by (cases xs) auto

lemma join_split_on: "join [c] (split_on c s) = s"
  unfolding split_on_def
proof (induction s)
  case (Cons a s)
  obtain y ys where "split_by (\<lambda>x. x = c) s = y # ys"
    by (cases "split_by (\<lambda>x. x = c) s") auto
  with Cons.IH show ?case
    using join_Cons_append [of "[c]" "[a]" y ys] by (auto simp: join_Cons)
qed simp

lemma split_on_join:
  "xs \<noteq> [] \<Longrightarrow> \<forall>x\<in>set xs. c \<notin> set x \<Longrightarrow> split_on c (join [c] xs) = xs"
proof (induction "[c]" xs rule: join.induct)
  case (2 x)
  then show ?case by (auto simp: split_on_def intro!: split_by_id)
next
  case (3 x y zs)
  then have "split_on c (x @ c # join [c] (y # zs)) = x # split_on c (join [c] (y # zs))"
    unfolding split_on_def by (intro split_by_append) auto
  with 3 show ?case by simp
qed simp

lemma join_eq_Nil: "join [c] xs = [] \<longleftrightarrow> xs = [] \<or> xs = [[]]"
  by (cases "([c], xs)" rule: join.cases) auto

lemma set_join: "set (join sep xs) \<subseteq> set sep \<union> (\<Union>x\<in>set xs. set x)"
  by (induction sep xs rule: join.induct) auto

lemma fields_ws_join:
  "\<forall>x\<in>set xs. x \<noteq> [] \<and> (\<forall>c\<in>set x. \<not> is_space c) \<Longrightarrow> fields_ws (join '' '' xs) = xs"
proof (induction "'' ''" xs rule: join.induct)
  case 1
  then show ?case by (simp add: fields_ws_def fields_func_def)
next
  case (2 x)
  then show ?case by (simp add: fields_ws_def fields_func_def split_by_id)
next
  case (3 x y zs)
  have "split_by is_space (x @ CHR '' '' # join '' '' (y # zs))
      = x # split_by is_space (join '' '' (y # zs))"
    using 3 by (intro split_by_append) (auto simp: is_space_def)
  with 3 show ?case by (simp add: fields_ws_def fields_func_def)
qed

lemma fields_ws_leading_space: "is_space c \<Longrightarrow> fields_ws (c # s) = fields_ws s"
  by (simp add: fields_ws_def fields_func_def)

end
