(* ===== verification/Slices.thy ===== *)
theory Slices
  imports Prelude
begin

text \<open>
  Decimal numbers, slices and maps as the program uses them: \<open>strconv.Atoi\<close> and
  \<open>strconv.Itoa\<close> with their round trip, the \<open>seen\<close>-map idiom that drops duplicates in
  order, sorted key lists of a map, and list facts about the first element that satisfies a
  test in a loop with \<open>continue\<close> and \<open>return\<close>.
\<close>

section \<open>Decimal numbers\<close>

definition int_max :: int where "int_max = 9223372036854775807"
definition int_min :: int where "int_min = - 9223372036854775808"

definition in_int64 :: "int \<Rightarrow> bool" where
  "in_int64 n \<longleftrightarrow> int_min \<le> n \<and> n \<le> int_max"

definition digit_val :: "char \<Rightarrow> nat" where
  "digit_val c = of_char c - 48"

definition digit_char :: "nat \<Rightarrow> char" where
  "digit_char d = char_of (48 + d)"

fun digits_val :: "nat \<Rightarrow> string \<Rightarrow> nat option" where
  "digits_val acc [] = Some acc"
| "digits_val acc (c # cs) = (if is_digit c then digits_val (10 * acc + digit_val c) cs else None)"

definition parse_nat :: "string \<Rightarrow> nat option" where
  "parse_nat s = (if s = [] then None else digits_val 0 s)"

definition parse_sign :: "string \<Rightarrow> bool \<times> string" where
  "parse_sign s = (case s of
     [] \<Rightarrow> (False, [])
   | c # cs \<Rightarrow> if c = CHR ''-'' then (True, cs) else if c = CHR ''+'' then (False, cs) else (False, s))"

text \<open>\<open>strconv.Atoi\<close>: an optional sign, decimal digits, and the range of a 64-bit int.\<close>

definition atoi :: "string \<Rightarrow> int option" where
  "atoi s = (case parse_sign s of (neg, ds) \<Rightarrow>
     (case parse_nat ds of
        None \<Rightarrow> None
      | Some n \<Rightarrow> (let v = (if neg then - int n else int n) in if in_int64 v then Some v else None)))"

fun nat_str :: "nat \<Rightarrow> string" where
  "nat_str n = (if n < 10 then [digit_char n] else nat_str (n div 10) @ [digit_char (n mod 10)])"

declare nat_str.simps [simp del]

definition itoa :: "int \<Rightarrow> string" where
  "itoa n = (if n < 0 then CHR ''-'' # nat_str (nat (- n)) else nat_str (nat n))"

lemma of_char_digit: "d < 10 \<Longrightarrow> (of_char (digit_char d) :: nat) = 48 + d"
  by (simp add: digit_char_def)

lemma is_digit_digit_char [simp]: "d < 10 \<Longrightarrow> is_digit (digit_char d)"
  by (simp add: is_digit_def less_eq_char_def of_char_digit)

lemma digit_val_digit_char [simp]: "d < 10 \<Longrightarrow> digit_val (digit_char d) = d"
  by (simp add: digit_val_def of_char_digit)

lemma digits_val_append:
  "digits_val acc (s @ t) = Option.bind (digits_val acc s) (\<lambda>a. digits_val a t)"
  by (induction acc s rule: digits_val.induct) auto

lemma nat_str_not_Nil [simp]: "nat_str n \<noteq> []"
  by (subst nat_str.simps) simp

lemma digits_val_nat_str: "digits_val 0 (nat_str n) = Some n"
proof (induction n rule: nat_str.induct)
  case (1 n)
  show ?case
  proof (cases "n < 10")
    case True
    then show ?thesis by (subst nat_str.simps) simp
  next
    case False
    with "1.IH" have "digits_val 0 (nat_str (n div 10) @ [digit_char (n mod 10)]) = Some n"
      by (simp add: digits_val_append)
    with False show ?thesis by (subst nat_str.simps) simp
  qed
qed

lemma nat_str_digits: "c \<in> set (nat_str n) \<Longrightarrow> is_digit c"
proof (induction n rule: nat_str.induct)
  case (1 n)
  then show ?case
    by (subst (asm) (2) nat_str.simps) (auto split: if_splits)
qed

lemma is_digit_no_sign: "is_digit c \<Longrightarrow> c \<noteq> CHR ''-'' \<and> c \<noteq> CHR ''+''"
  by (auto simp: is_digit_def less_eq_char_def)

lemma is_digit_not_space: "is_digit c \<Longrightarrow> \<not> is_space c"
  by (auto simp: is_digit_def is_space_def less_eq_char_def)

lemma parse_sign_digits: "\<forall>c\<in>set s. is_digit c \<Longrightarrow> parse_sign s = (False, s)"
  by (cases s) (auto simp: parse_sign_def dest: is_digit_no_sign)

lemma atoi_itoa: "in_int64 n \<Longrightarrow> atoi (itoa n) = Some n"
proof (cases "n < 0")
  case True
  assume "in_int64 n"
  with True show ?thesis
    by (simp add: atoi_def itoa_def parse_sign_def parse_nat_def digits_val_nat_str)
next
  case False
  assume "in_int64 n"
  moreover have "parse_sign (nat_str (nat n)) = (False, nat_str (nat n))"
    by (rule parse_sign_digits) (auto intro: nat_str_digits)
  ultimately show ?thesis using False
    by (simp add: atoi_def itoa_def parse_nat_def digits_val_nat_str)
qed

lemma atoi_in_int64: "atoi s = Some n \<Longrightarrow> in_int64 n"
  by (auto simp: atoi_def Let_def split: prod.splits option.splits if_splits)

lemma itoa_chars: "c \<in> set (itoa n) \<Longrightarrow> is_digit c \<or> c = CHR ''-''"
  by (auto simp: itoa_def dest: nat_str_digits split: if_splits)

lemma itoa_not_Nil [simp]: "itoa n \<noteq> []"
  by (simp add: itoa_def)

lemma itoa_inj: "in_int64 m \<Longrightarrow> in_int64 n \<Longrightarrow> itoa m = itoa n \<Longrightarrow> m = n"
  by (metis atoi_itoa option.inject)

text \<open>A number without a minus sign is not negative.\<close>

lemma digits_val_atoi_nonneg: "atoi s = Some n \<Longrightarrow> CHR ''-'' \<notin> set s \<Longrightarrow> 0 \<le> n"
  by (cases s)
     (auto simp: atoi_def parse_sign_def Let_def split: option.splits if_splits)

section \<open>Slices\<close>

text \<open>The \<open>seen\<close>-map idiom: keep the first occurrence of every element, in order.\<close>

fun dedup_from :: "'a list \<Rightarrow> 'a list \<Rightarrow> 'a list" where
  "dedup_from seen [] = []"
| "dedup_from seen (x # xs) =
     (if x \<in> set seen then dedup_from seen xs else x # dedup_from (x # seen) xs)"

definition dedup :: "'a list \<Rightarrow> 'a list" where
  "dedup = dedup_from []"

lemma set_dedup_from: "set (dedup_from seen xs) = set xs - set seen"
  by (induction seen xs rule: dedup_from.induct) auto

lemma distinct_dedup_from: "distinct (dedup_from seen xs)"
  by (induction seen xs rule: dedup_from.induct) (auto simp: set_dedup_from)

lemma set_dedup [simp, go_seq]: "set (dedup xs) = set xs"
  by (simp add: dedup_def set_dedup_from)

lemma distinct_dedup [simp, go_seq]: "distinct (dedup xs)"
  by (simp add: dedup_def distinct_dedup_from)

lemma dedup_from_id: "distinct xs \<Longrightarrow> set xs \<inter> set seen = {} \<Longrightarrow> dedup_from seen xs = xs"
  by (induction seen xs rule: dedup_from.induct) auto

lemma dedup_id [simp]: "distinct xs \<Longrightarrow> dedup xs = xs"
  by (simp add: dedup_def dedup_from_id)

lemma sort_dedup_cong: "set xs = set ys \<Longrightarrow> sort (dedup xs) = sort (dedup ys)"
  by (rule sorted_distinct_set_unique) auto

section \<open>Maps\<close>

definition has_key :: "('k \<times> 'v) list \<Rightarrow> 'k \<Rightarrow> bool" where
  "has_key m k \<longleftrightarrow> map_of m k \<noteq> None"

definition sorted_keys :: "('k::linorder \<times> 'v) list \<Rightarrow> 'k list" where
  "sorted_keys m = sort (map fst m)"

lemma has_key_iff: "has_key m k \<longleftrightarrow> k \<in> fst ` set m"
  by (simp add: has_key_def map_of_eq_None_iff)

lemma set_AList_update: "x \<in> set (AList.update k v al) \<Longrightarrow> x \<in> set al \<or> x = (k, v)"
  by (induction al) (auto split: if_splits)

lemma set_sorted_keys [simp]: "set (sorted_keys m) = fst ` set m"
  by (simp add: sorted_keys_def)

lemma sorted_sorted_keys [simp]: "sorted (sorted_keys m)"
  by (simp add: sorted_keys_def)

lemma distinct_sorted_keys: "distinct (map fst m) \<Longrightarrow> distinct (sorted_keys m)"
  by (simp add: sorted_keys_def)

text \<open>The map as a set of bindings decides a lookup, whatever order it is iterated in.\<close>

lemma map_of_set_cong:
  "distinct (map fst m) \<Longrightarrow> distinct (map fst m') \<Longrightarrow> set m = set m' \<Longrightarrow> map_of m = map_of m'"
  by (rule map_of_inject_set [THEN iffD2])

lemma sorted_keys_set_cong:
  assumes "distinct (map fst m)" "distinct (map fst m')" "set m = set m'"
  shows "sorted_keys m = sorted_keys m'"
proof -
  have "set (map fst m) = set (map fst m')" using assms(3) by simp
  with assms(1,2) show ?thesis unfolding sorted_keys_def
    by (intro sorted_distinct_set_unique) auto
qed

section \<open>First hit of a loop\<close>

fun first_some :: "('a \<Rightarrow> 'b option) \<Rightarrow> 'a list \<Rightarrow> 'b option" where
  "first_some f [] = None"
| "first_some f (x # xs) = (case f x of Some y \<Rightarrow> Some y | None \<Rightarrow> first_some f xs)"

lemma first_some_Some: "first_some f xs = Some y \<Longrightarrow> \<exists>x\<in>set xs. f x = Some y"
  by (induction xs) (auto split: option.splits)

lemma first_some_None: "first_some f xs = None \<longleftrightarrow> (\<forall>x\<in>set xs. f x = None)"
  by (induction xs) (auto split: option.splits)

text \<open>When at most one element can answer, the order of the list does not matter.\<close>

lemma first_some_unique:
  assumes "\<And>x y. x \<in> set xs \<Longrightarrow> y \<in> set xs \<Longrightarrow> f x \<noteq> None \<Longrightarrow> f y \<noteq> None \<Longrightarrow> f x = f y"
    and "set xs = set ys"
  shows "first_some f xs = first_some f ys"
proof (cases "first_some f xs")
  case None
  with assms(2) have "first_some f ys = None" by (simp add: first_some_None)
  with None show ?thesis by simp
next
  case (Some a)
  then obtain x where x: "x \<in> set xs" "f x = Some a" by (blast dest: first_some_Some)
  with assms(2) have "first_some f ys \<noteq> None" by (auto simp: first_some_None)
  then obtain b where b: "first_some f ys = Some b" by blast
  then obtain y where "y \<in> set ys" "f y = Some b" by (blast dest: first_some_Some)
  with x assms have "a = b" by fastforce
  with Some b show ?thesis by simp
qed

text \<open>A loop that collects results and stops at the first error.\<close>

fun map_result :: "('a \<Rightarrow> 'e + 'b) \<Rightarrow> 'a list \<Rightarrow> 'e + 'b list" where
  "map_result f [] = Inr []"
| "map_result f (x # xs) = rbind (f x) (\<lambda>y. rbind (map_result f xs) (\<lambda>ys. Inr (y # ys)))"

lemma map_result_Inr: "map_result f xs = Inr ys \<longleftrightarrow> list_all2 (\<lambda>x y. f x = Inr y) xs ys"
  by (induction xs arbitrary: ys) (auto simp: rbind_Inr_iff list_all2_Cons1)

lemma map_result_length: "map_result f xs = Inr ys \<Longrightarrow> length ys = length xs"
  by (simp add: map_result_Inr list_all2_lengthD)

end
