(* ===== verification/Models.thy ===== *)
theory Models
  imports Complex_Main Slices
begin

text \<open>
  The value types of \<open>internal/npm/models.go\<close>: the meta object with its ownership marker, the
  polymorphic API fields (certificate id, flag, PROXY protocol level, port) with their JSON
  coding, domain names and custom locations.

  A JSON document is a tree of type \<open>json\<close>; a number keeps its literal text, as
  \<open>json.Number\<close> does, and unmarshalling a literal into a Go int is \<open>atoi\<close> on that text.
  The meta object, a Go map that is only looked up and updated, is a partial function; the nil
  map and the empty map, which the program never tells apart, are both the empty function.
\<close>

section \<open>JSON values\<close>

datatype json = JNull | JBool bool | JNum string | JStr string | JArr "json list"
  | JObj "(string \<times> json) list"

datatype json_error = NotNumberNorNew string | NotNumberNorBool string | WrongType json

text \<open>\<open>json.Unmarshal\<close> into an int: only a number literal that is an integer in range.\<close>

fun json_int :: "json \<Rightarrow> json_error + int" where
  "json_int (JNum lit) = (case atoi lit of Some n \<Rightarrow> Inr n | None \<Rightarrow> Inl (WrongType (JNum lit)))"
| "json_int JNull = Inr 0"
| "json_int v = Inl (WrongType v)"

section \<open>The meta object\<close>

datatype meta_val = MStr string | MInt int | MFloat rat | MBool bool | MOther json

type_synonym Meta = "string \<rightharpoonup> meta_val"

abbreviation MetaManagedBy :: string where "MetaManagedBy \<equiv> ''managed_by''"
abbreviation MetaContainer :: string where "MetaContainer \<equiv> ''managed_container''"
abbreviation MetaIndex :: string where "MetaIndex \<equiv> ''managed_index''"
abbreviation MetaContainerID :: string where "MetaContainerID \<equiv> ''managed_container_id''"
abbreviation MetaInstance :: string where "MetaInstance \<equiv> ''managed_instance''"
abbreviation MetaPrefix :: string where "MetaPrefix \<equiv> ''managed_prefix''"
abbreviation MetaDirectory :: string where "MetaDirectory \<equiv> ''directory''"
abbreviation ManagedByValue :: string where "ManagedByValue \<equiv> ''npmplus-docker-sync''"
abbreviation RedthManagedByValue :: string where "RedthManagedByValue \<equiv> ''npm-docker-sync''"
abbreviation CertificateNew :: string where "CertificateNew \<equiv> ''new''"

definition LegacyManagedByValues :: "string list" where
  "LegacyManagedByValues = []"

definition redthMetaKeys :: "string list" where
  "redthMetaKeys = [''container_id'', ''sync_instance_id'', ''npm_url'', ''created_at'']"

fun as_string :: "meta_val option \<Rightarrow> string option" where
  "as_string (Some (MStr s)) = Some s"
| "as_string _ = None"

definition meta_text :: "Meta \<Rightarrow> string \<Rightarrow> string" where
  "meta_text m key = (case as_string (m key) of Some s \<Rightarrow> s | None \<Rightarrow> [])"

definition ManagedBy :: "Meta \<Rightarrow> string \<Rightarrow> bool" where
  "ManagedBy m value \<longleftrightarrow> as_string (m MetaManagedBy) = Some value"

definition IsManaged :: "Meta \<Rightarrow> bool" where
  "IsManaged m \<longleftrightarrow> ManagedBy m ManagedByValue \<or> list_ex (ManagedBy m) LegacyManagedByValues"

definition IsRedth :: "Meta \<Rightarrow> bool" where
  "IsRedth m = ManagedBy m RedthManagedByValue"

definition meta_Container :: "Meta \<Rightarrow> string" where "meta_Container m = meta_text m MetaContainer"
definition meta_ContainerID :: "Meta \<Rightarrow> string" where "meta_ContainerID m = meta_text m MetaContainerID"
definition meta_Instance :: "Meta \<Rightarrow> string" where "meta_Instance m = meta_text m MetaInstance"
definition meta_Prefix :: "Meta \<Rightarrow> string" where "meta_Prefix m = meta_text m MetaPrefix"

definition meta_Directory :: "Meta \<Rightarrow> string" where
  "meta_Directory m = trim_space (meta_text m MetaDirectory)"

definition SetDirectory :: "Meta \<Rightarrow> string \<Rightarrow> Meta" where
  "SetDirectory m grp = m(MetaDirectory \<mapsto> MStr (trim_space grp))"

definition ClearDirectory :: "Meta \<Rightarrow> Meta" where
  "ClearDirectory m = m(MetaDirectory := None)"

definition OwnedByInstance :: "Meta \<Rightarrow> string \<Rightarrow> bool" where
  "OwnedByInstance m inst =
     (let stamped = meta_Instance m in stamped = [] \<or> inst = [] \<or> stamped = inst)"

definition Owner :: "Meta \<Rightarrow> string" where
  "Owner m = meta_text m MetaManagedBy"

text \<open>\<open>AdoptMeta\<close>: a loop over the foreign keys, then the group.\<close>

definition adopt_key :: "Meta \<Rightarrow> string \<Rightarrow> Meta \<Rightarrow> Meta" where
  "adopt_key live key desired =
     (if desired key \<noteq> None then desired
      else case live key of Some v \<Rightarrow> desired(key \<mapsto> v) | None \<Rightarrow> desired)"

definition AdoptMeta :: "Meta \<Rightarrow> Meta \<Rightarrow> Meta" where
  "AdoptMeta desired live =
     adopt_key live MetaDirectory (fold (adopt_key live) redthMetaKeys desired)"

text \<open>\<open>int(v)\<close> of a float truncates towards zero.\<close>

definition trunc_rat :: "rat \<Rightarrow> int" where
  "trunc_rat q = (if 0 \<le> q then \<lfloor>q\<rfloor> else - \<lfloor>- q\<rfloor>)"

fun meta_index :: "meta_val option \<Rightarrow> int" where
  "meta_index (Some (MInt n)) = n"
| "meta_index (Some (MFloat q)) = trunc_rat q"
| "meta_index _ = 0"

record ownership_fields =
  own_managedBy :: string
  own_container :: string
  own_index :: int
  own_instance :: string

definition ownership :: "Meta \<Rightarrow> ownership_fields" where
  "ownership m = \<lparr> own_managedBy = meta_text m MetaManagedBy, own_container = meta_text m MetaContainer,
     own_index = meta_index (m MetaIndex), own_instance = meta_text m MetaInstance \<rparr>"

lemmas meta_accessors = meta_text_def meta_Container_def meta_ContainerID_def meta_Instance_def
  meta_Prefix_def meta_Directory_def Owner_def ManagedBy_def

lemma IsManaged_iff: "IsManaged m \<longleftrightarrow> m MetaManagedBy = Some (MStr ManagedByValue)"
  by (cases "m MetaManagedBy" rule: as_string.cases)
     (auto simp: IsManaged_def ManagedBy_def LegacyManagedByValues_def)

lemma ManagedBy_iff: "ManagedBy m v \<longleftrightarrow> m MetaManagedBy = Some (MStr v)"
  by (cases "m MetaManagedBy" rule: as_string.cases) (auto simp: ManagedBy_def)

lemma adopt_key_taken: "desired k = Some v \<Longrightarrow> adopt_key live key desired k = Some v"
  by (auto simp: adopt_key_def split: option.splits)

lemma adopt_key_other: "k \<noteq> key \<Longrightarrow> adopt_key live key desired k = desired k"
  by (auto simp: adopt_key_def split: option.splits)

lemma fold_adopt_key:
  "fold (adopt_key live) ks desired k =
     (if k \<in> set ks \<and> desired k = None then live k else desired k)"
proof (induction ks arbitrary: desired)
  case (Cons a ks)
  have "adopt_key live a desired k = (if k = a \<and> desired k = None then live k else desired k)"
    by (auto simp: adopt_key_def split: option.splits)
  with Cons.IH show ?case by auto
qed simp

text \<open>The adopted meta object key by key: what the labels set wins, the group and the foreign
  bookkeeping are taken over, and no other key of the live object is.\<close>

lemma AdoptMeta_apply:
  "AdoptMeta desired live k =
     (if k \<in> insert MetaDirectory (set redthMetaKeys) \<and> desired k = None then live k else desired k)"
  by (auto simp: AdoptMeta_def adopt_key_def fold_adopt_key split: option.splits)

lemma AdoptMeta_marker_keys:
  "k \<in> {MetaManagedBy, MetaContainer, MetaIndex, MetaContainerID, MetaInstance, MetaPrefix} \<Longrightarrow>
   AdoptMeta desired live k = desired k"
  by (auto simp: AdoptMeta_apply redthMetaKeys_def)

lemma AdoptMeta_idem: "AdoptMeta (AdoptMeta d l) l = AdoptMeta d l"
  by (rule ext) (simp add: AdoptMeta_apply)

lemma ownership_AdoptMeta [simp]: "ownership (AdoptMeta d l) = ownership d"
  by (simp add: ownership_def meta_text_def AdoptMeta_marker_keys)

lemma ManagedBy_AdoptMeta [simp]: "ManagedBy (AdoptMeta d l) v = ManagedBy d v"
  by (simp add: ManagedBy_def AdoptMeta_marker_keys)

section \<open>Certificate ids\<close>

record CertificateID =
  cid_ID :: int
  cid_New :: bool

definition noCertificate :: CertificateID where "noCertificate = \<lparr> cid_ID = 0, cid_New = False \<rparr>"
definition NewCertificate :: CertificateID where "NewCertificate = \<lparr> cid_ID = 0, cid_New = True \<rparr>"
definition CertificateRef :: "int \<Rightarrow> CertificateID" where
  "CertificateRef n = \<lparr> cid_ID = n, cid_New = False \<rparr>"

definition cid_IsZero :: "CertificateID \<Rightarrow> bool" where
  "cid_IsZero c \<longleftrightarrow> \<not> cid_New c \<and> cid_ID c = 0"

definition cid_String :: "CertificateID \<Rightarrow> string" where
  "cid_String c = (if cid_New c then CertificateNew else itoa (cid_ID c))"

definition marshal_cid :: "CertificateID \<Rightarrow> json" where
  "marshal_cid c = (if cid_New c then JStr CertificateNew else JNum (itoa (cid_ID c)))"

fun unmarshal_cid :: "json \<Rightarrow> json_error + CertificateID" where
  "unmarshal_cid JNull = Inr noCertificate"
| "unmarshal_cid (JStr s) =
     (let t = to_lower (trim_space s) in
      if t \<in> set [[], ''0'', ''none''] then Inr noCertificate
      else if t = CertificateNew then Inr NewCertificate
      else case atoi s of
             None \<Rightarrow> Inl (NotNumberNorNew s)
           | Some n \<Rightarrow> Inr (CertificateRef n))"
| "unmarshal_cid v = rbind (json_int v) (\<lambda>n. Inr (CertificateRef n))"

section \<open>Flags, PROXY protocol levels and ports\<close>

type_synonym Flag = bool

definition marshal_flag :: "Flag \<Rightarrow> json" where
  "marshal_flag f = JBool f"

fun unmarshal_flag :: "json \<Rightarrow> json_error + Flag" where
  "unmarshal_flag JNull = Inr False"
| "unmarshal_flag (JBool b) = Inr b"
| "unmarshal_flag (JNum lit) = (if lit = ''1'' then Inr True else if lit = ''0'' then Inr False
     else Inl (WrongType (JNum lit)))"
| "unmarshal_flag (JStr s) = (if s = ''1'' \<or> s = ''true'' then Inr True
     else if s = ''0'' \<or> s = ''false'' then Inr False else Inl (WrongType (JStr s)))"
| "unmarshal_flag v = Inl (WrongType v)"

type_synonym ProxyProtocolLevel = int

definition marshal_level :: "ProxyProtocolLevel \<Rightarrow> json" where
  "marshal_level p = JNum (itoa p)"

fun unmarshal_level :: "json \<Rightarrow> json_error + ProxyProtocolLevel" where
  "unmarshal_level JNull = Inr 0"
| "unmarshal_level (JBool b) = Inr (if b then 1 else 0)"
| "unmarshal_level (JStr s) =
     (if s = ''true'' then Inr 1 else if s = ''false'' then Inr 0
      else case atoi (trim_space s) of
             None \<Rightarrow> Inl (NotNumberNorBool s)
           | Some n \<Rightarrow> Inr n)"
| "unmarshal_level v = json_int v"

datatype Port = Port (port_raw: string)

definition zero_port :: Port where "zero_port = Port []"

definition PortOf :: "int \<Rightarrow> Port" where
  "PortOf n = (if n = 0 then zero_port else Port (itoa n))"

definition PortText :: "string \<Rightarrow> Port" where
  "PortText s = Port (trim_space s)"

definition port_Int :: "Port \<Rightarrow> int" where
  "port_Int p = (case atoi (port_raw p) of None \<Rightarrow> 0 | Some n \<Rightarrow> n)"

definition port_IsZero :: "Port \<Rightarrow> bool" where
  "port_IsZero p \<longleftrightarrow> port_raw p = []"

definition marshal_port :: "Port \<Rightarrow> json" where
  "marshal_port p = (let n = port_Int p in if n > 0 then JNum (itoa n) else JStr (port_raw p))"

fun unmarshal_port :: "json \<Rightarrow> json_error + Port" where
  "unmarshal_port JNull = Inr zero_port"
| "unmarshal_port (JStr s) = Inr (Port (trim_space s))"
| "unmarshal_port (JNum lit) = Inr (Port lit)"
| "unmarshal_port v = Inl (WrongType v)"

lemma itoa_no_space: "\<forall>c\<in>set (itoa n). \<not> is_space c"
  by (auto dest!: itoa_chars simp: is_digit_not_space) (simp_all add: is_space_def)

lemma port_Int_PortOf: "in_int64 n \<Longrightarrow> port_Int (PortOf n) = n"
  by (simp add: port_Int_def PortOf_def zero_port_def atoi_itoa) (simp add: atoi_def parse_sign_def parse_nat_def)

lemma PortOf_inj: "in_int64 m \<Longrightarrow> in_int64 n \<Longrightarrow> PortOf m = PortOf n \<longleftrightarrow> m = n"
  by (metis port_Int_PortOf)

text \<open>What the server stores is what it returns: the decoders invert the encoders.\<close>

lemma cid_roundtrip:
  assumes "in_int64 (cid_ID c)" "cid_New c \<Longrightarrow> cid_ID c = 0"
  shows "unmarshal_cid (marshal_cid c) = Inr c"
proof (cases "cid_New c")
  case True
  then have "marshal_cid c = JStr CertificateNew" "c = NewCertificate"
    using assms(2) by (simp_all add: marshal_cid_def NewCertificate_def)
  then show ?thesis by (simp, code_simp)
next
  case False
  with assms(1) show ?thesis
    by (cases c) (simp add: marshal_cid_def atoi_itoa CertificateRef_def)
qed

lemma port_roundtrip_number:
  "in_int64 n \<Longrightarrow> unmarshal_port (marshal_port (PortOf n)) = Inr (PortOf n)"
proof -
  assume n: "in_int64 n"
  have t: "trim_space (itoa n) = itoa n" by (rule trim_space_no_space [OF itoa_no_space])
  show ?thesis
    using n by (simp add: marshal_port_def port_Int_PortOf Let_def t) (simp add: PortOf_def zero_port_def t)
qed

section \<open>Domain names\<close>

definition clean_domain :: "string \<Rightarrow> string" where
  "clean_domain d = trim_suffix (to_lower (trim_space d)) ''.''"

definition NormalizeDomains :: "string list \<Rightarrow> string list" where
  "NormalizeDomains domains = sort (dedup (filter (\<lambda>d. d \<noteq> []) (map clean_domain domains)))"

lemma set_NormalizeDomains: "set (NormalizeDomains ds) = clean_domain ` set ds - {[]}"
  by (auto simp: NormalizeDomains_def)

lemma NormalizeDomains_wf: "sorted (NormalizeDomains ds) \<and> distinct (NormalizeDomains ds) \<and> [] \<notin> set (NormalizeDomains ds)"
  by (simp add: NormalizeDomains_def)

text \<open>Two spellings of the same set of names have the same normal form.\<close>

lemma NormalizeDomains_cong:
  "clean_domain ` set ds = clean_domain ` set es \<Longrightarrow> NormalizeDomains ds = NormalizeDomains es"
  unfolding NormalizeDomains_def by (rule sort_dedup_cong) auto

section \<open>Custom locations\<close>

abbreviation AccessListPublic :: string where "AccessListPublic \<equiv> ''public''"
abbreviation AccessListCustom :: string where "AccessListCustom \<equiv> ''custom''"
abbreviation AccessListGlobal :: string where "AccessListGlobal \<equiv> ''global''"

abbreviation MaxDescriptionLength :: nat where "MaxDescriptionLength \<equiv> 255"
abbreviation MaxDirectoryLength :: nat where "MaxDirectoryLength \<equiv> 255"

definition XFrameOptionsValue :: "string \<Rightarrow> string" where
  "XFrameOptionsValue value =
     (let v = to_lower (trim_space value) in
      if v = ''deny'' then ''DENY'' else if v = ''sameorigin'' then ''SAMEORIGIN'' else v)"

record Location =
  loc_Path :: string
  loc_LocationType :: string
  loc_AdvancedConfig :: string
  loc_LocationConfig :: string
  loc_ForwardScheme :: string
  loc_ForwardHost :: string
  loc_ForwardPort :: int
  loc_AccessListIDs :: "int list"
  loc_AccessListType :: string
  loc_AccessListNames :: "string list"
  loc_AccessLists :: "int list"
  loc_Enabled :: "bool option"
  loc_NoIndex :: Flag
  loc_DisableCrowdsecAppsec :: Flag
  loc_DisableRequestBuffering :: Flag
  loc_DisableResponseBuffering :: Flag
  loc_UpstreamCompression :: Flag
  loc_FancyIndex :: Flag
  loc_XFrameOptions :: string
  loc_AuthRequest :: string
  loc_AuthRequestUpstream :: string

definition empty_location :: Location where
  "empty_location = \<lparr> loc_Path = [], loc_LocationType = [], loc_AdvancedConfig = [],
     loc_LocationConfig = [], loc_ForwardScheme = [], loc_ForwardHost = [], loc_ForwardPort = 0,
     loc_AccessListIDs = [], loc_AccessListType = [], loc_AccessListNames = [], loc_AccessLists = [],
     loc_Enabled = None, loc_NoIndex = False, loc_DisableCrowdsecAppsec = False,
     loc_DisableRequestBuffering = False, loc_DisableResponseBuffering = False,
     loc_UpstreamCompression = False, loc_FancyIndex = False, loc_XFrameOptions = [],
     loc_AuthRequest = [], loc_AuthRequestUpstream = [] \<rparr>"

definition stripPlus :: "Location \<Rightarrow> Location" where
  "stripPlus l = l\<lparr> loc_LocationType := [], loc_LocationConfig := [], loc_AccessListIDs := [],
     loc_AccessListType := [], loc_NoIndex := False, loc_DisableCrowdsecAppsec := False,
     loc_DisableRequestBuffering := False, loc_DisableResponseBuffering := False,
     loc_UpstreamCompression := False, loc_FancyIndex := False, loc_XFrameOptions := [],
     loc_AuthRequest := [], loc_AuthRequestUpstream := [] \<rparr>"

text \<open>\<open>cleanForwardOptions\<close>, one definition per rule, in the order of the code.\<close>

definition cleanScheme :: "Location \<Rightarrow> Location" where
  "cleanScheme l =
     (let scheme = (let s = to_lower (loc_ForwardScheme l) in if s = [] then ''http'' else s) in
      if scheme = ''empty'' then l
      else
        let l1 = (if scheme \<noteq> ''http'' \<and> scheme \<noteq> ''https''
                  then l\<lparr> loc_DisableRequestBuffering := False, loc_DisableResponseBuffering := False \<rparr>
                  else l)
        in if scheme = ''path'' then l1\<lparr> loc_UpstreamCompression := False \<rparr>
           else l1\<lparr> loc_FancyIndex := False \<rparr>)"

definition cleanAppsec :: "Location \<Rightarrow> Location" where
  "cleanAppsec l =
     (if \<not> loc_DisableCrowdsecAppsec l then l\<lparr> loc_DisableRequestBuffering := False \<rparr> else l)"

definition cleanAuth :: "Location \<Rightarrow> Location" where
  "cleanAuth l =
     (let auth = trim_space (loc_AuthRequest l) in
      if auth = [] \<or> auth = ''none'' then l\<lparr> loc_AuthRequestUpstream := [] \<rparr> else l)"

definition cleanForwardOptions :: "Location \<Rightarrow> Location" where
  "cleanForwardOptions l = cleanAuth (cleanAppsec (cleanScheme l))"

definition loc_IsEnabled :: "Location \<Rightarrow> bool" where
  "loc_IsEnabled l = (case loc_Enabled l of None \<Rightarrow> True | Some b \<Rightarrow> b)"

definition loc_accessListType :: "Location \<Rightarrow> string" where
  "loc_accessListType l =
     (if loc_AccessListType l \<noteq> [] then loc_AccessListType l
      else if loc_AccessListIDs l \<noteq> [] then AccessListCustom else AccessListGlobal)"

lemma clean_steps_idem:
  "cleanScheme (cleanScheme l) = cleanScheme l"
  "cleanAppsec (cleanAppsec l) = cleanAppsec l"
  "cleanAuth (cleanAuth l) = cleanAuth l"
  by (simp_all add: cleanScheme_def cleanAppsec_def cleanAuth_def Let_def)

lemma clean_steps_commute:
  "cleanScheme (cleanAppsec l) = cleanAppsec (cleanScheme l)"
  "cleanScheme (cleanAuth l) = cleanAuth (cleanScheme l)"
  "cleanAppsec (cleanAuth l) = cleanAuth (cleanAppsec l)"
  by (cases l, simp add: cleanScheme_def cleanAppsec_def cleanAuth_def Let_def)+

lemma cleanForwardOptions_idem:
  "cleanForwardOptions (cleanForwardOptions l) = cleanForwardOptions l"
  by (simp add: cleanForwardOptions_def clean_steps_commute clean_steps_idem)

lemma cleanForwardOptions_keeps [simp]:
  "loc_Path (cleanForwardOptions l) = loc_Path l"
  "loc_ForwardScheme (cleanForwardOptions l) = loc_ForwardScheme l"
  "loc_AuthRequest (cleanForwardOptions l) = loc_AuthRequest l"
  "loc_AccessListType (cleanForwardOptions l) = loc_AccessListType l"
  "loc_AccessListIDs (cleanForwardOptions l) = loc_AccessListIDs l"
  by (simp_all add: cleanForwardOptions_def cleanScheme_def cleanAppsec_def cleanAuth_def Let_def)

section \<open>Certificates and access lists of the server\<close>

record Certificate =
  crt_ID :: int
  crt_Provider :: string
  crt_NiceName :: string
  crt_DomainNames :: "string list"
  crt_ExpiresOn :: string
  crt_IsDeleted :: Flag

record AccessList =
  acl_ID :: int
  acl_Name :: string

text \<open>\<open>fromUnix\<close>: large values are milliseconds; the result is in milliseconds.\<close>

definition fromUnix :: "int \<Rightarrow> int" where
  "fromUnix n = (if n > 100000000000 then n else n * 1000)"

end
