(* ===== verification/GoTime.thy ===== *)
theory GoTime
  imports Slices
begin

text \<open>
  The part of Go's \<open>time\<close> package the program relies on: \<open>time.Parse\<close> for the layouts of a
  certificate's expiry, and durations. A \<open>time.Time\<close> is its distance from 0001-01-01 00:00:00
  UTC in nanoseconds, so the zero value of the type is 0; a \<open>time.Duration\<close> is an \<^typ>\<open>int\<close> of
  nanoseconds.
\<close>

section \<open>Durations\<close>

definition second :: int where "second = 1000000000"
definition minute :: int where "minute = 60 * second"

section \<open>The calendar\<close>

definition leap :: "int \<Rightarrow> bool" where
  "leap y \<longleftrightarrow> y mod 4 = 0 \<and> (y mod 100 \<noteq> 0 \<or> y mod 400 = 0)"

definition days_in :: "int \<Rightarrow> int \<Rightarrow> int" where
  "days_in y m = (if m = 2 then (if leap y then 29 else 28)
     else if m = 4 \<or> m = 6 \<or> m = 9 \<or> m = 11 then 30 else 31)"

definition days_before_year :: "int \<Rightarrow> int" where
  "days_before_year y = (let p = y - 1 in 365 * p + p div 4 - p div 100 + p div 400)"

fun days_before_month :: "int \<Rightarrow> nat \<Rightarrow> int" where
  "days_before_month y 0 = 0"
| "days_before_month y (Suc m) = days_before_month y m + (if m = 0 then 0 else days_in y (int m))"

definition unix_days :: "int \<Rightarrow> int \<Rightarrow> int \<Rightarrow> int" where
  "unix_days y m d = days_before_year y + days_before_month y (nat m) + d - 1"

section \<open>Parsing\<close>

text \<open>\<open>getnum\<close>: two digits, or one when the layout does not fix the width.\<close>

definition getnum :: "bool \<Rightarrow> string \<Rightarrow> (int \<times> string) option" where
  "getnum fixed s =
     (case s of
        a # b # r \<Rightarrow>
          if is_digit a \<and> is_digit b then Some (int (10 * digit_val a + digit_val b), r)
          else if is_digit a \<and> \<not> fixed then Some (int (digit_val a), b # r)
          else None
      | [a] \<Rightarrow> if is_digit a \<and> \<not> fixed then Some (int (digit_val a), []) else None
      | [] \<Rightarrow> None)"

definition get_year :: "string \<Rightarrow> (int \<times> string) option" where
  "get_year s = (if length s < 4 then None
     else case parse_nat (take 4 s) of None \<Rightarrow> None | Some n \<Rightarrow> Some (int n, drop 4 s))"

definition expect :: "char \<Rightarrow> string \<Rightarrow> string option" where
  "expect c s = (case s of [] \<Rightarrow> None | x # r \<Rightarrow> if x = c then Some r else None)"

text \<open>A fraction of a second after the seconds, at most nine digits of which count.\<close>

definition get_fraction :: "string \<Rightarrow> int \<times> string" where
  "get_fraction s =
     (case s of
        p # d # r \<Rightarrow>
          if (p = CHR ''.'' \<or> p = CHR '','') \<and> is_digit d then
            let ds = takeWhile is_digit (d # r); used = take 9 ds in
            (case digits_val 0 used of
               Some n \<Rightarrow> (int n * 10 ^ (9 - length used), dropWhile is_digit (d # r))
             | None \<Rightarrow> (0, s))
          else (0, s)
      | _ \<Rightarrow> (0, s))"

definition parse_date :: "string \<Rightarrow> (int \<times> int \<times> int \<times> string) option" where
  "parse_date s0 =
     Option.bind (get_year s0) (\<lambda>(y, s1). Option.bind (expect (CHR ''-'') s1) (\<lambda>s2.
     Option.bind (getnum True s2) (\<lambda>(m, s3). Option.bind (expect (CHR ''-'') s3) (\<lambda>s4.
     Option.bind (getnum True s4) (\<lambda>(d, s5).
       if m < 1 \<or> 12 < m then None else Some (y, m, d, s5))))))"

definition parse_clock :: "string \<Rightarrow> (int \<times> string) option" where
  "parse_clock s0 =
     Option.bind (getnum False s0) (\<lambda>(h, s1). Option.bind (expect (CHR '':'') s1) (\<lambda>s2.
     Option.bind (getnum True s2) (\<lambda>(mi, s3). Option.bind (expect (CHR '':'') s3) (\<lambda>s4.
     Option.bind (getnum True s4) (\<lambda>(se, s5).
       if 24 \<le> h \<or> 60 \<le> mi \<or> 60 \<le> se then None
       else case get_fraction s5 of (ns, s6) \<Rightarrow> Some ((h * 3600 + mi * 60 + se) * second + ns, s6))))))"

text \<open>The zone of RFC 3339, in seconds east of UTC.\<close>

definition parse_zone :: "string \<Rightarrow> (int \<times> string) option" where
  "parse_zone s =
     (case s of
        [] \<Rightarrow> None
      | c # r \<Rightarrow>
          if c = CHR ''Z'' then Some (0, r)
          else if c = CHR ''+'' \<or> c = CHR ''-'' then
            Option.bind (getnum True r) (\<lambda>(h, s1). Option.bind (expect (CHR '':'') s1) (\<lambda>s2.
            Option.bind (getnum True s2) (\<lambda>(mi, s3).
              if 24 < h \<or> 60 < mi then None
              else Some ((if c = CHR ''-'' then -1 else 1) * (h * 60 + mi) * 60, s3))))
          else None)"

definition at_day :: "int \<Rightarrow> int \<Rightarrow> int \<Rightarrow> int \<Rightarrow> int option" where
  "at_day y m d ns = (if d < 1 \<or> days_in y m < d then None
     else Some (unix_days y m d * 86400 * second + ns))"

definition parse_datetime :: "string \<Rightarrow> int option" where
  "parse_datetime s =
     Option.bind (parse_date s) (\<lambda>(y, m, d, s1). Option.bind (expect (CHR '' '') s1) (\<lambda>s2.
     Option.bind (parse_clock s2) (\<lambda>(ns, s3). if s3 \<noteq> [] then None else at_day y m d ns)))"

definition parse_rfc3339 :: "string \<Rightarrow> int option" where
  "parse_rfc3339 s =
     Option.bind (parse_date s) (\<lambda>(y, m, d, s1). Option.bind (expect (CHR ''T'') s1) (\<lambda>s2.
     Option.bind (parse_clock s2) (\<lambda>(ns, s3). Option.bind (parse_zone s3) (\<lambda>(z, s4).
       if s4 \<noteq> [] then None else map_option (\<lambda>t. t - z * second) (at_day y m d ns)))))"

definition parse_dateonly :: "string \<Rightarrow> int option" where
  "parse_dateonly s =
     Option.bind (parse_date s) (\<lambda>(y, m, d, s1). if s1 \<noteq> [] then None else at_day y m d 0)"

end
