(* ===== verification/Certs.thy ===== *)
theory Certs
  imports Models GoTime "HOL-Library.Product_Lexorder"
begin

text \<open>
  The certificate selection of \<open>internal/certs/certs.go\<close>: the parsed label value, the match
  classes, RFC 6125 wildcards, and the deterministic choice of the best usable certificate.

  Punycode conversion comes from \<open>golang.org/x/net/idna\<close> and is the parameter \<open>toASCII\<close> of the
  definitions; it is only applied to names with a byte above 0x7F. A clock reading is an
  argument: \<open>best\<close> reads the clock once per call.
\<close>

section \<open>Label values\<close>

datatype Mode = ModeAuto | ModeID | ModeDomain | ModeName | ModeNew | ModeNone

record Spec =
  s_Mode :: Mode
  s_ID :: int
  s_Domain :: string
  s_Name :: string
  s_Raw :: string

definition spec_of :: "Mode \<Rightarrow> string \<Rightarrow> Spec" where
  "spec_of md raw = \<lparr> s_Mode = md, s_ID = 0, s_Domain = [], s_Name = [], s_Raw = raw \<rparr>"

definition AutoSpec :: Spec where
  "AutoSpec = spec_of ModeAuto ''auto''"

datatype spec_error = MissingName string | NegativeID int | NotASpec string

definition cutPrefixFold :: "string \<Rightarrow> string \<Rightarrow> string option" where
  "cutPrefixFold s pre =
     (if length pre \<le> length s \<and> equal_fold (take (length pre) s) pre then Some (drop (length pre) s) else None)"

definition looksLikeDomain :: "string \<Rightarrow> bool" where
  "looksLikeDomain s =
     (if contains_any s [CHR '' '', CHR ''/'', CHR 0x5C, CHR '':''] then False else CHR ''.'' \<in> set s)"

definition ParseSpec :: "string \<Rightarrow> spec_error + Spec" where
  "ParseSpec raw =
     (let trimmed = trim_space raw; lower = to_lower trimmed in
      if lower \<in> set [[], ''auto''] then Inr (spec_of ModeAuto trimmed)
      else if lower \<in> set [''new'', ''letsencrypt'', ''le'', ''request''] then Inr (spec_of ModeNew trimmed)
      else if lower \<in> set [''none'', ''off'', ''false'', ''no'', ''0'', ''disable'', ''disabled'']
      then Inr (spec_of ModeNone trimmed)
      else case cutPrefixFold trimmed ''name:'' of
        Some rest \<Rightarrow>
          (let name = trim_space rest in
           if name = [] then Inl (MissingName raw) else Inr ((spec_of ModeName trimmed)\<lparr> s_Name := name \<rparr>))
      | None \<Rightarrow>
          (case atoi trimmed of
             Some i \<Rightarrow> if i < 0 then Inl (NegativeID i)
                        else if i = 0 then Inr (spec_of ModeNone trimmed)
                        else Inr ((spec_of ModeID trimmed)\<lparr> s_ID := i \<rparr>)
           | None \<Rightarrow> if looksLikeDomain lower then Inr ((spec_of ModeDomain trimmed)\<lparr> s_Domain := lower \<rparr>)
                      else Inl (NotASpec raw)))"

section \<open>Classes\<close>

datatype Class = ClassExactOnly | ClassExactExtra | ClassMixed | ClassWildcard | ClassNone

fun class_rank :: "Class \<Rightarrow> nat" where
  "class_rank ClassExactOnly = 1"
| "class_rank ClassExactExtra = 2"
| "class_rank ClassMixed = 3"
| "class_rank ClassWildcard = 4"
| "class_rank ClassNone = 5"

lemma class_rank_inj: "class_rank a = class_rank b \<longleftrightarrow> a = b"
  by (cases a; cases b) simp_all

instantiation Class :: linorder
begin

definition less_eq_Class :: "Class \<Rightarrow> Class \<Rightarrow> bool" where
  "a \<le> b \<longleftrightarrow> class_rank a \<le> class_rank b"

definition less_Class :: "Class \<Rightarrow> Class \<Rightarrow> bool" where
  "a < b \<longleftrightarrow> class_rank a < class_rank b"

instance
  by standard (auto simp: less_eq_Class_def less_Class_def class_rank_inj)

end

fun class_String :: "Class \<Rightarrow> string" where
  "class_String ClassExactOnly = ''exact''"
| "class_String ClassExactExtra = ''exact+sans''"
| "class_String ClassMixed = ''mixed''"
| "class_String ClassWildcard = ''wildcard''"
| "class_String ClassNone = ''none''"

datatype Partial = PartialPrimary | PartialNone

definition ParsePartial :: "string \<Rightarrow> string + Partial" where
  "ParsePartial raw =
     (let p = to_lower (trim_space raw) in
      if p \<in> set [[], ''primary'', ''first''] then Inr PartialPrimary
      else if p \<in> set [''none'', ''off'', ''skip''] then Inr PartialNone
      else Inl raw)"

section \<open>Names\<close>

definition isASCII :: "string \<Rightarrow> bool" where
  "isASCII s = list_all (\<lambda>c. of_char c < (128 :: nat)) s"

type_synonym idna = "string \<Rightarrow> string option"

definition canonical :: "idna \<Rightarrow> string \<Rightarrow> string" where
  "canonical toASCII domain =
     (let d0 = trim_suffix (to_lower (trim_space domain)) ''.'' in
      if d0 = [] then []
      else let (pre, d) = (case cut_prefix ''*.'' d0 of Some rest \<Rightarrow> (''*.'', rest) | None \<Rightarrow> ([], d0));
               d' = (if \<not> isASCII d then (case toASCII d of Some a \<Rightarrow> a | None \<Rightarrow> d) else d)
           in pre @ d')"

definition canonicalAll :: "idna \<Rightarrow> string list \<Rightarrow> string list" where
  "canonicalAll toASCII ds = filter (\<lambda>c. c \<noteq> []) (map (canonical toASCII) ds)"

definition containsExact :: "string list \<Rightarrow> string \<Rightarrow> bool" where
  "containsExact certDomains domain = list_ex (\<lambda>cd. cd = domain) certDomains"

definition wildcardMatch :: "string \<Rightarrow> string \<Rightarrow> bool" where
  "wildcardMatch pattern domain =
     (case cut_prefix ''*.'' pattern of
        None \<Rightarrow> False
      | Some rest \<Rightarrow>
          if rest = [] then False
          else case cut (CHR ''.'') domain of
                 None \<Rightarrow> False
               | Some (label, parent) \<Rightarrow> if label = [] then False else parent = rest)"

definition matchesWildcard :: "string list \<Rightarrow> string \<Rightarrow> bool" where
  "matchesWildcard certDomains domain = list_ex (\<lambda>cd. wildcardMatch cd domain) certDomains"

text \<open>RFC 6125: a wildcard stands for exactly one non-empty label.\<close>

lemma wildcardMatch_iff:
  "wildcardMatch p d \<longleftrightarrow> (\<exists>label rest. p = ''*.'' @ rest \<and> rest \<noteq> [] \<and> d = label @ CHR ''.'' # rest
     \<and> label \<noteq> [] \<and> CHR ''.'' \<notin> set label)"
proof
  assume "wildcardMatch p d"
  then obtain rest label where "cut_prefix ''*.'' p = Some rest" "rest \<noteq> []"
      "cut (CHR ''.'') d = Some (label, rest)" "label \<noteq> []"
    by (auto simp: wildcardMatch_def split: option.splits if_splits)
  then show "\<exists>label rest. p = ''*.'' @ rest \<and> rest \<noteq> [] \<and> d = label @ CHR ''.'' # rest
     \<and> label \<noteq> [] \<and> CHR ''.'' \<notin> set label"
    unfolding cut_prefix_Some cut_Some by blast
next
  assume "\<exists>label rest. p = ''*.'' @ rest \<and> rest \<noteq> [] \<and> d = label @ CHR ''.'' # rest
     \<and> label \<noteq> [] \<and> CHR ''.'' \<notin> set label"
  then obtain label rest where h: "p = ''*.'' @ rest" "rest \<noteq> []" "d = label @ CHR ''.'' # rest"
      "label \<noteq> []" "CHR ''.'' \<notin> set label" by blast
  then have "cut_prefix ''*.'' p = Some rest" "cut (CHR ''.'') d = Some (label, rest)"
    unfolding cut_prefix_Some cut_Some by blast+
  with h(2,4) show "wildcardMatch p d" by (simp add: wildcardMatch_def)
qed

section \<open>Matching\<close>

text \<open>The two counters of the loop, or \<open>None\<close> for the early return of a domain not covered.\<close>

fun count_matches :: "idna \<Rightarrow> string list \<Rightarrow> string list \<Rightarrow> (nat \<times> nat) option" where
  "count_matches toASCII certDomains [] = Some (0, 0)"
| "count_matches toASCII certDomains (raw # rest) =
     (let d = canonical toASCII raw in
      if d = [] then count_matches toASCII certDomains rest
      else if containsExact certDomains d
      then map_option (apfst Suc) (count_matches toASCII certDomains rest)
      else if matchesWildcard certDomains d
      then map_option (apsnd Suc) (count_matches toASCII certDomains rest)
      else None)"

definition classify :: "idna \<Rightarrow> Certificate \<Rightarrow> string list \<Rightarrow> Class" where
  "classify toASCII c domains =
     (let certDomains = canonicalAll toASCII (crt_DomainNames c) in
      if domains = [] then ClassNone
      else if certDomains = [] then ClassNone
      else case count_matches toASCII certDomains domains of
             None \<Rightarrow> ClassNone
           | Some (exact, wildcard) \<Rightarrow>
               if wildcard = 0 \<and> length certDomains = exact then ClassExactOnly
               else if wildcard = 0 then ClassExactExtra
               else if exact > 0 then ClassMixed
               else ClassWildcard)"

definition covered :: "idna \<Rightarrow> Certificate \<Rightarrow> string \<Rightarrow> bool" where
  "covered toASCII c raw =
     (let certDomains = canonicalAll toASCII (crt_DomainNames c); d = canonical toASCII raw
      in d = [] \<or> containsExact certDomains d \<or> matchesWildcard certDomains d)"

definition uncovered :: "idna \<Rightarrow> Certificate \<Rightarrow> string list \<Rightarrow> string list" where
  "uncovered toASCII c domains = filter (\<lambda>raw. \<not> covered toASCII c raw) domains"

definition patternFor :: "idna \<Rightarrow> Certificate \<Rightarrow> string list \<Rightarrow> string" where
  "patternFor toASCII c domains =
     (case domains of
        [] \<Rightarrow> []
      | d0 # _ \<Rightarrow>
          (let d = canonical toASCII d0 in
           case find (\<lambda>cd. cd = d \<or> wildcardMatch cd d) (map (canonical toASCII) (crt_DomainNames c)) of
             Some cd \<Rightarrow> cd
           | None \<Rightarrow> []))"

text \<open>\<open>expiry\<close>: the zero time (0) for an empty or unreadable value. The third layout of the
  code, \<open>2006-01-02T15:04:05.000Z\<close>, accepts nothing the RFC 3339 layout
  before it does not accept with the same result.\<close>

definition expiry :: "Certificate \<Rightarrow> int" where
  "expiry c =
     (let raw = trim_space (crt_ExpiresOn c) in
      if raw = [] then 0
      else case first_some (\<lambda>parse. parse raw) [parse_datetime, parse_rfc3339, parse_dateonly] of
             Some t \<Rightarrow> t
           | None \<Rightarrow> 0)"

definition usable :: "Certificate \<Rightarrow> int \<Rightarrow> bool" where
  "usable c now =
     (if crt_ID c \<le> 0 \<or> crt_IsDeleted c then False
      else if equal_fold (trim_space (crt_Provider c)) ''mtls'' then False
      else if expiry c \<noteq> 0 \<and> \<not> expiry c > now then False
      else True)"

definition byID :: "Certificate list \<Rightarrow> Certificate list" where
  "byID list = sort_key crt_ID list"

definition no_certificate :: Certificate where
  "no_certificate = \<lparr> crt_ID = 0, crt_Provider = [], crt_NiceName = [], crt_DomainNames = [],
     crt_ExpiresOn = [], crt_IsDeleted = False \<rparr>"

definition certByID :: "Certificate list \<Rightarrow> int \<Rightarrow> Certificate" where
  "certByID list i = (case find (\<lambda>c. crt_ID c = i) list of Some c \<Rightarrow> c | None \<Rightarrow> no_certificate)"

section \<open>Selection\<close>

text \<open>\<open>None\<close> in \<open>sel_Class\<close> is the zero value of the Go type, which is no class at all.\<close>

record Selection =
  sel_ID :: int
  sel_New :: bool
  sel_Class :: "Class option"
  sel_Pattern :: string
  sel_Uncovered :: "string list"
  sel_Kept :: bool

definition zero_selection :: Selection where
  "zero_selection = \<lparr> sel_ID = 0, sel_New = False, sel_Class = None, sel_Pattern = [], sel_Uncovered = [],
     sel_Kept = False \<rparr>"

record CertOptions =
  co_Current :: int
  co_Partial :: Partial

definition candidates :: "idna \<Rightarrow> string list \<Rightarrow> Certificate list \<Rightarrow> int \<Rightarrow> (Certificate \<times> Class) list" where
  "candidates toASCII domains list now =
     filter (\<lambda>(c, cl). cl \<noteq> ClassNone)
       (map (\<lambda>c. (c, classify toASCII c domains)) (filter (\<lambda>c. usable c now) (byID list)))"

text \<open>The comparator of the code: class, then the longest validity, then the id. Sorting stably by
  the triple is sorting by that comparator.\<close>

definition rank_key :: "Certificate \<times> Class \<Rightarrow> Class \<times> int \<times> int" where
  "rank_key = (\<lambda>(c, cl). (cl, - expiry c, crt_ID c))"

definition selection_of :: "idna \<Rightarrow> string list \<Rightarrow> Certificate \<times> Class \<Rightarrow> bool \<Rightarrow> Selection" where
  "selection_of toASCII domains = (\<lambda>(c, cl) kept. zero_selection\<lparr> sel_ID := crt_ID c, sel_Class := Some cl,
     sel_Pattern := patternFor toASCII c domains, sel_Kept := kept \<rparr>)"

definition best :: "idna \<Rightarrow> string list \<Rightarrow> Certificate list \<Rightarrow> int \<Rightarrow> int \<Rightarrow> Selection option" where
  "best toASCII domains list current now =
     (case sort_key rank_key (candidates toASCII domains list now) of
        [] \<Rightarrow> None
      | winner # rest \<Rightarrow>
          (case (if current > 0 then find (\<lambda>(c, cl). crt_ID c = current) (winner # rest) else None) of
             Some x \<Rightarrow> if snd x \<le> snd winner then Some (selection_of toASCII domains x True)
                        else Some (selection_of toASCII domains winner False)
           | None \<Rightarrow> Some (selection_of toASCII domains winner False)))"

datatype cert_error = NoCertificateNamed string | NoCertificateCovers string

definition resolveAuto ::
  "idna \<Rightarrow> string list \<Rightarrow> Certificate list \<Rightarrow> CertOptions \<Rightarrow> int \<Rightarrow> int \<Rightarrow> Selection" where
  "resolveAuto toASCII domains list opts now1 now2 =
     (if domains = [] then zero_selection
      else case best toASCII domains list (co_Current opts) now1 of
        Some sel \<Rightarrow> sel
      | None \<Rightarrow>
          if co_Partial opts = PartialNone then zero_selection\<lparr> sel_Uncovered := domains \<rparr>
          else case best toASCII (take 1 domains) list (co_Current opts) now2 of
            None \<Rightarrow> zero_selection\<lparr> sel_Uncovered := domains \<rparr>
          | Some sel \<Rightarrow> sel\<lparr> sel_Uncovered := uncovered toASCII (certByID list (sel_ID sel)) domains \<rparr>)"

definition Resolve ::
  "idna \<Rightarrow> Spec \<Rightarrow> string list \<Rightarrow> Certificate list \<Rightarrow> CertOptions \<Rightarrow> int \<Rightarrow> int \<Rightarrow> cert_error + Selection" where
  "Resolve toASCII spec domains list opts now1 now2 =
     (case s_Mode spec of
        ModeNone \<Rightarrow> Inr zero_selection
      | ModeNew \<Rightarrow> Inr (zero_selection\<lparr> sel_New := True \<rparr>)
      | ModeID \<Rightarrow> Inr (zero_selection\<lparr> sel_ID := s_ID spec, sel_Class := Some ClassNone, sel_Pattern := ''id'' \<rparr>)
      | ModeName \<Rightarrow>
          (case find (\<lambda>c. equal_fold (trim_space (crt_NiceName c)) (s_Name spec)) (byID list) of
             Some c \<Rightarrow> Inr (zero_selection\<lparr> sel_ID := crt_ID c, sel_Pattern := crt_NiceName c,
               sel_Class := Some (classify toASCII c domains) \<rparr>)
           | None \<Rightarrow> Inl (NoCertificateNamed (s_Name spec)))
      | ModeDomain \<Rightarrow>
          (case best toASCII [s_Domain spec] list (co_Current opts) now1 of
             None \<Rightarrow> Inl (NoCertificateCovers (s_Domain spec))
           | Some sel \<Rightarrow> Inr (sel\<lparr> sel_Uncovered := uncovered toASCII (certByID list (sel_ID sel)) domains \<rparr>))
      | ModeAuto \<Rightarrow> Inr (resolveAuto toASCII domains list opts now1 now2))"

text \<open>\<open>Hash\<close>: the text the poll compares, one part per certificate.\<close>

definition hash_part :: "idna \<Rightarrow> Certificate \<Rightarrow> string" where
  "hash_part toASCII c = itoa (crt_ID c) @ '':'' @ join '','' (canonicalAll toASCII (crt_DomainNames c)) @ '':''
     @ trim_space (crt_ExpiresOn c) @ '':'' @ (if crt_IsDeleted c then ''true'' else ''false'') @ '':'' @ crt_Provider c"

definition certs_Hash :: "idna \<Rightarrow> Certificate list \<Rightarrow> string" where
  "certs_Hash toASCII list = join ''|'' (map (hash_part toASCII) (byID list))"

section \<open>Lemmas\<close>

lemma count_matches_Some:
  "count_matches toASCII cds ds = Some (e, w) \<Longrightarrow>
   (\<forall>raw\<in>set ds. canonical toASCII raw = [] \<or> containsExact cds (canonical toASCII raw)
      \<or> matchesWildcard cds (canonical toASCII raw))"
  by (induction ds arbitrary: e w) (auto simp: Let_def split: if_splits)

lemma count_matches_None:
  "count_matches toASCII cds ds = None \<Longrightarrow>
   \<exists>raw\<in>set ds. canonical toASCII raw \<noteq> [] \<and> \<not> containsExact cds (canonical toASCII raw)
      \<and> \<not> matchesWildcard cds (canonical toASCII raw)"
  by (induction ds) (auto simp: Let_def split: if_splits)

lemma classify_covers:
  "classify toASCII c ds \<noteq> ClassNone \<Longrightarrow> d \<in> set ds \<Longrightarrow> covered toASCII c d"
  using count_matches_Some [of toASCII "canonicalAll toASCII (crt_DomainNames c)" ds]
  by (fastforce simp: classify_def covered_def Let_def split: if_splits option.splits)

lemma classify_None_iff:
  assumes "ds \<noteq> []" "canonicalAll toASCII (crt_DomainNames c) \<noteq> []"
  shows "classify toASCII c ds = ClassNone \<longleftrightarrow> (\<exists>d\<in>set ds. \<not> covered toASCII c d)"
proof
  assume "classify toASCII c ds = ClassNone"
  with assms have "count_matches toASCII (canonicalAll toASCII (crt_DomainNames c)) ds = None"
    by (auto simp: classify_def Let_def split: option.splits if_splits)
  from count_matches_None [OF this] show "\<exists>d\<in>set ds. \<not> covered toASCII c d"
    by (auto simp: covered_def Let_def)
next
  assume "\<exists>d\<in>set ds. \<not> covered toASCII c d"
  then show "classify toASCII c ds = ClassNone" using classify_covers by blast
qed

lemma uncovered_Nil: "classify toASCII c ds \<noteq> ClassNone \<Longrightarrow> uncovered toASCII c ds = []"
  by (simp add: uncovered_def filter_empty_conv classify_covers)

lemma set_candidates:
  "(c, cl) \<in> set (candidates toASCII ds list now) \<longleftrightarrow>
   c \<in> set list \<and> usable c now \<and> cl = classify toASCII c ds \<and> cl \<noteq> ClassNone"
  by (auto simp: candidates_def byID_def)

lemma sort_key_hd_min:
  "sort_key f xs = w # rest \<Longrightarrow> x \<in> set xs \<Longrightarrow> f w \<le> f x"
proof -
  assume a: "sort_key f xs = w # rest" and x: "x \<in> set xs"
  have "sorted (map f (w # rest))" using sorted_sort_key [of f xs] a by simp
  moreover have "x \<in> set (w # rest)" using x by (metis a set_sort)
  ultimately show "f w \<le> f x" by auto
qed

lemma find_SomeD: "find P xs = Some x \<Longrightarrow> P x \<and> x \<in> set xs"
  by (auto simp: find_Some_iff)

text \<open>What \<open>best\<close> returns: a candidate, either the attached one in a class as good as any, or the
  minimum of the ranking.\<close>

lemma best_cases:
  assumes "best toASCII ds list current now = Some sel"
  obtains (kept) c cl where "sel = selection_of toASCII ds (c, cl) True" "crt_ID c = current" "0 < current"
      "(c, cl) \<in> set (candidates toASCII ds list now)"
      "\<And>c' cl'. (c', cl') \<in> set (candidates toASCII ds list now) \<Longrightarrow> cl \<le> cl'"
  | (winner) c cl where "sel = selection_of toASCII ds (c, cl) False"
      "(c, cl) \<in> set (candidates toASCII ds list now)"
      "\<And>x. x \<in> set (candidates toASCII ds list now) \<Longrightarrow> rank_key (c, cl) \<le> rank_key x"
proof -
  let ?cs = "candidates toASCII ds list now"
  obtain w rest where s: "sort_key rank_key ?cs = w # rest"
    using assms by (auto simp: best_def split: list.splits)
  have sub: "set (w # rest) = set ?cs" by (metis s set_sort)
  have min: "rank_key w \<le> rank_key x" if "x \<in> set ?cs" for x
    using sort_key_hd_min [OF s that] .
  obtain c cl where w: "w = (c, cl)" by fastforce
  show thesis
  proof (cases "sel = selection_of toASCII ds w False")
    case True
    with w sub min show thesis by (intro winner [of c cl]) auto
  next
    case False
    then obtain x where x: "find (\<lambda>(c, cl). crt_ID c = current) (w # rest) = Some x" "0 < current"
        "snd x \<le> snd w" "sel = selection_of toASCII ds x True"
      using assms by (auto simp: best_def s split: option.splits if_splits)
    obtain c' cl' where xx: "x = (c', cl')" by fastforce
    have "x \<in> set ?cs" "crt_ID c' = current" using find_SomeD [OF x(1)] sub xx by auto
    moreover have "cl' \<le> b" if "(a, b) \<in> set ?cs" for a b
      using min [OF that] x(3) w xx by (auto simp: rank_key_def less_eq_prod_def)
    ultimately show thesis using x(2,4) xx by (intro kept [of c' cl']) auto
  qed
qed

lemma best_None: "best toASCII ds list current now = None \<longleftrightarrow> candidates toASCII ds list now = []"
proof
  assume "best toASCII ds list current now = None"
  then have "sort_key rank_key (candidates toASCII ds list now) = []"
    by (auto simp: best_def split: list.splits option.splits if_splits)
  then show "candidates toASCII ds list now = []" by (metis set_empty set_sort)
qed (simp add: best_def)

lemma certByID_found:
  "distinct (map crt_ID list) \<Longrightarrow> c \<in> set list \<Longrightarrow> certByID list (crt_ID c) = c"
proof -
  assume d: "distinct (map crt_ID list)" and c: "c \<in> set list"
  then obtain c' where f: "find (\<lambda>x. crt_ID x = crt_ID c) list = Some c'"
    by (cases "find (\<lambda>x. crt_ID x = crt_ID c) list") (auto simp: find_None_iff)
  from find_SomeD [OF f] d c have "c' = c" by (metis distinct_map inj_onD)
  with f show ?thesis by (simp add: certByID_def)
qed

text \<open>The order in which the server lists its certificates does not matter.\<close>

lemma byID_set_cong:
  assumes "distinct (map crt_ID xs)" "distinct (map crt_ID ys)" "set xs = set ys"
  shows "byID xs = byID ys"
proof -
  have "map crt_ID (sort_key crt_ID xs) = map crt_ID (sort_key crt_ID ys)"
    by (rule sorted_distinct_set_unique) (use assms in \<open>auto simp: distinct_map\<close>)
  moreover have "set (sort_key crt_ID xs) = set (sort_key crt_ID ys)" using assms(3) by simp
  moreover have "inj_on crt_ID (set xs \<union> set ys)" using assms(1,3) by (simp add: distinct_map)
  ultimately show ?thesis unfolding byID_def by (metis inj_on_map_eq_map set_sort assms(3))
qed

lemma candidates_set_cong:
  "distinct (map crt_ID xs) \<Longrightarrow> distinct (map crt_ID ys) \<Longrightarrow> set xs = set ys \<Longrightarrow>
   candidates toASCII ds xs now = candidates toASCII ds ys now"
  by (simp add: candidates_def byID_set_cong [of xs ys])

lemma best_set_cong:
  "distinct (map crt_ID xs) \<Longrightarrow> distinct (map crt_ID ys) \<Longrightarrow> set xs = set ys \<Longrightarrow>
   best toASCII ds xs current now = best toASCII ds ys current now"
  by (simp add: best_def candidates_set_cong [of xs ys])

lemma best_sound:
  assumes "best toASCII ds list current now = Some sel"
  obtains c where "c \<in> set list" "sel_ID sel = crt_ID c" "usable c now" "\<And>d. d \<in> set ds \<Longrightarrow> covered toASCII c d"
    "sel_Uncovered sel = []" "0 < crt_ID c"
    "\<And>c'. c' \<in> set list \<Longrightarrow> usable c' now \<Longrightarrow> classify toASCII c ds \<le> classify toASCII c' ds"
  using assms
proof (cases rule: best_cases)
  case (kept c cl)
  from kept(4) have c: "c \<in> set list" "usable c now" "cl = classify toASCII c ds" "classify toASCII c ds \<noteq> ClassNone"
    by (auto simp: set_candidates)
  show thesis
  proof (rule that [of c])
    show "classify toASCII c ds \<le> classify toASCII c' ds" if "c' \<in> set list" "usable c' now" for c'
      using that kept(5) [of c' "classify toASCII c' ds"] c(3)
      by (cases "classify toASCII c' ds"; cases "classify toASCII c ds")
         (auto simp: set_candidates less_eq_Class_def)
  qed (use c kept(1) classify_covers in \<open>auto simp: selection_of_def zero_selection_def usable_def split: if_splits\<close>)
next
  case (winner c cl)
  from winner(2) have c: "c \<in> set list" "usable c now" "cl = classify toASCII c ds" "classify toASCII c ds \<noteq> ClassNone"
    by (auto simp: set_candidates)
  show thesis
  proof (rule that [of c])
    show "classify toASCII c ds \<le> classify toASCII c' ds" if "c' \<in> set list" "usable c' now" for c'
    proof (cases "classify toASCII c' ds = ClassNone")
      case True
      then show ?thesis by (cases "classify toASCII c ds") (simp_all add: less_eq_Class_def)
    next
      case False
      with that have "(c', classify toASCII c' ds) \<in> set (candidates toASCII ds list now)"
        by (simp add: set_candidates)
      from winner(3) [OF this] c(3) show ?thesis by (auto simp: rank_key_def less_eq_prod_def)
    qed
  qed (use c winner(1) classify_covers in \<open>auto simp: selection_of_def zero_selection_def usable_def split: if_splits\<close>)
qed

section \<open>Properties\<close>

text \<open>C16: the automatic selection. A selected certificate is in the list, has not expired, is not
  deleted and not a client CA; the reported uncovered domains are exactly those it does not
  cover; and when it covers them all, no usable certificate matches in a strictly better class.\<close>

theorem auto_selection_sound:
  assumes "Resolve toASCII spec ds list opts now1 now2 = Inr sel" "s_Mode spec = ModeAuto" "sel_ID sel \<noteq> 0"
    and "distinct (map crt_ID list)"
  shows "\<exists>c. c \<in> set list \<and> crt_ID c = sel_ID sel \<and> (usable c now1 \<or> usable c now2)
    \<and> set (sel_Uncovered sel) = {d \<in> set ds. \<not> covered toASCII c d} \<and> covered toASCII c (hd ds)
    \<and> (\<forall>c'. c' \<in> set list \<and> usable c' now1 \<longrightarrow>
         (if sel_Uncovered sel = [] then classify toASCII c ds \<le> classify toASCII c' ds
          else classify toASCII c' ds = ClassNone))"
proof -
  have sel: "sel = resolveAuto toASCII ds list opts now1 now2" and ds: "ds \<noteq> []"
    using assms(1-3) by (auto simp: Resolve_def resolveAuto_def zero_selection_def)
  show ?thesis
  proof (cases "best toASCII ds list (co_Current opts) now1")
    case (Some s)
    with sel ds have [simp]: "sel = s" by (simp add: resolveAuto_def)
    from Some obtain c where c: "c \<in> set list" "sel_ID s = crt_ID c" "usable c now1"
        "\<And>d. d \<in> set ds \<Longrightarrow> covered toASCII c d" "sel_Uncovered s = []"
        "\<And>c'. c' \<in> set list \<Longrightarrow> usable c' now1 \<Longrightarrow> classify toASCII c ds \<le> classify toASCII c' ds"
      by (rule best_sound) blast
    show ?thesis
    proof (intro exI [of _ c] conjI)
      show "set (sel_Uncovered sel) = {d \<in> set ds. \<not> covered toASCII c d}" using c(4,5) by auto
      show "covered toASCII c (hd ds)" using c(4) ds by simp
    qed (use c in auto)
  next
    case None
    then have none: "classify toASCII c' ds = ClassNone" if "c' \<in> set list" "usable c' now1" for c'
      using that set_candidates [of c' "classify toASCII c' ds" toASCII ds list now1] by (auto simp: best_None)
    from None sel ds assms(3) obtain s where s: "best toASCII (take 1 ds) list (co_Current opts) now2 = Some s"
        "sel = s\<lparr> sel_Uncovered := uncovered toASCII (certByID list (sel_ID s)) ds \<rparr>"
      by (auto simp: resolveAuto_def zero_selection_def split: option.splits if_splits)
    from s(1) obtain c where c: "c \<in> set list" "sel_ID s = crt_ID c" "usable c now2"
        "\<And>d. d \<in> set (take 1 ds) \<Longrightarrow> covered toASCII c d"
      by (rule best_sound) blast
    have by_id: "certByID list (sel_ID s) = c" using certByID_found [OF assms(4) c(1)] c(2) by simp
    have hd: "covered toASCII c (hd ds)" using c(4) [of "hd ds"] ds by (cases ds) auto
    show ?thesis
    proof (intro exI [of _ c] conjI allI impI)
      show "set (sel_Uncovered sel) = {d \<in> set ds. \<not> covered toASCII c d}"
        using s(2) by_id by (auto simp: uncovered_def)
      fix c' assume c': "c' \<in> set list \<and> usable c' now1"
      show "if sel_Uncovered sel = [] then classify toASCII c ds \<le> classify toASCII c' ds
          else classify toASCII c' ds = ClassNone"
        using none [of c'] c' by (cases "classify toASCII c ds") (auto simp: less_eq_Class_def)
    qed (use c s(2) hd in auto)
  qed
qed

definition ex_wild :: Certificate where
  "ex_wild = \<lparr> crt_ID = 4, crt_Provider = ''letsencrypt'', crt_NiceName = ''wild'',
     crt_DomainNames = [''*.Example.com''], crt_ExpiresOn = ''2026-09-16 10:11:12'', crt_IsDeleted = False \<rparr>"

definition ex_exact :: Certificate where
  "ex_exact = \<lparr> crt_ID = 2, crt_Provider = ''other'', crt_NiceName = ''app'',
     crt_DomainNames = [''app.example.com''], crt_ExpiresOn = ''2026-09-16T10:11:12Z'', crt_IsDeleted = False \<rparr>"

definition ex_opts :: CertOptions where
  "ex_opts = \<lparr> co_Current = 4, co_Partial = PartialPrimary \<rparr>"

theorem auto_selection_sound_witness:
  "\<exists>c. c \<in> set [ex_wild, ex_exact] \<and> crt_ID c = 2 \<and> covered (\<lambda>_. None) c ''app.example.com''"
proof -
  have r: "Resolve (\<lambda>_. None) AutoSpec [''app.example.com''] [ex_wild, ex_exact] ex_opts 1000 1000 =
      Inr (zero_selection\<lparr> sel_ID := 2, sel_Class := Some ClassExactOnly, sel_Pattern := ''app.example.com'' \<rparr>)"
    by code_simp
  have m: "s_Mode AutoSpec = ModeAuto" "distinct (map crt_ID [ex_wild, ex_exact])" by code_simp+
  from auto_selection_sound [OF r m(1) _ m(2)] show ?thesis by auto
qed

text \<open>C17: stability. A certificate that is already attached, is usable and covers every domain
  stays attached unless another usable certificate matches in a strictly better class; a newly
  imported wildcard, a longer validity or a smaller id never moves a host.\<close>

theorem attached_certificate_stays:
  assumes "c \<in> set list" "distinct (map crt_ID list)" "co_Current opts = crt_ID c" "usable c now1"
    and "classify toASCII c ds \<noteq> ClassNone" "s_Mode spec = ModeAuto"
    and "\<forall>c'\<in>set list. usable c' now1 \<longrightarrow> classify toASCII c ds \<le> classify toASCII c' ds"
  shows "\<exists>sel. Resolve toASCII spec ds list opts now1 now2 = Inr sel \<and> sel_ID sel = crt_ID c \<and> sel_Kept sel
    \<and> sel_Uncovered sel = []"
proof -
  let ?cs = "candidates toASCII ds list now1"
  have cin: "(c, classify toASCII c ds) \<in> set ?cs" using assms(1,4,5) by (simp add: set_candidates)
  have ds: "ds \<noteq> []" using assms(5) by (auto simp: classify_def)
  have pos: "0 < crt_ID c" using assms(4) by (simp add: usable_def split: if_splits)
  obtain w rest where s: "sort_key rank_key ?cs = w # rest"
    using cin by (cases "sort_key rank_key ?cs") (metis empty_iff empty_set set_sort, blast)
  have sub: "set (w # rest) = set ?cs" by (metis s set_sort)
  obtain x where x: "find (\<lambda>(a, cl). crt_ID a = crt_ID c) (w # rest) = Some x"
  proof (cases "find (\<lambda>(a, cl). crt_ID a = crt_ID c) (w # rest)")
    case None
    then have "\<not> (\<exists>y. y \<in> set (w # rest) \<and> (case y of (a, cl) \<Rightarrow> crt_ID a = crt_ID c))"
      unfolding find_None_iff .
    with cin sub show thesis by blast
  qed
  have xc: "x = (c, classify toASCII c ds)"
  proof -
    from find_SomeD [OF x] sub obtain a cl where a: "x = (a, cl)" "crt_ID a = crt_ID c" "(a, cl) \<in> set ?cs" by fastforce
    then have "a \<in> set list" "cl = classify toASCII a ds" by (simp_all add: set_candidates)
    moreover from this(1) a(2) assms(1,2) have "a = c" by (metis distinct_map inj_onD)
    ultimately show ?thesis using a(1) by simp
  qed
  obtain a cl where w: "w = (a, cl)" by fastforce
  with sub have "(a, cl) \<in> set ?cs" by auto
  then have "a \<in> set list" "usable a now1" "cl = classify toASCII a ds" by (simp_all only: set_candidates)
  with assms(7) w have "classify toASCII c ds \<le> snd w" by simp
  with s x xc pos have "best toASCII ds list (crt_ID c) now1 = Some (selection_of toASCII ds (c, classify toASCII c ds) True)"
    by (simp add: best_def)
  then show ?thesis
    using assms(3,6) ds by (simp add: Resolve_def resolveAuto_def selection_of_def zero_selection_def)
qed

theorem attached_certificate_stays_witness:
  "\<exists>sel. Resolve (\<lambda>_. None) AutoSpec [''a.example.com''] [ex_wild\<lparr> crt_ID := 1 \<rparr>, ex_wild] ex_opts 1000 1000 = Inr sel
    \<and> sel_ID sel = 4 \<and> sel_Kept sel"
proof -
  have c: "ex_wild \<in> set [ex_wild\<lparr> crt_ID := 1 \<rparr>, ex_wild]" by simp
  have h: "distinct (map crt_ID [ex_wild\<lparr> crt_ID := 1 \<rparr>, ex_wild])" "co_Current ex_opts = crt_ID ex_wild"
    "usable ex_wild 1000" "classify (\<lambda>_. None) ex_wild [''a.example.com''] \<noteq> ClassNone" "s_Mode AutoSpec = ModeAuto"
    by code_simp+
  have m: "\<forall>c'\<in>set [ex_wild\<lparr> crt_ID := 1 \<rparr>, ex_wild]. usable c' 1000 \<longrightarrow>
      classify (\<lambda>_. None) ex_wild [''a.example.com''] \<le> classify (\<lambda>_. None) c' [''a.example.com'']"
    by code_simp
  have i: "crt_ID ex_wild = 4" by (simp add: ex_wild_def)
  from attached_certificate_stays [OF c h m] i show ?thesis by auto
qed

text \<open>C18: the answer does not depend on the order in which the server lists its certificates, for
  every mode and every partial-coverage policy, and neither does the text the poll compares.\<close>

theorem selection_order_independent:
  assumes "distinct (map crt_ID xs)" "distinct (map crt_ID ys)" "set xs = set ys"
  shows "Resolve toASCII spec ds xs opts now1 now2 = Resolve toASCII spec ds ys opts now1 now2
    \<and> certs_Hash toASCII xs = certs_Hash toASCII ys"
proof -
  have id: "certByID xs i = certByID ys i" if "i \<in> crt_ID ` set xs" for i
  proof -
    from that obtain c where "c \<in> set xs" "i = crt_ID c" by blast
    with certByID_found [OF assms(1), of c] certByID_found [OF assms(2), of c] assms(3) show ?thesis by simp
  qed
  have sel: "certByID xs (sel_ID s) = certByID ys (sel_ID s)"
    if "best toASCII d ys cur n = Some s" for d cur n s
    using that
  proof (rule best_sound)
    fix c assume "c \<in> set ys" "sel_ID s = crt_ID c"
    with assms(3) show ?thesis by (intro id) simp
  qed
  note b = best_set_cong [OF assms] byID_set_cong [OF assms]
  have "Resolve toASCII spec ds xs opts now1 now2 = Resolve toASCII spec ds ys opts now1 now2"
    by (cases "s_Mode spec") (simp_all add: Resolve_def resolveAuto_def b sel split: option.split)
  then show ?thesis by (simp add: certs_Hash_def b)
qed

theorem selection_order_independent_witness:
  "certs_Hash (\<lambda>_. None) [ex_wild, ex_exact] = certs_Hash (\<lambda>_. None) [ex_exact, ex_wild]"
proof -
  have "distinct (map crt_ID [ex_wild, ex_exact])" "distinct (map crt_ID [ex_exact, ex_wild])" by code_simp+
  moreover have "set [ex_wild, ex_exact] = set [ex_exact, ex_wild]" by auto
  ultimately show ?thesis using selection_order_independent by blast
qed

text \<open>RFC 6125. A wildcard name covers a domain exactly when the domain is one non-empty label
  in front of the wildcard's parent: neither the parent itself nor a deeper subdomain.\<close>

theorem wildcard_one_label:
  "wildcardMatch pattern domain \<longleftrightarrow>
   (\<exists>label parent. pattern = ''*.'' @ parent \<and> parent \<noteq> [] \<and> label \<noteq> [] \<and> CHR ''.'' \<notin> set label
      \<and> domain = label @ ''.'' @ parent)"
  unfolding wildcardMatch_iff by auto

end
