(* ===== verification/Dialect.thy ===== *)
theory Dialect
  imports Models
begin

text \<open>
  The dialect of the server (\<open>internal/npm/flavor.go\<close>, \<open>internal/npm/capabilities.go\<close>): the
  resource kinds, the flavour and version, the write schema read from the server, and the
  built-in knowledge used when the server serves no schema.

  A JSON document is an abstract syntax tree; a repeated member name takes its last value, as
  \<open>encoding/json\<close> does. A type mismatch makes decoding fail, which the code turns into
  "no fields" or an error.
\<close>

section \<open>Kinds\<close>

datatype Kind = KindProxy | KindRedirect | KindStream | KindDead

definition Kinds :: "Kind list" where
  "Kinds = [KindProxy, KindRedirect, KindStream, KindDead]"

fun kind_Path :: "Kind \<Rightarrow> string" where
  "kind_Path KindProxy = ''/api/nginx/proxy-hosts''"
| "kind_Path KindRedirect = ''/api/nginx/redirection-hosts''"
| "kind_Path KindStream = ''/api/nginx/streams''"
| "kind_Path KindDead = ''/api/nginx/dead-hosts''"

fun kind_name :: "Kind \<Rightarrow> string" where
  "kind_name KindProxy = ''proxy''"
| "kind_name KindRedirect = ''redirect''"
| "kind_name KindStream = ''stream''"
| "kind_name KindDead = ''dead''"

fun kind_String :: "Kind \<Rightarrow> string" where
  "kind_String KindProxy = ''proxy''"
| "kind_String KindRedirect = ''redirect''"
| "kind_String KindStream = ''stream''"
| "kind_String KindDead = ''dead''"

fun kind_Label :: "Kind \<Rightarrow> string" where
  "kind_Label KindProxy = ''proxy host''"
| "kind_Label KindRedirect = ''redirection host''"
| "kind_Label KindStream = ''stream''"
| "kind_Label KindDead = ''404 host''"

lemma set_Kinds [simp]: "set Kinds = UNIV"
  by (auto simp: Kinds_def) (metis Kind.exhaust)

lemma distinct_Kinds [simp]: "distinct Kinds"
  by (simp add: Kinds_def)

lemma kind_Path_inj: "kind_Path k = kind_Path k' \<Longrightarrow> k = k'"
  by (cases k; cases k') simp_all

section \<open>Flavour and version\<close>

datatype Flavour = FlavourAuto | FlavourNPMplus | FlavourNPM

definition ParseFlavour :: "string \<Rightarrow> string + Flavour" where
  "ParseFlavour raw =
     (let f = to_lower (trim_space raw) in
      if f \<in> set [[], ''auto'', ''detect''] then Inr FlavourAuto
      else if f \<in> set [''npmplus'', ''npm-plus'', ''plus''] then Inr FlavourNPMplus
      else if f \<in> set [''npm'', ''nginx-proxy-manager'', ''upstream''] then Inr FlavourNPM
      else Inl raw)"

record Version =
  v_Major :: int
  v_Minor :: int
  v_Revision :: int

definition zero_version :: Version where
  "zero_version = \<lparr> v_Major = 0, v_Minor = 0, v_Revision = 0 \<rparr>"

definition v_IsZero :: "Version \<Rightarrow> bool" where
  "v_IsZero v \<longleftrightarrow> v = zero_version"

definition AtLeast :: "Version \<Rightarrow> int \<Rightarrow> int \<Rightarrow> bool" where
  "AtLeast v major minor =
     (if v_IsZero v then True
      else if v_Major v \<noteq> major then v_Major v > major
      else v_Minor v \<ge> minor)"

section \<open>JSON access\<close>

definition obj_get :: "(string \<times> json) list \<Rightarrow> string \<Rightarrow> json option" where
  "obj_get fs k = map_of (rev fs) k"

text \<open>\<open>versionShape\<close>: the first byte of the raw value tells an object from a string.\<close>

fun versionShape :: "json option \<Rightarrow> char option" where
  "versionShape (Some (JObj _)) = Some (CHR ''{'')"
| "versionShape (Some (JStr _)) = Some CHR 0x22"
| "versionShape _ = None"

fun opt_int :: "json option \<Rightarrow> int option" where
  "opt_int None = Some 0"
| "opt_int (Some v) = (case json_int v of Inr n \<Rightarrow> Some n | Inl _ \<Rightarrow> None)"

fun parseVersion :: "json option \<Rightarrow> Version" where
  "parseVersion (Some (JObj fs)) =
     (case (opt_int (obj_get fs ''major''), opt_int (obj_get fs ''minor''), opt_int (obj_get fs ''revision'')) of
        (Some a, Some b, Some c) \<Rightarrow> \<lparr> v_Major = a, v_Minor = b, v_Revision = c \<rparr>
      | _ \<Rightarrow> zero_version)"
| "parseVersion _ = zero_version"

section \<open>The write schema\<close>

record Property =
  p_Type :: string
  p_Enum :: "string list"

type_synonym WriteSchema = "Kind \<rightharpoonup> (string \<rightharpoonup> Property)"

record Dialect =
  d_Flavour :: Flavour
  d_Version :: Version
  d_Schema :: WriteSchema
  d_MetaRetired :: bool

abbreviation SchemeAuto :: string where "SchemeAuto \<equiv> ''auto''"
abbreviation SchemeKeep :: string where "SchemeKeep \<equiv> ''$scheme''"
abbreviation fieldProxyProtocol :: string where "fieldProxyProtocol \<equiv> ''npmplus_proxy_protocol_forwarding''"

definition legacyProxySwitches :: "string list" where
  "legacyProxySwitches = [''allow_websocket_upgrade'', ''http2_support'', ''block_exploits'',
     ''caching_enabled'', ''trust_forwarded_proto'']"

definition columnFields :: "string list" where
  "columnFields = [''npmplus_directory'', ''npmplus_dns_challenge'', ''npmplus_dns_provider'',
     ''npmplus_dns_provider_credentials'', ''npmplus_propagation_seconds'']"

definition assumes_npm :: "Dialect \<Rightarrow> Kind \<Rightarrow> string \<Rightarrow> bool" where
  "assumes_npm d kind field =
     (if has_prefix field ''npmplus_'' \<or> has_prefix field ''locations/npmplus_'' then False
      else if field = ''trust_forwarded_proto'' then AtLeast (d_Version d) 2 12
      else if kind = KindStream \<and> field = ''certificate_id'' then AtLeast (d_Version d) 2 12
      else True)"

definition assumes_npmplus :: "Dialect \<Rightarrow> Kind \<Rightarrow> string \<Rightarrow> bool" where
  "assumes_npmplus d kind field =
     (let retired = d_MetaRetired d in
      if field = ''meta'' \<or> field = ''locations/npmplus_location_config'' then \<not> retired
      else if field \<in> set columnFields then retired
      else if kind = KindProxy \<and> field \<in> set legacyProxySwitches then \<not> retired
      else if kind = KindRedirect \<and> (field = ''block_exploits'' \<or> field = ''http2_support'') then \<not> retired
      else if kind = KindDead \<and> field = ''http2_support'' then \<not> retired
      else True)"

definition d_assumes :: "Dialect \<Rightarrow> Kind \<Rightarrow> string \<Rightarrow> bool" where
  "d_assumes d kind field =
     (if d_Flavour d = FlavourNPM then assumes_npm d kind field else assumes_npmplus d kind field)"

definition Accepts :: "Dialect \<Rightarrow> Kind \<Rightarrow> string \<Rightarrow> bool" where
  "Accepts d kind field =
     (case d_Schema d kind of Some flds \<Rightarrow> flds field \<noteq> None | None \<Rightarrow> d_assumes d kind field)"

definition TypeOf :: "Dialect \<Rightarrow> Kind \<Rightarrow> string \<Rightarrow> string" where
  "TypeOf d kind field =
     (case d_Schema d kind of
        Some flds \<Rightarrow> (case flds field of Some p \<Rightarrow> p_Type p | None \<Rightarrow> [])
      | None \<Rightarrow>
          if d_Flavour d = FlavourNPMplus \<and> kind = KindStream \<and> field = fieldProxyProtocol
          then if d_MetaRetired d then ''integer'' else ''boolean''
          else [])"

definition AcceptsValue :: "Dialect \<Rightarrow> Kind \<Rightarrow> string \<Rightarrow> string \<Rightarrow> bool" where
  "AcceptsValue d kind field val =
     (case d_Schema d kind of
        Some flds \<Rightarrow> (case flds field of None \<Rightarrow> False | Some p \<Rightarrow> p_Enum p = [] \<or> val \<in> set (p_Enum p))
      | None \<Rightarrow>
          if kind = KindRedirect \<and> field = ''forward_scheme'' then
            if d_Flavour d = FlavourNPM then val \<noteq> SchemeKeep
            else if d_MetaRetired d then val \<noteq> SchemeAuto
            else True
          else True)"

definition SupportsTrustForwardedProto :: "Dialect \<Rightarrow> bool" where
  "SupportsTrustForwardedProto d = Accepts d KindProxy ''trust_forwarded_proto''"

definition SupportsStreamCertificate :: "Dialect \<Rightarrow> bool" where
  "SupportsStreamCertificate d = Accepts d KindStream ''certificate_id''"

definition advancedField :: "Kind \<Rightarrow> string" where
  "advancedField kind = (if kind = KindStream then ''npmplus_advanced_config'' else ''advanced_config'')"

definition CarriesMarker :: "Dialect \<Rightarrow> Kind \<Rightarrow> bool" where
  "CarriesMarker d kind = Accepts d kind (advancedField kind)"

definition KeepsOwnership :: "Dialect \<Rightarrow> Kind \<Rightarrow> bool" where
  "KeepsOwnership d kind \<longleftrightarrow> CarriesMarker d kind \<or> Accepts d kind ''meta''"

lemmas dialect_defs = Accepts_def d_assumes_def assumes_npm_def assumes_npmplus_def

text \<open>Without a schema, every kind has a place for its owner on every known server.\<close>

lemma keeps_ownership_no_schema: "d_Schema d kind = None \<Longrightarrow> KeepsOwnership d kind"
  by (cases kind)
     (auto simp: KeepsOwnership_def CarriesMarker_def advancedField_def dialect_defs has_prefix_def
       columnFields_def legacyProxySwitches_def Let_def)

text \<open>The version table: the zero version counts as new, the rest is the lexicographic order.\<close>

lemma AtLeast_mono:
  "AtLeast v major minor \<Longrightarrow> minor' \<le> minor \<Longrightarrow> AtLeast v major minor'"
  by (auto simp: AtLeast_def split: if_splits)

section \<open>Parsing the schema document\<close>

text \<open>The members of a Go map or struct decoded from JSON: \<open>null\<close> is the empty map, any other
  non-object is a decoding error.\<close>

fun members :: "json option \<Rightarrow> (string \<times> json) list option" where
  "members None = Some []"
| "members (Some JNull) = Some []"
| "members (Some (JObj fs)) = Some fs"
| "members (Some _) = None"

fun elements :: "json option \<Rightarrow> json list option" where
  "elements None = Some []"
| "elements (Some JNull) = Some []"
| "elements (Some (JArr xs)) = Some xs"
| "elements (Some _) = None"

fun struct_field :: "(string \<times> json) list option \<Rightarrow> string \<Rightarrow> json option" where
  "struct_field (Some fs) k = obj_get fs k"
| "struct_field None k = None"

datatype schemaProperty = SchemaProperty (sp_Type: "json option") (sp_EnumRaw: "json list")
  (sp_Items: "(string \<times> schemaProperty) list")

fun all_some :: "'a option list \<Rightarrow> 'a list option" where
  "all_some [] = Some []"
| "all_some (None # xs) = None"
| "all_some (Some x # xs) = map_option (Cons x) (all_some xs)"

text \<open>The nested members of \<open>items.properties\<close>; \<open>None\<close> for a type mismatch on the way.\<close>

definition item_properties :: "(string \<times> json) list \<Rightarrow> (string \<times> json) list option" where
  "item_properties fs =
     (case members (obj_get fs ''items'') of
        None \<Rightarrow> None
      | Some items \<Rightarrow> members (obj_get items ''properties''))"

lemma obj_get_size: "obj_get fs k = Some v \<Longrightarrow> size v < size (JObj fs)"
proof -
  assume "obj_get fs k = Some v"
  then have "(k, v) \<in> set fs" by (auto simp: obj_get_def dest: map_of_SomeD)
  then show ?thesis by (induction fs) auto
qed

lemma members_size: "members j = Some fs \<Longrightarrow> (k, v) \<in> set fs \<Longrightarrow> \<exists>x. j = Some x \<and> size v < size x"
proof (induction j rule: members.induct)
  case (3 gs)
  then have "(k, v) \<in> set gs" by simp
  then have "size v < size (JObj gs)" by (induction gs) auto
  then show ?case by simp
qed auto

lemma item_properties_size:
  assumes "item_properties fs = Some kids" "(k, v) \<in> set kids"
  shows "size v < size (JObj fs)"
proof -
  obtain items where i: "members (obj_get fs ''items'') = Some items"
      "members (obj_get items ''properties'') = Some kids"
    using assms(1) by (auto simp: item_properties_def split: option.splits)
  obtain x where x: "obj_get items ''properties'' = Some x" "size v < size x"
    using members_size [OF i(2) assms(2)] by blast
  have "(''properties'', x) \<in> set items" using x(1) by (auto simp: obj_get_def dest: map_of_SomeD)
  from members_size [OF i(1) this] obtain y where "obj_get fs ''items'' = Some y" "size x < size y" by blast
  with x(2) obj_get_size [of fs "''items''" y] show ?thesis by simp
qed

function decodeProperty :: "json \<Rightarrow> schemaProperty option" where
  "decodeProperty JNull = Some (SchemaProperty None [] [])"
| "decodeProperty (JObj fs) =
     (case (elements (obj_get fs ''enum''), item_properties fs) of
        (Some enum, Some kids) \<Rightarrow>
          map_option (SchemaProperty (obj_get fs ''type'') enum)
            (all_some (map (\<lambda>(k, v). map_option (Pair k) (decodeProperty v)) kids))
      | _ \<Rightarrow> None)"
| "decodeProperty (JBool b) = None"
| "decodeProperty (JNum n) = None"
| "decodeProperty (JStr s) = None"
| "decodeProperty (JArr xs) = None"
  by pat_completeness auto
termination
  by (relation "measure size") (use item_properties_size [OF sym] in \<open>auto\<close>)

text \<open>The JSON text of a value, kept for enum entries that are not strings.\<close>

fun json_text :: "json \<Rightarrow> string" where
  "json_text JNull = ''null''"
| "json_text (JBool b) = (if b then ''true'' else ''false'')"
| "json_text (JNum n) = n"
| "json_text (JStr s) = CHR 0x22 # s @ [CHR 0x22]"
| "json_text (JArr xs) = ''['' @ join '','' (map json_text xs) @ '']''"
| "json_text (JObj fs) = ''{'' @ join '','' (map (\<lambda>(k, v). CHR 0x22 # k @ [CHR 0x22] @ '':'' @ json_text v) fs) @ ''}''"

fun enum_text :: "json \<Rightarrow> string" where
  "enum_text JNull = []"
| "enum_text (JStr s) = s"
| "enum_text v = json_text v"

fun type_text :: "json option \<Rightarrow> string" where
  "type_text (Some (JStr s)) = s"
| "type_text _ = []"

definition property_of :: "schemaProperty \<Rightarrow> Property" where
  "property_of p = \<lparr> p_Type = type_text (sp_Type p), p_Enum = map enum_text (sp_EnumRaw p) \<rparr>"

definition decodeProperties :: "(string \<times> json) list \<Rightarrow> (string \<times> schemaProperty) list option" where
  "decodeProperties fs = all_some (map (\<lambda>(k, v). map_option (Pair k) (decodeProperty v)) fs)"

definition property_fields :: "string \<times> schemaProperty \<Rightarrow> (string \<times> Property) list" where
  "property_fields = (\<lambda>(name, p). (name, property_of p) #
     (if name = ''locations''
      then map (\<lambda>(nested, q). (''locations/'' @ nested, property_of q)) (sp_Items p) else []))"

text \<open>\<open>requestFields\<close>: \<open>None\<close> for an absent operation, a decoding error, no JSON body or no
  properties. Every content entry has to decode, not only the JSON one.\<close>

definition decodeContent :: "json \<Rightarrow> (string \<times> schemaProperty) list option" where
  "decodeContent c =
     (case members (Some c) of
        None \<Rightarrow> None
      | Some fs \<Rightarrow>
          (case members (obj_get fs ''schema'') of
             None \<Rightarrow> None
           | Some sch \<Rightarrow>
               (case members (obj_get sch ''properties'') of
                  None \<Rightarrow> None
                | Some props \<Rightarrow> decodeProperties props)))"

definition requestFields :: "json option \<Rightarrow> (string \<rightharpoonup> Property) option" where
  "requestFields operation =
     (case operation of
        None \<Rightarrow> None
      | Some op \<Rightarrow>
          (case members (Some op) of
             None \<Rightarrow> None
           | Some fs \<Rightarrow>
               (case members (obj_get fs ''requestBody'') of
                  None \<Rightarrow> None
                | Some body \<Rightarrow>
                    (case members (obj_get body ''content'') of
                       None \<Rightarrow> None
                     | Some content \<Rightarrow>
                         (case all_some (map (\<lambda>(k, v). map_option (Pair k) (decodeContent v)) content) of
                            None \<Rightarrow> None
                          | Some decoded \<Rightarrow>
                              (case map_of (rev decoded) ''application/json'' of
                                 None \<Rightarrow> None
                               | Some props \<Rightarrow>
                                   if props = [] then None
                                   else Some (map_of (rev (concat (map property_fields props))))))))))"

definition isItemPath :: "string \<Rightarrow> string \<Rightarrow> bool" where
  "isItemPath base path =
     (case cut_prefix (base @ ''/'') path of
        None \<Rightarrow> False
      | Some rest \<Rightarrow> has_prefix rest ''{'' \<and> cut_suffix ''}'' rest \<noteq> None \<and> CHR ''/'' \<notin> set rest)"

definition merge_fields :: "(string \<rightharpoonup> Property) list \<Rightarrow> (string \<rightharpoonup> Property)" where
  "merge_fields sets = (\<lambda>f. if list_all (\<lambda>s. s f \<noteq> None) (tl sets) then hd sets f else None)"

text \<open>The field sets of one kind, in the order the code collects them: the POST of the
  collection, then the PUT of every item path.\<close>

definition kind_sets :: "(string \<times> (string \<times> json) list) list \<Rightarrow> Kind \<Rightarrow> (string \<rightharpoonup> Property) list" where
  "kind_sets paths kind =
     (let base = trim_prefix (kind_Path kind) ''/api'' in
      (case map_of paths base of
         None \<Rightarrow> []
       | Some methods \<Rightarrow> (case requestFields (obj_get methods ''post'') of None \<Rightarrow> [] | Some f \<Rightarrow> [f]))
      @ List.map_filter (\<lambda>(path, methods).
          if isItemPath base path then requestFields (obj_get methods ''put'') else None) paths)"

datatype schema_error = NotJsonObject | NoPaths | NoCollections

definition decodePaths :: "json \<Rightarrow> (string \<times> (string \<times> json) list) list option" where
  "decodePaths raw =
     (case members (Some raw) of
        None \<Rightarrow> None
      | Some fs \<Rightarrow>
          (case members (obj_get fs ''paths'') of
             None \<Rightarrow> None
           | Some ps \<Rightarrow> map_option (\<lambda>xs. AList.clearjunk (rev xs))
               (all_some (map (\<lambda>(p, m). map_option (Pair p) (members (Some m))) ps))))"

definition parseWriteSchema :: "json \<Rightarrow> schema_error + WriteSchema" where
  "parseWriteSchema raw =
     (case decodePaths raw of
        None \<Rightarrow> Inl NotJsonObject
      | Some paths \<Rightarrow>
          if paths = [] then Inl NoPaths
          else if list_all (\<lambda>k. kind_sets paths k = []) Kinds then Inl NoCollections
          else Inr (\<lambda>k. if kind_sets paths k = [] then None else Some (merge_fields (kind_sets paths k))))"

text \<open>Without a schema, the shape of a listed host tells the generation of NPMplus.\<close>

definition metaRetiredFrom :: "(string \<times> json) list \<Rightarrow> bool option" where
  "metaRetiredFrom host =
     (if has_key host ''npmplus_directory'' then Some True
      else if has_key host ''npmplus_nginx_online'' then Some True
      else if has_key host ''meta'' then Some False
      else None)"

datatype flavour_source = FromHostSchema | FromVersionObject | FromVersionString | FromDefault

fun flavourOf :: "(string \<times> json) list list \<Rightarrow> json option \<Rightarrow> Flavour \<times> flavour_source" where
  "flavourOf (host # hosts) version =
     (if list_ex (\<lambda>(k, _). has_prefix k ''npmplus_'') host then (FlavourNPMplus, FromHostSchema)
      else if has_key host ''access_list_id'' then (FlavourNPM, FromHostSchema)
      else flavourOf hosts version)"
| "flavourOf [] version =
     (case versionShape version of
        Some c \<Rightarrow> if c = CHR ''{'' then (FlavourNPM, FromVersionObject) else (FlavourNPMplus, FromVersionString)
      | None \<Rightarrow> (FlavourNPMplus, FromDefault))"

text \<open>\<open>readCapabilities\<close>: a schema decides; without one the host shape, when it is conclusive.\<close>

definition readCapabilities :: "Dialect \<Rightarrow> schema_error + WriteSchema \<Rightarrow> (string \<times> json) list list \<Rightarrow> Dialect" where
  "readCapabilities d schema hosts =
     (case schema of
        Inr s \<Rightarrow> d\<lparr> d_Schema := s, d_MetaRetired := False \<rparr>
      | Inl _ \<Rightarrow>
          (case first_some metaRetiredFrom hosts of
             Some r \<Rightarrow> d\<lparr> d_Schema := Map.empty, d_MetaRetired := r \<rparr>
           | None \<Rightarrow> d\<lparr> d_Schema := Map.empty \<rparr>))"

text \<open>A field a merged schema accepts is accepted by the create and the update body alike.\<close>

lemma merge_fields_accepts:
  "sets \<noteq> [] \<Longrightarrow> merge_fields sets f \<noteq> None \<longleftrightarrow> (\<forall>s\<in>set sets. s f \<noteq> None)"
  by (cases sets) (auto simp: merge_fields_def list_all_iff)

lemma isItemPath_base: "\<not> isItemPath base base"
  by (auto simp: isItemPath_def cut_prefix_Some split: option.splits)

lemma flavourOf_not_auto: "fst (flavourOf hosts version) \<noteq> FlavourAuto"
  by (induction hosts version rule: flavourOf.induct) (auto split: option.splits)

end
