(* ===== verification/Target.thy ===== *)
theory Target
  imports Certs Dialect
begin

text \<open>
  Containers and desired targets (\<open>internal/docker/target.go\<close>): the container data the parser
  reads, the target of one resource, the snapshot of one run with its protected containers, and
  the choice of upstream host and port. Labels are a Go map and their order is the order in
  which the runtime iterates it.
\<close>

section \<open>IPv4 addresses\<close>

text \<open>\<open>net.ParseIP\<close> followed by \<open>To4\<close>: a dotted quad without leading zeros, or an IPv6 text whose
  value is an IPv4-mapped address.\<close>

definition v4_field :: "string \<Rightarrow> nat option" where
  "v4_field f =
     (if length f > 3 \<or> (length f > 1 \<and> hd f = CHR ''0'') then None
      else case parse_nat f of None \<Rightarrow> None | Some n \<Rightarrow> if n \<le> 255 then Some n else None)"

fun all_of :: "('a \<Rightarrow> 'b option) \<Rightarrow> 'a list \<Rightarrow> 'b list option" where
  "all_of f [] = Some []"
| "all_of f (x # xs) = (case f x of None \<Rightarrow> None | Some y \<Rightarrow> map_option (Cons y) (all_of f xs))"

definition parse_v4 :: "string \<Rightarrow> nat list option" where
  "parse_v4 s =
     (case all_of v4_field (split_on (CHR ''.'') s) of
        Some [a, b, c, d] \<Rightarrow> Some [a, b, c, d] | _ \<Rightarrow> None)"

definition hex_val :: "char \<Rightarrow> nat option" where
  "hex_val c = (if is_digit c then Some (digit_val c)
     else if CHR ''a'' \<le> lower_char c \<and> lower_char c \<le> CHR ''f'' then Some (of_char (lower_char c) - 87)
     else None)"

definition v6_group :: "string \<Rightarrow> nat option" where
  "v6_group g =
     (if g = [] \<or> length g > 4 then None
      else map_option (foldl (\<lambda>a d. 16 * a + d) 0) (all_of hex_val g))"

text \<open>The groups of one side of the \<open>::\<close>; the last group of the address may be a dotted quad.\<close>

definition v6_groups :: "bool \<Rightarrow> string \<Rightarrow> nat list option" where
  "v6_groups final s =
     (if s = [] then Some []
      else let gs = split_on (CHR '':'') s in
        if final \<and> CHR ''.'' \<in> set (last gs) then
          (case (all_of v6_group (butlast gs), parse_v4 (last gs)) of
             (Some xs, Some [a, b, c, d]) \<Rightarrow> Some (xs @ [256 * a + b, 256 * c + d])
           | _ \<Rightarrow> None)
        else all_of v6_group gs)"

fun cut_ellipsis :: "string \<Rightarrow> (string \<times> string) option" where
  "cut_ellipsis (a # b # r) = (if a = CHR '':'' \<and> b = CHR '':'' then Some ([], r)
     else map_option (apfst (Cons a)) (cut_ellipsis (b # r)))"
| "cut_ellipsis _ = None"

definition parse_v6 :: "string \<Rightarrow> nat list option" where
  "parse_v6 s =
     (case cut_ellipsis s of
        None \<Rightarrow> (case v6_groups True s of Some xs \<Rightarrow> if length xs = 8 then Some xs else None | None \<Rightarrow> None)
      | Some (l, r) \<Rightarrow>
          (case (v6_groups False l, v6_groups True r) of
             (Some xs, Some ys) \<Rightarrow>
               if length xs + length ys \<le> 7 then Some (xs @ replicate (8 - (length xs + length ys)) 0 @ ys) else None
           | _ \<Rightarrow> None))"

definition isIPv4 :: "string \<Rightarrow> bool" where
  "isIPv4 raw =
     (if raw = [] then False
      else case find (\<lambda>c. c = CHR ''.'' \<or> c = CHR '':'') raw of
        None \<Rightarrow> False
      | Some c \<Rightarrow>
          if c = CHR ''.'' then parse_v4 raw \<noteq> None
          else (case parse_v6 raw of
                  Some [0, 0, 0, 0, 0, m, _, _] \<Rightarrow> m = 65535
                | _ \<Rightarrow> False))"

section \<open>Containers\<close>

record Network =
  nw_Name :: string
  nw_IPv4 :: string
  nw_IPv6 :: string
  nw_Aliases :: "string list"

record PortBinding =
  pb_Private :: int
  pb_Public :: int
  pb_Type :: string

record Container =
  c_ID :: string
  c_Name :: string
  c_Labels :: "(string \<times> string) list"
  c_Networks :: "Network list"
  c_Ports :: "PortBinding list"
  c_State :: string

definition c_Running :: "Container \<Rightarrow> bool" where
  "c_Running c \<longleftrightarrow> to_lower (c_State c) \<in> set [''running'', ''restarting'', ''paused'', []]"

datatype OnStop = OnStopDisable | OnStopKeep | OnStopDelete

definition ParseOnStop :: "string \<Rightarrow> string + OnStop" where
  "ParseOnStop raw =
     (let v = to_lower (trim_space raw) in
      if v \<in> set [[], ''disable'', ''disabled'', ''off''] then Inr OnStopDisable
      else if v \<in> set [''keep'', ''ignore'', ''none''] then Inr OnStopKeep
      else if v \<in> set [''delete'', ''remove''] then Inr OnStopDelete
      else Inl raw)"

definition DefaultPortPreference :: "int list" where
  "DefaultPortPreference = [80, 8080, 3000, 8000, 443]"

definition networks_by_name :: "Network list \<Rightarrow> string \<Rightarrow> Network option" where
  "networks_by_name ns = map_of (rev (map (\<lambda>n. (nw_Name n, n)) ns))"

definition ipv4_of :: "Network option \<Rightarrow> string option" where
  "ipv4_of n = (case n of None \<Rightarrow> None | Some x \<Rightarrow> if isIPv4 (nw_IPv4 x) then Some (nw_IPv4 x) else None)"

definition IPAddress :: "Container \<Rightarrow> string list \<Rightarrow> bool \<Rightarrow> string" where
  "IPAddress c preferred strict =
     (let byName = networks_by_name (c_Networks c) in
      case first_some (\<lambda>name. ipv4_of (byName name)) preferred of
        Some ip \<Rightarrow> ip
      | None \<Rightarrow>
          if strict then []
          else case first_some (\<lambda>name. ipv4_of (byName name)) (sort (dedup (map nw_Name (c_Networks c)))) of
                 Some ip \<Rightarrow> ip
               | None \<Rightarrow> [])"

definition OnAnyNetwork :: "Container \<Rightarrow> string list \<Rightarrow> bool" where
  "OnAnyNetwork c names =
     (if names = [] then True else list_ex (\<lambda>n. nw_Name n \<in> set names) (c_Networks c))"

text \<open>\<open>ResolveHost\<close> with the options it reads: resolve, preferred networks, strict.\<close>

definition ResolveHost :: "Container \<Rightarrow> bool \<Rightarrow> string list \<Rightarrow> bool \<Rightarrow> string" where
  "ResolveHost c resolveIP prefer strict =
     (if \<not> resolveIP then
        if strict \<and> \<not> OnAnyNetwork c prefer then [] else c_Name c
      else let ip = IPAddress c prefer strict in
        if ip \<noteq> [] then ip
        else if strict then []
        else c_Name c)"

definition tcp_ports :: "Container \<Rightarrow> int list" where
  "tcp_ports c = dedup (map pb_Private
     (filter (\<lambda>p. \<not> (pb_Private p \<le> 0 \<or> (pb_Type p \<noteq> [] \<and> pb_Type p \<noteq> ''tcp''))) (c_Ports c)))"

definition GuessPort :: "Container \<Rightarrow> int list \<Rightarrow> int option" where
  "GuessPort c preference =
     (let tcp = tcp_ports c in
      case tcp of
        [] \<Rightarrow> None
      | [p] \<Rightarrow> Some p
      | _ \<Rightarrow> find (\<lambda>want. want \<in> set tcp) (if preference = [] then DefaultPortPreference else preference))"

definition PublishedPort :: "Container \<Rightarrow> int \<Rightarrow> int option" where
  "PublishedPort c private =
     map_option pb_Public (find (\<lambda>p. pb_Private p = private \<and> pb_Public p > 0) (c_Ports c))"

definition ExposedPorts :: "Container \<Rightarrow> int list" where
  "ExposedPorts c = sort (dedup (map pb_Private (filter (\<lambda>p. \<not> pb_Private p \<le> 0) (c_Ports c))))"

definition DedupeNetworks :: "string list \<Rightarrow> string list" where
  "DedupeNetworks names = dedup (filter (\<lambda>n. n \<noteq> []) names)"

definition NetworkNames :: "Container \<Rightarrow> string list" where
  "NetworkNames c = sort (map nw_Name (c_Networks c))"

section \<open>Targets\<close>

record Target =
  t_Kind :: Kind
  t_Index :: int
  t_ContainerID :: string
  t_ContainerName :: string
  t_Running :: bool
  t_ExplicitPlus :: "string list"
  t_Explicit :: "string list"
  t_DomainNames :: "string list"
  t_Certificate :: Spec
  t_SSLForced :: "bool option"
  t_HTTP2Support :: bool
  t_HSTSEnabled :: bool
  t_HSTSSubdomains :: bool
  t_HTTP3Support :: bool
  t_BlockExploits :: bool
  t_AdvancedConfig :: string
  t_Enabled :: bool
  t_Group :: "string option"
  t_ForwardScheme :: string
  t_ForwardHost :: string
  t_ForwardPort :: int
  t_Websockets :: bool
  t_Caching :: bool
  t_TrustForwardedProto :: bool
  t_AccessListIDs :: "int list"
  t_AccessListNames :: "string list"
  t_AccessListType :: string
  t_Locations :: "Location list"
  t_NoIndex :: bool
  t_CrowdsecAppsec :: bool
  t_RequestBuffering :: bool
  t_ResponseBuffering :: bool
  t_UpstreamCompression :: bool
  t_FancyIndex :: bool
  t_XFrameOptions :: string
  t_AuthRequest :: string
  t_AuthRequestUpstream :: string
  t_LocationConfig :: string
  t_ForwardDomainName :: string
  t_ForwardHTTPCode :: int
  t_PreservePath :: bool
  t_IncomingPort :: int
  t_ForwardingHost :: string
  t_ForwardingPort :: int
  t_TCPForwarding :: bool
  t_UDPForwarding :: bool
  t_ProxyProtocol :: int
  t_ProxyTLS :: bool
  t_Description :: string
  t_LetsEncryptEmail :: string
  t_LetsEncryptAgree :: bool
  t_DNSChallenge :: bool
  t_DNSProvider :: string
  t_DNSCredentials :: string
  t_PropagationSeconds :: int

definition t_Domains :: "Target \<Rightarrow> string list" where
  "t_Domains t = NormalizeDomains (t_DomainNames t)"

definition t_Key :: "Target \<Rightarrow> string" where
  "t_Key t =
     (if t_Kind t = KindStream then
        if t_IncomingPort t = 0 then [] else itoa (t_IncomingPort t)
      else case NormalizeDomains (t_DomainNames t) of [] \<Rightarrow> [] | d # _ \<Rightarrow> d)"

definition Complete :: "Target \<Rightarrow> bool" where
  "Complete t =
     (case t_Kind t of
        KindProxy \<Rightarrow> t_ForwardHost t \<noteq> [] \<and> t_ForwardPort t > 0
      | KindStream \<Rightarrow> t_ForwardingHost t \<noteq> [] \<and> t_IncomingPort t > 0 \<and> t_ForwardingPort t > 0
      | _ \<Rightarrow> t_DomainNames t \<noteq> [])"

definition zero_target :: "Kind \<Rightarrow> Target" where
  "zero_target k = \<lparr> t_Kind = k, t_Index = 0, t_ContainerID = [], t_ContainerName = [], t_Running = False,
     t_ExplicitPlus = [], t_Explicit = [], t_DomainNames = [], t_Certificate = spec_of ModeAuto [],
     t_SSLForced = None, t_HTTP2Support = False, t_HSTSEnabled = False, t_HSTSSubdomains = False,
     t_HTTP3Support = False, t_BlockExploits = False, t_AdvancedConfig = [], t_Enabled = False, t_Group = None,
     t_ForwardScheme = [], t_ForwardHost = [], t_ForwardPort = 0, t_Websockets = False, t_Caching = False,
     t_TrustForwardedProto = False, t_AccessListIDs = [], t_AccessListNames = [], t_AccessListType = [],
     t_Locations = [], t_NoIndex = False, t_CrowdsecAppsec = False, t_RequestBuffering = False,
     t_ResponseBuffering = False, t_UpstreamCompression = False, t_FancyIndex = False, t_XFrameOptions = [],
     t_AuthRequest = [], t_AuthRequestUpstream = [], t_LocationConfig = [], t_ForwardDomainName = [],
     t_ForwardHTTPCode = 0, t_PreservePath = False, t_IncomingPort = 0, t_ForwardingHost = [],
     t_ForwardingPort = 0, t_TCPForwarding = False, t_UDPForwarding = False, t_ProxyProtocol = 0,
     t_ProxyTLS = False, t_Description = [], t_LetsEncryptEmail = [], t_LetsEncryptAgree = False,
     t_DNSChallenge = False, t_DNSProvider = [], t_DNSCredentials = [], t_PropagationSeconds = 0 \<rparr>"

section \<open>Snapshots\<close>

record Summary =
  sm_Managed :: nat
  sm_OptedOut :: nat
  sm_Unlabeled :: nat
  sm_Stopped :: nat

record Snapshot =
  snap_Targets :: "Target list"
  snap_Protected :: "string list"
  snap_Summary :: Summary
  snap_Containers :: nat

definition IsProtected :: "Snapshot \<Rightarrow> string \<Rightarrow> string \<Rightarrow> bool" where
  "IsProtected s name i =
     (if snap_Protected s = [] then False
      else if name \<noteq> [] \<and> name \<in> set (snap_Protected s) then True
      else i \<noteq> [] \<and> i \<in> set (snap_Protected s))"

section \<open>Lemmas\<close>

lemma GuessPort_exposed: "GuessPort c pref = Some p \<Longrightarrow> p \<in> set (tcp_ports c)"
  by (auto simp: GuessPort_def Let_def find_Some_iff split: list.splits)

lemma tcp_ports_pos: "p \<in> set (tcp_ports c) \<Longrightarrow> 0 < p"
  by (auto simp: tcp_ports_def)

lemma IPAddress_strict:
  assumes "IPAddress c pref True \<noteq> []"
  shows "\<exists>n\<in>set (c_Networks c). nw_Name n \<in> set pref \<and> nw_IPv4 n = IPAddress c pref True \<and> isIPv4 (nw_IPv4 n)"
proof -
  obtain ip where ip: "first_some (\<lambda>name. ipv4_of (networks_by_name (c_Networks c) name)) pref = Some ip"
      "IPAddress c pref True = ip"
    using assms by (auto simp: IPAddress_def Let_def split: option.splits)
  from first_some_Some [OF ip(1)] obtain name n where n: "name \<in> set pref"
      "networks_by_name (c_Networks c) name = Some n" "isIPv4 (nw_IPv4 n)" "nw_IPv4 n = ip"
    by (auto simp: ipv4_of_def split: option.splits if_splits)
  from n(2) have "(name, n) \<in> set (rev (map (\<lambda>n. (nw_Name n, n)) (c_Networks c)))"
    unfolding networks_by_name_def by (rule map_of_SomeD)
  with n ip(2) show ?thesis by auto
qed

lemma isIPv4_not_Nil: "isIPv4 s \<Longrightarrow> s \<noteq> []"
  by (auto simp: isIPv4_def)

section \<open>Properties\<close>

text \<open>A guessed upstream port is real. It is a positive port some TCP binding of the
  container exposes, it is the only one or one the preference list names, and a container
  without TCP ports gets no guess.\<close>

theorem guessed_port_is_exposed:
  assumes "GuessPort c pref = Some p"
  shows "0 < p \<and> (\<exists>b\<in>set (c_Ports c). pb_Private b = p \<and> (pb_Type b = [] \<or> pb_Type b = ''tcp''))
    \<and> (tcp_ports c = [p] \<or> p \<in> set (if pref = [] then DefaultPortPreference else pref))"
proof -
  have in_tcp: "p \<in> set (tcp_ports c)" using assms by (rule GuessPort_exposed)
  have "tcp_ports c = [p] \<or> p \<in> set (if pref = [] then DefaultPortPreference else pref)"
    using assms by (auto simp: GuessPort_def Let_def split: list.splits if_splits dest: find_SomeD)
  moreover have "\<exists>b\<in>set (c_Ports c). pb_Private b = p \<and> (pb_Type b = [] \<or> pb_Type b = ''tcp'')"
    using in_tcp by (auto simp: tcp_ports_def)
  ultimately show ?thesis using in_tcp tcp_ports_pos by blast
qed

definition ex_container :: Container where
  "ex_container = \<lparr> c_ID = ''0123456789abcdef'', c_Name = ''app'', c_Labels = [],
     c_Networks = [\<lparr> nw_Name = ''bridge'', nw_IPv4 = ''172.17.0.5'', nw_IPv6 = [], nw_Aliases = [] \<rparr>,
                   \<lparr> nw_Name = ''npm'', nw_IPv4 = ''10.0.0.9'', nw_IPv6 = [], nw_Aliases = [] \<rparr>],
     c_Ports = [\<lparr> pb_Private = 9000, pb_Public = 0, pb_Type = ''tcp'' \<rparr>,
                \<lparr> pb_Private = 8080, pb_Public = 0, pb_Type = ''tcp'' \<rparr>,
                \<lparr> pb_Private = 80, pb_Public = 0, pb_Type = ''udp'' \<rparr>], c_State = ''running'' \<rparr>"

theorem guessed_port_is_exposed_witness:
  "(8080 :: int) \<in> set DefaultPortPreference \<and> (\<exists>b. b \<in> set (c_Ports ex_container) \<and> pb_Private b = 8080)"
proof -
  have "GuessPort ex_container [] = Some 8080" by code_simp
  from guessed_port_is_exposed [OF this] have "\<exists>b\<in>set (c_Ports ex_container). pb_Private b = 8080" by blast
  moreover have "(8080 :: int) \<in> set DefaultPortPreference" by code_simp
  ultimately show ?thesis by blast
qed

text \<open>C19: the network the operator names is binding. With strict networks, the upstream host is
  empty, or an IPv4 address of the container on one of the named networks, or (without address
  resolution) the name of a container that is attached to one of them.\<close>

theorem strict_network_is_binding:
  assumes "pref \<noteq> []" "ResolveHost c resolveIP pref True \<noteq> []"
  shows "\<exists>n\<in>set (c_Networks c). nw_Name n \<in> set pref
    \<and> ResolveHost c resolveIP pref True = (if resolveIP then nw_IPv4 n else c_Name c)
    \<and> (if resolveIP then isIPv4 (nw_IPv4 n) else True)"
proof (cases resolveIP)
  case True
  with assms(2) have "ResolveHost c resolveIP pref True = IPAddress c pref True" "IPAddress c pref True \<noteq> []"
    by (auto simp: ResolveHost_def Let_def split: if_splits)
  with IPAddress_strict [of c pref] True show ?thesis by force
next
  case False
  with assms show ?thesis
    by (auto simp: ResolveHost_def OnAnyNetwork_def list_ex_iff split: if_splits)
qed

theorem strict_network_is_binding_witness:
  "\<exists>n. n \<in> set (c_Networks ex_container) \<and> nw_Name n = ''npm'' \<and> nw_IPv4 n = ''10.0.0.9''"
proof -
  have "[''npm''] \<noteq> []" "ResolveHost ex_container True [''npm''] True = ''10.0.0.9''" by (simp, code_simp)
  with strict_network_is_binding [of "[''npm'']" ex_container True] show ?thesis by auto
qed

end
