(* ===== verification/Marker.thy ===== *)
theory Marker
  imports Models
begin

text \<open>
  The ownership marker of \<open>internal/npm/marker.go\<close>: a comment line at the top of a resource's
  advanced configuration, with query-escaped values. The theory holds the part of
  \<open>net/url\<close> the marker uses, the line format and its parser, the splitting of a configuration
  into marker and user text, and the lifting of a marker into the meta object.
\<close>

section \<open>Query escaping\<close>

definition is_alnum :: "char \<Rightarrow> bool" where
  "is_alnum c \<longleftrightarrow> (CHR ''A'' \<le> c \<and> c \<le> CHR ''Z'') \<or> is_digit c \<or> (CHR ''a'' \<le> c \<and> c \<le> CHR ''z'')"

definition unreserved :: "char \<Rightarrow> bool" where
  "unreserved c \<longleftrightarrow> is_alnum c \<or> c = CHR ''-'' \<or> c = CHR ''_'' \<or> c = CHR ''.'' \<or> c = CHR ''~''"

definition hex_digit :: "nat \<Rightarrow> char" where
  "hex_digit n = (if n < 10 then char_of (48 + n) else char_of (55 + n))"

definition is_hex :: "char \<Rightarrow> bool" where
  "is_hex c \<longleftrightarrow> is_digit c \<or> CHR ''a'' \<le> c \<and> c \<le> CHR ''f'' \<or> CHR ''A'' \<le> c \<and> c \<le> CHR ''F''"

definition unhex :: "char \<Rightarrow> nat" where
  "unhex c = (if is_digit c then of_char c - 48
     else if CHR ''a'' \<le> c \<and> c \<le> CHR ''f'' then of_char c - 87 else of_char c - 55)"

definition escape_char :: "char \<Rightarrow> string" where
  "escape_char c =
     (if unreserved c then [c] else if c = CHR '' '' then ''+''
      else [CHR ''%'', hex_digit (of_char c div 16), hex_digit (of_char c mod 16)])"

definition query_escape :: "string \<Rightarrow> string" where
  "query_escape s = concat (map escape_char s)"

fun query_unescape :: "string \<Rightarrow> string option" where
  "query_unescape [] = Some []"
| "query_unescape (c # cs) =
     (if c = CHR ''%'' then
        (case cs of
           a # b # r \<Rightarrow> (if is_hex a \<and> is_hex b
             then map_option (Cons (char_of (16 * unhex a + unhex b))) (query_unescape r) else None)
         | _ \<Rightarrow> None)
      else map_option (Cons (if c = CHR ''+'' then CHR '' '' else c)) (query_unescape cs))"

lemma of_char_hex_digit:
  "n < 16 \<Longrightarrow> (of_char (hex_digit n) :: nat) = (if n < 10 then 48 + n else 55 + n)"
  by (simp add: hex_digit_def)

lemma is_hex_digit: "n < 16 \<Longrightarrow> is_hex (hex_digit n)"
  by (auto simp: is_hex_def is_digit_def less_eq_char_def of_char_hex_digit)

lemma unhex_hex_digit: "n < 16 \<Longrightarrow> unhex (hex_digit n) = n"
  by (auto simp: unhex_def is_digit_def less_eq_char_def of_char_hex_digit)

lemma unreserved_not_special: "unreserved c \<Longrightarrow> c \<noteq> CHR ''%'' \<and> c \<noteq> CHR ''+''"
  by (auto simp: unreserved_def is_alnum_def is_digit_def less_eq_char_def)

lemma char_nibbles: "(of_char c :: nat) div 16 < 16" "(of_char c :: nat) mod 16 < 16"
proof -
  have "(of_char c :: nat) < 16 * 16" by simp
  then show "(of_char c :: nat) div 16 < 16" by (rule less_mult_imp_div_less)
qed simp

lemma char_of_nibbles: "char_of (16 * ((of_char c :: nat) div 16) + of_char c mod 16) = c"
  by (simp only: mult_div_mod_eq char_of_char)

lemma unescape_escape_char:
  "query_unescape (escape_char c @ s) = map_option (Cons c) (query_unescape s)"
proof (cases "unreserved c \<or> c = CHR '' ''")
  case True
  then show ?thesis using unreserved_not_special [of c] by (auto simp: escape_char_def)
next
  case False
  then have e: "escape_char c = [CHR ''%'', hex_digit (of_char c div 16), hex_digit (of_char c mod 16)]"
    by (simp add: escape_char_def)
  show ?thesis
    unfolding e append_Cons append_Nil query_unescape.simps
    by (simp only: if_True list.case is_hex_digit [OF char_nibbles(1)] is_hex_digit [OF char_nibbles(2)]
        unhex_hex_digit [OF char_nibbles(1)] unhex_hex_digit [OF char_nibbles(2)] char_of_nibbles simp_thms)
qed

lemma unescape_escape: "query_unescape (query_escape s) = Some s"
  by (induction s) (simp_all add: query_escape_def unescape_escape_char)

text \<open>The characters of an escaped value: nothing that could end the comment line, split a
  pair, or look like an nginx directive.\<close>

definition escape_safe :: "char \<Rightarrow> bool" where
  "escape_safe c \<longleftrightarrow> unreserved c \<or> c = CHR ''+'' \<or> c = CHR ''%''"

lemma hex_digit_alnum: "n < 16 \<Longrightarrow> is_alnum (hex_digit n)"
  by (auto simp: is_alnum_def is_digit_def less_eq_char_def of_char_hex_digit)

lemma escape_chars_safe: "c \<in> set (query_escape s) \<Longrightarrow> escape_safe c"
proof -
  assume "c \<in> set (query_escape s)"
  then obtain x where x: "c \<in> set (escape_char x)" by (auto simp: query_escape_def)
  from x show ?thesis
    using hex_digit_alnum [OF char_nibbles(1)] hex_digit_alnum [OF char_nibbles(2)]
    by (auto simp: escape_char_def escape_safe_def unreserved_def split: if_splits)
qed

lemma escape_safe_not:
  assumes "escape_safe c"
  shows "\<not> is_space c" "c \<noteq> CHR ''|''" "c \<noteq> CHR ''=''" "c \<noteq> CHR '';''" "c \<noteq> CHR ''{''" "c \<noteq> CHR ''}''"
  using assms
  by (auto simp: escape_safe_def unreserved_def is_alnum_def is_digit_def is_space_def less_eq_char_def)

section \<open>The marker line\<close>

record marker =
  mk_Key :: string
  mk_Container :: string
  mk_ContainerID :: string
  mk_Index :: int
  mk_Instance :: string
  mk_Prefix :: string

definition markerPrefix :: string where
  "markerPrefix = ''# npmplus-docker-sync:''"

definition markerNotice :: string where
  "markerNotice = ''managed from Docker labels, do not edit or remove this line''"

definition markerVersion :: string where
  "markerVersion = ''1''"

definition marker_pairs :: "marker \<Rightarrow> string list" where
  "marker_pairs m =
     [''v='' @ markerVersion, ''key='' @ query_escape (mk_Key m),
      ''container='' @ query_escape (mk_Container m), ''index='' @ itoa (mk_Index m)]
     @ (if mk_ContainerID m \<noteq> [] then [''container_id='' @ query_escape (mk_ContainerID m)] else [])
     @ (if mk_Instance m \<noteq> [] then [''instance='' @ query_escape (mk_Instance m)] else [])
     @ (if mk_Prefix m \<noteq> [] then [''prefix='' @ query_escape (mk_Prefix m)] else [])"

definition encode :: "marker \<Rightarrow> string" where
  "encode m = markerPrefix @ '' '' @ markerNotice @ '' | '' @ join '' '' (marker_pairs m)"

fun parse_pairs :: "string list \<Rightarrow> (string \<rightharpoonup> string) \<Rightarrow> (string \<rightharpoonup> string) option" where
  "parse_pairs [] values = Some values"
| "parse_pairs (pair # ps) values =
     (case cut (CHR ''='') pair of
        None \<Rightarrow> None
      | Some (name, raw) \<Rightarrow>
          (case query_unescape raw of
             None \<Rightarrow> None
           | Some v \<Rightarrow> parse_pairs ps (values(name \<mapsto> v))))"

definition value_of :: "(string \<rightharpoonup> string) \<Rightarrow> string \<Rightarrow> string" where
  "value_of values k = (case values k of Some v \<Rightarrow> v | None \<Rightarrow> [])"

definition marker_of :: "(string \<rightharpoonup> string) \<Rightarrow> marker option" where
  "marker_of values =
     (if value_of values ''v'' \<noteq> markerVersion then None
      else case atoi (value_of values ''index'') of
             None \<Rightarrow> None
           | Some i \<Rightarrow>
               let m = \<lparr> mk_Key = value_of values ''key'', mk_Container = value_of values ''container'',
                         mk_ContainerID = value_of values ''container_id'', mk_Index = i,
                         mk_Instance = value_of values ''instance'', mk_Prefix = value_of values ''prefix'' \<rparr>
               in if mk_Key m = [] then None else Some m)"

definition parseMarker :: "string \<Rightarrow> marker option" where
  "parseMarker l =
     (let line = trim_space l in
      if \<not> has_prefix line markerPrefix then None
      else case cut (CHR ''|'') line of
             None \<Rightarrow> None
           | Some (_, data) \<Rightarrow>
               (case parse_pairs (fields_ws data) Map.empty of
                  None \<Rightarrow> None
                | Some values \<Rightarrow> marker_of values))"

definition isMarkerLine :: "string \<Rightarrow> bool" where
  "isMarkerLine line = has_prefix (trim_space line) markerPrefix"

lemma escaped_digit_ok: "\<forall>c\<in>set s. is_digit c \<or> c = CHR ''-'' \<Longrightarrow> query_unescape s = Some s"
proof (induction s)
  case (Cons c s)
  then have "c \<noteq> CHR ''%'' \<and> c \<noteq> CHR ''+''" by (auto simp: is_digit_def less_eq_char_def)
  with Cons show ?case by simp
qed simp

lemma unescape_itoa: "query_unescape (itoa n) = Some (itoa n)"
  by (rule escaped_digit_ok) (auto dest: itoa_chars)

text \<open>One pair of the line, read back.\<close>

lemma parse_pairs_step:
  "CHR ''='' \<notin> set name \<Longrightarrow> query_unescape raw = Some v \<Longrightarrow>
   parse_pairs ((name @ CHR ''='' # raw) # ps) values = parse_pairs ps (values(name \<mapsto> v))"
  by simp

lemma parse_marker_pairs:
  "parse_pairs (marker_pairs m) Map.empty = Some
     (Map.empty(''v'' \<mapsto> markerVersion, ''key'' \<mapsto> mk_Key m, ''container'' \<mapsto> mk_Container m,
        ''index'' \<mapsto> itoa (mk_Index m),
        ''container_id'' := if mk_ContainerID m \<noteq> [] then Some (mk_ContainerID m) else None,
        ''instance'' := if mk_Instance m \<noteq> [] then Some (mk_Instance m) else None,
        ''prefix'' := if mk_Prefix m \<noteq> [] then Some (mk_Prefix m) else None))"
  by (auto simp: marker_pairs_def markerVersion_def unescape_escape unescape_itoa fun_upd_idem)

definition pair_char :: "char \<Rightarrow> bool" where
  "pair_char c \<longleftrightarrow> escape_safe c \<or> c = CHR ''=''"

lemma marker_pairs_chars:
  assumes "p \<in> set (marker_pairs m)"
  shows "p \<noteq> [] \<and> (\<forall>c\<in>set p. pair_char c)"
proof -
  have d: "c \<in> set (itoa n) \<Longrightarrow> pair_char c" for c n
    by (drule itoa_chars) (auto simp: pair_char_def escape_safe_def unreserved_def is_alnum_def)
  have e: "c \<in> set (query_escape s) \<Longrightarrow> pair_char c" for c s
    by (simp add: pair_char_def escape_chars_safe)
  have k: "\<forall>c\<in>set ''v=1key=container=index=container_id=instance=prefix=''. pair_char c"
    by (simp add: pair_char_def escape_safe_def unreserved_def is_alnum_def is_digit_def less_eq_char_def)
  show ?thesis
    using assms k by (auto simp: marker_pairs_def markerVersion_def dest: d e split: if_splits)
qed

lemma pair_char_not: "pair_char c \<Longrightarrow> \<not> is_space c \<and> c \<noteq> CHR ''|'' \<and> c \<noteq> CHR '';'' \<and> c \<noteq> CHR ''{''"
  by (auto simp: pair_char_def dest: escape_safe_not) (simp_all add: is_space_def)

lemma fields_marker_pairs: "fields_ws (CHR '' '' # join '' '' (marker_pairs m)) = marker_pairs m"
proof -
  have "fields_ws (CHR '' '' # join '' '' (marker_pairs m)) = fields_ws (join '' '' (marker_pairs m))"
    by (rule fields_ws_leading_space) (simp add: is_space_def)
  also have "\<dots> = marker_pairs m"
    by (rule fields_ws_join) (use marker_pairs_chars pair_char_not in blast)
  finally show ?thesis .
qed

lemma marker_pairs_shape: "\<exists>ps. marker_pairs m = (''v='' @ markerVersion) # ps"
  by (simp add: marker_pairs_def)

lemma encode_chars:
  "c \<in> set (encode m) \<Longrightarrow> c \<in> set (markerPrefix @ markerNotice @ '' |'') \<or> pair_char c"
proof -
  assume "c \<in> set (encode m)"
  then consider "c \<in> set (markerPrefix @ markerNotice @ '' |'')" | "c \<in> set (join '' '' (marker_pairs m))"
    by (auto simp: encode_def)
  then show ?thesis
  proof cases
    case 2
    with set_join [of "'' ''" "marker_pairs m"] marker_pairs_chars [of _ m] show ?thesis by auto
  qed simp
qed

lemma last_encode: "\<not> is_space (last (encode m))"
proof -
  have l: "\<not> is_space (last (join '' '' ps))" if "ps \<noteq> []" "\<forall>p\<in>set ps. p \<noteq> [] \<and> (\<forall>c\<in>set p. pair_char c)" for ps
    using that
  proof (induction "'' ''" ps rule: join.induct)
    case (2 x)
    then show ?case using pair_char_not by simp
  next
    case (3 x y zs)
    moreover have "join '' '' (y # zs) \<noteq> []" using 3 by (auto simp: join_eq_Nil)
    ultimately show ?case by simp
  qed simp
  have "marker_pairs m \<noteq> []" using marker_pairs_shape [of m] by auto
  moreover from this have "join '' '' (marker_pairs m) \<noteq> []"
    using marker_pairs_chars [of _ m] by (auto simp: join_eq_Nil)
  ultimately show ?thesis using l [of "marker_pairs m"] marker_pairs_chars [of _ m] by (simp add: encode_def)
qed

lemma trim_space_encode: "trim_space (encode m) = encode m"
  by (rule trim_space_id)
     (use last_encode in \<open>simp add: encode_def markerPrefix_def is_space_def\<close>)

lemma isMarkerLine_encode: "isMarkerLine (encode m)"
  by (simp add: isMarkerLine_def trim_space_encode) (simp add: encode_def)

text \<open>Every marker with a key survives its line, whatever bytes its values hold.\<close>

lemma parse_encode:
  assumes "mk_Key m \<noteq> []" "in_int64 (mk_Index m)"
  shows "parseMarker (encode m) = Some m"
proof -
  have c: "cut (CHR ''|'') (encode m) =
      Some (markerPrefix @ '' '' @ markerNotice @ '' '', CHR '' '' # join '' '' (marker_pairs m))"
    by (simp add: cut_Some encode_def markerPrefix_def markerNotice_def)
  have p: "has_prefix (encode m) markerPrefix" by (simp add: encode_def)
  show ?thesis
    using assms
    by (simp add: parseMarker_def trim_space_encode p c fields_marker_pairs parse_marker_pairs
        marker_of_def value_of_def atoi_itoa Let_def)
qed

lemma parseMarker_key: "parseMarker l = Some m \<Longrightarrow> mk_Key m \<noteq> []"
  by (auto simp: parseMarker_def marker_of_def Let_def split: if_splits option.splits)

section \<open>Marker and user configuration\<close>

text \<open>The result of \<open>splitMarker\<close>: the user's text, the marker, \<open>found\<close> and \<open>valid\<close>.\<close>

record split_result =
  sp_user :: string
  sp_marker :: "marker option"
  sp_found :: bool

definition sp_valid :: "split_result \<Rightarrow> bool" where
  "sp_valid r \<longleftrightarrow> sp_marker r \<noteq> None"

text \<open>The loop over the lines: the lines kept, and for every marker line its parse.\<close>

fun split_lines :: "string list \<Rightarrow> string list \<times> marker option list" where
  "split_lines [] = ([], [])"
| "split_lines (l # ls) =
     (case split_lines ls of (kept, ms) \<Rightarrow>
        if isMarkerLine l then (kept, parseMarker l # ms) else (l # kept, ms))"

definition splitMarker :: "string \<Rightarrow> split_result" where
  "splitMarker config =
     (if \<not> contains_str config markerPrefix
      then \<lparr> sp_user = config, sp_marker = None, sp_found = False \<rparr>
      else case split_lines (split_on (CHR 0x0A) config) of (kept, ms) \<Rightarrow>
        \<lparr> sp_user = join [CHR 0x0A] kept,
          sp_marker = (case ms of
             [] \<Rightarrow> None
           | m # rest \<Rightarrow> if list_ex (\<lambda>x. x = None) ms then None
                         else if list_ex (\<lambda>x. x \<noteq> m) rest then None else m),
          sp_found = (ms \<noteq> []) \<rparr>)"

definition withMarker :: "string \<Rightarrow> marker \<Rightarrow> string" where
  "withMarker user m = (if user = [] then encode m else encode m @ [CHR 0x0A] @ user)"

definition markerFor :: "Meta \<Rightarrow> string \<Rightarrow> marker option" where
  "markerFor m key =
     (if \<not> ManagedBy m ManagedByValue \<or> key = [] then None
      else Some \<lparr> mk_Key = key, mk_Container = own_container (ownership m),
                  mk_ContainerID = meta_ContainerID m, mk_Index = own_index (ownership m),
                  mk_Instance = own_instance (ownership m), mk_Prefix = meta_Prefix m \<rparr>)"

definition ownershipKeys :: "string list" where
  "ownershipKeys = [MetaManagedBy, MetaContainer, MetaContainerID, MetaIndex, MetaInstance, MetaPrefix]"

definition setOrDelete :: "Meta \<Rightarrow> string \<Rightarrow> string \<Rightarrow> Meta" where
  "setOrDelete m key v = (if v = [] then m(key := None) else m(key \<mapsto> MStr v))"

definition drop_keys :: "string list \<Rightarrow> Meta \<Rightarrow> Meta" where
  "drop_keys ks m = fold (\<lambda>k m. m(k := None)) ks m"

definition stamp_marker :: "marker \<Rightarrow> Meta \<Rightarrow> Meta" where
  "stamp_marker mk m =
     setOrDelete (setOrDelete (setOrDelete
       (m(MetaManagedBy \<mapsto> MStr ManagedByValue, MetaContainer \<mapsto> MStr (mk_Container mk),
          MetaIndex \<mapsto> MInt (mk_Index mk)))
       MetaContainerID (mk_ContainerID mk)) MetaInstance (mk_Instance mk)) MetaPrefix (mk_Prefix mk)"

definition liftOwnership :: "string \<Rightarrow> Meta \<Rightarrow> string \<Rightarrow> string \<times> Meta \<times> bool" where
  "liftOwnership advanced m key =
     (let r = splitMarker advanced in
      if \<not> sp_found r then (advanced, m, False)
      else case sp_marker r of
        None \<Rightarrow> (sp_user r, if ManagedBy m ManagedByValue then drop_keys ownershipKeys m else m, False)
      | Some mk \<Rightarrow>
          if mk_Key mk \<noteq> key
          then (sp_user r, if ManagedBy m ManagedByValue then drop_keys ownershipKeys m else m, False)
          else (sp_user r, stamp_marker mk m, True))"

definition liftDirectory :: "Meta \<Rightarrow> string \<Rightarrow> Meta" where
  "liftDirectory m column =
     (let c = trim_space column in
      if c = [] then m else if m MetaDirectory = None then m(MetaDirectory \<mapsto> MStr c) else m)"

definition serverMetaKeys :: "string list" where
  "serverMetaKeys = [''nginx_online'', ''nginx_err'']"

lemma drop_keys_apply: "drop_keys ks m k = (if k \<in> set ks then None else m k)"
  by (induction ks arbitrary: m) (auto simp: drop_keys_def)

lemma split_lines_kept: "l \<in> set (fst (split_lines ls)) \<Longrightarrow> l \<in> set ls \<and> \<not> isMarkerLine l"
  by (induction ls) (auto split: prod.splits if_splits)

lemma split_lines_no_marker: "\<forall>l\<in>set ls. \<not> isMarkerLine l \<Longrightarrow> split_lines ls = (ls, [])"
  by (induction ls) auto

text \<open>A marker line contains the prefix, so the fast path never misses one.\<close>

lemma contains_str_substring: "contains_str t sub \<Longrightarrow> contains_str (xs @ t @ ys) sub"
  by (force simp: contains_str_iff intro: exI [of _ "xs @ _"])

lemma trim_space_substring: "\<exists>xs ys. s = xs @ trim_space s @ ys"
proof -
  have l: "\<exists>xs. t = xs @ dropWhile is_space t" for t
    by (metis takeWhile_dropWhile_id)
  obtain xs where "s = xs @ dropWhile is_space s" using l by blast
  moreover obtain ys where "rev (dropWhile is_space s) = ys @ dropWhile is_space (rev (dropWhile is_space s))"
    using l by blast
  then have "dropWhile is_space s = trim_space s @ rev ys"
    by (metis rev_append rev_rev_ident trim_left_def trim_right_def trim_space_def)
  ultimately show ?thesis by metis
qed

lemma isMarkerLine_contains: "isMarkerLine l \<Longrightarrow> contains_str l markerPrefix"
proof -
  assume "isMarkerLine l"
  then obtain r where r: "trim_space l = markerPrefix @ r" by (auto simp: isMarkerLine_def has_prefix_iff)
  obtain xs ys where "l = xs @ trim_space l @ ys" using trim_space_substring by blast
  then have "l = xs @ markerPrefix @ (r @ ys)" by (simp add: r)
  then show ?thesis by (metis contains_str_append)
qed

lemma split_on_substring: "l \<in> set (split_on c s) \<Longrightarrow> \<exists>xs ys. s = xs @ l @ ys"
proof (induction s arbitrary: l)
  case (Cons a s)
  obtain y ys where ys: "split_on c s = y # ys" by (cases "split_on c s") (auto simp: split_on_def)
  then have j: "join [c] (y # ys) = s" by (metis join_split_on)
  from Cons.prems ys consider "l = []" | "l = a # y" | "l \<in> set (split_on c s)"
    by (auto simp: split_on_def split: if_splits)
  then show ?case
  proof cases
    case 2
    with j show ?thesis by (cases ys) (auto intro: exI [of _ "[]"])
  next
    case 3
    then obtain us vs where "s = us @ l @ vs" using Cons.IH by blast
    then have "a # s = (a # us) @ l @ vs" by simp
    then show ?thesis by blast
  qed (metis append_Nil)
qed (simp add: split_on_def)

lemma no_prefix_no_marker_lines:
  "\<not> contains_str s markerPrefix \<Longrightarrow> \<forall>l\<in>set (split_on (CHR 0x0A) s). \<not> isMarkerLine l"
proof
  fix l
  assume n: "\<not> contains_str s markerPrefix" and l: "l \<in> set (split_on (CHR 0x0A) s)"
  obtain xs ys where s: "s = xs @ l @ ys" using split_on_substring [OF l] by blast
  show "\<not> isMarkerLine l"
    using n contains_str_substring [OF isMarkerLine_contains, of l xs ys] s by blast
qed

text \<open>A text the user may write: none of its lines is a marker line.\<close>

definition user_text :: "string \<Rightarrow> bool" where
  "user_text s \<longleftrightarrow> list_all (\<lambda>l. \<not> isMarkerLine l) (split_on (CHR 0x0A) s)"

lemma newline_not_in_encode: "CHR 0x0A \<notin> set (encode m)"
proof
  assume "CHR 0x0A \<in> set (encode m)"
  then have "CHR 0x0A \<in> set (markerPrefix @ markerNotice @ '' |'') \<or> pair_char (CHR 0x0A)"
    by (rule encode_chars)
  moreover have "\<not> pair_char (CHR 0x0A)" using pair_char_not [of "CHR 0x0A"] by (auto simp: is_space_def)
  ultimately show False by (simp add: markerPrefix_def markerNotice_def)
qed

lemma split_on_withMarker:
  "split_on (CHR 0x0A) (withMarker user m) =
     encode m # (if user = [] then [] else split_on (CHR 0x0A) user)"
proof -
  have n: "\<forall>c\<in>set (encode m). c \<noteq> CHR 0x0A" using newline_not_in_encode [of m] by blast
  show ?thesis
    using n by (simp add: withMarker_def split_on_def split_by_id split_by_append)
qed

lemma contains_withMarker: "contains_str (withMarker user m) markerPrefix"
proof -
  have "withMarker user m = [] @ markerPrefix @ (if user = [] then drop (length markerPrefix) (encode m)
      else drop (length markerPrefix) (encode m) @ [CHR 0x0A] @ user)"
    by (simp add: withMarker_def encode_def)
  then show ?thesis by (metis contains_str_append)
qed

lemma split_withMarker:
  assumes "user_text user" "mk_Key m \<noteq> []" "in_int64 (mk_Index m)"
  shows "splitMarker (withMarker user m) = \<lparr> sp_user = user, sp_marker = Some m, sp_found = True \<rparr>"
proof -
  have nl: "\<forall>l\<in>set (split_on (CHR 0x0A) user). \<not> isMarkerLine l"
    using assms(1) by (simp add: user_text_def list_all_iff)
  have "split_lines (split_on (CHR 0x0A) (withMarker user m)) =
      (if user = [] then [] else split_on (CHR 0x0A) user, [Some m])"
    using split_lines_no_marker [OF nl] parse_encode [OF assms(2,3)]
    by (simp add: split_on_withMarker isMarkerLine_encode)
  then show ?thesis
    by (simp add: splitMarker_def contains_withMarker join_split_on)
qed

text \<open>Whatever the configuration holds, the user's part is free of marker lines, and a
  configuration without one is returned as it is.\<close>

lemma splitMarker_not_found: "\<not> sp_found (splitMarker config) \<Longrightarrow> sp_user (splitMarker config) = config"
proof -
  assume nf: "\<not> sp_found (splitMarker config)"
  have *: "snd (split_lines ls) = [] \<Longrightarrow> fst (split_lines ls) = ls" for ls
    by (induction ls) (auto split: prod.splits if_splits)
  from nf show ?thesis
    using * [of "split_on (CHR 0x0A) config"]
    by (auto simp: splitMarker_def join_split_on split: prod.splits if_splits)
qed

lemma split_on_chars: "l \<in> set (split_on c s) \<Longrightarrow> c \<notin> set l"
  using split_by_no_sep [of l "\<lambda>x. x = c" s c] by (auto simp: split_on_def)

lemma isMarkerLine_Nil: "\<not> isMarkerLine []"
  by (simp add: isMarkerLine_def markerPrefix_def has_prefix_def)

lemma splitMarker_user_text: "user_text (sp_user (splitMarker config))"
proof (cases "contains_str config markerPrefix")
  case False
  then show ?thesis
    using no_prefix_no_marker_lines by (auto simp: splitMarker_def user_text_def list_all_iff)
next
  case True
  obtain kept ms where k: "split_lines (split_on (CHR 0x0A) config) = (kept, ms)" by fastforce
  with True have u: "sp_user (splitMarker config) = join [CHR 0x0A] kept" by (simp add: splitMarker_def)
  have kp: "\<forall>l\<in>set kept. CHR 0x0A \<notin> set l \<and> \<not> isMarkerLine l"
    using k split_lines_kept [of _ "split_on (CHR 0x0A) config"] split_on_chars by fastforce
  show ?thesis
  proof (cases "kept = []")
    case True
    then show ?thesis by (simp add: u user_text_def split_on_def isMarkerLine_Nil)
  next
    case False
    with kp have "split_on (CHR 0x0A) (join [CHR 0x0A] kept) = kept" by (simp add: split_on_join)
    with kp show ?thesis by (simp add: u user_text_def list_all_iff)
  qed
qed

lemma splitMarker_valid_found: "sp_marker (splitMarker config) = Some m \<Longrightarrow> sp_found (splitMarker config) \<and> mk_Key m \<noteq> []"
proof -
  have *: "Some m \<in> set (snd (split_lines ls)) \<Longrightarrow> mk_Key m \<noteq> []" for ls
    by (induction ls) (auto split: prod.splits if_splits dest: parseMarker_key [OF sym] parseMarker_key)
  assume "sp_marker (splitMarker config) = Some m"
  then show ?thesis
    using * [of "split_on (CHR 0x0A) config"]
    by (auto simp: splitMarker_def split: prod.splits if_splits list.splits)
qed

section \<open>Lifting\<close>

lemma liftOwnership_cases:
  obtains "liftOwnership adv m key = (adv, m, False)" "\<not> sp_found (splitMarker adv)"
  | "liftOwnership adv m key = (sp_user (splitMarker adv),
       if ManagedBy m ManagedByValue then drop_keys ownershipKeys m else m, False)" "sp_found (splitMarker adv)"
  | mk where "liftOwnership adv m key = (sp_user (splitMarker adv), stamp_marker mk m, True)"
      "sp_marker (splitMarker adv) = Some mk" "mk_Key mk = key"
proof (cases "sp_found (splitMarker adv)")
  case False
  then show thesis by (intro that(1)) (simp_all add: liftOwnership_def)
next
  case True
  show thesis
  proof (cases "\<exists>mk. sp_marker (splitMarker adv) = Some mk \<and> mk_Key mk = key")
    case True
    with \<open>sp_found (splitMarker adv)\<close> that(3) show thesis by (auto simp: liftOwnership_def)
  next
    case False
    with True show thesis
      by (intro that(2)) (auto simp: liftOwnership_def Let_def split: option.splits)
  qed
qed

lemma stamp_marker_apply:
  "stamp_marker mk m MetaManagedBy = Some (MStr ManagedByValue)"
  "stamp_marker mk m MetaContainer = Some (MStr (mk_Container mk))"
  "stamp_marker mk m MetaIndex = Some (MInt (mk_Index mk))"
  "meta_ContainerID (stamp_marker mk m) = mk_ContainerID mk"
  "meta_Instance (stamp_marker mk m) = mk_Instance mk"
  "meta_Prefix (stamp_marker mk m) = mk_Prefix mk"
  "k \<notin> set ownershipKeys \<Longrightarrow> stamp_marker mk m k = m k"
  by (simp_all add: stamp_marker_def setOrDelete_def meta_ContainerID_def meta_Instance_def meta_Prefix_def
      meta_text_def ownershipKeys_def)

lemma marker_of_stamped:
  "mk_Key mk \<noteq> [] \<Longrightarrow> markerFor (stamp_marker mk m) (mk_Key mk) = Some mk"
  using stamp_marker_apply(5) [of mk m]
  by (simp add: markerFor_def ManagedBy_iff ownership_def stamp_marker_apply meta_text_def meta_Instance_def)

end
