(* ===== verification/Resources.thy ===== *)
theory Resources
  imports Marker Dialect
begin

text \<open>
  The four managed resources of \<open>internal/npm/resources.go\<close> and the behaviour they share
  (the Go interface \<open>Resource\<close>): identity, ownership, decoding, fingerprint, and the adoption
  of server-assigned values.

  The fingerprint of the code is the hexadecimal SHA-256 of the JSON text of a canonical shape.
  Here it is the symbolic digest \<open>Sha256\<close> of that shape: two fingerprints are equal exactly
  when the shapes are, so a collision of SHA-256 is outside the model. The pointer receivers of
  the Go methods become functions that return the changed record.
\<close>

section \<open>Records\<close>

record ProxyHost =
  ph_ID :: int
  ph_CreatedOn :: string
  ph_ModifiedOn :: string
  ph_OwnerUserID :: int
  ph_DomainNames :: "string list"
  ph_ForwardHost :: string
  ph_ForwardPort :: int
  ph_ForwardScheme :: string
  ph_CertificateID :: CertificateID
  ph_SSLForced :: Flag
  ph_HSTSEnabled :: Flag
  ph_HSTSSubdomains :: Flag
  ph_TrustForwardedProto :: Flag
  ph_HTTP2Support :: Flag
  ph_BlockExploits :: Flag
  ph_CachingEnabled :: Flag
  ph_AllowWebsocketUpgrade :: Flag
  ph_AdvancedConfig :: string
  ph_Enabled :: Flag
  ph_Locations :: "Location list"
  ph_Meta :: Meta
  ph_Directory :: string
  ph_OwnerMarker :: Flag
  ph_HTTP3Support :: Flag
  ph_NoIndex :: Flag
  ph_DisableCrowdsecAppsec :: Flag
  ph_DisableRequestBuffering :: Flag
  ph_DisableResponseBuffering :: Flag
  ph_UpstreamCompression :: Flag
  ph_FancyIndex :: Flag
  ph_XFrameOptions :: string
  ph_AuthRequest :: string
  ph_AuthRequestUpstream :: string
  ph_LocationConfig :: string
  ph_AccessListID :: int
  ph_AccessListIDs :: "int list"
  ph_AccessListType :: string
  ph_AccessListNames :: "string list"
  ph_AccessLists :: "int list"

record RedirectionHost =
  rh_ID :: int
  rh_CreatedOn :: string
  rh_ModifiedOn :: string
  rh_OwnerUserID :: int
  rh_DomainNames :: "string list"
  rh_ForwardScheme :: string
  rh_ForwardDomainName :: string
  rh_ForwardHTTPCode :: int
  rh_PreservePath :: Flag
  rh_CertificateID :: CertificateID
  rh_SSLForced :: Flag
  rh_HSTSEnabled :: Flag
  rh_HSTSSubdomains :: Flag
  rh_HTTP2Support :: Flag
  rh_HTTP3Support :: Flag
  rh_BlockExploits :: Flag
  rh_AdvancedConfig :: string
  rh_Enabled :: Flag
  rh_Meta :: Meta
  rh_Directory :: string
  rh_OwnerMarker :: Flag

record StreamHost =
  st_ID :: int
  st_CreatedOn :: string
  st_ModifiedOn :: string
  st_OwnerUserID :: int
  st_IncomingPort :: Port
  st_ForwardingHost :: string
  st_ForwardingPort :: Port
  st_TCPForwarding :: Flag
  st_UDPForwarding :: Flag
  st_CertificateID :: CertificateID
  st_Enabled :: Flag
  st_Meta :: Meta
  st_ProxyProtocol :: ProxyProtocolLevel
  st_ProxyTLS :: Flag
  st_AdvancedConfig :: string
  st_Description :: string
  st_Directory :: string
  st_OwnerMarker :: Flag

record DeadHost =
  dh_ID :: int
  dh_CreatedOn :: string
  dh_ModifiedOn :: string
  dh_OwnerUserID :: int
  dh_DomainNames :: "string list"
  dh_CertificateID :: CertificateID
  dh_SSLForced :: Flag
  dh_HSTSEnabled :: Flag
  dh_HSTSSubdomains :: Flag
  dh_HTTP2Support :: Flag
  dh_HTTP3Support :: Flag
  dh_AdvancedConfig :: string
  dh_Enabled :: Flag
  dh_Meta :: Meta
  dh_Directory :: string
  dh_OwnerMarker :: Flag

datatype Resource = Proxy ProxyHost | Redirect RedirectionHost | Strm StreamHost | Dead DeadHost

text \<open>The zero values of the Go structs.\<close>

definition zero_proxy :: ProxyHost where
  "zero_proxy = \<lparr> ph_ID = 0, ph_CreatedOn = [], ph_ModifiedOn = [], ph_OwnerUserID = 0, ph_DomainNames = [],
     ph_ForwardHost = [], ph_ForwardPort = 0, ph_ForwardScheme = [], ph_CertificateID =
     noCertificate, ph_SSLForced = False, ph_HSTSEnabled = False, ph_HSTSSubdomains = False,
     ph_TrustForwardedProto = False, ph_HTTP2Support = False, ph_BlockExploits = False,
     ph_CachingEnabled = False, ph_AllowWebsocketUpgrade = False, ph_AdvancedConfig = [], ph_Enabled
     = False, ph_Locations = [], ph_Meta = Map.empty, ph_Directory = [], ph_OwnerMarker = False,
     ph_HTTP3Support = False, ph_NoIndex = False, ph_DisableCrowdsecAppsec = False,
     ph_DisableRequestBuffering = False, ph_DisableResponseBuffering = False, ph_UpstreamCompression
     = False, ph_FancyIndex = False, ph_XFrameOptions = [], ph_AuthRequest = [],
     ph_AuthRequestUpstream = [], ph_LocationConfig = [], ph_AccessListID = 0, ph_AccessListIDs =
     [], ph_AccessListType = [], ph_AccessListNames = [], ph_AccessLists = [] \<rparr>"

definition zero_redirect :: RedirectionHost where
  "zero_redirect = \<lparr> rh_ID = 0, rh_CreatedOn = [], rh_ModifiedOn = [], rh_OwnerUserID = 0, rh_DomainNames = [],
     rh_ForwardScheme = [], rh_ForwardDomainName = [], rh_ForwardHTTPCode = 0, rh_PreservePath =
     False, rh_CertificateID = noCertificate, rh_SSLForced = False, rh_HSTSEnabled = False,
     rh_HSTSSubdomains = False, rh_HTTP2Support = False, rh_HTTP3Support = False, rh_BlockExploits =
     False, rh_AdvancedConfig = [], rh_Enabled = False, rh_Meta = Map.empty, rh_Directory = [],
     rh_OwnerMarker = False \<rparr>"

definition zero_stream :: StreamHost where
  "zero_stream = \<lparr> st_ID = 0, st_CreatedOn = [], st_ModifiedOn = [], st_OwnerUserID = 0, st_IncomingPort = zero_port,
     st_ForwardingHost = [], st_ForwardingPort = zero_port, st_TCPForwarding = False,
     st_UDPForwarding = False, st_CertificateID = noCertificate, st_Enabled = False, st_Meta =
     Map.empty, st_ProxyProtocol = 0, st_ProxyTLS = False, st_AdvancedConfig = [], st_Description =
     [], st_Directory = [], st_OwnerMarker = False \<rparr>"

definition zero_dead :: DeadHost where
  "zero_dead = \<lparr> dh_ID = 0, dh_CreatedOn = [], dh_ModifiedOn = [], dh_OwnerUserID = 0, dh_DomainNames = [],
     dh_CertificateID = noCertificate, dh_SSLForced = False, dh_HSTSEnabled = False,
     dh_HSTSSubdomains = False, dh_HTTP2Support = False, dh_HTTP3Support = False, dh_AdvancedConfig
     = [], dh_Enabled = False, dh_Meta = Map.empty, dh_Directory = [], dh_OwnerMarker = False \<rparr>"

section \<open>Helpers\<close>

definition primaryDomain :: "string list \<Rightarrow> string" where
  "primaryDomain domains = (case NormalizeDomains domains of [] \<Rightarrow> [] | d # _ \<Rightarrow> d)"

definition adoptCertificate :: "CertificateID \<Rightarrow> CertificateID \<Rightarrow> CertificateID" where
  "adoptCertificate desired live = (if cid_New desired \<and> cid_ID live > 0 then live else desired)"

definition normalizeIDs :: "int list \<Rightarrow> int list" where
  "normalizeIDs ids = sort (dedup (filter (\<lambda>i. \<not> i \<le> 0) ids))"

definition idsOf :: "int list \<Rightarrow> int list \<Rightarrow> int list" where
  "idsOf ids refs = (if ids = [] then refs else ids)"

definition adopt_location :: "Location list \<Rightarrow> Location \<Rightarrow> Location" where
  "adopt_location live l =
     (case find (\<lambda>s. \<not> (loc_Path s \<noteq> loc_Path l \<or> loc_LocationType s \<noteq> loc_LocationType l)) live of
        None \<Rightarrow> l
      | Some stored \<Rightarrow>
          (let l1 = (if loc_XFrameOptions l = [] then l\<lparr> loc_XFrameOptions := loc_XFrameOptions stored \<rparr> else l)
           in if loc_AuthRequest l1 = [] then l1\<lparr> loc_AuthRequest := loc_AuthRequest stored \<rparr> else l1))"

definition adoptLocationDefaults :: "Location list \<Rightarrow> Location list \<Rightarrow> Location list" where
  "adoptLocationDefaults desired live = map (adopt_location live) desired"

definition canonicalLocation :: "Location \<Rightarrow> Location" where
  "canonicalLocation l0 =
     (let l = cleanForwardOptions l0; listType = loc_accessListType l;
          ids = (if listType = AccessListCustom then normalizeIDs (loc_AccessListIDs l) else [])
      in \<lparr> loc_Path = trim_space (loc_Path l), loc_LocationType = loc_LocationType l,
           loc_AdvancedConfig = trim_space (loc_AdvancedConfig l),
           loc_LocationConfig = trim_space (loc_LocationConfig l),
           loc_ForwardScheme = to_lower (loc_ForwardScheme l), loc_ForwardHost = to_lower (loc_ForwardHost l),
           loc_ForwardPort = loc_ForwardPort l, loc_AccessListIDs = ids, loc_AccessListType = listType,
           loc_AccessListNames = [], loc_AccessLists = [], loc_Enabled = Some (loc_IsEnabled l),
           loc_NoIndex = loc_NoIndex l, loc_DisableCrowdsecAppsec = loc_DisableCrowdsecAppsec l,
           loc_DisableRequestBuffering = loc_DisableRequestBuffering l,
           loc_DisableResponseBuffering = loc_DisableResponseBuffering l,
           loc_UpstreamCompression = loc_UpstreamCompression l, loc_FancyIndex = loc_FancyIndex l,
           loc_XFrameOptions = trim_space (loc_XFrameOptions l), loc_AuthRequest = trim_space (loc_AuthRequest l),
           loc_AuthRequestUpstream = trim_space (loc_AuthRequestUpstream l) \<rparr>)"

definition canonicalLocations :: "Location list \<Rightarrow> Location list" where
  "canonicalLocations ls = map canonicalLocation ls"

lemma set_normalizeIDs [simp]: "set (normalizeIDs ids) = {i \<in> set ids. 0 < i}"
  by (auto simp: normalizeIDs_def)

lemma normalizeIDs_cong:
  "{i \<in> set ids. 0 < i} = {i \<in> set ids'. 0 < i} \<Longrightarrow> normalizeIDs ids = normalizeIDs ids'"
  unfolding normalizeIDs_def by (rule sort_dedup_cong) (simp add: not_le)

lemma normalizeIDs_idem [simp]: "normalizeIDs (normalizeIDs ids) = normalizeIDs ids"
  by (rule normalizeIDs_cong) simp

lemma adopt_location_keeps:
  "loc_Path (adopt_location live l) = loc_Path l" "loc_LocationType (adopt_location live l) = loc_LocationType l"
  by (auto simp: adopt_location_def Let_def split: option.splits)

lemma adopt_location_idem: "adopt_location live (adopt_location live l) = adopt_location live l"
proof (cases "find (\<lambda>s. \<not> (loc_Path s \<noteq> loc_Path l \<or> loc_LocationType s \<noteq> loc_LocationType l)) live")
  case None
  then show ?thesis by (simp add: adopt_location_def)
next
  case (Some st)
  then show ?thesis
    by (cases "loc_XFrameOptions l = []"; cases "loc_AuthRequest l = []";
        cases "loc_XFrameOptions st = []"; cases "loc_AuthRequest st = []")
       (simp_all add: adopt_location_def)
qed

lemma adoptLocationDefaults_idem:
  "adoptLocationDefaults (adoptLocationDefaults d live) live = adoptLocationDefaults d live"
  by (simp add: adoptLocationDefaults_def adopt_location_idem)

section \<open>Proxy hosts\<close>

definition ph_accessLists :: "ProxyHost \<Rightarrow> int list \<times> string" where
  "ph_accessLists h =
     (let ids0 = normalizeIDs (ph_AccessListIDs h);
          ids = (if ids0 = [] \<and> ph_AccessListID h > 0 then [ph_AccessListID h] else ids0);
          listType = ph_AccessListType h
      in if listType = [] \<and> ids \<noteq> [] then (ids, AccessListCustom)
         else if listType = [] then (ids, AccessListPublic)
         else if listType = AccessListPublic then ([], listType)
         else (ids, listType))"

definition ph_forwardOptions :: "ProxyHost \<Rightarrow> Location" where
  "ph_forwardOptions h = cleanForwardOptions (empty_location
     \<lparr> loc_ForwardScheme := ph_ForwardScheme h, loc_DisableCrowdsecAppsec := ph_DisableCrowdsecAppsec h,
       loc_DisableRequestBuffering := ph_DisableRequestBuffering h,
       loc_DisableResponseBuffering := ph_DisableResponseBuffering h,
       loc_UpstreamCompression := ph_UpstreamCompression h, loc_FancyIndex := ph_FancyIndex h,
       loc_AuthRequest := ph_AuthRequest h, loc_AuthRequestUpstream := ph_AuthRequestUpstream h \<rparr>)"

definition ph_decode :: "ProxyHost \<Rightarrow> ProxyHost" where
  "ph_decode h =
     (case liftOwnership (ph_AdvancedConfig h) (ph_Meta h) (primaryDomain (ph_DomainNames h)) of
        (advanced, m, marked) \<Rightarrow>
          h\<lparr> ph_AdvancedConfig := advanced, ph_Meta := liftDirectory m (ph_Directory h), ph_Directory := [],
             ph_OwnerMarker := (marked \<or> ph_OwnerMarker h),
             ph_AccessListIDs := idsOf (ph_AccessListIDs h) (ph_AccessLists h), ph_AccessLists := [],
             ph_Locations := map (\<lambda>l. l\<lparr> loc_AccessListIDs := idsOf (loc_AccessListIDs l) (loc_AccessLists l),
               loc_AccessLists := [] \<rparr>) (ph_Locations h) \<rparr>)"

definition ph_AdoptServerState :: "ProxyHost \<Rightarrow> Resource \<Rightarrow> ProxyHost" where
  "ph_AdoptServerState h current =
     (case current of
        Proxy live \<Rightarrow>
          h\<lparr> ph_CertificateID := adoptCertificate (ph_CertificateID h) (ph_CertificateID live),
             ph_Meta := AdoptMeta (ph_Meta h) (ph_Meta live),
             ph_XFrameOptions := (if ph_XFrameOptions h = [] then ph_XFrameOptions live else ph_XFrameOptions h),
             ph_AuthRequest := (if ph_AuthRequest h = [] then ph_AuthRequest live else ph_AuthRequest h),
             ph_Locations := adoptLocationDefaults (ph_Locations h) (ph_Locations live) \<rparr>
      | _ \<Rightarrow> h)"

record ProxyShape =
  fp_Domains :: "string list"
  fp_Scheme :: string
  fp_Host :: string
  fp_Port :: int
  fp_Certificate :: string
  fp_Switches :: "Flag list"
  fp_AccessLists :: "int list"
  fp_AccessListType :: string
  fp_Advanced :: string
  fp_Locations :: "Location list"
  fp_PlusSwitches :: "Flag list"
  fp_XFrameOptions :: string
  fp_AuthRequest :: string
  fp_AuthRequestUpstream :: string
  fp_LocationConfig :: string
  fp_Directory :: string
  fp_Ownership :: ownership_fields
  fp_Marked :: Flag

definition ph_shape :: "ProxyHost \<Rightarrow> ProxyShape" where
  "ph_shape h =
     (let (ids, listType) = ph_accessLists h; forward = ph_forwardOptions h in
      \<lparr> fp_Domains = NormalizeDomains (ph_DomainNames h), fp_Scheme = to_lower (ph_ForwardScheme h),
        fp_Host = to_lower (ph_ForwardHost h), fp_Port = ph_ForwardPort h,
        fp_Certificate = cid_String (ph_CertificateID h),
        fp_Switches = [ph_SSLForced h, ph_HSTSEnabled h, ph_HSTSSubdomains h, ph_TrustForwardedProto h,
          ph_HTTP2Support h, ph_HTTP3Support h, ph_BlockExploits h, ph_CachingEnabled h,
          ph_AllowWebsocketUpgrade h],
        fp_AccessLists = ids, fp_AccessListType = listType,
        fp_Advanced = trim_space (ph_AdvancedConfig h),
        fp_Locations = canonicalLocations (ph_Locations h),
        fp_PlusSwitches = [ph_NoIndex h, ph_DisableCrowdsecAppsec h, loc_DisableRequestBuffering forward,
          loc_DisableResponseBuffering forward, loc_UpstreamCompression forward, loc_FancyIndex forward],
        fp_XFrameOptions = trim_space (ph_XFrameOptions h), fp_AuthRequest = trim_space (ph_AuthRequest h),
        fp_AuthRequestUpstream = trim_space (loc_AuthRequestUpstream forward),
        fp_LocationConfig = trim_space (ph_LocationConfig h), fp_Directory = meta_Directory (ph_Meta h),
        fp_Ownership = ownership (ph_Meta h), fp_Marked = ph_OwnerMarker h \<rparr>)"

section \<open>Redirection hosts\<close>

definition rh_decode :: "RedirectionHost \<Rightarrow> RedirectionHost" where
  "rh_decode h =
     (case liftOwnership (rh_AdvancedConfig h) (rh_Meta h) (primaryDomain (rh_DomainNames h)) of
        (advanced, m, marked) \<Rightarrow>
          h\<lparr> rh_AdvancedConfig := advanced, rh_Meta := liftDirectory m (rh_Directory h), rh_Directory := [],
             rh_OwnerMarker := (marked \<or> rh_OwnerMarker h) \<rparr>)"

definition rh_AdoptServerState :: "RedirectionHost \<Rightarrow> Resource \<Rightarrow> RedirectionHost" where
  "rh_AdoptServerState h current =
     (case current of
        Redirect live \<Rightarrow>
          h\<lparr> rh_CertificateID := adoptCertificate (rh_CertificateID h) (rh_CertificateID live),
             rh_Meta := AdoptMeta (rh_Meta h) (rh_Meta live) \<rparr>
      | _ \<Rightarrow> h)"

record RedirectShape =
  fr_Domains :: "string list"
  fr_Scheme :: string
  fr_ForwardDomain :: string
  fr_HTTPCode :: int
  fr_PreservePath :: Flag
  fr_Certificate :: string
  fr_Switches :: "Flag list"
  fr_Advanced :: string
  fr_Directory :: string
  fr_Ownership :: ownership_fields
  fr_Marked :: Flag

definition rh_shape :: "RedirectionHost \<Rightarrow> RedirectShape" where
  "rh_shape h =
     \<lparr> fr_Domains = NormalizeDomains (rh_DomainNames h), fr_Scheme = to_lower (rh_ForwardScheme h),
       fr_ForwardDomain = to_lower (trim_space (rh_ForwardDomainName h)), fr_HTTPCode = rh_ForwardHTTPCode h,
       fr_PreservePath = rh_PreservePath h, fr_Certificate = cid_String (rh_CertificateID h),
       fr_Switches = [rh_SSLForced h, rh_HSTSEnabled h, rh_HSTSSubdomains h, rh_HTTP2Support h,
         rh_HTTP3Support h, rh_BlockExploits h],
       fr_Advanced = trim_space (rh_AdvancedConfig h), fr_Directory = meta_Directory (rh_Meta h),
       fr_Ownership = ownership (rh_Meta h), fr_Marked = rh_OwnerMarker h \<rparr>"

section \<open>Streams\<close>

definition st_decode :: "StreamHost \<Rightarrow> StreamHost" where
  "st_decode s =
     (case liftOwnership (st_AdvancedConfig s) (st_Meta s) (port_raw (st_IncomingPort s)) of
        (advanced, m, marked) \<Rightarrow>
          s\<lparr> st_AdvancedConfig := advanced, st_Meta := liftDirectory m (st_Directory s), st_Directory := [],
             st_OwnerMarker := (marked \<or> st_OwnerMarker s) \<rparr>)"

definition st_AdoptServerState :: "StreamHost \<Rightarrow> Resource \<Rightarrow> StreamHost" where
  "st_AdoptServerState s current =
     (case current of
        Strm live \<Rightarrow>
          s\<lparr> st_CertificateID := adoptCertificate (st_CertificateID s) (st_CertificateID live),
             st_Meta := AdoptMeta (st_Meta s) (st_Meta live) \<rparr>
      | _ \<Rightarrow> s)"

record StreamShape =
  fs_IncomingPort :: string
  fs_Host :: string
  fs_Port :: string
  fs_Protocols :: "Flag list"
  fs_Certificate :: string
  fs_ProxyProtocol :: int
  fs_ProxyTLS :: Flag
  fs_Advanced :: string
  fs_Description :: string
  fs_Directory :: string
  fs_Ownership :: ownership_fields
  fs_Marked :: Flag

definition st_shape :: "StreamHost \<Rightarrow> StreamShape" where
  "st_shape s =
     \<lparr> fs_IncomingPort = port_raw (st_IncomingPort s), fs_Host = to_lower (st_ForwardingHost s),
       fs_Port = port_raw (st_ForwardingPort s), fs_Protocols = [st_TCPForwarding s, st_UDPForwarding s],
       fs_Certificate = cid_String (st_CertificateID s), fs_ProxyProtocol = st_ProxyProtocol s,
       fs_ProxyTLS = st_ProxyTLS s, fs_Advanced = trim_space (st_AdvancedConfig s),
       fs_Description = trim_space (st_Description s), fs_Directory = meta_Directory (st_Meta s),
       fs_Ownership = ownership (st_Meta s), fs_Marked = st_OwnerMarker s \<rparr>"

section \<open>Dead hosts\<close>

definition dh_decode :: "DeadHost \<Rightarrow> DeadHost" where
  "dh_decode h =
     (case liftOwnership (dh_AdvancedConfig h) (dh_Meta h) (primaryDomain (dh_DomainNames h)) of
        (advanced, m, marked) \<Rightarrow>
          h\<lparr> dh_AdvancedConfig := advanced, dh_Meta := liftDirectory m (dh_Directory h), dh_Directory := [],
             dh_OwnerMarker := (marked \<or> dh_OwnerMarker h) \<rparr>)"

definition dh_AdoptServerState :: "DeadHost \<Rightarrow> Resource \<Rightarrow> DeadHost" where
  "dh_AdoptServerState h current =
     (case current of
        Dead live \<Rightarrow>
          h\<lparr> dh_CertificateID := adoptCertificate (dh_CertificateID h) (dh_CertificateID live),
             dh_Meta := AdoptMeta (dh_Meta h) (dh_Meta live) \<rparr>
      | _ \<Rightarrow> h)"

record DeadShape =
  fd_Domains :: "string list"
  fd_Certificate :: string
  fd_Switches :: "Flag list"
  fd_Advanced :: string
  fd_Directory :: string
  fd_Ownership :: ownership_fields
  fd_Marked :: Flag

definition dh_shape :: "DeadHost \<Rightarrow> DeadShape" where
  "dh_shape h =
     \<lparr> fd_Domains = NormalizeDomains (dh_DomainNames h), fd_Certificate = cid_String (dh_CertificateID h),
       fd_Switches = [dh_SSLForced h, dh_HSTSEnabled h, dh_HSTSSubdomains h, dh_HTTP2Support h, dh_HTTP3Support h],
       fd_Advanced = trim_space (dh_AdvancedConfig h), fd_Directory = meta_Directory (dh_Meta h),
       fd_Ownership = ownership (dh_Meta h), fd_Marked = dh_OwnerMarker h \<rparr>"

section \<open>The resource interface\<close>

datatype shape = ShapeProxy ProxyShape | ShapeRedirect RedirectShape | ShapeStream StreamShape | ShapeDead DeadShape

datatype digest = Sha256 shape

fun r_Kind :: "Resource \<Rightarrow> Kind" where
  "r_Kind (Proxy _) = KindProxy"
| "r_Kind (Redirect _) = KindRedirect"
| "r_Kind (Strm _) = KindStream"
| "r_Kind (Dead _) = KindDead"

fun ResourceID :: "Resource \<Rightarrow> int" where
  "ResourceID (Proxy h) = ph_ID h"
| "ResourceID (Redirect h) = rh_ID h"
| "ResourceID (Strm s) = st_ID s"
| "ResourceID (Dead h) = dh_ID h"

fun SetResourceID :: "int \<Rightarrow> Resource \<Rightarrow> Resource" where
  "SetResourceID i (Proxy h) = Proxy (h\<lparr> ph_ID := i \<rparr>)"
| "SetResourceID i (Redirect h) = Redirect (h\<lparr> rh_ID := i \<rparr>)"
| "SetResourceID i (Strm s) = Strm (s\<lparr> st_ID := i \<rparr>)"
| "SetResourceID i (Dead h) = Dead (h\<lparr> dh_ID := i \<rparr>)"

fun ResourceKey :: "Resource \<Rightarrow> string" where
  "ResourceKey (Proxy h) = primaryDomain (ph_DomainNames h)"
| "ResourceKey (Redirect h) = primaryDomain (rh_DomainNames h)"
| "ResourceKey (Strm s) = port_raw (st_IncomingPort s)"
| "ResourceKey (Dead h) = primaryDomain (dh_DomainNames h)"

text \<open>The optional \<open>Domains\<close> method: streams have none.\<close>

fun Domains :: "Resource \<Rightarrow> string list option" where
  "Domains (Proxy h) = Some (NormalizeDomains (ph_DomainNames h))"
| "Domains (Redirect h) = Some (NormalizeDomains (rh_DomainNames h))"
| "Domains (Strm s) = None"
| "Domains (Dead h) = Some (NormalizeDomains (dh_DomainNames h))"

fun ResourceMeta :: "Resource \<Rightarrow> Meta" where
  "ResourceMeta (Proxy h) = ph_Meta h"
| "ResourceMeta (Redirect h) = rh_Meta h"
| "ResourceMeta (Strm s) = st_Meta s"
| "ResourceMeta (Dead h) = dh_Meta h"

fun OwnerMarked :: "Resource \<Rightarrow> bool" where
  "OwnerMarked (Proxy h) = ph_OwnerMarker h"
| "OwnerMarked (Redirect h) = rh_OwnerMarker h"
| "OwnerMarked (Strm s) = st_OwnerMarker s"
| "OwnerMarked (Dead h) = dh_OwnerMarker h"

fun ResourceCertificate :: "Resource \<Rightarrow> CertificateID" where
  "ResourceCertificate (Proxy h) = ph_CertificateID h"
| "ResourceCertificate (Redirect h) = rh_CertificateID h"
| "ResourceCertificate (Strm s) = st_CertificateID s"
| "ResourceCertificate (Dead h) = dh_CertificateID h"

fun r_IsEnabled :: "Resource \<Rightarrow> bool" where
  "r_IsEnabled (Proxy h) = ph_Enabled h"
| "r_IsEnabled (Redirect h) = rh_Enabled h"
| "r_IsEnabled (Strm s) = st_Enabled s"
| "r_IsEnabled (Dead h) = dh_Enabled h"

fun SetEnabled :: "bool \<Rightarrow> Resource \<Rightarrow> Resource" where
  "SetEnabled b (Proxy h) = Proxy (h\<lparr> ph_Enabled := b \<rparr>)"
| "SetEnabled b (Redirect h) = Redirect (h\<lparr> rh_Enabled := b \<rparr>)"
| "SetEnabled b (Strm s) = Strm (s\<lparr> st_Enabled := b \<rparr>)"
| "SetEnabled b (Dead h) = Dead (h\<lparr> dh_Enabled := b \<rparr>)"

fun r_decode :: "Resource \<Rightarrow> Resource" where
  "r_decode (Proxy h) = Proxy (ph_decode h)"
| "r_decode (Redirect h) = Redirect (rh_decode h)"
| "r_decode (Strm s) = Strm (st_decode s)"
| "r_decode (Dead h) = Dead (dh_decode h)"

fun AdoptServerState :: "Resource \<Rightarrow> Resource \<Rightarrow> Resource" where
  "AdoptServerState (Proxy h) current = Proxy (ph_AdoptServerState h current)"
| "AdoptServerState (Redirect h) current = Redirect (rh_AdoptServerState h current)"
| "AdoptServerState (Strm s) current = Strm (st_AdoptServerState s current)"
| "AdoptServerState (Dead h) current = Dead (dh_AdoptServerState h current)"

fun Fingerprint :: "Resource \<Rightarrow> digest" where
  "Fingerprint (Proxy h) = Sha256 (ShapeProxy (ph_shape h))"
| "Fingerprint (Redirect h) = Sha256 (ShapeRedirect (rh_shape h))"
| "Fingerprint (Strm s) = Sha256 (ShapeStream (st_shape s))"
| "Fingerprint (Dead h) = Sha256 (ShapeDead (dh_shape h))"

section \<open>The contract of the interface\<close>

text \<open>What the reconcile worker relies on, for one record type: the enabled flag and the id are
  bookkeeping, neither is part of the identity or of the fingerprint; adopting the state of a
  live resource never changes the identity, and once is enough.\<close>

locale managed_resource =
  fixes key :: "'r \<Rightarrow> string" and metaof :: "'r \<Rightarrow> Meta" and enabled :: "'r \<Rightarrow> bool"
    and set_enabled :: "bool \<Rightarrow> 'r \<Rightarrow> 'r" and set_id :: "int \<Rightarrow> 'r \<Rightarrow> 'r"
    and adopt :: "'r \<Rightarrow> Resource \<Rightarrow> 'r" and print :: "'r \<Rightarrow> 'f"
  assumes enabled_set_enabled: "enabled (set_enabled b r) = b"
    and print_set_enabled: "print (set_enabled b r) = print r"
    and print_set_id: "print (set_id i r) = print r"
    and key_set_enabled: "key (set_enabled b r) = key r"
    and key_set_id: "key (set_id i r) = key r"
    and key_adopt: "key (adopt r c) = key r"
    and meta_adopt: "metaof (adopt r c) = metaof r \<or> metaof (adopt r c) = AdoptMeta (metaof r) (ResourceMeta c)"
    and enabled_adopt: "enabled (adopt r c) = enabled r"
    and adopt_idem: "adopt (adopt r c) c = adopt r c"
begin

lemma owner_adopt: "ManagedBy (metaof (adopt r c)) v = ManagedBy (metaof r) v"
  using meta_adopt [of r c] by auto

lemma ownership_adopt: "ownership (metaof (adopt r c)) = ownership (metaof r)"
  using meta_adopt [of r c] by auto

lemma settled:
  "print (set_enabled b (set_id i (adopt (adopt r c) c))) = print (adopt r c)"
  by (simp add: adopt_idem print_set_enabled print_set_id)

lemma toggled: "enabled (set_enabled (enabled c) r) = enabled c \<and> key (set_enabled (enabled c) r) = key r"
  by (simp add: enabled_set_enabled key_set_enabled)

end

lemma adoptCertificate_idem: "adoptCertificate (adoptCertificate d l) l = adoptCertificate d l"
  by (simp add: adoptCertificate_def)

lemma ph_print_bookkeeping:
  "ph_shape (h\<lparr> ph_Enabled := b \<rparr>) = ph_shape h" "ph_shape (h\<lparr> ph_ID := i \<rparr>) = ph_shape h"
proof -
  have a: "ph_accessLists (h\<lparr> ph_Enabled := b \<rparr>) = ph_accessLists h"
      "ph_accessLists (h\<lparr> ph_ID := i \<rparr>) = ph_accessLists h"
    by (simp_all add: ph_accessLists_def cong: if_cong)
  have f: "ph_forwardOptions (h\<lparr> ph_Enabled := b \<rparr>) = ph_forwardOptions h"
      "ph_forwardOptions (h\<lparr> ph_ID := i \<rparr>) = ph_forwardOptions h"
    by (simp_all add: ph_forwardOptions_def)
  show "ph_shape (h\<lparr> ph_Enabled := b \<rparr>) = ph_shape h" "ph_shape (h\<lparr> ph_ID := i \<rparr>) = ph_shape h"
    unfolding ph_shape_def a f Let_def by simp_all
qed

lemma ph_adopt_fields:
  "ph_DomainNames (ph_AdoptServerState h c) = ph_DomainNames h"
  "ph_Enabled (ph_AdoptServerState h c) = ph_Enabled h"
  "ph_Meta (ph_AdoptServerState h c) = ph_Meta h \<or> ph_Meta (ph_AdoptServerState h c) = AdoptMeta (ph_Meta h) (ResourceMeta c)"
  by (simp_all add: ph_AdoptServerState_def split: Resource.split)

lemma ph_adopt_idem: "ph_AdoptServerState (ph_AdoptServerState h c) c = ph_AdoptServerState h c"
proof (cases c)
  case (Proxy live)
  then show ?thesis
    by (simp add: ph_AdoptServerState_def adoptCertificate_idem AdoptMeta_idem adoptLocationDefaults_idem)
qed (simp_all add: ph_AdoptServerState_def)

interpretation proxy: managed_resource "\<lambda>h. primaryDomain (ph_DomainNames h)" ph_Meta ph_Enabled
  "\<lambda>b h. h\<lparr> ph_Enabled := b \<rparr>" "\<lambda>i h. h\<lparr> ph_ID := i \<rparr>" ph_AdoptServerState ph_shape
  by unfold_locales (use ph_adopt_fields(3) in \<open>simp_all add: ph_print_bookkeeping ph_adopt_fields ph_adopt_idem\<close>)

interpretation redirect: managed_resource "\<lambda>h. primaryDomain (rh_DomainNames h)" rh_Meta rh_Enabled
  "\<lambda>b h. h\<lparr> rh_Enabled := b \<rparr>" "\<lambda>i h. h\<lparr> rh_ID := i \<rparr>" rh_AdoptServerState rh_shape
  by unfold_locales
     (simp_all add: rh_shape_def rh_AdoptServerState_def adoptCertificate_idem AdoptMeta_idem split: Resource.split)

interpretation strm: managed_resource "\<lambda>s. port_raw (st_IncomingPort s)" st_Meta st_Enabled
  "\<lambda>b s. s\<lparr> st_Enabled := b \<rparr>" "\<lambda>i s. s\<lparr> st_ID := i \<rparr>" st_AdoptServerState st_shape
  by unfold_locales
     (simp_all add: st_shape_def st_AdoptServerState_def adoptCertificate_idem AdoptMeta_idem split: Resource.split)

interpretation dead: managed_resource "\<lambda>h. primaryDomain (dh_DomainNames h)" dh_Meta dh_Enabled
  "\<lambda>b h. h\<lparr> dh_Enabled := b \<rparr>" "\<lambda>i h. h\<lparr> dh_ID := i \<rparr>" dh_AdoptServerState dh_shape
  by unfold_locales
     (simp_all add: dh_shape_def dh_AdoptServerState_def adoptCertificate_idem AdoptMeta_idem split: Resource.split)

text \<open>The four together: the interface value the worker handles.\<close>

interpretation res: managed_resource ResourceKey ResourceMeta r_IsEnabled SetEnabled SetResourceID
  AdoptServerState Fingerprint
proof unfold_locales
  fix r c :: Resource and b :: bool and i :: int
  show "r_IsEnabled (SetEnabled b r) = b" by (cases r) simp_all
  show "Fingerprint (SetEnabled b r) = Fingerprint r"
    by (cases r) (simp_all add: proxy.print_set_enabled redirect.print_set_enabled strm.print_set_enabled dead.print_set_enabled)
  show "Fingerprint (SetResourceID i r) = Fingerprint r"
    by (cases r) (simp_all add: proxy.print_set_id redirect.print_set_id strm.print_set_id dead.print_set_id)
  show "ResourceKey (SetEnabled b r) = ResourceKey r" by (cases r) simp_all
  show "ResourceKey (SetResourceID i r) = ResourceKey r" by (cases r) simp_all
  show "ResourceKey (AdoptServerState r c) = ResourceKey r"
    by (cases r) (simp_all add: proxy.key_adopt redirect.key_adopt strm.key_adopt dead.key_adopt)
  show "ResourceMeta (AdoptServerState r c) = ResourceMeta r \<or>
      ResourceMeta (AdoptServerState r c) = AdoptMeta (ResourceMeta r) (ResourceMeta c)"
    using proxy.meta_adopt redirect.meta_adopt strm.meta_adopt dead.meta_adopt by (cases r) simp_all
  show "r_IsEnabled (AdoptServerState r c) = r_IsEnabled r"
    by (cases r) (simp_all add: proxy.enabled_adopt redirect.enabled_adopt strm.enabled_adopt dead.enabled_adopt)
  show "AdoptServerState (AdoptServerState r c) c = AdoptServerState r c"
    by (cases r) (simp_all add: proxy.adopt_idem redirect.adopt_idem strm.adopt_idem dead.adopt_idem)
qed

lemma r_Kind_simps [simp]:
  "r_Kind (SetEnabled b r) = r_Kind r" "r_Kind (SetResourceID i r) = r_Kind r"
  "r_Kind (AdoptServerState r c) = r_Kind r" "r_Kind (r_decode r) = r_Kind r"
  by (cases r; simp)+

lemma ResourceID_simps [simp]:
  "ResourceID (SetResourceID i r) = i" "ResourceID (SetEnabled b r) = ResourceID r"
  by (cases r; simp)+

lemma ResourceMeta_bookkeeping [simp]:
  "ResourceMeta (SetEnabled b r) = ResourceMeta r" "ResourceMeta (SetResourceID i r) = ResourceMeta r"
  by (cases r; simp)+

section \<open>Decoding\<close>

lemma liftOwnership_user_text: "liftOwnership a m k = (a', m', b) \<Longrightarrow> user_text a'"
  using splitMarker_user_text [of a] splitMarker_not_found [of a]
  by (cases rule: liftOwnership_cases [where adv = a and m = m and key = k]) auto

lemma splitMarker_user: "user_text s \<Longrightarrow> sp_found (splitMarker s) = False"
  using split_lines_no_marker [of "split_on (CHR 0x0A) s"]
  by (auto simp: splitMarker_def user_text_def list_all_iff)

lemma liftOwnership_user: "user_text a \<Longrightarrow> liftOwnership a m k = (a, m, False)"
  by (cases rule: liftOwnership_cases [where adv = a and m = m and key = k]) (auto simp: splitMarker_user splitMarker_valid_found dest: splitMarker_valid_found)

lemma liftDirectory_Nil [simp]: "liftDirectory m [] = m"
  by (simp add: liftDirectory_def)

lemma idsOf_Nil [simp]: "idsOf xs [] = xs"
  by (simp add: idsOf_def)

fun AdvancedConfig :: "Resource \<Rightarrow> string" where
  "AdvancedConfig (Proxy h) = ph_AdvancedConfig h"
| "AdvancedConfig (Redirect h) = rh_AdvancedConfig h"
| "AdvancedConfig (Strm s) = st_AdvancedConfig s"
| "AdvancedConfig (Dead h) = dh_AdvancedConfig h"

lemma decode_parts:
  assumes "liftOwnership (AdvancedConfig r) (ResourceMeta r) (ResourceKey r) = (a, m, b)"
  shows "AdvancedConfig (r_decode r) = a" "OwnerMarked (r_decode r) = (b \<or> OwnerMarked r)"
    "\<exists>dir. ResourceMeta (r_decode r) = liftDirectory m dir" "ResourceKey (r_decode r) = ResourceKey r"
  using assms by (cases r; auto simp: ph_decode_def rh_decode_def st_decode_def dh_decode_def)+

lemma decode_user_text: "user_text (AdvancedConfig (r_decode r))"
proof -
  obtain a m b where "liftOwnership (AdvancedConfig r) (ResourceMeta r) (ResourceKey r) = (a, m, b)"
    by (cases "liftOwnership (AdvancedConfig r) (ResourceMeta r) (ResourceKey r)") auto
  with decode_parts(1) liftOwnership_user_text show ?thesis by blast
qed

lemma ResourceKey_decode [simp]: "ResourceKey (r_decode r) = ResourceKey r"
  by (cases r) (simp_all add: ph_decode_def rh_decode_def st_decode_def dh_decode_def split: prod.split)

lemma decode_user_fixed:
  "user_text (ph_AdvancedConfig h) \<Longrightarrow> ph_Directory h = [] \<Longrightarrow> ph_AccessLists h = [] \<Longrightarrow>
     list_all (\<lambda>l. loc_AccessLists l = []) (ph_Locations h) \<Longrightarrow> ph_decode h = h"
  "user_text (rh_AdvancedConfig g) \<Longrightarrow> rh_Directory g = [] \<Longrightarrow> rh_decode g = g"
  "user_text (st_AdvancedConfig s) \<Longrightarrow> st_Directory s = [] \<Longrightarrow> st_decode s = s"
  "user_text (dh_AdvancedConfig d) \<Longrightarrow> dh_Directory d = [] \<Longrightarrow> dh_decode d = d"
proof -
  assume h: "user_text (ph_AdvancedConfig h)" "ph_Directory h = []" "ph_AccessLists h = []"
    "list_all (\<lambda>l. loc_AccessLists l = []) (ph_Locations h)"
  have "map (\<lambda>l. l\<lparr> loc_AccessListIDs := idsOf (loc_AccessListIDs l) (loc_AccessLists l), loc_AccessLists := [] \<rparr>)
      (ph_Locations h) = ph_Locations h"
    using h(4) by (intro map_idI) (auto simp: list_all_iff)
  with h show "ph_decode h = h" by (simp add: ph_decode_def liftOwnership_user)
qed (simp_all add: rh_decode_def st_decode_def dh_decode_def liftOwnership_user)

lemma decode_idem: "r_decode (r_decode r) = r_decode r"
proof (cases r)
  case (Proxy h)
  with decode_user_text [of r] have "user_text (ph_AdvancedConfig (ph_decode h))" by simp
  then have "ph_decode (ph_decode h) = ph_decode h"
    by (rule decode_user_fixed(1)) (auto simp: ph_decode_def list_all_iff split: prod.split)
  with Proxy show ?thesis by simp
next
  case (Redirect h)
  with decode_user_text [of r] have "user_text (rh_AdvancedConfig (rh_decode h))" by simp
  then have "rh_decode (rh_decode h) = rh_decode h"
    by (rule decode_user_fixed(2)) (simp add: rh_decode_def split: prod.split)
  with Redirect show ?thesis by simp
next
  case (Strm h)
  with decode_user_text [of r] have "user_text (st_AdvancedConfig (st_decode h))" by simp
  then have "st_decode (st_decode h) = st_decode h"
    by (rule decode_user_fixed(3)) (simp add: st_decode_def split: prod.split)
  with Strm show ?thesis by simp
next
  case (Dead h)
  with decode_user_text [of r] have "user_text (dh_AdvancedConfig (dh_decode h))" by simp
  then have "dh_decode (dh_decode h) = dh_decode h"
    by (rule decode_user_fixed(4)) (simp add: dh_decode_def split: prod.split)
  with Dead show ?thesis by simp
qed

text \<open>A trusted marker is one that names the resource it was found on; everything else leaves
  the resource without an owner of ours.\<close>

lemma liftDirectory_other: "k \<noteq> MetaDirectory \<Longrightarrow> liftDirectory m d k = m k"
  by (simp add: liftDirectory_def Let_def)

lemma decode_marked:
  assumes "OwnerMarked (r_decode r)" "\<not> OwnerMarked r"
  obtains mk where "sp_marker (splitMarker (AdvancedConfig r)) = Some mk" "mk_Key mk = ResourceKey r"
    "ManagedBy (ResourceMeta (r_decode r)) ManagedByValue"
    "own_container (ownership (ResourceMeta (r_decode r))) = mk_Container mk"
    "own_index (ownership (ResourceMeta (r_decode r))) = mk_Index mk"
proof -
  obtain a m b where l: "liftOwnership (AdvancedConfig r) (ResourceMeta r) (ResourceKey r) = (a, m, b)"
    by (cases "liftOwnership (AdvancedConfig r) (ResourceMeta r) (ResourceKey r)") auto
  from decode_parts(2) [OF l] assms have b by simp
  with l obtain mk where mk: "sp_marker (splitMarker (AdvancedConfig r)) = Some mk" "mk_Key mk = ResourceKey r"
      "m = stamp_marker mk (ResourceMeta r)"
    by (cases rule: liftOwnership_cases [where adv = "AdvancedConfig r" and m = "ResourceMeta r" and key = "ResourceKey r"]) auto
  obtain dir where "ResourceMeta (r_decode r) = liftDirectory m dir" using decode_parts(3) [OF l] by blast
  then show thesis
    using mk by (intro that [OF mk(1,2)])
      (simp_all add: ManagedBy_iff ownership_def meta_text_def liftDirectory_other stamp_marker_apply)
qed

lemma decode_untrusted:
  assumes "sp_found (splitMarker (AdvancedConfig r))"
    "\<And>mk. sp_marker (splitMarker (AdvancedConfig r)) = Some mk \<Longrightarrow> mk_Key mk \<noteq> ResourceKey r"
  shows "\<not> ManagedBy (ResourceMeta (r_decode r)) ManagedByValue"
proof -
  obtain a m b where l: "liftOwnership (AdvancedConfig r) (ResourceMeta r) (ResourceKey r) = (a, m, b)"
    by (cases "liftOwnership (AdvancedConfig r) (ResourceMeta r) (ResourceKey r)") auto
  then have "m = (if ManagedBy (ResourceMeta r) ManagedByValue then drop_keys ownershipKeys (ResourceMeta r)
      else ResourceMeta r)"
    using assms by (cases rule: liftOwnership_cases [where adv = "AdvancedConfig r" and m = "ResourceMeta r" and key = "ResourceKey r"]) auto
  then have "\<not> ManagedBy m ManagedByValue"
    by (auto simp: ManagedBy_iff drop_keys_apply ownershipKeys_def split: if_splits)
  moreover obtain dir where "ResourceMeta (r_decode r) = liftDirectory m dir" using decode_parts(3) [OF l] by blast
  ultimately show ?thesis by (simp add: ManagedBy_iff liftDirectory_other)
qed

end
