(* ===== verification/Payloads.thy ===== *)
theory Payloads
  imports Resources
begin

text \<open>
  Request bodies (\<open>internal/npm/payloads.go\<close>): what is sent for each kind and dialect, the
  checks that refuse a body, the settings an upstream server does not have, and \<open>Conform\<close>, which
  brings a desired resource in line with what the server can store. An optional body field (a Go
  pointer with \<open>omitempty\<close>) is an option; a nil \<open>any\<close> result is the error branch of a sum.
\<close>

section \<open>Field helpers\<close>

fun as_bool :: "meta_val option \<Rightarrow> bool" where
  "as_bool (Some (MBool b)) = b"
| "as_bool _ = False"

definition metaInt :: "meta_val option \<Rightarrow> int" where
  "metaInt v = meta_index v"

definition keepIf :: "Dialect \<Rightarrow> Kind \<Rightarrow> string \<Rightarrow> Flag \<Rightarrow> Flag" where
  "keepIf d kind field val = (if \<not> Accepts d kind field then False else val)"

definition flagIf :: "Dialect \<Rightarrow> Kind \<Rightarrow> string \<Rightarrow> Flag \<Rightarrow> Flag option" where
  "flagIf d kind field val = (if \<not> Accepts d kind field then None else Some val)"

definition textIf :: "Dialect \<Rightarrow> Kind \<Rightarrow> string \<Rightarrow> string \<Rightarrow> string option" where
  "textIf d kind field val = (if \<not> Accepts d kind field then None else Some val)"

text \<open>\<open>None\<close> is the nil meta object of a server that no longer accepts one.\<close>

definition metaForWrite :: "Dialect \<Rightarrow> Kind \<Rightarrow> Meta \<Rightarrow> Meta option" where
  "metaForWrite d kind m =
     (if \<not> Accepts d kind ''meta'' then None else Some (drop_keys serverMetaKeys m))"

definition advancedFor :: "Dialect \<Rightarrow> Kind \<Rightarrow> Meta \<Rightarrow> string \<Rightarrow> string \<Rightarrow> string" where
  "advancedFor d kind m key user =
     (if \<not> CarriesMarker d kind then user
      else case markerFor m key of None \<Rightarrow> user | Some mk \<Rightarrow> withMarker user mk)"

record npmplusColumns =
  col_Directory :: "string option"
  col_DNSChallenge :: "bool option"
  col_DNSProvider :: string
  col_DNSCredentials :: string
  col_PropagationSeconds :: "int option"

definition columnsFor :: "Dialect \<Rightarrow> Kind \<Rightarrow> Meta \<Rightarrow> CertificateID \<Rightarrow> npmplusColumns option" where
  "columnsFor d kind m certificate =
     (let dir = (if Accepts d kind ''npmplus_directory''
                 then map_option trim_space (as_string (m MetaDirectory)) else None);
          dns = (cid_New certificate \<and> Accepts d kind ''npmplus_dns_challenge'' \<and> as_bool (m ''dns_challenge''));
          seconds = metaInt (m ''propagation_seconds'')
      in if dir = None \<and> \<not> dns then None
         else Some \<lparr> col_Directory = dir, col_DNSChallenge = (if dns then Some True else None),
           col_DNSProvider = (if dns then meta_text m ''dns_provider'' else []),
           col_DNSCredentials = (if dns then meta_text m ''dns_provider_credentials'' else []),
           col_PropagationSeconds = (if dns \<and> seconds > 0 then Some seconds else None) \<rparr>)"

definition keepSchemeFor :: "Dialect \<Rightarrow> string \<Rightarrow> string" where
  "keepSchemeFor d scheme =
     (if scheme \<noteq> SchemeAuto \<and> scheme \<noteq> SchemeKeep then scheme
      else if d_Flavour d = FlavourNPMplus \<and> AcceptsValue d KindRedirect ''forward_scheme'' SchemeKeep then SchemeKeep
      else if AcceptsValue d KindRedirect ''forward_scheme'' SchemeAuto then SchemeAuto
      else scheme)"

definition proxyProtocolFor :: "Dialect \<Rightarrow> ProxyProtocolLevel \<Rightarrow> json" where
  "proxyProtocolFor d level =
     (if TypeOf d KindStream fieldProxyProtocol = ''boolean'' then JBool (level > 0) else marshal_level level)"

section \<open>Checks\<close>

datatype payload_error = SchemeUnsupported string | UnresolvedNames "string list"
  | UnresolvedLocationNames string "string list" | NeedsEmail | NeedsAgreement | TooManyAccessLists nat
  | NonNumericPorts Port Port | NewStreamCertificate | UdpWithTLS | UdpWithProxyProtocolV1

definition checkScheme :: "Flavour \<Rightarrow> string \<Rightarrow> payload_error option" where
  "checkScheme flavour scheme =
     (if flavour \<noteq> FlavourNPM then None
      else if scheme = ''http'' \<or> scheme = ''https'' then None
      else Some (SchemeUnsupported scheme))"

definition checkLetsEncrypt :: "Flavour \<Rightarrow> CertificateID \<Rightarrow> Meta \<Rightarrow> payload_error option" where
  "checkLetsEncrypt flavour certificate m =
     (if flavour \<noteq> FlavourNPM \<or> \<not> cid_New certificate then None
      else if meta_text m ''letsencrypt_email'' = [] then Some NeedsEmail
      else if \<not> as_bool (m ''letsencrypt_agree'') then Some NeedsAgreement
      else None)"

definition checkAccessListNames :: "ProxyHost \<Rightarrow> payload_error option" where
  "checkAccessListNames h =
     (if ph_AccessListNames h \<noteq> [] then Some (UnresolvedNames (ph_AccessListNames h))
      else case find (\<lambda>l. loc_AccessListNames l \<noteq> []) (ph_Locations h) of
             Some l \<Rightarrow> Some (UnresolvedLocationNames (loc_Path l) (loc_AccessListNames l))
           | None \<Rightarrow> None)"

fun unless :: "'e option \<Rightarrow> 'e + 'a \<Rightarrow> 'e + 'a" where
  "unless (Some e) r = Inl e"
| "unless None r = r"

lemma unless_Inr [simp]: "unless c r = Inr x \<longleftrightarrow> c = None \<and> r = Inr x"
  by (cases c) auto

section \<open>Bodies\<close>

record locationPayloadNPMplus =
  lq_Path :: string
  lq_LocationType :: string
  lq_ForwardScheme :: string
  lq_ForwardHost :: string
  lq_ForwardPort :: int
  lq_AdvancedConfig :: string
  lq_LocationConfig :: "string option"
  lq_AccessListIDs :: "int list"
  lq_AccessListType :: string
  lq_Enabled :: Flag
  lq_NoIndex :: Flag
  lq_DisableCrowdsecAppsec :: Flag
  lq_DisableRequestBuffering :: Flag
  lq_DisableResponseBuffering :: Flag
  lq_UpstreamCompression :: Flag
  lq_FancyIndex :: Flag
  lq_XFrameOptions :: string
  lq_AuthRequest :: string
  lq_AuthRequestUpstream :: string

record locationPayloadNPM =
  ln_Path :: string
  ln_ForwardScheme :: string
  ln_ForwardHost :: string
  ln_ForwardPort :: int
  ln_AdvancedConfig :: string

record proxyPayloadNPMplus =
  pq_DomainNames :: "string list"
  pq_ForwardScheme :: string
  pq_ForwardHost :: string
  pq_ForwardPort :: int
  pq_CertificateID :: CertificateID
  pq_SSLForced :: Flag
  pq_HSTSEnabled :: Flag
  pq_HSTSSubdomains :: Flag
  pq_TrustForwardedProto :: "Flag option"
  pq_HTTP2Support :: "Flag option"
  pq_HTTP3Support :: Flag
  pq_BlockExploits :: "Flag option"
  pq_CachingEnabled :: "Flag option"
  pq_AllowWebsocketUpgrade :: "Flag option"
  pq_AccessListIDs :: "int list"
  pq_AccessListType :: string
  pq_AdvancedConfig :: string
  pq_LocationConfig :: string
  pq_Locations :: "locationPayloadNPMplus list"
  pq_NoIndex :: Flag
  pq_DisableCrowdsecAppsec :: Flag
  pq_DisableRequestBuffering :: Flag
  pq_DisableResponseBuffering :: Flag
  pq_UpstreamCompression :: Flag
  pq_FancyIndex :: Flag
  pq_XFrameOptions :: string
  pq_AuthRequest :: string
  pq_AuthRequestUpstream :: string
  pq_Columns :: "npmplusColumns option"
  pq_Meta :: "Meta option"

record proxyPayloadNPM =
  pn_DomainNames :: "string list"
  pn_ForwardScheme :: string
  pn_ForwardHost :: string
  pn_ForwardPort :: int
  pn_CertificateID :: CertificateID
  pn_SSLForced :: Flag
  pn_HSTSEnabled :: Flag
  pn_HSTSSubdomains :: Flag
  pn_TrustForwardedProto :: "bool option"
  pn_HTTP2Support :: Flag
  pn_BlockExploits :: Flag
  pn_CachingEnabled :: Flag
  pn_AllowWebsocketUpgrade :: Flag
  pn_AccessListID :: int
  pn_AdvancedConfig :: string
  pn_Locations :: "locationPayloadNPM list"
  pn_Meta :: "Meta option"

record redirectPayload =
  rp_DomainNames :: "string list"
  rp_ForwardScheme :: string
  rp_ForwardDomainName :: string
  rp_ForwardHTTPCode :: int
  rp_PreservePath :: Flag
  rp_CertificateID :: CertificateID
  rp_SSLForced :: Flag
  rp_HSTSEnabled :: Flag
  rp_HSTSSubdomains :: Flag
  rp_HTTP2Support :: "Flag option"
  rp_HTTP3Support :: "Flag option"
  rp_BlockExploits :: "Flag option"
  rp_AdvancedConfig :: string
  rp_Columns :: "npmplusColumns option"
  rp_Meta :: "Meta option"

record streamPayloadNPMplus =
  sq_IncomingPort :: string
  sq_ForwardingHost :: string
  sq_ForwardingPort :: string
  sq_TCPForwarding :: Flag
  sq_UDPForwarding :: Flag
  sq_CertificateID :: int
  sq_ProxyProtocol :: json
  sq_ProxyTLS :: Flag
  sq_AdvancedConfig :: string
  sq_Description :: string
  sq_Columns :: "npmplusColumns option"
  sq_Meta :: "Meta option"

record streamPayloadNPM =
  sn_IncomingPort :: int
  sn_ForwardingHost :: string
  sn_ForwardingPort :: int
  sn_TCPForwarding :: Flag
  sn_UDPForwarding :: Flag
  sn_CertificateID :: "CertificateID option"
  sn_Meta :: "Meta option"

record deadPayload =
  dp_DomainNames :: "string list"
  dp_CertificateID :: CertificateID
  dp_SSLForced :: Flag
  dp_HSTSEnabled :: Flag
  dp_HSTSSubdomains :: Flag
  dp_HTTP2Support :: "Flag option"
  dp_HTTP3Support :: "Flag option"
  dp_AdvancedConfig :: string
  dp_Columns :: "npmplusColumns option"
  dp_Meta :: "Meta option"

datatype payload = ProxyNPMplus proxyPayloadNPMplus | ProxyNPM proxyPayloadNPM | RedirectBody redirectPayload
  | StreamNPMplus streamPayloadNPMplus | StreamNPM streamPayloadNPM | DeadBody deadPayload

section \<open>Proxy hosts\<close>

definition npm_location :: "Location \<Rightarrow> locationPayloadNPM" where
  "npm_location l = \<lparr> ln_Path = loc_Path l, ln_ForwardScheme = loc_ForwardScheme l,
     ln_ForwardHost = loc_ForwardHost l, ln_ForwardPort = loc_ForwardPort l,
     ln_AdvancedConfig = loc_AdvancedConfig l \<rparr>"

definition npmplus_location :: "Dialect \<Rightarrow> Location \<Rightarrow> locationPayloadNPMplus" where
  "npmplus_location d l0 =
     (let l = cleanForwardOptions l0; listType = loc_accessListType l in
      \<lparr> lq_Path = loc_Path l, lq_LocationType = loc_LocationType l, lq_ForwardScheme = loc_ForwardScheme l,
        lq_ForwardHost = loc_ForwardHost l, lq_ForwardPort = loc_ForwardPort l,
        lq_AdvancedConfig = loc_AdvancedConfig l,
        lq_LocationConfig = textIf d KindProxy ''locations/npmplus_location_config'' (loc_LocationConfig l),
        lq_AccessListIDs = (if listType = AccessListCustom then loc_AccessListIDs l else []),
        lq_AccessListType = listType, lq_Enabled = loc_IsEnabled l, lq_NoIndex = loc_NoIndex l,
        lq_DisableCrowdsecAppsec = loc_DisableCrowdsecAppsec l,
        lq_DisableRequestBuffering = loc_DisableRequestBuffering l,
        lq_DisableResponseBuffering = loc_DisableResponseBuffering l,
        lq_UpstreamCompression = loc_UpstreamCompression l, lq_FancyIndex = loc_FancyIndex l,
        lq_XFrameOptions = loc_XFrameOptions l, lq_AuthRequest = loc_AuthRequest l,
        lq_AuthRequestUpstream = loc_AuthRequestUpstream l \<rparr>)"

definition ph_advanced :: "Dialect \<Rightarrow> ProxyHost \<Rightarrow> string" where
  "ph_advanced d h = advancedFor d KindProxy (ph_Meta h) (primaryDomain (ph_DomainNames h)) (ph_AdvancedConfig h)"

definition ph_bodyNPM :: "Dialect \<Rightarrow> ProxyHost \<Rightarrow> int list \<Rightarrow> proxyPayloadNPM" where
  "ph_bodyNPM d h ids =
     \<lparr> pn_DomainNames = NormalizeDomains (ph_DomainNames h), pn_ForwardScheme = ph_ForwardScheme h,
       pn_ForwardHost = ph_ForwardHost h, pn_ForwardPort = ph_ForwardPort h,
       pn_CertificateID = ph_CertificateID h, pn_SSLForced = ph_SSLForced h,
       pn_HSTSEnabled = ph_HSTSEnabled h, pn_HSTSSubdomains = ph_HSTSSubdomains h,
       pn_TrustForwardedProto = (if SupportsTrustForwardedProto d then Some (ph_TrustForwardedProto h) else None),
       pn_HTTP2Support = ph_HTTP2Support h, pn_BlockExploits = ph_BlockExploits h,
       pn_CachingEnabled = ph_CachingEnabled h, pn_AllowWebsocketUpgrade = ph_AllowWebsocketUpgrade h,
       pn_AccessListID = (case ids of [i] \<Rightarrow> i | _ \<Rightarrow> 0), pn_AdvancedConfig = ph_advanced d h,
       pn_Locations = map npm_location (ph_Locations h),
       pn_Meta = metaForWrite d KindProxy (ph_Meta h) \<rparr>"

definition ph_bodyNPMplus :: "Dialect \<Rightarrow> ProxyHost \<Rightarrow> int list \<Rightarrow> string \<Rightarrow> proxyPayloadNPMplus" where
  "ph_bodyNPMplus d h ids listType =
     (let forward = ph_forwardOptions h in
      \<lparr> pq_DomainNames = NormalizeDomains (ph_DomainNames h), pq_ForwardScheme = ph_ForwardScheme h,
        pq_ForwardHost = ph_ForwardHost h, pq_ForwardPort = ph_ForwardPort h,
        pq_CertificateID = ph_CertificateID h, pq_SSLForced = ph_SSLForced h,
        pq_HSTSEnabled = ph_HSTSEnabled h, pq_HSTSSubdomains = ph_HSTSSubdomains h,
        pq_TrustForwardedProto = flagIf d KindProxy ''trust_forwarded_proto'' (ph_TrustForwardedProto h),
        pq_HTTP2Support = flagIf d KindProxy ''http2_support'' (ph_HTTP2Support h),
        pq_HTTP3Support = ph_HTTP3Support h,
        pq_BlockExploits = flagIf d KindProxy ''block_exploits'' (ph_BlockExploits h),
        pq_CachingEnabled = flagIf d KindProxy ''caching_enabled'' (ph_CachingEnabled h),
        pq_AllowWebsocketUpgrade = flagIf d KindProxy ''allow_websocket_upgrade'' (ph_AllowWebsocketUpgrade h),
        pq_AccessListIDs = ids, pq_AccessListType = listType, pq_AdvancedConfig = ph_advanced d h,
        pq_LocationConfig = ph_LocationConfig h, pq_Locations = map (npmplus_location d) (ph_Locations h),
        pq_NoIndex = ph_NoIndex h, pq_DisableCrowdsecAppsec = ph_DisableCrowdsecAppsec h,
        pq_DisableRequestBuffering = loc_DisableRequestBuffering forward,
        pq_DisableResponseBuffering = loc_DisableResponseBuffering forward,
        pq_UpstreamCompression = loc_UpstreamCompression forward, pq_FancyIndex = loc_FancyIndex forward,
        pq_XFrameOptions = ph_XFrameOptions h, pq_AuthRequest = ph_AuthRequest h,
        pq_AuthRequestUpstream = loc_AuthRequestUpstream forward,
        pq_Columns = columnsFor d KindProxy (ph_Meta h) (ph_CertificateID h),
        pq_Meta = metaForWrite d KindProxy (ph_Meta h) \<rparr>)"

definition ph_Payload :: "Dialect \<Rightarrow> ProxyHost \<Rightarrow> payload_error + payload" where
  "ph_Payload d h =
     unless (checkScheme (d_Flavour d) (ph_ForwardScheme h))
    (unless (checkAccessListNames h)
    (unless (checkLetsEncrypt (d_Flavour d) (ph_CertificateID h) (ph_Meta h))
     (case ph_accessLists h of (ids, listType) \<Rightarrow>
        if d_Flavour d = FlavourNPM then
          if length ids > 1 then Inl (TooManyAccessLists (length ids))
          else Inr (ProxyNPM (ph_bodyNPM d h ids))
        else Inr (ProxyNPMplus (ph_bodyNPMplus d h ids listType)))))"

section \<open>Redirections, streams and 404 hosts\<close>

definition rh_Payload :: "Dialect \<Rightarrow> RedirectionHost \<Rightarrow> payload_error + payload" where
  "rh_Payload d h =
     unless (checkLetsEncrypt (d_Flavour d) (rh_CertificateID h) (rh_Meta h))
     (Inr (RedirectBody
       \<lparr> rp_DomainNames = NormalizeDomains (rh_DomainNames h),
         rp_ForwardScheme = keepSchemeFor d (rh_ForwardScheme h),
         rp_ForwardDomainName = rh_ForwardDomainName h, rp_ForwardHTTPCode = rh_ForwardHTTPCode h,
         rp_PreservePath = rh_PreservePath h, rp_CertificateID = rh_CertificateID h,
         rp_SSLForced = rh_SSLForced h, rp_HSTSEnabled = rh_HSTSEnabled h,
         rp_HSTSSubdomains = rh_HSTSSubdomains h,
         rp_HTTP2Support = flagIf d KindRedirect ''http2_support'' (rh_HTTP2Support h),
         rp_HTTP3Support = (if d_Flavour d \<noteq> FlavourNPM then Some (rh_HTTP3Support h) else None),
         rp_BlockExploits = flagIf d KindRedirect ''block_exploits'' (rh_BlockExploits h),
         rp_AdvancedConfig = advancedFor d KindRedirect (rh_Meta h) (primaryDomain (rh_DomainNames h)) (rh_AdvancedConfig h),
         rp_Columns = columnsFor d KindRedirect (rh_Meta h) (rh_CertificateID h),
         rp_Meta = metaForWrite d KindRedirect (rh_Meta h) \<rparr>))"

definition st_bodyNPM :: "Dialect \<Rightarrow> StreamHost \<Rightarrow> streamPayloadNPM" where
  "st_bodyNPM d s =
     \<lparr> sn_IncomingPort = port_Int (st_IncomingPort s), sn_ForwardingHost = st_ForwardingHost s,
       sn_ForwardingPort = port_Int (st_ForwardingPort s), sn_TCPForwarding = st_TCPForwarding s,
       sn_UDPForwarding = st_UDPForwarding s,
       sn_CertificateID = (if SupportsStreamCertificate d then Some (st_CertificateID s) else None),
       sn_Meta = metaForWrite d KindStream (st_Meta s) \<rparr>"

definition st_bodyNPMplus :: "Dialect \<Rightarrow> StreamHost \<Rightarrow> streamPayloadNPMplus" where
  "st_bodyNPMplus d s =
     \<lparr> sq_IncomingPort = port_raw (st_IncomingPort s), sq_ForwardingHost = st_ForwardingHost s,
       sq_ForwardingPort = port_raw (st_ForwardingPort s), sq_TCPForwarding = st_TCPForwarding s,
       sq_UDPForwarding = st_UDPForwarding s, sq_CertificateID = cid_ID (st_CertificateID s),
       sq_ProxyProtocol = proxyProtocolFor d (st_ProxyProtocol s), sq_ProxyTLS = st_ProxyTLS s,
       sq_AdvancedConfig = advancedFor d KindStream (st_Meta s) (port_raw (st_IncomingPort s)) (st_AdvancedConfig s),
       sq_Description = take MaxDescriptionLength (st_Description s),
       sq_Columns = columnsFor d KindStream (st_Meta s) (st_CertificateID s),
       sq_Meta = metaForWrite d KindStream (st_Meta s) \<rparr>"

definition st_Payload :: "Dialect \<Rightarrow> StreamHost \<Rightarrow> payload_error + payload" where
  "st_Payload d s =
     (if d_Flavour d = FlavourNPM then
        if port_Int (st_IncomingPort s) = 0 \<or> port_Int (st_ForwardingPort s) = 0
        then Inl (NonNumericPorts (st_IncomingPort s) (st_ForwardingPort s))
        else Inr (StreamNPM (st_bodyNPM d s))
      else if cid_New (st_CertificateID s) then Inl NewStreamCertificate
      else if st_UDPForwarding s \<and> (cid_ID (st_CertificateID s) > 0 \<or> st_ProxyTLS s) then Inl UdpWithTLS
      else if st_UDPForwarding s \<and> st_ProxyProtocol s = 1 \<and> TypeOf d KindStream fieldProxyProtocol \<noteq> ''boolean''
      then Inl UdpWithProxyProtocolV1
      else Inr (StreamNPMplus (st_bodyNPMplus d s)))"

definition dh_Payload :: "Dialect \<Rightarrow> DeadHost \<Rightarrow> payload_error + payload" where
  "dh_Payload d h =
     unless (checkLetsEncrypt (d_Flavour d) (dh_CertificateID h) (dh_Meta h))
     (Inr (DeadBody
       \<lparr> dp_DomainNames = NormalizeDomains (dh_DomainNames h), dp_CertificateID = dh_CertificateID h,
         dp_SSLForced = dh_SSLForced h, dp_HSTSEnabled = dh_HSTSEnabled h,
         dp_HSTSSubdomains = dh_HSTSSubdomains h,
         dp_HTTP2Support = flagIf d KindDead ''http2_support'' (dh_HTTP2Support h),
         dp_HTTP3Support = (if d_Flavour d \<noteq> FlavourNPM then Some (dh_HTTP3Support h) else None),
         dp_AdvancedConfig = advancedFor d KindDead (dh_Meta h) (primaryDomain (dh_DomainNames h)) (dh_AdvancedConfig h),
         dp_Columns = columnsFor d KindDead (dh_Meta h) (dh_CertificateID h),
         dp_Meta = metaForWrite d KindDead (dh_Meta h) \<rparr>))"

fun Payload :: "Dialect \<Rightarrow> Resource \<Rightarrow> payload_error + payload" where
  "Payload d (Proxy h) = ph_Payload d h"
| "Payload d (Redirect h) = rh_Payload d h"
| "Payload d (Strm s) = st_Payload d s"
| "Payload d (Dead h) = dh_Payload d h"

section \<open>Settings only NPMplus has\<close>

definition plusList :: "Flag \<Rightarrow> Meta \<Rightarrow> string list" where
  "plusList http3 m = (if http3 then [''ssl.http3''] else []) @ (if meta_Directory m \<noteq> [] then [''group''] else [])"

definition listed :: "bool \<Rightarrow> string \<Rightarrow> string list" where
  "listed c name = (if c then [name] else [])"

definition ph_npmplusOnly :: "ProxyHost \<Rightarrow> string list" where
  "ph_npmplusOnly h =
     listed (ph_HTTP3Support h) ''ssl.http3'' @ listed (ph_NoIndex h) ''noindex''
     @ listed (ph_DisableCrowdsecAppsec h) ''crowdsec_appsec''
     @ listed (ph_DisableRequestBuffering h) ''request_buffering''
     @ listed (ph_DisableResponseBuffering h) ''response_buffering''
     @ listed (ph_UpstreamCompression h) ''upstream_compression'' @ listed (ph_FancyIndex h) ''fancyindex''
     @ listed (ph_XFrameOptions h \<noteq> []) ''x_frame_options''
     @ listed (ph_AuthRequest h \<noteq> [] \<and> ph_AuthRequest h \<noteq> ''none'') ''auth_request''
     @ listed (ph_AuthRequestUpstream h \<noteq> []) ''auth_request_upstream''
     @ listed (ph_LocationConfig h \<noteq> []) ''location_config''
     @ listed (ph_AccessListType h \<noteq> []) ''access_list_type''
     @ listed (meta_Directory (ph_Meta h) \<noteq> []) ''group''"

definition st_npmplusOnly :: "StreamHost \<Rightarrow> string list" where
  "st_npmplusOnly s =
     listed (st_ProxyProtocol s \<noteq> 0) ''proxy_protocol'' @ listed (st_ProxyTLS s) ''proxy_tls''
     @ listed (st_AdvancedConfig s \<noteq> []) ''advanced_config'' @ listed (st_Description s \<noteq> []) ''description''
     @ listed (meta_Directory (st_Meta s) \<noteq> []) ''group''"

fun UnsupportedByNPM :: "Resource \<Rightarrow> string list" where
  "UnsupportedByNPM (Proxy h) = ph_npmplusOnly h"
| "UnsupportedByNPM (Redirect h) = plusList (rh_HTTP3Support h) (rh_Meta h)"
| "UnsupportedByNPM (Strm s) = st_npmplusOnly s"
| "UnsupportedByNPM (Dead h) = plusList (dh_HTTP3Support h) (dh_Meta h)"

definition ph_stripPlus :: "ProxyHost \<Rightarrow> ProxyHost" where
  "ph_stripPlus h = h\<lparr> ph_HTTP3Support := False, ph_NoIndex := False, ph_DisableCrowdsecAppsec := False,
     ph_DisableRequestBuffering := False, ph_DisableResponseBuffering := False,
     ph_UpstreamCompression := False, ph_FancyIndex := False, ph_XFrameOptions := [], ph_AuthRequest := [],
     ph_AuthRequestUpstream := [], ph_LocationConfig := [], ph_Meta := ClearDirectory (ph_Meta h),
     ph_Locations := map stripPlus (ph_Locations h) \<rparr>"

definition st_stripPlus :: "StreamHost \<Rightarrow> StreamHost" where
  "st_stripPlus s = s\<lparr> st_ProxyProtocol := 0, st_ProxyTLS := False, st_AdvancedConfig := [],
     st_Description := [], st_Meta := ClearDirectory (st_Meta s) \<rparr>"

fun StripNPMplus :: "Resource \<Rightarrow> Resource" where
  "StripNPMplus (Proxy h) = Proxy (ph_stripPlus h)"
| "StripNPMplus (Redirect h) = Redirect (h\<lparr> rh_HTTP3Support := False, rh_Meta := ClearDirectory (rh_Meta h) \<rparr>)"
| "StripNPMplus (Strm s) = Strm (st_stripPlus s)"
| "StripNPMplus (Dead h) = Dead (h\<lparr> dh_HTTP3Support := False, dh_Meta := ClearDirectory (dh_Meta h) \<rparr>)"

section \<open>Conforming to the server\<close>

definition ph_conform :: "Dialect \<Rightarrow> ProxyHost \<Rightarrow> ProxyHost" where
  "ph_conform d h = h\<lparr> ph_OwnerMarker := CarriesMarker d KindProxy,
     ph_TrustForwardedProto := keepIf d KindProxy ''trust_forwarded_proto'' (ph_TrustForwardedProto h),
     ph_HTTP2Support := keepIf d KindProxy ''http2_support'' (ph_HTTP2Support h),
     ph_BlockExploits := keepIf d KindProxy ''block_exploits'' (ph_BlockExploits h),
     ph_CachingEnabled := keepIf d KindProxy ''caching_enabled'' (ph_CachingEnabled h),
     ph_AllowWebsocketUpgrade := keepIf d KindProxy ''allow_websocket_upgrade'' (ph_AllowWebsocketUpgrade h),
     ph_Locations := (if \<not> Accepts d KindProxy ''locations/npmplus_location_config''
       then map (\<lambda>l. l\<lparr> loc_LocationConfig := [] \<rparr>) (ph_Locations h) else ph_Locations h) \<rparr>"

definition rh_conform :: "Dialect \<Rightarrow> RedirectionHost \<Rightarrow> RedirectionHost" where
  "rh_conform d h = h\<lparr> rh_OwnerMarker := CarriesMarker d KindRedirect,
     rh_ForwardScheme := keepSchemeFor d (rh_ForwardScheme h),
     rh_HTTP2Support := keepIf d KindRedirect ''http2_support'' (rh_HTTP2Support h),
     rh_BlockExploits := keepIf d KindRedirect ''block_exploits'' (rh_BlockExploits h) \<rparr>"

definition st_conform :: "Dialect \<Rightarrow> StreamHost \<Rightarrow> StreamHost" where
  "st_conform d s =
     (let s1 = s\<lparr> st_OwnerMarker := CarriesMarker d KindStream \<rparr> in
      if TypeOf d KindStream fieldProxyProtocol = ''boolean'' \<and> st_ProxyProtocol s > 1
      then s1\<lparr> st_ProxyProtocol := 1 \<rparr> else s1)"

definition dh_conform :: "Dialect \<Rightarrow> DeadHost \<Rightarrow> DeadHost" where
  "dh_conform d h = h\<lparr> dh_OwnerMarker := CarriesMarker d KindDead,
     dh_HTTP2Support := keepIf d KindDead ''http2_support'' (dh_HTTP2Support h) \<rparr>"

fun r_conform :: "Dialect \<Rightarrow> Resource \<Rightarrow> Resource" where
  "r_conform d (Proxy h) = Proxy (ph_conform d h)"
| "r_conform d (Redirect h) = Redirect (rh_conform d h)"
| "r_conform d (Strm s) = Strm (st_conform d s)"
| "r_conform d (Dead h) = Dead (dh_conform d h)"

definition Conform :: "Resource \<Rightarrow> Dialect \<Rightarrow> Resource" where
  "Conform r d = r_conform d (if d_Flavour d = FlavourNPM then StripNPMplus r else r)"

fun retiredSwitches :: "Kind \<Rightarrow> (string \<times> string) list" where
  "retiredSwitches KindProxy = [(''websockets'', ''allow_websocket_upgrade''), (''ssl.http2'', ''http2_support''),
     (''block_exploits'', ''block_exploits''), (''caching'', ''caching_enabled''),
     (''trust_forwarded_proto'', ''trust_forwarded_proto'')]"
| "retiredSwitches KindRedirect = [(''ssl.http2'', ''http2_support''), (''block_exploits'', ''block_exploits'')]"
| "retiredSwitches KindStream = []"
| "retiredSwitches KindDead = [(''ssl.http2'', ''http2_support'')]"

definition Unavailable :: "Kind \<Rightarrow> Dialect \<Rightarrow> string list" where
  "Unavailable kind d = map fst (filter (\<lambda>(l, f). \<not> Accepts d kind f) (retiredSwitches kind))"

fun Downgraded :: "Resource \<Rightarrow> Dialect \<Rightarrow> string list" where
  "Downgraded (Strm s) d = (if st_ProxyProtocol s > 1 \<and> TypeOf d KindStream fieldProxyProtocol = ''boolean''
     then [''proxy_protocol''] else [])"
| "Downgraded _ d = []"

fun Inert :: "Resource \<Rightarrow> string list" where
  "Inert (Proxy h) =
     (let c = ph_forwardOptions h in
      listed (ph_DisableRequestBuffering h \<noteq> loc_DisableRequestBuffering c) ''request_buffering''
      @ listed (ph_DisableResponseBuffering h \<noteq> loc_DisableResponseBuffering c) ''response_buffering''
      @ listed (ph_UpstreamCompression h \<noteq> loc_UpstreamCompression c) ''upstream_compression''
      @ listed (ph_FancyIndex h \<noteq> loc_FancyIndex c) ''fancyindex''
      @ listed ((ph_AuthRequestUpstream h \<noteq> []) \<noteq> (loc_AuthRequestUpstream c \<noteq> [])) ''auth_request_upstream'')"
| "Inert _ = []"

section \<open>What a body may carry\<close>

text \<open>The optional properties present in a body, by their JSON names.\<close>

definition sent :: "'a option \<Rightarrow> string \<Rightarrow> string list" where
  "sent v name = (if v = None then [] else [name])"

definition columns_sent :: "npmplusColumns option \<Rightarrow> string list" where
  "columns_sent c = (case c of None \<Rightarrow> [] | Some cs \<Rightarrow>
     sent (col_Directory cs) ''npmplus_directory'' @ sent (col_DNSChallenge cs) ''npmplus_dns_challenge'')"

definition meta_sent :: "Meta option \<Rightarrow> string list" where
  "meta_sent m = (case m of None \<Rightarrow> [] | Some _ \<Rightarrow> [''meta''])"

fun optional_sent :: "payload \<Rightarrow> string list" where
  "optional_sent (ProxyNPMplus b) =
     sent (pq_TrustForwardedProto b) ''trust_forwarded_proto'' @ sent (pq_HTTP2Support b) ''http2_support''
     @ sent (pq_BlockExploits b) ''block_exploits'' @ sent (pq_CachingEnabled b) ''caching_enabled''
     @ sent (pq_AllowWebsocketUpgrade b) ''allow_websocket_upgrade'' @ columns_sent (pq_Columns b)
     @ meta_sent (pq_Meta b)
     @ concat (map (\<lambda>l. sent (lq_LocationConfig l) ''locations/npmplus_location_config'') (pq_Locations b))"
| "optional_sent (ProxyNPM b) = sent (pn_TrustForwardedProto b) ''trust_forwarded_proto'' @ meta_sent (pn_Meta b)"
| "optional_sent (RedirectBody b) =
     sent (rp_HTTP2Support b) ''http2_support'' @ sent (rp_BlockExploits b) ''block_exploits''
     @ columns_sent (rp_Columns b) @ meta_sent (rp_Meta b)"
| "optional_sent (StreamNPMplus b) = columns_sent (sq_Columns b) @ meta_sent (sq_Meta b)"
| "optional_sent (StreamNPM b) = sent (sn_CertificateID b) ''certificate_id'' @ meta_sent (sn_Meta b)"
| "optional_sent (DeadBody b) = sent (dp_HTTP2Support b) ''http2_support'' @ columns_sent (dp_Columns b)
     @ meta_sent (dp_Meta b)"

lemma sent_flagIf: "f \<in> set (sent (flagIf d k name v) name') \<Longrightarrow> f = name' \<and> Accepts d k name"
  by (simp add: sent_def flagIf_def split: if_splits)

lemma sent_textIf: "f \<in> set (sent (textIf d k name v) name') \<Longrightarrow> f = name' \<and> Accepts d k name"
  by (simp add: sent_def textIf_def split: if_splits)

lemma sent_if: "f \<in> set (sent (if c then Some v else None) name) \<Longrightarrow> f = name \<and> c"
  by (simp add: sent_def split: if_splits)

lemma columns_sent_accepted: "f \<in> set (columns_sent (columnsFor d k m c)) \<Longrightarrow> Accepts d k f"
  by (auto simp: columns_sent_def columnsFor_def Let_def sent_def split: if_splits)

lemma meta_sent_accepted: "f \<in> set (meta_sent (metaForWrite d k m)) \<Longrightarrow> Accepts d k f"
  by (auto simp: meta_sent_def metaForWrite_def split: if_splits)

lemma sent_location: "f \<in> set (sent (lq_LocationConfig (npmplus_location d l)) ''locations/npmplus_location_config'') \<Longrightarrow>
  Accepts d KindProxy f"
  by (auto simp: npmplus_location_def Let_def dest: sent_textIf)

lemmas sent_accepted = sent_flagIf sent_textIf sent_if columns_sent_accepted meta_sent_accepted sent_location

lemma sent_proxyNPMplus:
  "f \<in> set (optional_sent (ProxyNPMplus (ph_bodyNPMplus d h ids t))) \<Longrightarrow> Accepts d KindProxy f"
  by (auto simp: ph_bodyNPMplus_def Let_def dest: sent_accepted)

lemma sent_proxyNPM: "f \<in> set (optional_sent (ProxyNPM (ph_bodyNPM d h ids))) \<Longrightarrow> Accepts d KindProxy f"
  by (auto simp: ph_bodyNPM_def SupportsTrustForwardedProto_def dest: sent_accepted)

lemma sent_streamNPM: "f \<in> set (optional_sent (StreamNPM (st_bodyNPM d s))) \<Longrightarrow> Accepts d KindStream f"
  by (auto simp: st_bodyNPM_def SupportsStreamCertificate_def dest: sent_accepted)

lemma sent_streamNPMplus: "f \<in> set (optional_sent (StreamNPMplus (st_bodyNPMplus d s))) \<Longrightarrow> Accepts d KindStream f"
  by (auto simp: st_bodyNPMplus_def dest: sent_accepted)

section \<open>The marker a body carries\<close>

text \<open>What one write puts in front of the configuration, the next listing reads back: the same
  owner, whether or not the server kept the meta object.\<close>

lemma markerFor_Some:
  "ManagedBy m ManagedByValue \<Longrightarrow> key \<noteq> [] \<Longrightarrow>
   \<exists>mk. markerFor m key = Some mk \<and> mk_Key mk = key \<and> mk_Container mk = own_container (ownership m)
     \<and> mk_Index mk = own_index (ownership m) \<and> mk_Instance mk = own_instance (ownership m)"
  by (simp add: markerFor_def)

lemma ownership_stamped:
  assumes "ManagedBy m ManagedByValue" "markerFor m key = Some mk"
  shows "ownership (stamp_marker mk m') = ownership m"
proof -
  have "meta_Instance (stamp_marker mk m') = mk_Instance mk" by (rule stamp_marker_apply(5))
  with assms show ?thesis
    by (auto simp: ownership_def meta_text_def markerFor_def ManagedBy_iff stamp_marker_apply meta_Instance_def
        split: if_splits)
qed

lemma advanced_roundtrip:
  assumes "CarriesMarker d k" "markerFor m key = Some mk" "user_text user" "in_int64 (mk_Index mk)"
  shows "liftOwnership (advancedFor d k m key user) m' key = (user, stamp_marker mk m', True)"
proof -
  have k: "mk_Key mk = key \<and> key \<noteq> []" using assms(2) by (auto simp: markerFor_def split: if_splits)
  have "advancedFor d k m key user = withMarker user mk" using assms(1,2) by (simp add: advancedFor_def)
  with split_withMarker [OF assms(3) _ assms(4)] k show ?thesis by (simp add: liftOwnership_def)
qed

lemma keepIf_idem: "keepIf d k f (keepIf d k f v) = keepIf d k f v"
  by (simp add: keepIf_def)

lemma keepSchemeFor_idem: "keepSchemeFor d (keepSchemeFor d s) = keepSchemeFor d s"
  by (simp add: keepSchemeFor_def)

lemma stripPlus_idem: "stripPlus (stripPlus l) = stripPlus l"
  by (simp add: stripPlus_def)

lemma r_conform_keeps [simp]:
  "r_Kind (r_conform d r) = r_Kind r" "ResourceKey (r_conform d r) = ResourceKey r"
  "ResourceMeta (r_conform d r) = ResourceMeta r" "OwnerMarked (r_conform d r) = CarriesMarker d (r_Kind r)"
  "ResourceID (r_conform d r) = ResourceID r" "r_IsEnabled (r_conform d r) = r_IsEnabled r"
  by (cases r; simp add: ph_conform_def rh_conform_def st_conform_def dh_conform_def Let_def)+

lemma StripNPMplus_keeps [simp]:
  "r_Kind (StripNPMplus r) = r_Kind r" "ResourceKey (StripNPMplus r) = ResourceKey r"
  "ResourceID (StripNPMplus r) = ResourceID r" "r_IsEnabled (StripNPMplus r) = r_IsEnabled r"
  "ResourceMeta (StripNPMplus r) = ClearDirectory (ResourceMeta r)"
  by (cases r; simp add: ph_stripPlus_def st_stripPlus_def)+

lemma Conform_keeps [simp]:
  "r_Kind (Conform r d) = r_Kind r" "ResourceKey (Conform r d) = ResourceKey r"
  "ResourceID (Conform r d) = ResourceID r" "r_IsEnabled (Conform r d) = r_IsEnabled r"
  "OwnerMarked (Conform r d) = CarriesMarker d (r_Kind r)"
  by (simp_all add: Conform_def)

lemma ManagedBy_Conform [simp]: "ManagedBy (ResourceMeta (Conform r d)) v = ManagedBy (ResourceMeta r) v"
  by (simp add: Conform_def ManagedBy_def ClearDirectory_def)

lemma meta_Directory_cleared [simp]: "meta_Directory (ClearDirectory m) = []"
  by (simp add: meta_Directory_def meta_text_def ClearDirectory_def)

lemma StripNPMplus_supported:
  "UnsupportedByNPM (StripNPMplus r) = (case r of Proxy h \<Rightarrow> listed (ph_AccessListType h \<noteq> []) ''access_list_type'' | _ \<Rightarrow> [])"
  by (cases r) (simp_all add: ph_npmplusOnly_def ph_stripPlus_def plusList_def st_npmplusOnly_def st_stripPlus_def listed_def)

section \<open>Properties\<close>

definition body_advanced :: "payload \<Rightarrow> string option" where
  "body_advanced b = (case b of
     ProxyNPMplus p \<Rightarrow> Some (pq_AdvancedConfig p) | ProxyNPM p \<Rightarrow> Some (pn_AdvancedConfig p)
   | RedirectBody p \<Rightarrow> Some (rp_AdvancedConfig p) | StreamNPMplus p \<Rightarrow> Some (sq_AdvancedConfig p)
   | StreamNPM p \<Rightarrow> None | DeadBody p \<Rightarrow> Some (dp_AdvancedConfig p))"

definition sent_advanced :: "Dialect \<Rightarrow> Resource \<Rightarrow> string option" where
  "sent_advanced d r = (case Payload d r of Inl _ \<Rightarrow> None | Inr b \<Rightarrow> body_advanced b)"

lemma sent_advanced_Some:
  "sent_advanced d r = Some a \<Longrightarrow> a = advancedFor d (r_Kind r) (ResourceMeta r) (ResourceKey r) (AdvancedConfig r)"
  by (cases r)
     (auto simp: sent_advanced_def body_advanced_def ph_Payload_def rh_Payload_def st_Payload_def dh_Payload_def
       ph_bodyNPM_def ph_bodyNPMplus_def st_bodyNPMplus_def ph_advanced_def Let_def
       split: sum.splits if_splits prod.splits)

lemma decode_marked_live:
  assumes "liftOwnership (AdvancedConfig r) (ResourceMeta r) (ResourceKey r) = (a, m, True)"
  shows "OwnerMarked (r_decode r)" "AdvancedConfig (r_decode r) = a"
    "ownership (ResourceMeta (r_decode r)) = ownership m"
proof -
  obtain dir where "ResourceMeta (r_decode r) = liftDirectory m dir" using decode_parts(3) [OF assms] by blast
  then show "ownership (ResourceMeta (r_decode r)) = ownership m"
    by (simp add: ownership_def meta_text_def liftDirectory_other)
qed (use decode_parts [OF assms] in simp_all)

text \<open>C13: the owner survives a write. When a server keeps the advanced configuration of a body
  verbatim, decoding the stored resource of the same identity finds a trusted marker, the same
  owner (tool, container, index, instance) and exactly the user's configuration, whatever the
  server did to the meta object.\<close>

theorem ownership_survives_write:
  assumes "sent_advanced d r = Some (AdvancedConfig live)" "ResourceKey live = ResourceKey r"
    and "CarriesMarker d (r_Kind r)" "ManagedBy (ResourceMeta r) ManagedByValue" "ResourceKey r \<noteq> []"
    and "user_text (AdvancedConfig r)" "in_int64 (own_index (ownership (ResourceMeta r)))"
  shows "OwnerMarked (r_decode live) \<and> AdvancedConfig (r_decode live) = AdvancedConfig r
    \<and> ownership (ResourceMeta (r_decode live)) = ownership (ResourceMeta r)"
proof -
  obtain mk where mk: "markerFor (ResourceMeta r) (ResourceKey r) = Some mk"
      "mk_Index mk = own_index (ownership (ResourceMeta r))"
    using markerFor_Some [OF assms(4,5)] by blast
  have "liftOwnership (AdvancedConfig live) (ResourceMeta live) (ResourceKey live) =
      (AdvancedConfig r, stamp_marker mk (ResourceMeta live), True)"
    using advanced_roundtrip [OF assms(3) mk(1) assms(6)] assms(2,7) mk(2)
      sent_advanced_Some [OF assms(1)] by simp
  from decode_marked_live [OF this] ownership_stamped [OF assms(4) mk(1)] show ?thesis by simp
qed

definition ex_dialect :: Dialect where
  "ex_dialect = \<lparr> d_Flavour = FlavourNPMplus, d_Version = zero_version, d_Schema = Map.empty, d_MetaRetired = True \<rparr>"

definition ex_owned :: Meta where
  "ex_owned = [MetaManagedBy \<mapsto> MStr ManagedByValue, MetaContainer \<mapsto> MStr ''who am i'', MetaIndex \<mapsto> MInt 3]"

definition ex_dead :: DeadHost where
  "ex_dead = zero_dead\<lparr> dh_DomainNames := [''B.example.com'', '' a.example.com. ''],
     dh_AdvancedConfig := ''deny all;'', dh_Enabled := True, dh_Meta := ex_owned, dh_OwnerMarker := True \<rparr>"

definition ex_stored :: DeadHost where
  "ex_stored = ex_dead\<lparr> dh_ID := 7, dh_Meta := Map.empty, dh_OwnerMarker := False,
     dh_AdvancedConfig := the (sent_advanced ex_dialect (Dead ex_dead)) \<rparr>"

theorem ownership_survives_write_witness:
  "OwnerMarked (r_decode (Dead ex_stored)) \<and> ownership (ResourceMeta (r_decode (Dead ex_stored))) = ownership ex_owned"
proof -
  have "sent_advanced ex_dialect (Dead ex_dead) = Some (AdvancedConfig (Dead ex_stored))"
    "ResourceKey (Dead ex_stored) = ResourceKey (Dead ex_dead)" "CarriesMarker ex_dialect (r_Kind (Dead ex_dead))"
    "ManagedBy (ResourceMeta (Dead ex_dead)) ManagedByValue" "ResourceKey (Dead ex_dead) \<noteq> []"
    "user_text (AdvancedConfig (Dead ex_dead))" "in_int64 (own_index (ownership (ResourceMeta (Dead ex_dead))))"
    by code_simp+
  from ownership_survives_write [OF this] show ?thesis by (simp add: ex_dead_def)
qed

text \<open>C14: a marker that cannot be trusted (unreadable, contradicting itself, or written for
  another key) takes the ownership away: the decoded resource is not ours, so it can never be
  deleted as an orphan, and its configuration is free of marker lines.\<close>

theorem untrusted_marker_disowns:
  assumes "sp_found (splitMarker (AdvancedConfig r))"
    and "sp_marker (splitMarker (AdvancedConfig r)) = None \<or>
      mk_Key (the (sp_marker (splitMarker (AdvancedConfig r)))) \<noteq> ResourceKey r"
  shows "\<not> ManagedBy (ResourceMeta (r_decode r)) ManagedByValue \<and> user_text (AdvancedConfig (r_decode r))
    \<and> r_decode (r_decode r) = r_decode r"
proof -
  have "mk_Key mk \<noteq> ResourceKey r" if "sp_marker (splitMarker (AdvancedConfig r)) = Some mk" for mk
    using assms(2) that by simp
  with decode_untrusted [OF assms(1)] decode_user_text decode_idem show ?thesis by blast
qed

theorem untrusted_marker_disowns_witness:
  "\<not> ManagedBy (ResourceMeta (r_decode (Dead (ex_stored\<lparr> dh_DomainNames := [''copy.example.com''], dh_Meta := ex_owned \<rparr>))))
      ManagedByValue"
proof -
  let ?r = "Dead (ex_stored\<lparr> dh_DomainNames := [''copy.example.com''], dh_Meta := ex_owned \<rparr>)"
  have "sp_found (splitMarker (AdvancedConfig ?r))"
    "mk_Key (the (sp_marker (splitMarker (AdvancedConfig ?r)))) \<noteq> ResourceKey ?r"
    by code_simp+
  with untrusted_marker_disowns [of ?r] show ?thesis by blast
qed

text \<open>Whatever optional property a body carries, the server accepts it: retired switches, the
  columns of the meta migration, the meta object itself and the fields upstream NPM gained in
  2.12 are only sent where the schema, or the built-in knowledge without one, allows them.\<close>

theorem payload_fields_accepted:
  assumes "Payload d r = Inr b" "f \<in> set (optional_sent b)"
  shows "Accepts d (r_Kind r) f"
proof (cases r)
  case (Proxy h)
  then have "b = ProxyNPM (ph_bodyNPM d h (fst (ph_accessLists h))) \<or>
      b = ProxyNPMplus (ph_bodyNPMplus d h (fst (ph_accessLists h)) (snd (ph_accessLists h)))"
    using assms(1) by (auto simp: ph_Payload_def split: prod.splits if_splits)
  with assms(2) sent_proxyNPM sent_proxyNPMplus Proxy show ?thesis by fastforce
next
  case (Strm s)
  then have "b = StreamNPM (st_bodyNPM d s) \<or> b = StreamNPMplus (st_bodyNPMplus d s)"
    using assms(1) by (auto simp: st_Payload_def split: if_splits)
  with assms(2) sent_streamNPM sent_streamNPMplus Strm show ?thesis by fastforce
qed (use assms in \<open>auto simp: rh_Payload_def dh_Payload_def dest: sent_accepted\<close>)

theorem payload_fields_accepted_witness:
  "Accepts ex_dialect KindDead ''npmplus_directory''"
proof -
  let ?r = "Dead (ex_dead\<lparr> dh_Meta := SetDirectory ex_owned ''apps'' \<rparr>)"
  obtain b where b: "Payload ex_dialect ?r = Inr b"
    by (simp add: dh_Payload_def checkLetsEncrypt_def ex_dialect_def)
  have "list_ex (\<lambda>f. f = ''npmplus_directory'') (case Payload ex_dialect ?r of Inr b \<Rightarrow> optional_sent b | Inl _ \<Rightarrow> [])"
    by code_simp
  with b have "''npmplus_directory'' \<in> set (optional_sent b)" by (simp add: list_ex_iff)
  from payload_fields_accepted [OF b this] show ?thesis by simp
qed

definition body_access :: "payload \<Rightarrow> int list" where
  "body_access b = (case b of ProxyNPMplus p \<Rightarrow> pq_AccessListIDs p
     | ProxyNPM p \<Rightarrow> if pn_AccessListID p = 0 then [] else [pn_AccessListID p] | _ \<Rightarrow> [])"

lemma accessLists_pos: "ph_accessLists h = (ids, t) \<Longrightarrow> i \<in> set ids \<Longrightarrow> 0 < i"
  by (auto simp: ph_accessLists_def Let_def split: if_splits)

lemma checkAccessListNames_None:
  "checkAccessListNames h = None \<longleftrightarrow>
   ph_AccessListNames h = [] \<and> list_all (\<lambda>l. loc_AccessListNames l = []) (ph_Locations h)"
  by (auto simp: checkAccessListNames_def find_None_iff list_all_iff find_Some_iff split: option.splits)

text \<open>An access list asked for by name never turns into "public". A proxy host body is only
  built once every name of the host and of its locations is resolved, it carries exactly the
  resolved ids (all of them, as one id on upstream NPM), and a body with ids is never public.\<close>

theorem payload_keeps_protection:
  assumes "Payload d (Proxy h) = Inr b"
  shows "ph_AccessListNames h = [] \<and> list_all (\<lambda>l. loc_AccessListNames l = []) (ph_Locations h)
    \<and> body_access b = fst (ph_accessLists h)
    \<and> (case b of ProxyNPMplus p \<Rightarrow> pq_AccessListType p = AccessListPublic \<longrightarrow> pq_AccessListIDs p = [] | _ \<Rightarrow> True)"
proof -
  obtain ids t where a: "ph_accessLists h = (ids, t)" by fastforce
  have n: "checkAccessListNames h = None" using assms by (simp add: ph_Payload_def)
  have pub: "t = AccessListPublic \<Longrightarrow> ids = []"
    using a by (auto simp: ph_accessLists_def Let_def split: if_splits)
  consider (npm) "b = ProxyNPM (ph_bodyNPM d h ids)" "length ids \<le> 1" | (plus) "b = ProxyNPMplus (ph_bodyNPMplus d h ids t)"
    using assms a by (auto simp: ph_Payload_def split: if_splits)
  then show ?thesis
  proof cases
    case npm
    then consider "ids = []" | i where "ids = [i]" by (cases ids) auto
    then have "body_access b = ids"
      using npm accessLists_pos [OF a] by cases (auto simp: body_access_def ph_bodyNPM_def)
    then show ?thesis using n a npm(1) by (simp add: checkAccessListNames_None)
  next
    case plus
    then show ?thesis using n a pub
      by (simp add: checkAccessListNames_None body_access_def ph_bodyNPMplus_def Let_def)
  qed
qed

definition ex_proxy :: ProxyHost where
  "ex_proxy = zero_proxy\<lparr> ph_DomainNames := [''app.example.com''], ph_ForwardHost := ''app'',
     ph_ForwardPort := 80, ph_ForwardScheme := ''http'', ph_Enabled := True, ph_Meta := ex_owned,
     ph_AccessListIDs := [5, 2, 5, 0] \<rparr>"

theorem payload_keeps_protection_witness:
  "(case Payload ex_dialect (Proxy ex_proxy) of Inr b \<Rightarrow> body_access b | Inl _ \<Rightarrow> []) = [2, 5]"
proof -
  have b: "Payload ex_dialect (Proxy ex_proxy) = Inr (ProxyNPMplus (ph_bodyNPMplus ex_dialect ex_proxy
      (fst (ph_accessLists ex_proxy)) (snd (ph_accessLists ex_proxy))))"
    by (simp add: ph_Payload_def checkScheme_def checkLetsEncrypt_def checkAccessListNames_def ex_dialect_def
        ex_proxy_def zero_proxy_def noCertificate_def case_prod_beta)
  have "fst (ph_accessLists ex_proxy) = [2, 5]" by code_simp
  with payload_keeps_protection [OF b] b show ?thesis by simp
qed

text \<open>A stream that forwards UDP is never sent to NPMplus with TLS (a certificate or the
  upstream TLS switch), and never with the PROXY protocol v1 on a server that knows levels; a
  stream body never asks for a new certificate.\<close>

theorem udp_stream_has_no_tls:
  assumes "Payload d (Strm s) = Inr (StreamNPMplus b)" "sq_UDPForwarding b"
  shows "sq_CertificateID b \<le> 0 \<and> \<not> sq_ProxyTLS b \<and> \<not> cid_New (st_CertificateID s)
    \<and> (TypeOf d KindStream fieldProxyProtocol = ''boolean'' \<or> st_ProxyProtocol s \<noteq> 1)"
  using assms by (auto simp: st_Payload_def st_bodyNPMplus_def split: if_splits)

definition ex_stream :: StreamHost where
  "ex_stream = zero_stream\<lparr> st_IncomingPort := PortOf 53, st_ForwardingHost := ''dns'',
     st_ForwardingPort := PortOf 53, st_TCPForwarding := True, st_UDPForwarding := True, st_Enabled := True,
     st_Meta := ex_owned, st_ProxyProtocol := 2 \<rparr>"

theorem udp_stream_has_no_tls_witness:
  "\<not> sq_ProxyTLS (st_bodyNPMplus ex_dialect ex_stream)"
proof -
  have "Payload ex_dialect (Strm ex_stream) = Inr (StreamNPMplus (st_bodyNPMplus ex_dialect ex_stream))"
    by (simp add: st_Payload_def ex_dialect_def ex_stream_def zero_stream_def noCertificate_def)
  moreover have "sq_UDPForwarding (st_bodyNPMplus ex_dialect ex_stream)"
    by (simp add: st_bodyNPMplus_def ex_stream_def)
  ultimately show ?thesis using udp_stream_has_no_tls by blast
qed

text \<open>Two resources have the same fingerprint only if they agree on kind, identity, owner and
  marker, so a difference in any of them is never mistaken for "in sync"; and the fingerprint
  does not depend on the id, the enabled flag, or the order, case and repetition of the domain
  names of a proxy host.\<close>

theorem fingerprint_identity:
  assumes "Fingerprint r = Fingerprint r'"
  shows "r_Kind r = r_Kind r' \<and> ResourceKey r = ResourceKey r' \<and> OwnerMarked r = OwnerMarked r'
    \<and> ownership (ResourceMeta r) = ownership (ResourceMeta r')
    \<and> meta_Directory (ResourceMeta r) = meta_Directory (ResourceMeta r')
    \<and> Fingerprint (SetEnabled e (SetResourceID i r)) = Fingerprint r'"
proof -
  have e: "Fingerprint (SetEnabled e (SetResourceID i r)) = Fingerprint r'"
    using assms by (simp add: res.print_set_enabled res.print_set_id)
  show ?thesis
    using assms e
    by (cases r; cases r')
       (simp_all add: ph_shape_def rh_shape_def st_shape_def dh_shape_def primaryDomain_def Let_def split: prod.splits)
qed

theorem fingerprint_identity_witness:
  "ResourceKey (Proxy ex_proxy) = ResourceKey (Proxy (ex_proxy\<lparr> ph_DomainNames := [''APP.example.com.'', ''app.example.com''] \<rparr>))"
proof -
  have "NormalizeDomains (ph_DomainNames ex_proxy) = NormalizeDomains [''APP.example.com.'', ''app.example.com'']"
    by code_simp
  then have "Fingerprint (Proxy ex_proxy) =
      Fingerprint (Proxy (ex_proxy\<lparr> ph_DomainNames := [''APP.example.com.'', ''app.example.com''] \<rparr>))"
    by (simp add: ph_shape_def ph_accessLists_def ph_forwardOptions_def ex_proxy_def zero_proxy_def)
  from fingerprint_identity [OF this] show ?thesis by blast
qed

end
