(* ===== verification/BuildResource.thy ===== *)
theory BuildResource
  imports Target Payloads
begin

text \<open>
  From a target to the desired resource (\<open>internal/syncer/build.go\<close>): the TLS cascade, the
  stamped meta object and the payload model of each kind. The kinds are an enumeration here, so
  the nil result the code returns for an unknown kind string has no counterpart.
\<close>

record sslSettings =
  ssl_forced :: bool
  ssl_hsts :: bool
  ssl_hstsSubdomains :: bool
  ssl_http2 :: bool
  ssl_http3 :: bool

definition normalizeSSL :: "Target \<Rightarrow> CertificateID \<Rightarrow> sslSettings" where
  "normalizeSSL t certificate =
     (let forced = (case t_SSLForced t of Some b \<Rightarrow> b | None \<Rightarrow> \<not> cid_IsZero certificate);
          s0 = \<lparr> ssl_forced = forced, ssl_hsts = t_HSTSEnabled t, ssl_hstsSubdomains = t_HSTSSubdomains t,
                 ssl_http2 = t_HTTP2Support t, ssl_http3 = t_HTTP3Support t \<rparr>;
          s1 = (if cid_IsZero certificate
                then s0\<lparr> ssl_forced := False, ssl_http2 := False, ssl_http3 := False \<rparr> else s0);
          s2 = (if \<not> ssl_forced s1 then s1\<lparr> ssl_hsts := False \<rparr> else s1)
      in if \<not> ssl_hsts s2 then s2\<lparr> ssl_hstsSubdomains := False \<rparr> else s2)"

definition stamp_if :: "string \<Rightarrow> string \<Rightarrow> Meta \<Rightarrow> Meta" where
  "stamp_if key v m = (if v \<noteq> [] then m(key \<mapsto> MStr v) else m)"

definition le_meta :: "Target \<Rightarrow> CertificateID \<Rightarrow> Meta \<Rightarrow> Meta" where
  "le_meta t certificate m =
     (if cid_New certificate \<or> t_LetsEncryptEmail t \<noteq> [] then
        let m1 = (if t_LetsEncryptEmail t \<noteq> []
                  then m(''letsencrypt_email'' \<mapsto> MStr (t_LetsEncryptEmail t),
                         ''letsencrypt_agree'' \<mapsto> MBool (t_LetsEncryptAgree t)) else m);
            m2 = m1(''dns_challenge'' \<mapsto> MBool (t_DNSChallenge t))
        in if t_DNSChallenge t
           then m2(''dns_provider'' \<mapsto> MStr (t_DNSProvider t),
                   ''dns_provider_credentials'' \<mapsto> MStr (t_DNSCredentials t),
                   ''propagation_seconds'' \<mapsto> MInt (t_PropagationSeconds t))
           else m2
      else m)"

definition owner_meta :: "Target \<Rightarrow> string \<Rightarrow> string \<Rightarrow> Meta" where
  "owner_meta t inst pre =
     stamp_if MetaPrefix pre (stamp_if MetaInstance inst (stamp_if MetaContainerID (t_ContainerID t)
       [MetaManagedBy \<mapsto> MStr ManagedByValue, MetaContainer \<mapsto> MStr (t_ContainerName t),
        MetaIndex \<mapsto> MInt (t_Index t)]))"

definition buildMeta :: "Target \<Rightarrow> CertificateID \<Rightarrow> string \<Rightarrow> string \<Rightarrow> Meta" where
  "buildMeta t certificate inst pre =
     le_meta t certificate (case t_Group t of
       Some g \<Rightarrow> SetDirectory (owner_meta t inst pre) g
     | None \<Rightarrow> owner_meta t inst pre)"

definition build_proxy :: "Target \<Rightarrow> CertificateID \<Rightarrow> Meta \<Rightarrow> sslSettings \<Rightarrow> ProxyHost" where
  "build_proxy t certificate m ssl = zero_proxy
     \<lparr> ph_DomainNames := NormalizeDomains (t_DomainNames t), ph_ForwardScheme := t_ForwardScheme t,
       ph_ForwardHost := t_ForwardHost t, ph_ForwardPort := t_ForwardPort t,
       ph_CertificateID := certificate, ph_SSLForced := ssl_forced ssl, ph_HSTSEnabled := ssl_hsts ssl,
       ph_HSTSSubdomains := ssl_hstsSubdomains ssl, ph_TrustForwardedProto := t_TrustForwardedProto t,
       ph_HTTP2Support := ssl_http2 ssl, ph_HTTP3Support := ssl_http3 ssl,
       ph_BlockExploits := t_BlockExploits t, ph_CachingEnabled := t_Caching t,
       ph_AllowWebsocketUpgrade := t_Websockets t, ph_AccessListIDs := t_AccessListIDs t,
       ph_AccessListNames := t_AccessListNames t, ph_AccessListType := t_AccessListType t,
       ph_AdvancedConfig := t_AdvancedConfig t, ph_LocationConfig := t_LocationConfig t,
       ph_Enabled := t_Enabled t, ph_Locations := t_Locations t, ph_Meta := m, ph_NoIndex := t_NoIndex t,
       ph_DisableCrowdsecAppsec := \<not> t_CrowdsecAppsec t,
       ph_DisableRequestBuffering := \<not> t_RequestBuffering t,
       ph_DisableResponseBuffering := \<not> t_ResponseBuffering t,
       ph_UpstreamCompression := t_UpstreamCompression t, ph_FancyIndex := t_FancyIndex t,
       ph_XFrameOptions := t_XFrameOptions t, ph_AuthRequest := t_AuthRequest t,
       ph_AuthRequestUpstream := t_AuthRequestUpstream t \<rparr>"

definition build_redirect :: "Target \<Rightarrow> CertificateID \<Rightarrow> Meta \<Rightarrow> sslSettings \<Rightarrow> RedirectionHost" where
  "build_redirect t certificate m ssl = zero_redirect
     \<lparr> rh_DomainNames := NormalizeDomains (t_DomainNames t), rh_ForwardScheme := t_ForwardScheme t,
       rh_ForwardDomainName := t_ForwardDomainName t, rh_ForwardHTTPCode := t_ForwardHTTPCode t,
       rh_PreservePath := t_PreservePath t, rh_CertificateID := certificate, rh_SSLForced := ssl_forced ssl,
       rh_HSTSEnabled := ssl_hsts ssl, rh_HSTSSubdomains := ssl_hstsSubdomains ssl,
       rh_HTTP2Support := ssl_http2 ssl, rh_HTTP3Support := ssl_http3 ssl,
       rh_BlockExploits := t_BlockExploits t, rh_AdvancedConfig := t_AdvancedConfig t,
       rh_Enabled := t_Enabled t, rh_Meta := m \<rparr>"

definition build_stream :: "Target \<Rightarrow> CertificateID \<Rightarrow> Meta \<Rightarrow> StreamHost" where
  "build_stream t certificate m = zero_stream
     \<lparr> st_IncomingPort := PortOf (t_IncomingPort t), st_ForwardingHost := t_ForwardingHost t,
       st_ForwardingPort := PortOf (t_ForwardingPort t), st_TCPForwarding := t_TCPForwarding t,
       st_UDPForwarding := t_UDPForwarding t, st_CertificateID := certificate,
       st_ProxyProtocol := t_ProxyProtocol t, st_ProxyTLS := t_ProxyTLS t,
       st_AdvancedConfig := t_AdvancedConfig t, st_Description := t_Description t,
       st_Enabled := t_Enabled t, st_Meta := m \<rparr>"

definition build_dead :: "Target \<Rightarrow> CertificateID \<Rightarrow> Meta \<Rightarrow> sslSettings \<Rightarrow> DeadHost" where
  "build_dead t certificate m ssl = zero_dead
     \<lparr> dh_DomainNames := NormalizeDomains (t_DomainNames t), dh_CertificateID := certificate,
       dh_SSLForced := ssl_forced ssl, dh_HSTSEnabled := ssl_hsts ssl,
       dh_HSTSSubdomains := ssl_hstsSubdomains ssl, dh_HTTP2Support := ssl_http2 ssl,
       dh_HTTP3Support := ssl_http3 ssl, dh_AdvancedConfig := t_AdvancedConfig t,
       dh_Enabled := t_Enabled t, dh_Meta := m \<rparr>"

definition BuildResource :: "Target \<Rightarrow> CertificateID \<Rightarrow> string \<Rightarrow> string \<Rightarrow> Resource" where
  "BuildResource t certificate inst pre =
     (let m = buildMeta t certificate inst pre; ssl = normalizeSSL t certificate in
      case t_Kind t of
        KindProxy \<Rightarrow> Proxy (build_proxy t certificate m ssl)
      | KindRedirect \<Rightarrow> Redirect (build_redirect t certificate m ssl)
      | KindStream \<Rightarrow> Strm (build_stream t certificate m)
      | KindDead \<Rightarrow> Dead (build_dead t certificate m ssl))"

section \<open>Lemmas\<close>

lemma buildMeta_owner:
  "ManagedBy (buildMeta t c inst pre) ManagedByValue"
  "meta_Container (buildMeta t c inst pre) = t_ContainerName t"
  "meta_ContainerID (buildMeta t c inst pre) = t_ContainerID t"
  "meta_Instance (buildMeta t c inst pre) = inst"
  "meta_Prefix (buildMeta t c inst pre) = pre"
  "own_index (ownership (buildMeta t c inst pre)) = t_Index t"
  by (simp_all add: buildMeta_def le_meta_def owner_meta_def stamp_if_def SetDirectory_def ManagedBy_iff
      meta_Container_def meta_ContainerID_def meta_Instance_def meta_Prefix_def meta_text_def ownership_def Let_def
      split: option.split)

lemma r_Kind_build [simp]: "r_Kind (BuildResource t c inst pre) = t_Kind t"
  by (simp add: BuildResource_def Let_def split: Kind.split)

lemma ResourceMeta_build: "ResourceMeta (BuildResource t c inst pre) = buildMeta t c inst pre"
  by (simp add: BuildResource_def Let_def build_proxy_def build_redirect_def build_stream_def build_dead_def
      split: Kind.split)

lemma r_IsEnabled_build [simp]: "r_IsEnabled (BuildResource t c inst pre) = t_Enabled t"
  by (simp add: BuildResource_def Let_def build_proxy_def build_redirect_def build_stream_def build_dead_def
      split: Kind.split)

lemma ManagedBy_build: "ManagedBy (ResourceMeta (BuildResource t c inst pre)) ManagedByValue"
  by (simp add: ResourceMeta_build buildMeta_owner)

lemma ssl_simps:
  "cid_IsZero c \<Longrightarrow> normalizeSSL t c = \<lparr> ssl_forced = False, ssl_hsts = False, ssl_hstsSubdomains = False,
     ssl_http2 = False, ssl_http3 = False \<rparr>"
  "ssl_hsts (normalizeSSL t c) \<Longrightarrow> ssl_forced (normalizeSSL t c)"
  "ssl_hstsSubdomains (normalizeSSL t c) \<Longrightarrow> ssl_hsts (normalizeSSL t c)"
  by (auto simp: normalizeSSL_def Let_def split: if_splits option.splits)

text \<open>The identity of a target is the identity of its resource, once the domain names are valid
  (a name like \<open>a..\<close> is cleaned twice, and would change on the way).\<close>

lemma NormalizeDomains_stable:
  assumes "\<forall>d\<in>set (NormalizeDomains ds). clean_domain d = d"
  shows "NormalizeDomains (NormalizeDomains ds) = NormalizeDomains ds"
proof -
  have "set (NormalizeDomains (NormalizeDomains ds)) = set (NormalizeDomains ds)"
    using assms NormalizeDomains_wf [of ds] by (auto simp: set_NormalizeDomains [of "NormalizeDomains ds"])
  with NormalizeDomains_wf [of ds] NormalizeDomains_wf [of "NormalizeDomains ds"] show ?thesis
    by (intro sorted_distinct_set_unique) auto
qed

lemma ResourceKey_build:
  assumes "t_Kind t \<noteq> KindStream \<Longrightarrow> \<forall>d\<in>set (t_Domains t). clean_domain d = d"
  shows "ResourceKey (BuildResource t c inst pre) = t_Key t"
proof (cases "t_Kind t = KindStream")
  case True
  then show ?thesis
    by (simp add: BuildResource_def Let_def build_stream_def t_Key_def PortOf_def zero_port_def)
next
  case False
  with assms have "NormalizeDomains (NormalizeDomains (t_DomainNames t)) = NormalizeDomains (t_DomainNames t)"
    by (intro NormalizeDomains_stable) (simp add: t_Domains_def)
  with False show ?thesis
    by (cases "t_Kind t")
       (simp_all add: BuildResource_def Let_def build_proxy_def build_redirect_def build_dead_def t_Key_def primaryDomain_def)
qed

text \<open>The stamp of the resource a run works with.\<close>

lemma stamped:
  "ownership (ResourceMeta (Conform (BuildResource t c inst pre) d)) =
     \<lparr> own_managedBy = ManagedByValue, own_container = t_ContainerName t, own_index = t_Index t, own_instance = inst \<rparr>"
proof -
  have "ownership (ResourceMeta (Conform (BuildResource t c inst pre) d)) = ownership (buildMeta t c inst pre)"
    by (simp add: Conform_def ResourceMeta_build ownership_def ClearDirectory_def meta_text_def)
  then show ?thesis
    using buildMeta_owner [of t c inst pre]
    by (simp add: ownership_def meta_Container_def meta_Instance_def ManagedBy_iff meta_text_def)
qed

lemma stamped_adopted:
  "ownership (ResourceMeta (AdoptServerState (Conform (BuildResource t c inst pre) d) live)) =
     \<lparr> own_managedBy = ManagedByValue, own_container = t_ContainerName t, own_index = t_Index t, own_instance = inst \<rparr>"
  by (simp add: res.ownership_adopt stamped)

lemma stamp_owner:
  "ownership m = \<lparr> own_managedBy = ManagedByValue, own_container = n, own_index = i, own_instance = inst \<rparr> \<Longrightarrow>
   IsManaged m \<and> meta_Instance m = inst"
  by (cases "m MetaManagedBy" rule: as_string.cases)
     (auto simp: ownership_def IsManaged_def ManagedBy_iff meta_Instance_def meta_text_def)

section \<open>Properties\<close>

text \<open>The TLS cascade. Without a certificate nothing that needs TLS is on; HSTS only with
  forced TLS, its subdomain extension only with HSTS; an explicit label wins over "auto" as long
  as a certificate is attached; and the result is a fixed point of the same cascade, so asking
  for it again converges.\<close>

theorem ssl_cascade:
  assumes "s = normalizeSSL t c"
  shows "(cid_IsZero c \<longrightarrow> \<not> ssl_forced s \<and> \<not> ssl_http2 s \<and> \<not> ssl_http3 s)
   \<and> (ssl_hstsSubdomains s \<longrightarrow> ssl_hsts s) \<and> (ssl_hsts s \<longrightarrow> ssl_forced s)
   \<and> (\<not> cid_IsZero c \<longrightarrow> ssl_forced s = (case t_SSLForced t of Some b \<Rightarrow> b | None \<Rightarrow> True))
   \<and> normalizeSSL (t\<lparr> t_SSLForced := Some (ssl_forced s), t_HSTSEnabled := ssl_hsts s,
        t_HSTSSubdomains := ssl_hstsSubdomains s, t_HTTP2Support := ssl_http2 s, t_HTTP3Support := ssl_http3 s \<rparr>) c = s"
  unfolding assms
  by (cases "cid_IsZero c"; cases "t_SSLForced t") (auto simp: normalizeSSL_def Let_def)

theorem ssl_cascade_witness:
  "\<not> ssl_http2 (normalizeSSL ((zero_target KindProxy)\<lparr> t_HTTP2Support := True, t_SSLForced := Some True \<rparr>) noCertificate)"
proof -
  have "cid_IsZero noCertificate" by code_simp
  with ssl_cascade [OF refl, of noCertificate "(zero_target KindProxy)\<lparr> t_HTTP2Support := True, t_SSLForced := Some True \<rparr>"]
  show ?thesis by blast
qed

text \<open>The stamp. Every built resource, of every kind and for every certificate, carries the
  ownership of this tool: its value, the container's name and id, the label index, the instance
  and the prefix; conforming to a server and adopting the live state keep all of it, and the
  marker of the body is for the identity of the target.\<close>

theorem built_resource_is_stamped:
  "let r = AdoptServerState (Conform (BuildResource t c inst pre) d) live; m = ResourceMeta r in
   IsManaged m \<and> ownership m = \<lparr> own_managedBy = ManagedByValue, own_container = t_ContainerName t,
      own_index = t_Index t, own_instance = inst \<rparr>
   \<and> r_Kind r = t_Kind t \<and> OwnedByInstance m inst
   \<and> OwnerMarked (Conform (BuildResource t c inst pre) d) = CarriesMarker d (t_Kind t)"
proof -
  let ?r = "Conform (BuildResource t c inst pre) d"
  have o: "ownership (ResourceMeta ?r) = ownership (buildMeta t c inst pre)"
    by (simp add: Conform_def ResourceMeta_build ownership_def ClearDirectory_def meta_text_def)
  have b: "ownership (buildMeta t c inst pre) = \<lparr> own_managedBy = ManagedByValue, own_container = t_ContainerName t,
      own_index = t_Index t, own_instance = inst \<rparr>"
    using buildMeta_owner [of t c inst pre]
    by (simp add: ownership_def meta_Container_def meta_Instance_def ManagedBy_iff meta_text_def)
  have m: "ManagedBy (ResourceMeta (AdoptServerState ?r live)) ManagedByValue"
    by (simp add: res.owner_adopt ManagedBy_build)
  have i: "meta_Instance (ResourceMeta (AdoptServerState ?r live)) = inst"
    using res.ownership_adopt [of ?r live] o b by (simp add: ownership_def meta_Instance_def)
  show ?thesis
    using m i o b by (simp add: Let_def res.ownership_adopt IsManaged_def OwnedByInstance_def)
qed

end
