(* ===== verification/Cache.thy ===== *)
theory Cache
  imports Resources
begin

text \<open>
  The state cache of \<open>internal/syncer/cache.go\<close>: one bucket per kind, each a Go map from
  resource keys to entries. A bucket is an association list with distinct keys, so its length is
  the number of cached resources. The mutex of the code makes each method atomic; here each is
  one function. The contract the worker uses is the locale \<open>keyed_cache\<close>.
\<close>

record Entry =
  en_ID :: int
  en_Hash :: digest
  en_Container :: string
  en_Index :: int
  en_Enabled :: bool
  en_Certificate :: int
  en_Running :: bool

type_synonym bucket = "(string \<times> Entry) list"
type_synonym Cache = "Kind \<Rightarrow> bucket"

definition NewCache :: Cache where
  "NewCache = (\<lambda>_. [])"

definition cache_Get :: "Cache \<Rightarrow> Kind \<Rightarrow> string \<Rightarrow> Entry option" where
  "cache_Get c kind key = map_of (c kind) key"

definition cache_Set :: "Kind \<Rightarrow> string \<Rightarrow> Entry \<Rightarrow> Cache \<Rightarrow> Cache" where
  "cache_Set kind key e c = c(kind := AList.update key e (c kind))"

definition cache_Delete :: "Kind \<Rightarrow> string \<Rightarrow> Cache \<Rightarrow> Cache" where
  "cache_Delete kind key c = c(kind := AList.delete key (c kind))"

definition cache_LenKind :: "Cache \<Rightarrow> Kind \<Rightarrow> nat" where
  "cache_LenKind c kind = length (c kind)"

definition cache_Len :: "Cache \<Rightarrow> nat" where
  "cache_Len c = sum_list (map (cache_LenKind c) Kinds)"

definition Counts :: "Cache \<Rightarrow> (Kind \<times> nat) list" where
  "Counts c = map (\<lambda>k. (k, length (c k))) Kinds"

text \<open>The copy of the entries the code makes: assigning them one by one to a fresh map.\<close>

definition copy_bucket :: "bucket \<Rightarrow> bucket" where
  "copy_bucket b = fold (\<lambda>(k, e) m. AList.update k e m) b []"

definition cache_Snapshot :: "Cache \<Rightarrow> Cache" where
  "cache_Snapshot c = (\<lambda>k. copy_bucket (c k))"

definition ReplaceKind :: "Kind \<Rightarrow> bucket \<Rightarrow> Cache \<Rightarrow> Cache" where
  "ReplaceKind kind entries c = c(kind := copy_bucket entries)"

definition cache_ok :: "Cache \<Rightarrow> bool" where
  "cache_ok c \<longleftrightarrow> list_all (\<lambda>k. distinct (map fst (c k))) Kinds"

section \<open>The contract\<close>

locale keyed_cache =
  fixes get :: "'c \<Rightarrow> Kind \<Rightarrow> string \<Rightarrow> 'e option"
    and put :: "Kind \<Rightarrow> string \<Rightarrow> 'e \<Rightarrow> 'c \<Rightarrow> 'c"
    and drop :: "Kind \<Rightarrow> string \<Rightarrow> 'c \<Rightarrow> 'c"
    and replace :: "Kind \<Rightarrow> (string \<times> 'e) list \<Rightarrow> 'c \<Rightarrow> 'c"
    and ok :: "'c \<Rightarrow> bool"
  assumes get_put: "ok c \<Longrightarrow> get (put k key e c) k' key' = (if k' = k \<and> key' = key then Some e else get c k' key')"
    and get_drop: "ok c \<Longrightarrow> get (drop k key c) k' key' = (if k' = k \<and> key' = key then None else get c k' key')"
    and get_replace: "ok c \<Longrightarrow> distinct (map fst es) \<Longrightarrow>
      get (replace k es c) k' key' = (if k' = k then map_of es key' else get c k' key')"
    and ok_put: "ok c \<Longrightarrow> ok (put k key e c)"
    and ok_drop: "ok c \<Longrightarrow> ok (drop k key c)"
    and ok_replace: "ok c \<Longrightarrow> ok (replace k es c)"
begin

lemma put_put: "ok c \<Longrightarrow> get (put k key e (put k key e' c)) k' key' = get (put k key e c) k' key'"
  by (simp add: get_put ok_put)

lemma drop_put: "ok c \<Longrightarrow> get (drop k key (put k key e c)) k' key' = get (drop k key c) k' key'"
  by (simp add: get_put get_drop ok_put)

lemma other_kind_kept: "ok c \<Longrightarrow> distinct (map fst es) \<Longrightarrow> k' \<noteq> k \<Longrightarrow> get (replace k es c) k' key = get c k' key"
  by (simp add: get_replace)

text \<open>Replacing the buckets of several kinds, in any order, leaves each kind with its own.\<close>

lemma replace_all:
  "ok c \<Longrightarrow> distinct ks \<Longrightarrow> \<forall>k\<in>set ks. distinct (map fst (f k)) \<Longrightarrow>
   get (fold (\<lambda>k c. replace k (f k) c) ks c) k' key = (if k' \<in> set ks then map_of (f k') key else get c k' key)"
proof (induction ks arbitrary: c)
  case (Cons a ks)
  then have "get (fold (\<lambda>k c. replace k (f k) c) ks (replace a (f a) c)) k' key =
      (if k' \<in> set ks then map_of (f k') key else get (replace a (f a) c) k' key)"
    by (intro Cons.IH) (simp_all add: ok_replace)
  with Cons.prems show ?case by (auto simp: get_replace)
qed simp

end

lemma copy_bucket_fold:
  "distinct (map fst m) \<Longrightarrow> distinct (map fst (fold (\<lambda>(k, e) m. AList.update k e m) b m))"
  by (induction b arbitrary: m) (auto simp: distinct_update split: prod.split)

lemma distinct_copy_bucket: "distinct (map fst (copy_bucket b))"
  by (simp add: copy_bucket_def copy_bucket_fold)

lemma map_of_copy_fold:
  "map_of (fold (\<lambda>(k, e) m. AList.update k e m) b m) = map_of m ++ map_of (rev b)"
  by (induction b arbitrary: m) (auto simp: update_conv' map_add_def fun_eq_iff split: option.splits)

lemma map_of_copy: "distinct (map fst b) \<Longrightarrow> map_of (copy_bucket b) = map_of b"
  by (simp add: copy_bucket_def map_of_copy_fold) (rule map_of_set_cong, simp_all flip: rev_map)

lemma cache_ok_iff: "cache_ok c \<longleftrightarrow> (\<forall>k. distinct (map fst (c k)))"
  by (simp add: cache_ok_def list_all_iff)

interpretation cache: keyed_cache cache_Get cache_Set cache_Delete ReplaceKind cache_ok
  by unfold_locales
     (auto simp: cache_Get_def cache_Set_def cache_Delete_def ReplaceKind_def cache_ok_iff update_conv'
       delete_conv' map_of_copy distinct_update distinct_delete distinct_copy_bucket)

lemma cache_ok_New [simp]: "cache_ok NewCache"
  by (simp add: cache_ok_iff NewCache_def)

lemma cache_LenKind_card: "cache_ok c \<Longrightarrow> cache_LenKind c k = card (dom (cache_Get c k))"
proof -
  assume "cache_ok c"
  then have "distinct (map fst (c k))" by (simp add: cache_ok_iff)
  then have "card (set (map fst (c k))) = length (map fst (c k))" by (rule distinct_card)
  moreover have "cache_Get c k = map_of (c k)" by (rule ext) (simp add: cache_Get_def)
  then have "dom (cache_Get c k) = set (map fst (c k))" by (simp add: dom_map_of_conv_image_fst)
  ultimately show ?thesis by (simp add: cache_LenKind_def)
qed

lemma LenKind_ReplaceKind:
  "distinct (map fst es) \<Longrightarrow> cache_LenKind (ReplaceKind k es c) k' = (if k' = k then length es else cache_LenKind c k')"
proof (cases "k' = k")
  case True
  assume d: "distinct (map fst es)"
  then have "dom (map_of (copy_bucket es)) = dom (map_of es)" by (simp add: map_of_copy)
  then have "card (set (map fst (copy_bucket es))) = card (set (map fst es))"
    by (simp add: dom_map_of_conv_image_fst)
  then have "length (map fst (copy_bucket es)) = length (map fst es)"
    by (simp only: distinct_card [OF distinct_copy_bucket] distinct_card [OF d])
  with True show ?thesis by (simp add: cache_LenKind_def ReplaceKind_def)
qed (simp add: cache_LenKind_def ReplaceKind_def)

section \<open>Properties\<close>

text \<open>The cache is a map per kind. Replacing the entries of one kind installs exactly those,
  keeps every other kind, keeps the number the readiness probe reports equal to the number of
  distinct keys, and a snapshot is equal in every lookup.\<close>

theorem replace_kind_is_local:
  assumes "cache_ok c" "distinct (map fst es)"
  shows "cache_Get (ReplaceKind k es c) k' key = (if k' = k then map_of es key else cache_Get c k' key)
    \<and> cache_ok (ReplaceKind k es c)
    \<and> cache_LenKind (ReplaceKind k es c) k = length es
    \<and> cache_Len (ReplaceKind k es c) + cache_LenKind c k = cache_Len c + length es
    \<and> cache_LenKind c k' = card (dom (cache_Get c k'))
    \<and> cache_Get (cache_Snapshot c) k' key = cache_Get c k' key"
proof -
  have sum: "cache_Len (ReplaceKind k es c) + cache_LenKind c k = cache_Len c + length es"
    by (cases k) (simp_all add: cache_Len_def Kinds_def LenKind_ReplaceKind [OF assms(2)])
  show ?thesis
    using cache.get_replace [OF assms] cache.ok_replace [OF assms(1)] LenKind_ReplaceKind [OF assms(2)] sum assms(1)
      cache_LenKind_card [OF assms(1)]
    by (simp add: cache_Snapshot_def cache_Get_def map_of_copy cache_ok_iff)
qed

definition ex_entry :: Entry where
  "ex_entry = \<lparr> en_ID = 7, en_Hash = Fingerprint (Dead zero_dead), en_Container = ''app'', en_Index = 0,
     en_Enabled = True, en_Certificate = 0, en_Running = True \<rparr>"

theorem replace_kind_is_local_witness:
  "cache_LenKind (ReplaceKind KindDead [(''a'', ex_entry), (''b'', ex_entry)] NewCache) KindDead = 2"
proof -
  have "distinct (map fst [(''a'', ex_entry), (''b'', ex_entry)])" by simp
  from replace_kind_is_local [OF cache_ok_New this, of KindDead] show ?thesis by simp
qed

end
