(* ===== verification/Api.thy ===== *)
theory Api
  imports Resources Certs Dialect
begin

text \<open>
  The NPM surface of the worker (the \<open>API\<close> interface of \<open>internal/syncer/worker.go\<close>). The
  server is a parameter: every operation of the interface is a function of the calls made so far
  and of its arguments, so a server may answer the same request differently at different times,
  and may fail any call. A worker records each call in its trace in the order it makes them.
  The clock answers the readings of \<open>time.Now\<close>; nothing is assumed of it.
\<close>

section \<open>Calls and errors\<close>

text \<open>An error of the API is a status the code distinguishes (\<open>IsNotFound\<close>) or any other error.\<close>

datatype api_error = NotFound | Refused string

definition IsNotFound :: "api_error \<Rightarrow> bool" where
  "IsNotFound e \<longleftrightarrow> e = NotFound"

datatype call =
    CList Kind
  | CCreate Resource
  | CUpdate int Resource
  | CDelete Kind int
  | CSetEnabled Kind int bool
  | CListCertificates
  | CListAccessLists
  | CRecheck

fun is_write :: "call \<Rightarrow> bool" where
  "is_write (CCreate _) = True"
| "is_write (CUpdate _ _) = True"
| "is_write (CDelete _ _) = True"
| "is_write (CSetEnabled _ _ _) = True"
| "is_write _ = False"

fun is_delete :: "call \<Rightarrow> bool" where
  "is_delete (CDelete _ _) = True"
| "is_delete _ = False"

type_synonym history = "call list"

record Api =
  api_List :: "history \<Rightarrow> Kind \<Rightarrow> api_error + Resource list"
  api_Create :: "history \<Rightarrow> Resource \<Rightarrow> api_error + Resource"
  api_Update :: "history \<Rightarrow> int \<Rightarrow> Resource \<Rightarrow> api_error + Resource"
  api_Delete :: "history \<Rightarrow> Kind \<Rightarrow> int \<Rightarrow> api_error option"
  api_SetEnabled :: "history \<Rightarrow> Kind \<Rightarrow> int \<Rightarrow> bool \<Rightarrow> api_error option"
  api_ListCertificates :: "history \<Rightarrow> api_error + Certificate list"
  api_ListAccessLists :: "history \<Rightarrow> api_error + AccessList list"
  api_Recheck :: "history \<Rightarrow> api_error option"
  api_Dialect :: "history \<Rightarrow> Dialect"
  api_clock :: "nat \<Rightarrow> int"
  api_idna :: idna

section \<open>Errors of a run\<close>

text \<open>What a run reports, one constructor per message of the code; the texts are left out.\<close>

datatype run_error =
    SnapshotFailed string
  | ListFailed Kind api_error
  | UnknownAccessList string
  | LocationAccessList string string
  | CertificateFailed cert_error
  | CreateFailed Kind string api_error
  | UpdateFailed Kind string api_error
  | MarkFailed Kind string api_error
  | ToggleFailed bool Kind string api_error
  | DeleteFailed Kind string api_error
  | ApiFailed api_error

end
