(* ===== verification/Backoff.thy ===== *)
theory Backoff
  imports Api
begin

text \<open>
  The per-resource backoff of \<open>internal/syncer/resolve.go\<close>: a map from resources to the last
  failure, with a delay that doubles between 30 seconds and 30 minutes while the same desired
  configuration keeps being rejected. Times are nanoseconds. The contract the worker relies on
  is the locale \<open>retry_policy\<close>.
\<close>

definition backoffMin :: int where "backoffMin = 30 * second"
definition backoffMax :: int where "backoffMax = 30 * minute"

record failure =
  f_until :: int
  f_delay :: int
  f_hash :: digest
  f_reason :: run_error

type_synonym failures = "string \<rightharpoonup> failure"

definition backoffKey :: "Kind \<Rightarrow> string \<Rightarrow> string" where
  "backoffKey kind key = kind_name kind @ ''|'' @ key"

definition deferred :: "Kind \<Rightarrow> string \<Rightarrow> digest \<Rightarrow> int \<Rightarrow> failures \<Rightarrow> (bool \<times> int) \<times> failures" where
  "deferred kind key h now fs =
     (case fs (backoffKey kind key) of
        None \<Rightarrow> ((False, 0), fs)
      | Some f \<Rightarrow>
          if f_hash f \<noteq> h then ((False, 0), fs(backoffKey kind key := None))
          else if now < f_until f then ((True, f_until f - now), fs)
          else ((False, 0), fs))"

definition next_delay :: "failure option \<Rightarrow> digest \<Rightarrow> int" where
  "next_delay f h = (case f of
     Some f \<Rightarrow> if f_hash f = h then (if f_delay f * 2 > backoffMax then backoffMax else f_delay f * 2) else backoffMin
   | None \<Rightarrow> backoffMin)"

definition noteFailure :: "Kind \<Rightarrow> string \<Rightarrow> digest \<Rightarrow> run_error \<Rightarrow> int \<Rightarrow> failures \<Rightarrow> int \<times> failures" where
  "noteFailure kind key h reason now fs =
     (let delay = next_delay (fs (backoffKey kind key)) h
      in (delay, fs(backoffKey kind key \<mapsto>
           \<lparr> f_until = now + delay, f_delay = delay, f_hash = h, f_reason = reason \<rparr>)))"

definition noteSuccess :: "Kind \<Rightarrow> string \<Rightarrow> failures \<Rightarrow> failures" where
  "noteSuccess kind key fs = fs(backoffKey kind key := None)"

section \<open>The contract\<close>

text \<open>A retry policy: \<open>waits\<close> says whether a resource is held back, \<open>delay\<close> is what the next
  rejection earns, \<open>check\<close> is the state after asking.\<close>

locale retry_policy =
  fixes waits :: "'s \<Rightarrow> 'k \<Rightarrow> 'h \<Rightarrow> int \<Rightarrow> bool"
    and check :: "'s \<Rightarrow> 'k \<Rightarrow> 'h \<Rightarrow> 's"
    and reject :: "'s \<Rightarrow> 'k \<Rightarrow> 'h \<Rightarrow> int \<Rightarrow> 's"
    and clear :: "'s \<Rightarrow> 'k \<Rightarrow> 's"
    and delay :: "'s \<Rightarrow> 'k \<Rightarrow> 'h \<Rightarrow> int"
    and ok :: "'s \<Rightarrow> bool"
    and lo hi :: int
  assumes waits_reject: "waits (reject s k h t) k' h' t' =
      (if k' = k then h' = h \<and> t' < t + delay s k h else waits s k' h' t')"
    and waits_clear: "waits (clear s k) k' h t = (k' \<noteq> k \<and> waits s k' h t)"
    and waits_check: "waits (check s k h) k' h' t =
      (waits s k' h' t \<and> (k' = k \<longrightarrow> h' = h))"
    and delay_reject: "delay (reject s k h t) k h = min hi (2 * delay s k h)"
    and delay_bounds: "ok s \<Longrightarrow> lo \<le> delay s k h \<and> delay s k h \<le> hi"
    and delay_clear: "delay (clear s k) k h = lo"
    and ok_keep: "ok s \<Longrightarrow> ok (check s k h) \<and> ok (reject s k h t) \<and> ok (clear s k)"
    and range: "0 < lo" "lo \<le> hi"
begin

lemma delay_rejections:
  "delay s k h \<le> hi \<Longrightarrow> 0 \<le> delay s k h \<Longrightarrow>
   delay (fold (\<lambda>t s. reject s k h t) ts s) k h = min hi (2 ^ length ts * delay s k h)"
proof (induction ts arbitrary: s)
  case (Cons t ts)
  have "delay (reject s k h t) k h \<le> hi" "0 \<le> delay (reject s k h t) k h"
    using Cons.prems by (simp_all add: delay_reject)
  from Cons.IH [OF this]
  have "delay (fold (\<lambda>t s. reject s k h t) (t # ts) s) k h = min hi (2 ^ length ts * min hi (2 * delay s k h))"
    by (simp add: delay_reject)
  also have "\<dots> = min hi (2 ^ length (t # ts) * delay s k h)"
  proof (cases "2 * delay s k h \<le> hi")
    case False
    have "1 * hi \<le> 2 ^ length ts * hi" using Cons.prems by (intro mult_right_mono) auto
    also have "\<dots> \<le> 2 ^ length ts * (2 * delay s k h)" using False by (intro mult_left_mono) auto
    also have "\<dots> = 2 ^ length (t # ts) * delay s k h" by simp
    finally have "hi \<le> 2 ^ length (t # ts) * delay s k h" by simp
    moreover have "hi \<le> 2 ^ length ts * hi" using \<open>1 * hi \<le> _\<close> by simp
    ultimately show ?thesis using False by (simp add: min_absorb1)
  qed (simp add: min_def mult.assoc mult.left_commute)
  finally show ?case .
qed (simp add: min_def)

lemma cleared_then_rejected:
  "waits (fold (\<lambda>t s. reject s k h t) (ts @ [t]) (clear s k)) k h t'
   \<longleftrightarrow> t' < t + min hi (2 ^ length ts * lo)"
  using delay_rejections [of "clear s k" k h ts] range by (simp add: waits_reject delay_clear)

lemma changed_is_free: "h' \<noteq> h \<Longrightarrow> \<not> waits (reject s k h t) k h' t'"
  by (simp add: waits_reject)

lemma others_unaffected:
  "k' \<noteq> k \<Longrightarrow> waits (fold (\<lambda>t s. reject s k h t) ts s) k' h' t' = waits s k' h' t'"
  by (induction ts arbitrary: s) (simp_all add: waits_reject)

end

section \<open>The backoff of the worker\<close>

definition failures_ok :: "failures \<Rightarrow> bool" where
  "failures_ok fs \<longleftrightarrow> (\<forall>f\<in>ran fs. backoffMin \<le> f_delay f \<and> f_delay f \<le> backoffMax)"

lemma backoff_consts [simp]: "backoffMin = 30000000000" "backoffMax = 1800000000000"
  by (simp_all add: backoffMin_def backoffMax_def second_def minute_def)

lemma backoffKey_inj: "backoffKey k a = backoffKey k' b \<longleftrightarrow> k = k' \<and> a = b"
  by (cases k; cases k') (auto simp: backoffKey_def)

lemma failures_okD: "failures_ok fs \<Longrightarrow> fs k = Some f \<Longrightarrow> 30000000000 \<le> f_delay f \<and> f_delay f \<le> 1800000000000"
  by (auto simp: failures_ok_def ran_def)

lemma failures_ok_empty [simp]: "failures_ok (\<lambda>_. None)"
  by (simp add: failures_ok_def)

lemma failures_ok_del: "failures_ok fs \<Longrightarrow> failures_ok (fs(k := None))"
  by (auto simp: failures_ok_def ran_def split: if_splits)

lemma failures_ok_add: "failures_ok fs \<Longrightarrow> backoffMin \<le> f_delay f \<Longrightarrow> f_delay f \<le> backoffMax \<Longrightarrow> failures_ok (fs(k \<mapsto> f))"
  by (auto simp: failures_ok_def ran_def split: if_splits)

lemma next_delay_bounds: "failures_ok fs \<Longrightarrow> 30000000000 \<le> next_delay (fs k) h \<and> next_delay (fs k) h \<le> 1800000000000"
  using failures_okD [of fs k] by (auto simp: next_delay_def split: option.split)

lemma failures_ok_deferred: "failures_ok fs \<Longrightarrow> failures_ok (snd (deferred kind key h now fs))"
  by (simp add: deferred_def failures_ok_del split: option.split)

lemma waits_iff: "fst (fst (deferred kind key h now fs)) \<longleftrightarrow>
    (\<exists>f. fs (backoffKey kind key) = Some f \<and> f_hash f = h \<and> now < f_until f)"
  by (simp add: deferred_def split: option.split)

lemma deferred_state: "snd (deferred kind key h now fs) k =
    (case fs k of Some f \<Rightarrow> if k = backoffKey kind key \<and> f_hash f \<noteq> h then None else Some f | None \<Rightarrow> None)"
  by (cases "fs (backoffKey kind key)") (auto simp: deferred_def split: option.split)

lemma waits_noteFailure:
  "fst (fst (deferred kind' key' h' t' (snd (noteFailure kind key h r t fs)))) \<longleftrightarrow>
   (if (kind', key') = (kind, key) then h' = h \<and> t' < t + next_delay (fs (backoffKey kind key)) h
    else fst (fst (deferred kind' key' h' t' fs)))"
  by (auto simp: waits_iff noteFailure_def Let_def backoffKey_inj)

interpretation backoff: retry_policy
  "\<lambda>fs (kind, key) h now. fst (fst (deferred kind key h now fs))"
  "\<lambda>fs (kind, key) h. snd (deferred kind key h 0 fs)"
  "\<lambda>fs (kind, key) h now. snd (noteFailure kind key h r now fs)"
  "\<lambda>fs (kind, key). noteSuccess kind key fs"
  "\<lambda>fs (kind, key) h. next_delay (fs (backoffKey kind key)) h"
  failures_ok backoffMin backoffMax for r
proof (unfold_locales, goal_cases)
  case (1 s k h t k' h' t')
  then show ?case by (cases k; cases k') (auto simp: waits_noteFailure)
next
  case (2 s k k' h t)
  then show ?case by (cases k; cases k') (auto simp: waits_iff noteSuccess_def backoffKey_inj)
next
  case (3 s k h k' h' t)
  then show ?case by (cases k; cases k') (auto simp: waits_iff deferred_state backoffKey_inj split: option.splits if_splits)
next
  case (4 s k h t)
  then show ?case by (cases k) (auto simp: noteFailure_def next_delay_def Let_def split: option.split)
next
  case (5 s k h)
  then show ?case by (cases k) (simp add: next_delay_bounds)
next
  case (6 s k h)
  then show ?case by (cases k) (simp add: noteSuccess_def next_delay_def)
next
  case (7 s k h t)
  then show ?case
    by (cases k) (auto simp: noteFailure_def noteSuccess_def Let_def failures_ok_del failures_ok_deferred next_delay_bounds
      intro!: failures_ok_add)
qed simp_all

lemma deferred_now: "snd (deferred kind key h now fs) = snd (deferred kind key h 0 fs)"
  by (simp add: deferred_def split: option.split)

section \<open>Properties\<close>

text \<open>C15: the backoff. After the first success a resource that is rejected with the same
  configuration n + 1 times is held back, from the last rejection on, for exactly 2 to the n
  times 30 seconds, at most 30 minutes; a changed configuration is tried at once, and other
  resources are not held back.\<close>

theorem backoff_doubles:
  assumes "fs' = fold (\<lambda>t fs. snd (noteFailure kind key h r t fs)) (ts @ [t]) (noteSuccess kind key fs)"
    and "h' \<noteq> h" "(kind', key') \<noteq> (kind, key)"
  shows "fst (fst (deferred kind key h now fs')) = (now < t + min backoffMax (2 ^ length ts * backoffMin))
    \<and> \<not> fst (fst (deferred kind key h' now fs'))
    \<and> fst (fst (deferred kind' key' h'' now fs')) = fst (fst (deferred kind' key' h'' now fs))"
proof (intro conjI)
  show "fst (fst (deferred kind key h now fs')) = (now < t + min backoffMax (2 ^ length ts * backoffMin))"
    using backoff.cleared_then_rejected [where k = "(kind, key)"] by (simp add: assms)
  show "\<not> fst (fst (deferred kind key h' now fs'))"
    using backoff.changed_is_free [where k = "(kind, key)"] assms(2) by (simp add: assms(1))
  show "fst (fst (deferred kind' key' h'' now fs')) = fst (fst (deferred kind' key' h'' now fs))"
    using backoff.others_unaffected [where k = "(kind, key)" and k' = "(kind', key')" and ts = "ts @ [t]"]
      backoff.waits_clear [where k = "(kind, key)" and k' = "(kind', key')"] assms(3)
    by (simp add: assms(1))
qed

definition ex_digest :: "string \<Rightarrow> digest" where
  "ex_digest d = Fingerprint (Dead (zero_dead\<lparr> dh_DomainNames := [d] \<rparr>))"

theorem backoff_doubles_witness:
  "fst (fst (deferred KindProxy ''a.b'' (ex_digest ''a.b'') (7 + 4 * backoffMin - 1)
     (fold (\<lambda>t fs. snd (noteFailure KindProxy ''a.b'' (ex_digest ''a.b'') (ApiFailed NotFound) t fs)) [1, 4, 7]
       (noteSuccess KindProxy ''a.b'' (\<lambda>_. None)))))"
proof -
  have "ex_digest ''c.d'' \<noteq> ex_digest ''a.b''" by code_simp
  from backoff_doubles [where ts = "[1, 4]" and t = 7 and kind = KindProxy and key = "''a.b''" and kind' = KindDead
      and key' = "''a.b''" and fs = "\<lambda>_. None" and r = "ApiFailed NotFound", OF refl this]
  show ?thesis by simp
qed

end
