(* ===== verification/GoFloat.thy ===== *)
theory GoFloat
  imports GoTime "HOL-Library.Log_Nat"
begin

text \<open>
  Floating-point numbers as the program uses them. A finite \<open>float64\<close> is its rational value and
  every operation rounds to the nearest representable one, ties to even (53 bits, smallest positive
  value \<open>2 ^ -1074\<close>). \<open>strconv.ParseFloat\<close> also yields the infinities and NaN, which
  the delete guard then compares with, and \<open>time.ParseDuration\<close> multiplies its fractions as floats.
\<close>

section \<open>Rounding\<close>

definition pow2 :: "int \<Rightarrow> rat" where
  "pow2 e = (if 0 \<le> e then 2 ^ nat e else 1 / 2 ^ nat (- e))"

definition round_even :: "rat \<Rightarrow> int" where
  "round_even y = (let f = \<lfloor>y\<rfloor>; r = y - of_int f in
     if r < 1 / 2 then f else if r > 1 / 2 then f + 1 else if even f then f else f + 1)"

definition expo :: "rat \<Rightarrow> int" where
  "expo x = (let (p, q) = quotient_of x; e = int (floorlog 2 (nat p)) - int (floorlog 2 (nat q))
     in if pow2 e \<le> x then e else e - 1)"

definition float64 :: "rat \<Rightarrow> rat" where
  "float64 x = (if x = 0 then 0
     else let u = max (expo \<bar>x\<bar> - 52) (- 1074)
          in sgn x * of_int (round_even (\<bar>x\<bar> / pow2 u)) * pow2 u)"

definition SmallestNonzeroFloat64 :: rat where
  "SmallestNonzeroFloat64 = pow2 (- 1074)"

section \<open>Lemmas on rounding\<close>

lemma pow2_pos [simp]: "0 < pow2 e"
  by (simp add: pow2_def)

lemma pow2_neq_0 [simp]: "pow2 e \<noteq> 0"
  using pow2_pos [of e] by linarith

lemma pow2_Suc: "pow2 (e + 1) = 2 * pow2 e"
proof (cases "0 \<le> e")
  case True
  then show ?thesis by (simp add: pow2_def nat_add_distrib)
next
  case False
  then show ?thesis
  proof (cases "e = - 1")
    case False
    with \<open>\<not> 0 \<le> e\<close> have "nat (- e) = Suc (nat (- (e + 1)))" by simp
    with False \<open>\<not> 0 \<le> e\<close> show ?thesis by (simp add: pow2_def)
  qed (simp add: pow2_def)
qed

lemma pow2_add_nat: "pow2 (e + int n) = 2 ^ n * pow2 e"
proof (induction n)
  case (Suc n)
  have "pow2 (e + int (Suc n)) = pow2 ((e + int n) + 1)" by (simp add: algebra_simps)
  then show ?case by (simp add: pow2_Suc Suc)
qed simp

lemma pow2_mono: "a \<le> b \<Longrightarrow> pow2 a \<le> pow2 b"
proof -
  assume "a \<le> b"
  then obtain n where "b = a + int n" using zle_iff_zadd by blast
  then show ?thesis by (simp add: pow2_add_nat)
qed

lemma pow2_less: "pow2 a < pow2 b \<Longrightarrow> a < b"
  using pow2_mono [of b a] by fastforce

lemma pow2_diff: "pow2 (int a - int b) = 2 ^ a / 2 ^ b"
proof -
  have "2 ^ b * pow2 (int a - int b) = pow2 (int a)" by (simp flip: pow2_add_nat)
  then show ?thesis by (simp add: pow2_def field_simps)
qed

lemma round_even_error: "\<bar>of_int (round_even y) - y\<bar> \<le> 1 / 2"
proof -
  define f where "f = \<lfloor>y\<rfloor>"
  have "of_int f \<le> y" "y < of_int f + 1" using floor_correct [of y] by (simp_all add: f_def)
  then show ?thesis by (auto simp: round_even_def Let_def abs_if simp flip: f_def)
qed

lemma floorlog_range:
  assumes "0 < n"
  shows "2 ^ floorlog 2 n \<le> 2 * n" "n < 2 ^ floorlog 2 n"
proof -
  from floorlog_bounds [of n 2] assms have *: "2 ^ (floorlog 2 n - 1) \<le> n" "n < 2 ^ floorlog 2 n" by auto
  then show "n < 2 ^ floorlog 2 n" by simp
  have "0 < floorlog 2 n" using *(2) assms by (cases "floorlog 2 n") auto
  then have "2 ^ floorlog 2 n = 2 * (2::nat) ^ (floorlog 2 n - 1)" by (simp flip: power_Suc)
  with *(1) show "2 ^ floorlog 2 n \<le> 2 * n" by simp
qed

lemma floorlog_int:
  assumes "0 < n"
  shows "2 ^ floorlog 2 (nat n) \<le> 2 * n" "n < 2 ^ floorlog 2 (nat n)"
proof -
  obtain m where n: "n = int m" "0 < m" using assms zero_less_imp_eq_int by blast
  then have "int (2 ^ floorlog 2 m) \<le> int (2 * m)" "int m < int (2 ^ floorlog 2 m)"
    using floorlog_range [of m] by (simp_all only: of_nat_le_iff of_nat_less_iff)
  with n show "2 ^ floorlog 2 (nat n) \<le> 2 * n" "n < 2 ^ floorlog 2 (nat n)" by simp_all
qed

lemma expo_bounds:
  assumes "0 < x"
  shows "pow2 (expo x) \<le> x" "x < pow2 (expo x + 1)"
proof -
  obtain p q where pq: "quotient_of x = (p, q)" by fastforce
  have q: "0 < q" using quotient_of_denom_pos [OF pq] .
  have x: "x = of_int p / of_int q" using quotient_of_div [OF pq] .
  have p: "0 < p" using assms q x by (simp add: zero_less_divide_iff)
  define a b where "a = floorlog 2 (nat p)" and "b = floorlog 2 (nat q)"
  have i: "2 ^ a \<le> 2 * p" "p < 2 ^ a" "2 ^ b \<le> 2 * q" "q < 2 ^ b"
    using floorlog_int [OF p] floorlog_int [OF q] by (simp_all add: a_def b_def)
  have r: "(2 ^ a :: rat) \<le> 2 * of_int p" "(of_int p :: rat) < 2 ^ a" "(2 ^ b :: rat) \<le> 2 * of_int q" "(of_int q :: rat) < 2 ^ b"
    using i(1,3) [THEN of_int_le_iff [where 'a = rat, THEN iffD2]] i(2,4) [THEN of_int_less_iff [where 'a = rat, THEN iffD2]]
    by simp_all
  have q': "(0 :: rat) < of_int q" using q by simp
  have p': "(0 :: rat) < of_int p" using p by simp
  let ?e = "int a - int b"
  have up: "x < pow2 (?e + 1)"
  proof -
    have "of_int p * 2 ^ b < 2 ^ a * (2 * of_int q :: rat)"
      using r p' q' by (intro mult_less_le_imp_less) auto
    then show ?thesis using q' unfolding x pow2_Suc pow2_diff by (simp add: field_simps)
  qed
  have low: "pow2 (?e - 1) \<le> x"
  proof -
    have "2 ^ a * of_int q \<le> (2 * of_int p) * (2 ^ b :: rat)"
      using r p' q' by (intro mult_mono) auto
    then have "pow2 ?e \<le> 2 * x" using q' by (simp add: x pow2_diff field_simps)
    with pow2_Suc [of "?e - 1"] show ?thesis by simp
  qed
  have e: "expo x = (if pow2 ?e \<le> x then ?e else ?e - 1)" by (simp add: expo_def pq a_def b_def)
  show "pow2 (expo x) \<le> x" using low by (simp add: e)
  show "x < pow2 (expo x + 1)" using up by (simp add: e)
qed

text \<open>Rounding a normal number is right to one part in \<open>2 ^ 53\<close>.\<close>

lemma float64_error:
  assumes "pow2 (- 1022) \<le> x"
  shows "\<bar>float64 x - x\<bar> \<le> x / 2 ^ 53"
proof -
  have pos: "0 < x" using assms pow2_pos [of "- 1022"] by linarith
  note b = expo_bounds [OF pos]
  have "pow2 (- 1022) < pow2 (expo x + 1)" using assms b(2) by linarith
  from pow2_less [OF this] have u: "max (expo \<bar>x\<bar> - 52) (- 1074) = expo x - 52" using pos by simp
  let ?s = "pow2 (expo x - 52)"
  have "\<bar>float64 x - x\<bar> = \<bar>of_int (round_even (x / ?s)) - x / ?s\<bar> * ?s"
  proof -
    have "float64 x - x = (of_int (round_even (x / ?s)) - x / ?s) * ?s"
      using pos u by (simp add: float64_def Let_def left_diff_distrib)
    then show ?thesis by (simp add: abs_mult abs_of_pos)
  qed
  also have "\<dots> \<le> 1 / 2 * ?s" using round_even_error [of "x / ?s"] by (intro mult_right_mono) (auto intro: less_imp_le)
  also have "\<dots> = pow2 (expo x) / 2 ^ 53" using pow2_add_nat [of "expo x - 52" 52] by simp
  also have "\<dots> \<le> x / 2 ^ 53" using b(1) by (simp add: divide_right_mono)
  finally show ?thesis .
qed

lemma float64_between:
  assumes "pow2 (- 1022) \<le> x"
  shows "x * (1 - 1 / 2 ^ 53) \<le> float64 x" "float64 x \<le> x * (1 + 1 / 2 ^ 53)"
  using abs_le_D1 [OF float64_error [OF assms]] abs_le_D2 [OF float64_error [OF assms]]
  by (simp_all add: field_simps)

lemma pow2_1000: "pow2 (- 1000) \<le> 1 / 2 ^ 60" "pow2 (- 1022) \<le> pow2 (- 1000)"
  by (rule order_trans [OF pow2_mono [of _ "- 60"]]) (simp_all add: pow2_def [of "- 60"] pow2_mono)

text \<open>Counts below \<open>2 ^ 53\<close> are exact.\<close>

lemma float64_nat:
  assumes "0 < n" "n < 2 ^ 53"
  shows "float64 (of_nat n) = of_nat n"
proof -
  let ?x = "of_nat n :: rat"
  have pos: "0 < ?x" using assms by simp
  note b = expo_bounds [OF pos]
  have "?x < 2 ^ 53" using assms(2) by (metis of_nat_less_iff of_nat_numeral of_nat_power)
  then have "pow2 (expo ?x) < pow2 53" using b(1) by (simp add: pow2_def [of 53])
  from pow2_less [OF this] have e53: "expo ?x \<le> 52" by simp
  have "1 \<le> ?x" using assms by simp
  then have "pow2 0 < pow2 (expo ?x + 1)" using b(2) by (simp add: pow2_def [of 0])
  from pow2_less [OF this] have e0: "0 \<le> expo ?x" by simp
  define k where "k = nat (52 - expo ?x)"
  have k: "expo ?x - 52 = - int k" using e53 by (simp add: k_def)
  have "pow2 (- int k) = 1 / 2 ^ k" using pow2_diff [of 0 k] by simp
  then have "?x / pow2 (expo ?x - 52) = of_int (int n * 2 ^ k)" by (simp add: k)
  then have "round_even (?x / pow2 (expo ?x - 52)) = int n * 2 ^ k"
    by (simp only: round_even_def Let_def floor_of_int) simp
  moreover have "max (expo \<bar>?x\<bar> - 52) (- 1074) = expo ?x - 52" using e0 by simp
  ultimately show ?thesis using pos \<open>pow2 (- int k) = _\<close> by (simp add: float64_def Let_def k)
qed

section \<open>Values and comparisons\<close>

datatype gofloat = Fin rat | Inf bool | NaN

text \<open>\<open>Inf True\<close> is the negative one. No comparison with NaN holds.\<close>

fun float_less :: "gofloat \<Rightarrow> gofloat \<Rightarrow> bool" where
  "float_less (Fin x) (Fin y) \<longleftrightarrow> x < y"
| "float_less (Fin x) (Inf neg) \<longleftrightarrow> \<not> neg"
| "float_less (Inf neg) (Fin y) \<longleftrightarrow> neg"
| "float_less (Inf neg) (Inf neg') \<longleftrightarrow> neg \<and> \<not> neg'"
| "float_less NaN y \<longleftrightarrow> False"
| "float_less x NaN \<longleftrightarrow> False"

definition float_le :: "gofloat \<Rightarrow> gofloat \<Rightarrow> bool" where
  "float_le x y \<longleftrightarrow> float_less x y \<or> x = y \<and> x \<noteq> NaN"

lemma float_le_Fin [simp]: "float_le (Fin x) (Fin y) \<longleftrightarrow> x \<le> y"
  by (auto simp: float_le_def)

text \<open>Adding a small positive number.\<close>

fun float_plus :: "gofloat \<Rightarrow> rat \<Rightarrow> gofloat" where
  "float_plus (Fin x) y = Fin (float64 (x + y))"
| "float_plus (Inf neg) y = Inf neg"
| "float_plus NaN y = NaN"

fun float_div :: "gofloat \<Rightarrow> rat \<Rightarrow> gofloat" where
  "float_div (Fin x) y = Fin (float64 (x / y))"
| "float_div (Inf neg) y = Inf (neg \<noteq> (y < 0))"
| "float_div NaN y = NaN"

section \<open>Reading a float\<close>

text \<open>The mantissa: digits of the base, at most one dot, underscores skipped. The state is the
  value of the digits, how many follow the dot, and whether there was a digit.\<close>

definition digit_in :: "nat \<Rightarrow> char \<Rightarrow> nat option" where
  "digit_in base c = (let l = of_char (lower_char c) in
     if is_digit c then Some (digit_val c)
     else if base = 16 \<and> 97 \<le> l \<and> l \<le> 102 then Some (l - 87) else None)"

fun mantissa :: "nat \<Rightarrow> bool \<Rightarrow> nat \<times> nat \<times> bool \<Rightarrow> string \<Rightarrow> (nat \<times> nat \<times> bool) \<times> string" where
  "mantissa base dot acc [] = (acc, [])"
| "mantissa base dot (m, k, saw) (c # cs) =
     (if c = CHR ''_'' then mantissa base dot (m, k, saw) cs
      else if c = CHR ''.'' then (if dot then ((m, k, saw), c # cs) else mantissa base True (m, k, saw) cs)
      else case digit_in base c of
             Some d \<Rightarrow> mantissa base dot (m * base + d, (if dot then k + 1 else k), True) cs
           | None \<Rightarrow> ((m, k, saw), c # cs))"

text \<open>The digits of an exponent. It stops growing at 10000, beyond which the result is zero or out
  of range anyway.\<close>

fun exponent_digits :: "nat \<Rightarrow> string \<Rightarrow> nat \<times> string" where
  "exponent_digits e [] = (e, [])"
| "exponent_digits e (c # cs) =
     (if c = CHR ''_'' then exponent_digits e cs
      else if is_digit c then exponent_digits (if e < 10000 then e * 10 + digit_val c else e) cs
      else (e, c # cs))"

definition exponent :: "bool \<Rightarrow> string \<Rightarrow> (int \<times> string) option" where
  "exponent hex s = (case s of
     c # cs \<Rightarrow>
       if lower_char c = (if hex then CHR ''p'' else CHR ''e'') then
         let (neg, ds) = parse_sign cs
         in if ds = [] \<or> \<not> is_digit (hd ds) then None
            else let (e, rest) = exponent_digits 0 ds in Some (if neg then - int e else int e, rest)
       else if hex then None else Some (0, s)
   | [] \<Rightarrow> if hex then None else Some (0, s))"

text \<open>An underscore stands between digits; a base prefix counts as one.\<close>

fun underscores_ok :: "bool \<Rightarrow> char \<Rightarrow> string \<Rightarrow> bool" where
  "underscores_ok hex saw [] \<longleftrightarrow> saw \<noteq> CHR ''_''"
| "underscores_ok hex saw (c # cs) \<longleftrightarrow>
     (if digit_in (if hex then 16 else 10) c \<noteq> None then underscores_ok hex (CHR ''0'') cs
      else if c = CHR ''_'' then saw = CHR ''0'' \<and> underscores_ok hex (CHR ''_'') cs
      else saw \<noteq> CHR ''_'' \<and> underscores_ok hex (CHR ''!'') cs)"

definition base_prefix :: "string \<Rightarrow> string \<Rightarrow> bool" where
  "base_prefix letters s = (case s of c # d # _ \<Rightarrow> c = CHR ''0'' \<and> lower_char d \<in> set letters | _ \<Rightarrow> False)"

definition underscoreOK :: "string \<Rightarrow> bool" where
  "underscoreOK s = (let t = snd (parse_sign s) in
     if base_prefix ''box'' t then underscores_ok (base_prefix ''x'' t) (CHR ''0'') (drop 2 t)
     else underscores_ok False (CHR ''^'') t)"

definition special_float :: "string \<Rightarrow> gofloat option" where
  "special_float s = (let (neg, t) = parse_sign s; l = to_lower t in
     if l = ''inf'' \<or> l = ''infinity'' then Some (Inf neg)
     else if to_lower s = ''nan'' then Some NaN else None)"

text \<open>\<open>strconv.ParseFloat (s, 64)\<close>. A rounded value of \<open>2 ^ 1024\<close> or more is out of range, which is an error.\<close>

definition ParseFloat :: "string \<Rightarrow> gofloat option" where
  "ParseFloat s = (case special_float s of
     Some f \<Rightarrow> Some f
   | None \<Rightarrow>
       let (neg, t) = parse_sign s;
           hex = (base_prefix ''x'' t \<and> 2 < length t);
           base = (if hex then 16 else 10);
           ((m, k, saw), rest) = mantissa base False (0, 0, False) (if hex then drop 2 t else t)
       in if \<not> saw then None
          else case exponent hex rest of
                 None \<Rightarrow> None
               | Some (e, rest') \<Rightarrow>
                   if rest' \<noteq> [] then None
                   else if CHR ''_'' \<in> set s \<and> \<not> underscoreOK s then None
                   else let exact = of_nat m / of_nat base ^ k *
                              (if hex then pow2 e else if 0 \<le> e then 10 ^ nat e else 1 / 10 ^ nat (- e));
                            x = float64 exact
                        in if x \<noteq> 0 \<and> 1024 \<le> expo x then None else Some (Fin (if neg then - x else x)))"

section \<open>Reading a duration\<close>

definition unit_of :: "string \<Rightarrow> int option" where
  "unit_of = map_of [(''ns'', 1), (''us'', 1000), ([CHR 0xC2, CHR 0xB5, CHR ''s''], 1000),
     ([CHR 0xCE, CHR 0xBC, CHR ''s''], 1000), (''ms'', 1000000), (''s'', second), (''m'', minute), (''h'', 60 * minute)]"

text \<open>The digits after the dot, kept while they fit 63 bits: their value and the power of ten below.\<close>

fun leading_fraction :: "int \<times> rat \<times> bool \<Rightarrow> string \<Rightarrow> (int \<times> rat) \<times> string" where
  "leading_fraction (x, scale, over) [] = ((x, scale), [])"
| "leading_fraction (x, scale, over) (c # cs) =
     (if \<not> is_digit c then ((x, scale), c # cs)
      else if over \<or> x > int_max div 10 then leading_fraction (x, scale, True) cs
      else let y = x * 10 + int (digit_val c) in
        if y > int_max + 1 then leading_fraction (x, scale, True) cs
        else leading_fraction (y, float64 (scale * 10), False) cs)"

text \<open>One number with its unit, in nanoseconds, and what follows it.\<close>

definition duration_part :: "string \<Rightarrow> (int \<times> string) option" where
  "duration_part s =
     (let digits = takeWhile is_digit s; s1 = dropWhile is_digit s;
          v = (case parse_nat digits of Some n \<Rightarrow> int n | None \<Rightarrow> 0);
          dot = (s1 \<noteq> [] \<and> hd s1 = CHR ''.'');
          ((f, scale), s2) = (if dot then leading_fraction (0, 1, False) (tl s1) else ((0, 1), s1));
          post = (dot \<and> s2 \<noteq> tl s1);
          u = takeWhile (\<lambda>c. c \<noteq> CHR ''.'' \<and> \<not> is_digit c) s2
      in if s = [] \<or> \<not> (hd s = CHR ''.'' \<or> is_digit (hd s)) then None
         else if v > int_max + 1 then None
         else if digits = [] \<and> \<not> post then None
         else if u = [] then None
         else case unit_of u of
                None \<Rightarrow> None
              | Some unit \<Rightarrow>
                  if v > (int_max + 1) div unit then None
                  else let w = v * unit + (if f > 0 then \<lfloor>float64 (float64 (of_int f) * float64 (of_int unit / scale))\<rfloor> else 0)
                       in if f > 0 \<and> w > int_max + 1 then None else Some (w, drop (length u) s2))"

lemma leading_fraction_length: "length (snd (leading_fraction acc s)) \<le> length s"
  by (induction acc s rule: leading_fraction.induct) (auto simp: Let_def)

lemma duration_part_length: "duration_part s = Some (v, rest) \<Longrightarrow> length rest < length s"
proof -
  assume p: "duration_part s = Some (v, rest)"
  define s1 where "s1 = dropWhile is_digit s"
  obtain fs s2 where s2: "(if s1 \<noteq> [] \<and> hd s1 = CHR ''.'' then leading_fraction (0, 1, False) (tl s1) else ((0, 1), s1)) = (fs, s2)"
    by (cases "if s1 \<noteq> [] \<and> hd s1 = CHR ''.'' then leading_fraction (0, 1, False) (tl s1) else ((0, 1), s1)")
  have le: "length s2 \<le> length s1"
  proof (cases "s1 \<noteq> [] \<and> hd s1 = CHR ''.''")
    case True
    then show ?thesis using s2 leading_fraction_length [of "(0, 1, False)" "tl s1"] by simp
  qed (use s2 in auto)
  have le': "length s1 \<le> length s" unfolding s1_def by (rule length_dropWhile_le)
  obtain u where u: "u = takeWhile (\<lambda>c. c \<noteq> CHR ''.'' \<and> \<not> is_digit c) s2" "u \<noteq> []" "rest = drop (length u) s2"
    using p unfolding duration_part_def s1_def [symmetric] s2 Let_def
    by (cases fs) (simp split: if_splits option.splits prod.splits)
  have "length u \<le> length s2" unfolding u(1) by (rule length_takeWhile_le)
  moreover have "0 < length u" using u(2) by simp
  ultimately show "length rest < length s" using le le' u(3) by (simp only: length_drop)
qed

text \<open>The sum wraps at 64 bits, as \<open>uint64\<close> does, before it is compared.\<close>

function duration_parts :: "int \<Rightarrow> string \<Rightarrow> int option" where
  "duration_parts d s =
     (if s = [] then Some d
      else case duration_part s of
             None \<Rightarrow> None
           | Some (v, rest) \<Rightarrow>
               let d' = (d + v) mod 2 ^ 64 in if d' > int_max + 1 then None else duration_parts d' rest)"
  by pat_completeness auto
termination by (relation "measure (\<lambda>(d, s). length s)") (auto dest: duration_part_length)

declare duration_parts.simps [simp del]

definition ParseDuration :: "string \<Rightarrow> int option" where
  "ParseDuration s0 = (case parse_sign s0 of (neg, s) \<Rightarrow>
     if s = ''0'' then Some 0
     else if s = [] then None
     else case duration_parts 0 s of
            None \<Rightarrow> None
          | Some d \<Rightarrow> if neg then Some (- d) else if d > int_max then None else Some d)"

text \<open>Multiplying by the nanoseconds of a second in 64 bits.\<close>

definition wrap64 :: "int \<Rightarrow> int" where
  "wrap64 n = (n + 2 ^ 63) mod 2 ^ 64 - 2 ^ 63"

declare wrap64_def [code del]

lemma wrap64_range [simp]: "in_int64 (wrap64 n)"
  using pos_mod_bound [of "2 ^ 64" "n + 2 ^ 63"] pos_mod_sign [of "2 ^ 64" "n + 2 ^ 63"]
  by (simp add: wrap64_def in_int64_def int_min_def int_max_def)

lemma duration_parts_range: "0 \<le> d \<Longrightarrow> d \<le> int_max + 1 \<Longrightarrow> duration_parts d s = Some r \<Longrightarrow> 0 \<le> r \<and> r \<le> int_max + 1"
proof (induction d s rule: duration_parts.induct)
  case (1 d s)
  show ?case
  proof (cases "s = []")
    case False
    with "1.prems"(3) obtain v rest where p: "duration_part s = Some (v, rest)"
        "(d + v) mod 2 ^ 64 \<le> int_max + 1" "duration_parts ((d + v) mod 2 ^ 64) rest = Some r"
      by (subst (asm) duration_parts.simps) (auto simp: Let_def split: if_splits option.splits prod.splits)
    show ?thesis by (rule "1.IH" [OF False p(1) refl refl]) (use p in simp_all)
  qed (use "1.prems" in \<open>simp add: duration_parts.simps\<close>)
qed

lemma ParseDuration_range: "ParseDuration s = Some d \<Longrightarrow> in_int64 d"
  using duration_parts_range [of 0 "snd (parse_sign s)"]
  by (auto simp: ParseDuration_def in_int64_def int_min_def int_max_def split: if_splits option.splits prod.splits)

end
