(* ===== verification/Guard.thy ===== *)
theory Guard
  imports Target GoFloat
begin

text \<open>
  The delete guard (\<open>guardDeletions\<close> of \<open>internal/syncer/worker.go\<close>): the last check before a
  run deletes. The share of the managed resources is a \<open>float64\<close> in the code and computed as one
  here; the configured limit may also be NaN, with which every comparison fails.
\<close>

section \<open>The guard\<close>

definition DefaultDeleteGuardMin :: int where "DefaultDeleteGuardMin = 3"

datatype guard_reason =
    ForeignPrefix nat
  | NoContainers
  | DeletesEverything nat
  | DeletesTooMuch nat nat

text \<open>\<open>orphans\<close> enters by its length alone. \<open>None\<close> is the empty string of the code: go ahead.\<close>

definition guardDeletions ::
  "gofloat \<Rightarrow> int \<Rightarrow> nat \<Rightarrow> nat \<Rightarrow> nat \<Rightarrow> Snapshot \<Rightarrow> guard_reason option" where
  "guardDeletions deleteGuard deleteGuardMin deletions owned foreignPrefix snapshot =
     (if foreignPrefix > 0 then Some (ForeignPrefix foreignPrefix)
      else if float_le deleteGuard (Fin 0) then None
      else let minimum = (if deleteGuardMin \<le> 0 then DefaultDeleteGuardMin else deleteGuardMin) in
        if int deletions < minimum then None
        else if snap_Containers snapshot = 0 then Some NoContainers
        else if owned > 0 \<and> deletions \<ge> owned then Some (DeletesEverything deletions)
        else if owned > 0 then
          let share = float64 (float64 (of_nat deletions) / float64 (of_nat owned)) in
          if float_less (float_plus deleteGuard SmallestNonzeroFloat64) (Fin share) then Some (DeletesTooMuch deletions owned)
          else None
        else None)"

section \<open>Lemmas\<close>

lemma tiny_le: "pow2 (- 1000) \<le> g \<Longrightarrow> SmallestNonzeroFloat64 \<le> g / 2 ^ 60"
proof -
  assume "pow2 (- 1000) \<le> g"
  moreover have "2 ^ 60 * pow2 (- 1074) = pow2 (- 1014)" using pow2_add_nat [of "- 1074" 60] by simp
  moreover have "pow2 (- 1014) \<le> pow2 (- 1000)" by (rule pow2_mono) simp
  ultimately show ?thesis by (simp add: SmallestNonzeroFloat64_def)
qed

text \<open>What a run that the guard lets through satisfies, by the arithmetic of the code.\<close>

lemma share_close:
  assumes "0 < d" "0 < n" "d < 2 ^ 53" "n < 2 ^ 53"
  shows "(of_nat d / of_nat n) * (1 - 1 / 2 ^ 53) \<le> float64 (float64 (of_nat d) / float64 (of_nat n))"
    and "float64 (float64 (of_nat d) / float64 (of_nat n)) \<le> (of_nat d / of_nat n) * (1 + 1 / 2 ^ 53)"
proof -
  have "(of_nat n :: rat) \<le> 2 ^ 53" using assms(4) by (metis of_nat_le_iff of_nat_numeral of_nat_power less_imp_le)
  then have "of_nat n * 1 \<le> (2 ^ 53 :: rat) * of_nat d" using assms by (intro mult_mono) auto
  then have "pow2 (- 53) \<le> of_nat d / of_nat n" using assms by (simp add: pow2_def field_simps)
  then have "pow2 (- 1022) \<le> of_nat d / of_nat n" using pow2_mono [of "- 1022" "- 53"] by simp
  from float64_between [OF this] assms
  show "(of_nat d / of_nat n) * (1 - 1 / 2 ^ 53) \<le> float64 (float64 (of_nat d) / float64 (of_nat n))"
    and "float64 (float64 (of_nat d) / float64 (of_nat n)) \<le> (of_nat d / of_nat n) * (1 + 1 / 2 ^ 53)"
    by (simp_all add: float64_nat)
qed

lemma limit_close:
  assumes "pow2 (- 1000) \<le> g"
  shows "g * (1 - 1 / 2 ^ 53) \<le> float64 (g + SmallestNonzeroFloat64)"
    and "float64 (g + SmallestNonzeroFloat64) \<le> g * (1 + 1 / 2 ^ 52)"
proof -
  have pos: "0 < SmallestNonzeroFloat64" by (simp add: SmallestNonzeroFloat64_def)
  have n: "pow2 (- 1022) \<le> g + SmallestNonzeroFloat64" using assms pow2_1000(2) pos by linarith
  have "g * (1 - 1 / 2 ^ 53) \<le> (g + SmallestNonzeroFloat64) * (1 - 1 / 2 ^ 53)"
    using pos by (intro mult_right_mono) simp_all
  with float64_between(1) [OF n] show "g * (1 - 1 / 2 ^ 53) \<le> float64 (g + SmallestNonzeroFloat64)" by linarith
  have "(g + SmallestNonzeroFloat64) * (1 + 1 / 2 ^ 53) \<le> (g + g / 2 ^ 60) * (1 + 1 / 2 ^ 53)"
    using tiny_le [OF assms] by (intro mult_right_mono) simp_all
  also have "\<dots> \<le> g * (1 + 1 / 2 ^ 52)"
    using less_le_trans [OF pow2_pos assms] by (simp add: field_simps)
  finally show "float64 (g + SmallestNonzeroFloat64) \<le> g * (1 + 1 / 2 ^ 52)"
    using float64_between(2) [OF n] by linarith
qed

lemma margin:
  fixes x g :: rat
  assumes "0 < g" "x * (1 - 1 / 2 ^ 53) \<le> g * (1 + 1 / 2 ^ 52)"
  shows "x \<le> g * (1 + 1 / 2 ^ 50)"
  using assms by simp

text \<open>A limit that is not a number is never exceeded: all but one of the managed resources may go.\<close>

lemma nan_guard:
  "deletions < owned \<Longrightarrow> snap_Containers s \<noteq> 0 \<Longrightarrow> guardDeletions NaN m deletions owned 0 s = None"
  by (simp add: guardDeletions_def Let_def float_le_def)

section \<open>Properties\<close>

text \<open>The delete guard. A run the guard lets through was planned with the current label
  prefix; and if the guard is on and the run deletes at least the minimum, then Docker reported
  a container, not every managed resource goes, and the deleted share is at most the configured
  one, up to the rounding of the float64 arithmetic. In the other direction the guard never
  stops a run below the minimum, nor one whose share is below the configured one by that
  rounding.\<close>

theorem guard_bounds_deletions:
  assumes "0 < owned" "deletions \<le> owned" "owned < 2 ^ 53" "pow2 (- 1000) \<le> g" "0 < deletions"
    and "int deletions \<ge> (if m \<le> 0 then DefaultDeleteGuardMin else m)"
  shows "(guardDeletions (Fin g) m deletions owned foreign s = None \<longrightarrow>
      foreign = 0 \<and> snap_Containers s \<noteq> 0 \<and> deletions < owned
      \<and> of_nat deletions \<le> g * of_nat owned * (1 + 1 / 2 ^ 50))
    \<and> (foreign = 0 \<and> snap_Containers s \<noteq> 0 \<and> deletions < owned
      \<and> of_nat deletions * (1 + 1 / 2 ^ 50) \<le> g * of_nat owned \<longrightarrow>
      guardDeletions (Fin g) m deletions owned foreign s = None)"
proof -
  let ?x = "of_nat deletions / of_nat owned :: rat"
  let ?share = "float64 (float64 (of_nat deletions) / float64 (of_nat owned))"
  let ?limit = "float64 (g + SmallestNonzeroFloat64)"
  have g: "0 < g" using assms(4) pow2_pos [of "- 1000"] by linarith
  have o: "(0 :: rat) < of_nat owned" using assms by simp
  have x: "0 < ?x" using assms by simp
  note sc = share_close [OF assms(5,1) _ assms(3)] and lc = limit_close [OF assms(4)]
  have d: "deletions < 2 ^ 53" using assms by simp
  have run: "guardDeletions (Fin g) m deletions owned foreign s = None \<longleftrightarrow>
      foreign = 0 \<and> snap_Containers s \<noteq> 0 \<and> deletions < owned \<and> ?share \<le> ?limit"
    using assms g by (auto simp: guardDeletions_def Let_def not_less float_le_Fin)
  have le: "?x \<le> g * (1 + 1 / 2 ^ 50)" if "?share \<le> ?limit"
  proof -
    have "?x * (1 - 1 / 2 ^ 53) \<le> g * (1 + 1 / 2 ^ 52)" using sc(1) [OF d] lc(2) that by linarith
    with g show ?thesis by (rule margin)
  qed
  have ge: "?share \<le> ?limit" if "?x * (1 + 1 / 2 ^ 50) \<le> g"
  proof -
    have "?x * (1 + 1 / 2 ^ 53) \<le> ?x * (1 + 1 / 2 ^ 50) * (1 - 1 / 2 ^ 53)" using x by simp
    also have "\<dots> \<le> g * (1 - 1 / 2 ^ 53)" using that by (intro mult_right_mono) simp_all
    finally show ?thesis using sc(2) [OF d] lc(1) by linarith
  qed
  show ?thesis
    unfolding run using le ge o by (auto simp: field_simps)
qed

definition ex_snapshot :: "Target list \<Rightarrow> nat \<Rightarrow> Snapshot" where
  "ex_snapshot ts n = \<lparr> snap_Targets = ts, snap_Protected = [],
     snap_Summary = \<lparr> sm_Managed = n, sm_OptedOut = 0, sm_Unlabeled = 0, sm_Stopped = 0 \<rparr>, snap_Containers = n \<rparr>"

theorem guard_bounds_deletions_witness:
  "guardDeletions (Fin (1 / 2)) 0 3 8 0 (ex_snapshot [] 5) = None
    \<and> guardDeletions (Fin (1 / 2)) 0 5 8 0 (ex_snapshot [] 5) \<noteq> None"
proof -
  have g: "pow2 (- 1000) \<le> 1 / 2" using pow2_1000(1) by (rule order_trans) simp
  show ?thesis
    using guard_bounds_deletions [of 8 3 "1 / 2" 0 0 "ex_snapshot [] 5"]
      guard_bounds_deletions [of 8 5 "1 / 2" 0 0 "ex_snapshot [] 5"] g
    by (simp add: DefaultDeleteGuardMin_def ex_snapshot_def)
qed

end

