(* ===== verification/Worker.thy ===== *)
theory Worker
  imports BuildResource Cache Backoff Guard "HOL-Library.Word"
begin

text \<open>
  The worker of \<open>internal/syncer/worker.go\<close> and \<open>resolve.go\<close>: what it remembers between runs and
  the operations a reconcile run is made of. The state is passed explicitly; the trace keeps
  every API call in order, the tick counter every reading of the clock. Logging is left out.
  The code's mutexes make the accesses of the status endpoint safe; one goroutine runs all of
  what follows.
\<close>

section \<open>State\<close>

record Options =
  o_DeleteOrphans :: bool
  o_AdoptExisting :: bool
  o_DryRun :: bool
  o_ResyncInterval :: int
  o_ShutdownTimeout :: int
  o_Kinds :: "Kind list"
  o_CertificatePartial :: Partial
  o_CertificateAutoCreate :: bool
  o_MigrateFromRedth :: bool
  o_CertificatePoll :: int
  o_OnStop :: OnStop
  o_StopGrace :: int
  o_InstanceID :: string
  o_LabelPrefix :: string
  o_DeleteGuard :: gofloat
  o_DeleteGuardMin :: int

record metrics =
  mt_runs :: "64 word"
  mt_runErrors :: "64 word"
  mt_created :: "64 word"
  mt_updated :: "64 word"
  mt_deleted :: "64 word"
  mt_failed :: "64 word"
  mt_skipped :: "64 word"
  mt_deletionsBlocked :: "64 word"
  mt_certificateClass :: "string \<rightharpoonup> 64 word"
  mt_lastDuration :: int

record Worker =
  w_cache :: Cache
  w_lastRun :: int
  w_lastErr :: "run_error list"
  w_lastFailed :: int
  w_blocked :: "guard_reason option"
  w_certificates :: "Certificate list"
  w_certHash :: string
  w_accessLists :: "string \<rightharpoonup> int"
  w_failures :: failures
  w_warned :: "string set"
  w_stoppedSince :: "string \<rightharpoonup> int"
  w_metrics :: metrics
  w_trace :: history
  w_ticks :: nat

text \<open>\<open>NewWorker\<close>: the empty policies of the code are no value of the enumerations here, so their
  defaults are already applied; the other two defaults are.\<close>

definition newOptions :: "Options \<Rightarrow> Options" where
  "newOptions opts =
     (let opts1 = (if o_ShutdownTimeout opts \<le> 0 then opts\<lparr> o_ShutdownTimeout := 30 * second \<rparr> else opts)
      in if o_Kinds opts1 = [] then opts1\<lparr> o_Kinds := Kinds \<rparr> else opts1)"

definition zero_metrics :: metrics where
  "zero_metrics = \<lparr> mt_runs = 0, mt_runErrors = 0, mt_created = 0, mt_updated = 0, mt_deleted = 0, mt_failed = 0,
     mt_skipped = 0, mt_deletionsBlocked = 0, mt_certificateClass = (\<lambda>_. None), mt_lastDuration = 0 \<rparr>"

definition NewWorker :: Worker where
  "NewWorker = \<lparr> w_cache = NewCache, w_lastRun = 0, w_lastErr = [], w_lastFailed = 0, w_blocked = None,
     w_certificates = [], w_certHash = [], w_accessLists = (\<lambda>_. None), w_failures = (\<lambda>_. None), w_warned = {},
     w_stoppedSince = (\<lambda>_. None), w_metrics = zero_metrics, w_trace = [], w_ticks = 0 \<rparr>"

text \<open>Making a call and reading the clock.\<close>

definition called :: "call \<Rightarrow> Worker \<Rightarrow> Worker" where
  "called c w = w\<lparr> w_trace := w_trace w @ [c] \<rparr>"

definition read_clock :: "Api \<Rightarrow> Worker \<Rightarrow> int \<times> Worker" where
  "read_clock a w = (api_clock a (w_ticks w), w\<lparr> w_ticks := w_ticks w + 1 \<rparr>)"

section \<open>Stopped containers\<close>

definition containerKey :: "Target \<Rightarrow> string" where
  "containerKey t = (if t_ContainerID t \<noteq> [] then t_ContainerID t else t_ContainerName t)"

definition track_one :: "int \<Rightarrow> Target \<Rightarrow> (string \<rightharpoonup> int) \<Rightarrow> (string \<rightharpoonup> int)" where
  "track_one now t m =
     (if t_Running t then m(containerKey t := None)
      else if m (containerKey t) = None then m(containerKey t \<mapsto> now) else m)"

definition trackStopped :: "Api \<Rightarrow> Target list \<Rightarrow> Worker \<Rightarrow> Worker" where
  "trackStopped a targets w =
     (let (now, w) = read_clock a w
      in w\<lparr> w_stoppedSince := fold (track_one now) targets (w_stoppedSince w) |` set (map containerKey targets) \<rparr>)"

definition inGrace :: "Options \<Rightarrow> Worker \<Rightarrow> Target \<Rightarrow> int \<Rightarrow> bool" where
  "inGrace opts w t now =
     (if t_Running t \<or> o_StopGrace opts \<le> 0 then False
      else case w_stoppedSince w (containerKey t) of
        None \<Rightarrow> True
      | Some since \<Rightarrow> now - since < o_StopGrace opts)"

definition applyStopPolicy :: "Api \<Rightarrow> Options \<Rightarrow> Target list \<Rightarrow> Worker \<Rightarrow> Target list \<times> Worker" where
  "applyStopPolicy a opts targets w =
     (if o_OnStop opts \<noteq> OnStopDelete then (targets, w)
      else let (now, w) = read_clock a w
        in (filter (\<lambda>t. t_Running t \<or> inGrace opts w t now) targets, w))"

section \<open>Certificates and access lists\<close>

definition loadCertificates :: "Api \<Rightarrow> Worker \<Rightarrow> Worker" where
  "loadCertificates a w =
     (let w' = called CListCertificates w in
      case api_ListCertificates a (w_trace w) of
        Inl _ \<Rightarrow> w'
      | Inr list \<Rightarrow> w'\<lparr> w_certificates := list, w_certHash := certs_Hash (api_idna a) list \<rparr>)"

definition PollCertificates :: "Api \<Rightarrow> Worker \<Rightarrow> bool \<times> Worker" where
  "PollCertificates a w =
     (let w' = called CListCertificates w in
      case api_ListCertificates a (w_trace w) of
        Inl _ \<Rightarrow> (False, w')
      | Inr list \<Rightarrow>
          if certs_Hash (api_idna a) list = w_certHash w' then (False, w')
          else (True, w'\<lparr> w_certificates := list, w_certHash := certs_Hash (api_idna a) list \<rparr>))"

definition list_key :: "string \<Rightarrow> string" where
  "list_key name = to_lower (trim_space name)"

definition indexAccessLists :: "AccessList list \<Rightarrow> (string \<rightharpoonup> int)" where
  "indexAccessLists found = fold (\<lambda>l m. m(list_key (acl_Name l) \<mapsto> acl_ID l)) found (\<lambda>_. None)"

definition loadAccessLists :: "Api \<Rightarrow> bool \<Rightarrow> Worker \<Rightarrow> Worker" where
  "loadAccessLists a needed w =
     (if \<not> needed then w
      else let w' = called CListAccessLists w in
        case api_ListAccessLists a (w_trace w) of
          Inl _ \<Rightarrow> w'
        | Inr found \<Rightarrow> w'\<lparr> w_accessLists := indexAccessLists found \<rparr>)"

definition needsAccessListNames :: "Target list \<Rightarrow> bool" where
  "needsAccessListNames targets =
     list_ex (\<lambda>t. t_AccessListNames t \<noteq> [] \<or> list_ex (\<lambda>l. loc_AccessListNames l \<noteq> []) (t_Locations t)) targets"

definition resolve_names :: "(string \<rightharpoonup> int) \<Rightarrow> string list \<Rightarrow> string + int list" where
  "resolve_names index names =
     map_result (\<lambda>name. case index (list_key name) of None \<Rightarrow> Inl name | Some i \<Rightarrow> Inr i) names"

definition resolve_location :: "(string \<rightharpoonup> int) \<Rightarrow> Location \<Rightarrow> run_error + Location" where
  "resolve_location index l =
     rbind (map_err (LocationAccessList (loc_Path l)) (resolve_names index (loc_AccessListNames l)))
       (\<lambda>ids. Inr (l\<lparr> loc_AccessListIDs := loc_AccessListIDs l @ ids, loc_AccessListNames := [] \<rparr>))"

definition resolveAccessLists :: "(string \<rightharpoonup> int) \<Rightarrow> Target \<Rightarrow> run_error + Target" where
  "resolveAccessLists index t =
     rbind (map_err UnknownAccessList (resolve_names index (t_AccessListNames t))) (\<lambda>ids.
     rbind (map_result (resolve_location index) (t_Locations t)) (\<lambda>ls.
       Inr (t\<lparr> t_AccessListIDs := t_AccessListIDs t @ ids, t_AccessListNames := [], t_Locations := ls \<rparr>)))"

definition countCertificate :: "string \<Rightarrow> Worker \<Rightarrow> Worker" where
  "countCertificate c w =
     (let m = w_metrics w;
          n = (case mt_certificateClass m c of Some n \<Rightarrow> n | None \<Rightarrow> 0)
      in w\<lparr> w_metrics := m\<lparr> mt_certificateClass := (mt_certificateClass m)(c \<mapsto> n + 1) \<rparr> \<rparr>)"

text \<open>\<open>resolveCertificate\<close>: the choice, with the match class that is counted, and the step that
  counts it. \<open>certs.Resolve\<close> reads the clock at most twice; both readings are taken here, used
  or not.\<close>

definition certificate_choice ::
  "Api \<Rightarrow> Options \<Rightarrow> Certificate list \<Rightarrow> Target \<Rightarrow> Resource option \<Rightarrow> int \<Rightarrow> int
     \<Rightarrow> run_error + CertificateID \<times> string option" where
  "certificate_choice a opts certificates t live now1 now2 =
     (let current = (case live of Some r \<Rightarrow> cid_ID (ResourceCertificate r) | None \<Rightarrow> 0)
      in case Resolve (api_idna a) (t_Certificate t) (t_Domains t) certificates
                \<lparr> co_Current = current, co_Partial = o_CertificatePartial opts \<rparr> now1 now2 of
           Inl e \<Rightarrow> Inl (CertificateFailed e)
         | Inr sel \<Rightarrow>
             if sel_New sel then Inr (NewCertificate, None)
             else if sel_ID sel = 0 \<and> s_Mode (t_Certificate t) = ModeAuto \<and> o_CertificateAutoCreate opts
                \<and> t_Domains t \<noteq> [] then Inr (NewCertificate, None)
             else Inr (CertificateRef (sel_ID sel),
                   if sel_ID sel > 0 then Some (case sel_Class sel of Some c \<Rightarrow> class_String c | None \<Rightarrow> ''none'')
                   else None))"

definition resolveCertificate ::
  "Api \<Rightarrow> Options \<Rightarrow> Target \<Rightarrow> Resource option \<Rightarrow> Worker \<Rightarrow> (run_error + CertificateID) \<times> Worker" where
  "resolveCertificate a opts t live w =
     (let (now1, w1) = read_clock a w; (now2, w2) = read_clock a w1
      in case certificate_choice a opts (w_certificates w2) t live now1 now2 of
           Inl e \<Rightarrow> (Inl e, w2)
         | Inr (c, counted) \<Rightarrow> (Inr c, case counted of Some class \<Rightarrow> countCertificate class w2 | None \<Rightarrow> w2))"

section \<open>Warnings\<close>

definition intersect :: "string list \<Rightarrow> string list \<Rightarrow> string list" where
  "intersect a b = (if a = [] \<or> b = [] then [] else filter (\<lambda>v. v \<in> set b) a)"

text \<open>The fields \<open>warnUnsupported\<close> names: NPMplus-only, unavailable, downgraded, inert.\<close>

definition unsupported :: "Target \<Rightarrow> Resource \<Rightarrow> Dialect \<Rightarrow> string list \<times> string list \<times> string list \<times> string list" where
  "unsupported t r d =
     (if d_Flavour d = FlavourNPM then intersect (UnsupportedByNPM r) (t_ExplicitPlus t) else [],
      intersect (Unavailable (r_Kind r) d) (t_Explicit t),
      intersect (Downgraded r d) (t_Explicit t),
      if d_Flavour d \<noteq> FlavourNPM then intersect (Inert r) (t_Explicit t) else [])"

definition warnUnsupported :: "string \<Rightarrow> Target \<Rightarrow> Resource \<Rightarrow> Dialect \<Rightarrow> Worker \<Rightarrow> Worker" where
  "warnUnsupported key t r d w =
     (if unsupported t r d = ([], [], [], []) then w
      else w\<lparr> w_warned := insert (backoffKey (r_Kind r) key) (w_warned w) \<rparr>)"

section \<open>Ownership\<close>

definition owns :: "Options \<Rightarrow> Resource \<Rightarrow> bool" where
  "owns opts r =
     (let m = ResourceMeta r in
      if IsManaged m then OwnedByInstance m (o_InstanceID opts)
      else o_MigrateFromRedth opts \<and> IsRedth m)"

definition ownership_decision :: "Options \<Rightarrow> Resource \<Rightarrow> bool \<times> string" where
  "ownership_decision opts r =
     (let m = ResourceMeta r in
      if IsManaged m \<and> \<not> OwnedByInstance m (o_InstanceID opts)
      then (True, ''managed by sync instance '' @ meta_Instance m)
      else if IsManaged m \<and> meta_Instance m = [] \<and> o_InstanceID opts \<noteq> []
      then (False, ''an earlier release (adopting it for instance '' @ o_InstanceID opts @ '')'')
      else if IsManaged m then (False, [])
      else if IsRedth m then
        if o_MigrateFromRedth opts then (False, RedthManagedByValue)
        else (True, ''managed by '' @ RedthManagedByValue @ '' (set MIGRATE_FROM_REDTH=true to take it over)'')
      else if Owner m \<noteq> [] then (True, ''managed by '' @ Owner m)
      else if \<not> o_AdoptExisting opts then (True, ''created by hand (ADOPT_EXISTING=false)'')
      else (False, ''an unmanaged host''))"

definition needsMarker :: "Resource \<Rightarrow> Dialect \<Rightarrow> bool" where
  "needsMarker r d \<longleftrightarrow> IsManaged (ResourceMeta r) \<and> \<not> OwnerMarked r \<and> CarriesMarker d (r_Kind r)"

section \<open>Indexes\<close>

record conflict =
  cf_key :: string
  cf_container :: string
  cf_index :: int

definition target_order :: "Target \<Rightarrow> string \<times> string \<times> int" where
  "target_order t = (t_Key t, t_ContainerName t, t_Index t)"

fun index_sorted :: "Target list \<Rightarrow> (string \<times> Target) list \<Rightarrow> (string \<times> Target) list \<times> conflict list" where
  "index_sorted [] out = (out, [])"
| "index_sorted (t # ts) out =
     (if t_Key t = [] then index_sorted ts out
      else if has_key out (t_Key t)
      then apsnd (Cons \<lparr> cf_key = t_Key t, cf_container = t_ContainerName t, cf_index = t_Index t \<rparr>) (index_sorted ts out)
      else index_sorted ts (out @ [(t_Key t, t)]))"

definition indexTargets :: "Target list \<Rightarrow> (string \<times> Target) list \<times> conflict list" where
  "indexTargets targets = index_sorted (sort_key target_order targets) []"

definition index_resource :: "Resource \<Rightarrow> (string \<times> Resource) list \<Rightarrow> (string \<times> Resource) list" where
  "index_resource r out =
     (let key = ResourceKey r in
      if key = [] then out
      else case map_of out key of
        Some prev \<Rightarrow> if IsManaged (ResourceMeta prev) then out else AList.update key r out
      | None \<Rightarrow> AList.update key r out)"

definition indexResources :: "Resource list \<Rightarrow> (string \<times> Resource) list" where
  "indexResources resources = fold index_resource resources []"

definition index_domain :: "Resource \<Rightarrow> string \<Rightarrow> (string \<rightharpoonup> Resource) \<Rightarrow> (string \<rightharpoonup> Resource)" where
  "index_domain r domain out =
     (case out domain of
        Some existing \<Rightarrow> if IsManaged (ResourceMeta existing) then out else out(domain \<mapsto> r)
      | None \<Rightarrow> out(domain \<mapsto> r))"

definition indexDomains :: "Resource list \<Rightarrow> (string \<rightharpoonup> Resource)" where
  "indexDomains resources =
     fold (\<lambda>r out. case Domains r of None \<Rightarrow> out | Some ds \<Rightarrow> fold (index_domain r) ds out) resources (\<lambda>_. None)"

definition foreignDomain ::
  "(string \<rightharpoonup> Resource) \<Rightarrow> Target \<Rightarrow> Resource option \<Rightarrow> (Resource \<Rightarrow> bool) \<Rightarrow> (Resource \<times> string) option" where
  "foreignDomain byDomain t current owned =
     first_some (\<lambda>domain. case byDomain domain of
         None \<Rightarrow> None
       | Some other \<Rightarrow>
           if owned other then None
           else (case current of
                   Some r \<Rightarrow> if ResourceID other = ResourceID r then None else Some (other, domain)
                 | None \<Rightarrow> Some (other, domain)))
       (t_Domains t)"

section \<open>Single writes\<close>

definition applyEnabled ::
  "Api \<Rightarrow> Options \<Rightarrow> Kind \<Rightarrow> string \<Rightarrow> int \<Rightarrow> bool \<Rightarrow> bool \<Rightarrow> Worker \<Rightarrow> (run_error + bool) \<times> Worker" where
  "applyEnabled a opts kind key i desired live w =
     (if desired = live \<or> i = 0 then (Inr False, w)
      else if o_DryRun opts then (Inr True, w)
      else let w' = called (CSetEnabled kind i desired) w in
        case api_SetEnabled a (w_trace w) kind i desired of
          Some e \<Rightarrow> (Inl (ToggleFailed desired kind key e), w')
        | None \<Rightarrow> (Inr True, w'))"

definition entry_of :: "int \<Rightarrow> digest \<Rightarrow> Target \<Rightarrow> bool \<Rightarrow> int \<Rightarrow> Entry" where
  "entry_of i h t enabled certificate = \<lparr> en_ID = i, en_Hash = h, en_Container = t_ContainerName t,
     en_Index = t_Index t, en_Enabled = enabled, en_Certificate = certificate, en_Running = t_Running t \<rparr>"

definition create ::
  "Api \<Rightarrow> Options \<Rightarrow> Target \<Rightarrow> Resource \<Rightarrow> Worker \<Rightarrow> (run_error + Entry option) \<times> Worker" where
  "create a opts t r w =
     (if o_DryRun opts then (Inr None, w)
      else let w' = called (CCreate r) w in
        case api_Create a (w_trace w) r of
          Inl e \<Rightarrow> (Inl (CreateFailed (t_Kind t) (t_Key t) e), w')
        | Inr created \<Rightarrow>
            (case applyEnabled a opts (t_Kind t) (t_Key t) (ResourceID created) (r_IsEnabled r) (r_IsEnabled created) w' of
               (Inl e, w'') \<Rightarrow> (Inl e, w'')
             | (Inr toggled, w'') \<Rightarrow>
                 (Inr (Some (entry_of (ResourceID created) (Fingerprint r) t
                    (if toggled then r_IsEnabled r else r_IsEnabled created) (cid_ID (ResourceCertificate r)))), w'')))"

definition stampMarker ::
  "Api \<Rightarrow> Options \<Rightarrow> string \<Rightarrow> int \<Rightarrow> Resource \<Rightarrow> Worker \<Rightarrow> (run_error + Resource option) \<times> Worker" where
  "stampMarker a opts key i current w =
     (if o_DryRun opts then (Inr None, w)
      else let w' = called (CUpdate i current) w in
        case api_Update a (w_trace w) i current of
          Inl e \<Rightarrow> (Inl (MarkFailed (r_Kind current) key e), w')
        | Inr updated \<Rightarrow> (Inr (Some updated), w'))"

record orphan =
  or_kind :: Kind
  or_key :: string
  or_id :: int
  or_container :: string

fun deleteOrphans :: "Api \<Rightarrow> orphan list \<Rightarrow> Worker \<Rightarrow> (int \<times> run_error list) \<times> Worker" where
  "deleteOrphans a [] w = ((0, []), w)"
| "deleteOrphans a (x # xs) w =
     (let r = api_Delete a (w_trace w) (or_kind x) (or_id x);
          ((deleted, errs), w') = deleteOrphans a xs (called (CDelete (or_kind x) (or_id x)) w)
      in case r of
           Some e \<Rightarrow> if \<not> IsNotFound e then ((deleted, DeleteFailed (or_kind x) (or_key x) e # errs), w')
                     else ((deleted + 1, errs), w')
         | None \<Rightarrow> ((deleted + 1, errs), w'))"

definition setStatus :: "Api \<Rightarrow> run_error list \<Rightarrow> int \<Rightarrow> guard_reason option \<Rightarrow> Worker \<Rightarrow> Worker" where
  "setStatus a err failed blocked w =
     (let (now, w) = read_clock a w
      in w\<lparr> w_lastRun := now, w_lastErr := err, w_lastFailed := failed, w_blocked := blocked \<rparr>)"

definition countBlockedDeletion :: "nat \<Rightarrow> Worker \<Rightarrow> Worker" where
  "countBlockedDeletion n w =
     w\<lparr> w_metrics := (w_metrics w)\<lparr> mt_deletionsBlocked := mt_deletionsBlocked (w_metrics w) + of_nat n \<rparr> \<rparr>"

end
