(* ===== verification/Reconcile.thy ===== *)
theory Reconcile
  imports Worker
begin

text \<open>
  One reconcile run (\<open>internal/syncer/worker.go\<close>): the loop over the targets of a kind, the
  orphans, the deletions and the counters. The \<open>continue\<close> statements of the loop body are the
  branches that return the progress at once; the stages that write are functions of their own,
  in the order of the code.
\<close>

section \<open>Results\<close>

record Result =
  rs_Created :: int
  rs_Updated :: int
  rs_Deleted :: int
  rs_Unchanged :: int
  rs_Skipped :: int
  rs_Failed :: int

definition zero_result :: Result where
  "zero_result = \<lparr> rs_Created = 0, rs_Updated = 0, rs_Deleted = 0, rs_Unchanged = 0, rs_Skipped = 0, rs_Failed = 0 \<rparr>"

definition rs_Changed :: "Result \<Rightarrow> bool" where
  "rs_Changed r \<longleftrightarrow> rs_Created r + rs_Updated r + rs_Deleted r + rs_Failed r > 0"

definition rs_add :: "Result \<Rightarrow> Result \<Rightarrow> Result" where
  "rs_add r s = \<lparr> rs_Created = rs_Created r + rs_Created s, rs_Updated = rs_Updated r + rs_Updated s,
     rs_Deleted = rs_Deleted r + rs_Deleted s, rs_Unchanged = rs_Unchanged r + rs_Unchanged s,
     rs_Skipped = rs_Skipped r + rs_Skipped s, rs_Failed = rs_Failed r + rs_Failed s \<rparr>"

record kindOutcome =
  ko_result :: Result
  ko_fatal :: "run_error option"
  ko_partial :: "run_error list"
  ko_orphans :: "orphan list"
  ko_owned :: nat
  ko_foreignPrefix :: nat

definition zero_outcome :: kindOutcome where
  "zero_outcome = \<lparr> ko_result = zero_result, ko_fatal = None, ko_partial = [], ko_orphans = [], ko_owned = 0,
     ko_foreignPrefix = 0 \<rparr>"

text \<open>The local variables of the target loop: counters, the next cache bucket, the errors.\<close>

record progress =
  pr_result :: Result
  pr_next :: "(string \<times> Entry) list"
  pr_errs :: "run_error list"

definition p_skipped :: "progress \<Rightarrow> progress" where
  "p_skipped p = p\<lparr> pr_result := (pr_result p)\<lparr> rs_Skipped := rs_Skipped (pr_result p) + 1 \<rparr> \<rparr>"
definition p_unchanged :: "progress \<Rightarrow> progress" where
  "p_unchanged p = p\<lparr> pr_result := (pr_result p)\<lparr> rs_Unchanged := rs_Unchanged (pr_result p) + 1 \<rparr> \<rparr>"
definition p_updated :: "progress \<Rightarrow> progress" where
  "p_updated p = p\<lparr> pr_result := (pr_result p)\<lparr> rs_Updated := rs_Updated (pr_result p) + 1 \<rparr> \<rparr>"
definition p_created :: "progress \<Rightarrow> progress" where
  "p_created p = p\<lparr> pr_result := (pr_result p)\<lparr> rs_Created := rs_Created (pr_result p) + 1 \<rparr> \<rparr>"
definition p_failed :: "run_error \<Rightarrow> progress \<Rightarrow> progress" where
  "p_failed e p = p\<lparr> pr_result := (pr_result p)\<lparr> rs_Failed := rs_Failed (pr_result p) + 1 \<rparr>, pr_errs := pr_errs p @ [e] \<rparr>"
definition p_keep :: "string \<Rightarrow> Entry \<Rightarrow> progress \<Rightarrow> progress" where
  "p_keep key e p = p\<lparr> pr_next := pr_next p @ [(key, e)] \<rparr>"

text \<open>What the loop reads of the kind it runs for.\<close>

record view =
  vw_kind :: Kind
  vw_dialect :: Dialect
  vw_existing :: "(string \<times> Resource) list"
  vw_byDomain :: "string \<rightharpoonup> Resource"
  vw_now :: int

section \<open>One target\<close>

definition backOff :: "view \<Rightarrow> string \<Rightarrow> digest \<Rightarrow> run_error \<Rightarrow> Worker \<Rightarrow> Worker" where
  "backOff v key h e w = w\<lparr> w_failures := snd (noteFailure (vw_kind v) key h e (vw_now v) (w_failures w)) \<rparr>"

definition succeeded :: "view \<Rightarrow> string \<Rightarrow> Worker \<Rightarrow> Worker" where
  "succeeded v key w = w\<lparr> w_failures := noteSuccess (vw_kind v) key (w_failures w) \<rparr>"

definition create_missing ::
  "Api \<Rightarrow> Options \<Rightarrow> view \<Rightarrow> string \<Rightarrow> Target \<Rightarrow> Resource \<Rightarrow> Worker \<times> progress \<Rightarrow> Worker \<times> progress" where
  "create_missing a opts v key t r = (\<lambda>(w, p).
     if \<not> t_Running t \<and> \<not> Complete t then (w, p_skipped p)
     else case create a opts t r w of
       (Inl e, w') \<Rightarrow> (backOff v key (Fingerprint r) e w', p_failed e p)
     | (Inr None, w') \<Rightarrow> (succeeded v key w', p_created p)
     | (Inr (Some entry), w') \<Rightarrow> (succeeded v key w', p_keep key entry (p_created p)))"

text \<open>The last stage for an existing resource: the enabled flag, the backoff, the cache entry.\<close>

definition desired_enabled :: "Options \<Rightarrow> Target \<Rightarrow> Resource \<Rightarrow> Resource \<Rightarrow> bool" where
  "desired_enabled opts t current r =
     (if t_Running t then r_IsEnabled r
      else case o_OnStop opts of
        OnStopDisable \<Rightarrow> False
      | OnStopKeep \<Rightarrow> r_IsEnabled current
      | OnStopDelete \<Rightarrow> r_IsEnabled current)"

definition toggle_existing ::
  "Api \<Rightarrow> Options \<Rightarrow> view \<Rightarrow> string \<Rightarrow> Target \<Rightarrow> Resource \<Rightarrow> Resource \<Rightarrow> digest \<Rightarrow> bool
     \<Rightarrow> Worker \<times> progress \<Rightarrow> Worker \<times> progress" where
  "toggle_existing a opts v key t current r h changed = (\<lambda>(w, p).
     let i = ResourceID current; desired = desired_enabled opts t current r in
     case applyEnabled a opts (vw_kind v) key i desired (r_IsEnabled current) w of
       (Inl e, w') \<Rightarrow> (w', p_failed e p)
     | (Inr toggled, w') \<Rightarrow>
         (succeeded v key w',
          p_keep key (entry_of i h t (if toggled then desired else r_IsEnabled current) (cid_ID (ResourceCertificate r)))
            (if changed \<or> toggled then p_updated p else p_unchanged p)))"

definition in_sync :: "view \<Rightarrow> string \<Rightarrow> Resource \<Rightarrow> Resource \<Rightarrow> Worker \<Rightarrow> bool" where
  "in_sync v key current r w \<longleftrightarrow>
     Fingerprint current = Fingerprint r
     \<or> (case cache_Get (w_cache w) (vw_kind v) key of
          Some e \<Rightarrow> en_ID e = ResourceID current \<and> en_Hash e = Fingerprint r
        | None \<Rightarrow> False)"

definition update_existing ::
  "Api \<Rightarrow> Options \<Rightarrow> view \<Rightarrow> string \<Rightarrow> Target \<Rightarrow> Resource \<Rightarrow> Resource \<Rightarrow> Worker \<times> progress \<Rightarrow> Worker \<times> progress" where
  "update_existing a opts v key t current r = (\<lambda>(w, p).
     let i = ResourceID current in
     if \<not> t_Running t then
       if needsMarker current (vw_dialect v) then
         case stampMarker a opts key i current w of
           (Inl e, w') \<Rightarrow> (w', p_failed e p)
         | (Inr stamped, w') \<Rightarrow>
             toggle_existing a opts v key t current r
               (case stamped of Some s \<Rightarrow> Fingerprint s | None \<Rightarrow> Fingerprint current) True (w', p)
       else toggle_existing a opts v key t current r (Fingerprint current) False (w, p)
     else if in_sync v key current r w
     then toggle_existing a opts v key t current r (Fingerprint r) False (w, p)
     else if o_DryRun opts then (w, p_updated p)
     else let w' = called (CUpdate i r) w in
       case api_Update a (w_trace w) i r of
         Inl e \<Rightarrow> (backOff v key (Fingerprint r) (ApiFailed e) w', p_failed (UpdateFailed (vw_kind v) key e) p)
       | Inr _ \<Rightarrow> toggle_existing a opts v key t current r (Fingerprint r) True (w', p))"

text \<open>The desired resource: built, conformed to the server, with the values the server assigned.\<close>

definition desired_resource ::
  "Options \<Rightarrow> Dialect \<Rightarrow> Target \<Rightarrow> CertificateID \<Rightarrow> Resource option \<Rightarrow> Resource" where
  "desired_resource opts d t certificate live =
     (let r = Conform (BuildResource t certificate (o_InstanceID opts) (o_LabelPrefix opts)) d
      in case live of Some current \<Rightarrow> AdoptServerState r current | None \<Rightarrow> r)"

definition apply_target ::
  "Api \<Rightarrow> Options \<Rightarrow> view \<Rightarrow> string \<Rightarrow> Target \<Rightarrow> Resource option \<Rightarrow> CertificateID
     \<Rightarrow> Worker \<times> progress \<Rightarrow> Worker \<times> progress" where
  "apply_target a opts v key t live certificate = (\<lambda>(w, p).
     let w1 = warnUnsupported key t (BuildResource t certificate (o_InstanceID opts) (o_LabelPrefix opts)) (vw_dialect v) w;
         r = desired_resource opts (vw_dialect v) t certificate live;
         ((waiting, _), fs) = deferred (vw_kind v) key (Fingerprint r) (vw_now v) (w_failures w1);
         w2 = w1\<lparr> w_failures := fs \<rparr>
     in if waiting then (w2, p_skipped p)
        else case live of
          None \<Rightarrow> create_missing a opts v key t r (w2, p)
        | Some current \<Rightarrow> update_existing a opts v key t current r (w2, p))"

definition reconcile_target ::
  "Api \<Rightarrow> Options \<Rightarrow> view \<Rightarrow> string \<times> Target \<Rightarrow> Worker \<times> progress \<Rightarrow> Worker \<times> progress" where
  "reconcile_target a opts v = (\<lambda>(key, t) (w, p).
     let live = map_of (vw_existing v) key in
     if (case live of Some r \<Rightarrow> fst (ownership_decision opts r) | None \<Rightarrow> False) then (w, p_skipped p)
     else if \<not> t_Running t \<and> inGrace opts w t (vw_now v) then
       (w, case live of
             Some r \<Rightarrow> p_keep key (entry_of (ResourceID r) (Fingerprint r) t (r_IsEnabled r)
                         (cid_ID (ResourceCertificate r))) (p_unchanged p)
           | None \<Rightarrow> p_unchanged p)
     else if foreignDomain (vw_byDomain v) t live (owns opts) \<noteq> None then (w, p_skipped p)
     else case resolveAccessLists (w_accessLists w) t of
       Inl e \<Rightarrow> (w, p_failed e p)
     | Inr t' \<Rightarrow>
         (case resolveCertificate a opts t' live w of
            (Inl e, w') \<Rightarrow> (w', p_failed e p)
          | (Inr certificate, w') \<Rightarrow> apply_target a opts v key t' live certificate (w', p)))"

section \<open>One kind\<close>

definition orphan_of :: "Kind \<Rightarrow> string \<times> Resource \<Rightarrow> orphan" where
  "orphan_of kind = (\<lambda>(key, r). \<lparr> or_kind = kind, or_key = key, or_id = ResourceID r,
     or_container = meta_Container (ResourceMeta r) \<rparr>)"

definition orphan_step ::
  "Options \<Rightarrow> Kind \<Rightarrow> Snapshot \<Rightarrow> (string \<times> Target) list \<Rightarrow> string \<times> Resource
     \<Rightarrow> Result \<times> orphan list \<Rightarrow> Result \<times> orphan list" where
  "orphan_step opts kind snapshot desired x = (\<lambda>(res, orphans).
     let m = ResourceMeta (snd x) in
     if has_key desired (fst x) then (res, orphans)
     else if \<not> owns opts (snd x) then (res, orphans)
     else if IsProtected snapshot (meta_Container m) (meta_ContainerID m)
     then (res\<lparr> rs_Skipped := rs_Skipped res + 1 \<rparr>, orphans)
     else if o_DryRun opts then (res\<lparr> rs_Deleted := rs_Deleted res + 1 \<rparr>, orphans)
     else (res, orphans @ [orphan_of kind x]))"

definition foreign_prefix :: "Options \<Rightarrow> Resource \<Rightarrow> bool" where
  "foreign_prefix opts r \<longleftrightarrow> meta_Prefix (ResourceMeta r) \<noteq> [] \<and> o_LabelPrefix opts \<noteq> []
     \<and> meta_Prefix (ResourceMeta r) \<noteq> o_LabelPrefix opts"

definition reconcileKind ::
  "Api \<Rightarrow> Options \<Rightarrow> Kind \<Rightarrow> Target list \<Rightarrow> Snapshot \<Rightarrow> Worker \<Rightarrow> kindOutcome \<times> Worker" where
  "reconcileKind a opts kind targets snapshot w =
     (let w1 = called (CList kind) w in
      case api_List a (w_trace w) kind of
        Inl e \<Rightarrow> if IsNotFound e then (zero_outcome, w1)
                  else (zero_outcome\<lparr> ko_fatal := Some (ListFailed kind e) \<rparr>, w1)
      | Inr live \<Rightarrow>
          let owned = filter (owns opts) live;
              d = api_Dialect a (w_trace w1);
              (kept, w2) = applyStopPolicy a opts targets w1;
              (desired, conflicts) = indexTargets kept;
              (now, w3) = read_clock a w2;
              v = \<lparr> vw_kind = kind, vw_dialect = d, vw_existing = indexResources live,
                    vw_byDomain = indexDomains live, vw_now = now \<rparr>;
              p0 = \<lparr> pr_result = zero_result\<lparr> rs_Skipped := int (length conflicts) \<rparr>, pr_next = [], pr_errs = [] \<rparr>;
              (w4, p) = fold (reconcile_target a opts v) (sort_key fst desired) (w3, p0);
              (res, orphans) = fold (orphan_step opts kind snapshot desired) (sort_key fst (vw_existing v)) (pr_result p, [])
          in (\<lparr> ko_result = res, ko_fatal = None, ko_partial = pr_errs p, ko_orphans = orphans,
                ko_owned = length owned, ko_foreignPrefix = length (filter (foreign_prefix opts) owned) \<rparr>,
              w4\<lparr> w_cache := ReplaceKind kind (pr_next p) (w_cache w4) \<rparr>))"

section \<open>One run\<close>

fun run_kinds ::
  "Api \<Rightarrow> Options \<Rightarrow> Snapshot \<Rightarrow> Kind list \<Rightarrow> Worker \<Rightarrow> kindOutcome list \<times> Worker" where
  "run_kinds a opts snapshot [] w = ([], w)"
| "run_kinds a opts snapshot (kind # kinds) w =
     (let (outcome, w1) = reconcileKind a opts kind (filter (\<lambda>t. t_Kind t = kind) (snap_Targets snapshot)) snapshot w;
          (outcomes, w2) = run_kinds a opts snapshot kinds w1
      in (outcome # outcomes, w2))"

definition fatals :: "kindOutcome list \<Rightarrow> run_error list" where
  "fatals outs = concat (map (\<lambda>k. case ko_fatal k of Some e \<Rightarrow> [e] | None \<Rightarrow> []) outs)"

text \<open>The deletions of a run: skipped, refused by the guard, or done. The result is what they add
  to the counters, the errors, the reason of a refusal.\<close>

definition delete_phase ::
  "Api \<Rightarrow> Options \<Rightarrow> bool \<Rightarrow> orphan list \<Rightarrow> nat \<Rightarrow> nat \<Rightarrow> Snapshot \<Rightarrow> Worker
     \<Rightarrow> (Result \<times> run_error list \<times> guard_reason option) \<times> Worker" where
  "delete_phase a opts deletion orphans owned foreignPrefix snapshot w =
     (let skip = zero_result\<lparr> rs_Skipped := int (length orphans) \<rparr> in
      if orphans = [] then ((zero_result, [], None), w)
      else if \<not> deletion then ((skip, [], None), w)
      else case guardDeletions (o_DeleteGuard opts) (o_DeleteGuardMin opts) (length orphans) owned foreignPrefix snapshot of
        Some reason \<Rightarrow> ((skip, [], Some reason), countBlockedDeletion (length orphans) w)
      | None \<Rightarrow>
          let ((deleted, errs), w') = deleteOrphans a orphans w
          in ((zero_result\<lparr> rs_Deleted := deleted, rs_Failed := int (length errs) \<rparr>, errs, None), w'))"

definition reconcile ::
  "Api \<Rightarrow> Options \<Rightarrow> bool \<Rightarrow> string + Snapshot \<Rightarrow> Worker \<Rightarrow> (Result \<times> run_error list) \<times> Worker" where
  "reconcile a opts deletion snap w =
     (case snap of
        Inl e \<Rightarrow> ((zero_result, [SnapshotFailed e]), setStatus a [SnapshotFailed e] 0 None w)
      | Inr snapshot \<Rightarrow>
          let w1 = trackStopped a (snap_Targets snapshot) w;
              w2 = loadCertificates a w1;
              w3 = loadAccessLists a (needsAccessListNames (snap_Targets snapshot)) w2;
              (outs, w4) = run_kinds a opts snapshot (o_Kinds opts) w3;
              res = fold (\<lambda>k r. rs_add r (ko_result k)) outs zero_result;
              ((del, errs, blocked), w5) = delete_phase a opts deletion (concat (map ko_orphans outs))
                 (sum_list (map ko_owned outs)) (sum_list (map ko_foreignPrefix outs)) snapshot w4;
              total = rs_add res del
          in ((total, fatals outs @ concat (map ko_partial outs) @ errs),
              setStatus a (fatals outs) (rs_Failed total) blocked w5))"

text \<open>\<open>record\<close>, and the two ways a run starts.\<close>

definition record_run :: "Result \<Rightarrow> bool \<Rightarrow> int \<Rightarrow> Worker \<Rightarrow> Worker" where
  "record_run res failed took w =
     (let m = w_metrics w in w\<lparr> w_metrics := m\<lparr>
        mt_runs := mt_runs m + 1,
        mt_runErrors := mt_runErrors m + (if failed then 1 else 0),
        mt_created := mt_created m + of_int (rs_Created res),
        mt_updated := mt_updated m + of_int (rs_Updated res),
        mt_deleted := mt_deleted m + of_int (rs_Deleted res),
        mt_failed := mt_failed m + of_int (rs_Failed res),
        mt_skipped := mt_skipped m + of_int (rs_Skipped res),
        mt_lastDuration := took \<rparr> \<rparr>)"

definition reconcile_recorded ::
  "Api \<Rightarrow> Options \<Rightarrow> string + Snapshot \<Rightarrow> Worker \<Rightarrow> (Result \<times> run_error list) \<times> Worker" where
  "reconcile_recorded a opts snap w =
     (let (started, w1) = read_clock a w;
          ((res, errs), w2) = reconcile a opts (o_DeleteOrphans opts) snap w1;
          (ended, w3) = read_clock a w2
      in ((res, errs), record_run res (errs \<noteq> []) (ended - started) w3))"

definition flush :: "Api \<Rightarrow> Options \<Rightarrow> string + Snapshot \<Rightarrow> Worker \<Rightarrow> run_error list \<times> Worker" where
  "flush a opts snap w = (let ((res, errs), w') = reconcile a opts False snap w in (errs, w'))"

end
