(* ===== verification/Contract.thy ===== *)
theory Contract
  imports Reconcile
begin

text \<open>
  What a reconcile run may do, as an abstract specification of its calls, and the refinement:
  every call of a run is one the specification allows. The specification names neither the loop
  nor the order of the stages; it says, for each request that changes the server, which live
  resource and which target justify it.
\<close>

section \<open>The specification\<close>

text \<open>The list of a kind as the server returned it during the run that began after
  \<open>start\<close>, with the dialect reported then.\<close>

definition listing :: "Api \<Rightarrow> history \<Rightarrow> history \<Rightarrow> Kind \<Rightarrow> Resource list \<Rightarrow> Dialect \<Rightarrow> bool" where
  "listing a start h k live d \<longleftrightarrow>
     (\<exists>xs ys. h = start @ xs @ CList k # ys \<and> api_List a (start @ xs) k = Inr live
        \<and> d = api_Dialect a (start @ xs @ [CList k]))"

definition wants :: "Snapshot \<Rightarrow> Kind \<Rightarrow> string \<Rightarrow> Target \<Rightarrow> bool" where
  "wants snap k key t \<longleftrightarrow> t \<in> set (snap_Targets snap) \<and> t_Kind t = k \<and> t_Key t = key \<and> key \<noteq> []"

text \<open>No target asks for the key any more, apart from stopped ones that are to be deleted.\<close>

definition unwanted :: "Options \<Rightarrow> Snapshot \<Rightarrow> Kind \<Rightarrow> string \<Rightarrow> bool" where
  "unwanted opts snap k key \<longleftrightarrow>
     (\<forall>t\<in>set (snap_Targets snap). t_Kind t = k \<and> t_Key t = key \<longrightarrow> \<not> t_Running t \<and> o_OnStop opts = OnStopDelete)"

text \<open>The access lists and certificates of the run.\<close>

type_synonym refs = "(string \<rightharpoonup> int) \<times> Certificate list"

definition refs_of :: "Worker \<Rightarrow> refs" where
  "refs_of w = (w_accessLists w, w_certificates w)"

inductive allowed ::
  "Api \<Rightarrow> Options \<Rightarrow> bool \<Rightarrow> Snapshot \<Rightarrow> refs \<Rightarrow> history \<Rightarrow> history \<Rightarrow> call \<Rightarrow> bool"
  for a opts deletion snap idx start where
  create: "\<not> o_DryRun opts \<Longrightarrow> listing a start h k live d \<Longrightarrow> wants snap k key t
    \<Longrightarrow> \<forall>r\<in>set live. ResourceKey r \<noteq> key
    \<Longrightarrow> foreignDomain (indexDomains live) t None (owns opts) = None
    \<Longrightarrow> resolveAccessLists (fst idx) t = Inr t' \<Longrightarrow> t_Running t \<or> Complete t
    \<Longrightarrow> certificate_choice a opts (snd idx) t' None now1 now2 = Inr (certificate, cl)
    \<Longrightarrow> allowed a opts deletion snap idx start h (CCreate (desired_resource opts d t' certificate None))"
| created: "\<not> o_DryRun opts \<Longrightarrow> h = h' @ [CCreate r] \<Longrightarrow> length start \<le> length h' \<Longrightarrow> api_Create a h' r = Inr made
    \<Longrightarrow> ResourceID made \<noteq> 0 \<Longrightarrow> r_IsEnabled r \<noteq> r_IsEnabled made
    \<Longrightarrow> allowed a opts deletion snap idx start h (CSetEnabled (r_Kind r) (ResourceID made) (r_IsEnabled r))"
| update: "\<not> o_DryRun opts \<Longrightarrow> listing a start h k live d \<Longrightarrow> wants snap k key t \<Longrightarrow> t_Running t
    \<Longrightarrow> current \<in> set live \<Longrightarrow> ResourceKey current = key \<Longrightarrow> \<not> fst (ownership_decision opts current)
    \<Longrightarrow> foreignDomain (indexDomains live) t (Some current) (owns opts) = None
    \<Longrightarrow> resolveAccessLists (fst idx) t = Inr t'
    \<Longrightarrow> certificate_choice a opts (snd idx) t' (Some current) now1 now2 = Inr (certificate, cl)
    \<Longrightarrow> r = desired_resource opts d t' certificate (Some current) \<Longrightarrow> Fingerprint r \<noteq> Fingerprint current
    \<Longrightarrow> allowed a opts deletion snap idx start h (CUpdate (ResourceID current) r)"
| mark: "\<not> o_DryRun opts \<Longrightarrow> listing a start h k live d \<Longrightarrow> wants snap k key t \<Longrightarrow> \<not> t_Running t
    \<Longrightarrow> current \<in> set live \<Longrightarrow> ResourceKey current = key \<Longrightarrow> \<not> fst (ownership_decision opts current)
    \<Longrightarrow> needsMarker current d
    \<Longrightarrow> allowed a opts deletion snap idx start h (CUpdate (ResourceID current) current)"
| toggle: "\<not> o_DryRun opts \<Longrightarrow> listing a start h k live d \<Longrightarrow> wants snap k key t
    \<Longrightarrow> current \<in> set live \<Longrightarrow> ResourceKey current = key \<Longrightarrow> \<not> fst (ownership_decision opts current)
    \<Longrightarrow> ResourceID current \<noteq> 0 \<Longrightarrow> b \<noteq> r_IsEnabled current
    \<Longrightarrow> if t_Running t then b = t_Enabled t else \<not> b \<and> o_OnStop opts = OnStopDisable
    \<Longrightarrow> allowed a opts deletion snap idx start h (CSetEnabled k (ResourceID current) b)"
| delete: "deletion \<Longrightarrow> \<not> o_DryRun opts \<Longrightarrow> listing a start h k live d
    \<Longrightarrow> current \<in> set live \<Longrightarrow> owns opts current
    \<Longrightarrow> \<not> IsProtected snap (meta_Container (ResourceMeta current)) (meta_ContainerID (ResourceMeta current))
    \<Longrightarrow> unwanted opts snap k (ResourceKey current)
    \<Longrightarrow> allowed a opts deletion snap idx start h (CDelete k (ResourceID current))"

inductive_cases allowed_deleteE: "allowed a opts deletion snap idx start h (CDelete k i)"
inductive_cases allowed_updateE: "allowed a opts deletion snap idx start h (CUpdate i r)"
inductive_cases allowed_createE: "allowed a opts deletion snap idx start h (CCreate r)"
inductive_cases allowed_toggleE: "allowed a opts deletion snap idx start h (CSetEnabled k i b)"

text \<open>Reads are free.\<close>

definition permitted ::
  "Api \<Rightarrow> Options \<Rightarrow> bool \<Rightarrow> Snapshot \<Rightarrow> refs \<Rightarrow> history \<Rightarrow> history \<Rightarrow> call \<Rightarrow> bool" where
  "permitted a opts deletion snap idx start h c \<longleftrightarrow> (is_write c \<longrightarrow> allowed a opts deletion snap idx start h c)"

lemma allowed_is_write: "allowed a opts deletion snap idx start h c \<Longrightarrow> is_write c"
  by (induction rule: allowed.induct) simp_all

section \<open>Emitted calls\<close>

text \<open>\<open>emits P w w'\<close>: from \<open>w\<close> to \<open>w'\<close> the trace only grew, and each new call satisfies \<open>P\<close>, with the
  calls before it.\<close>

definition emits :: "(history \<Rightarrow> call \<Rightarrow> bool) \<Rightarrow> Worker \<Rightarrow> Worker \<Rightarrow> bool" where
  "emits P w w' \<longleftrightarrow> (\<exists>new. w_trace w' = w_trace w @ new \<and> (\<forall>xs c ys. new = xs @ c # ys \<longrightarrow> P (w_trace w @ xs) c))"

named_theorems emit \<open>introduction rules for the calls an operation makes\<close>

lemma emits_same [emit]: "w_trace w' = w_trace w \<Longrightarrow> emits P w w'"
  by (simp add: emits_def)

lemma emits_one: "w_trace w' = w_trace w @ [c] \<Longrightarrow> P (w_trace w) c \<Longrightarrow> emits P w w'"
  unfolding emits_def by (rule exI [of _ "[c]"]) (auto simp: Cons_eq_append_conv)

lemma emits_trans: "emits P w w' \<Longrightarrow> emits P w' w'' \<Longrightarrow> emits P w w''"
proof -
  assume "emits P w w'" "emits P w' w''"
  then obtain n1 n2 where n: "w_trace w' = w_trace w @ n1" "w_trace w'' = w_trace w @ n1 @ n2"
      "\<And>xs c ys. n1 = xs @ c # ys \<Longrightarrow> P (w_trace w @ xs) c"
      "\<And>xs c ys. n2 = xs @ c # ys \<Longrightarrow> P (w_trace w @ n1 @ xs) c"
    unfolding emits_def by auto
  have "P (w_trace w @ xs) c" if "n1 @ n2 = xs @ c # ys" for xs c ys
  proof -
    from that consider us where "n1 = xs @ us" "us @ n2 = c # ys" | us where "xs = n1 @ us" "n2 = us @ c # ys"
      by (auto simp: append_eq_append_conv2)
    then show ?thesis
    proof cases
      case 1
      then show ?thesis using n(3) n(4) [of "[]" c ys] by (cases us) auto
    next
      case 2
      then show ?thesis using n(4) by simp
    qed
  qed
  then show ?thesis using n(2) unfolding emits_def by blast
qed

lemma emits_mono: "emits P w w' \<Longrightarrow> (\<And>h c. P h c \<Longrightarrow> Q h c) \<Longrightarrow> emits Q w w'"
  unfolding emits_def by blast

lemma emits_fold:
  assumes "\<And>x s. x \<in> set xs \<Longrightarrow> I s \<Longrightarrow> emits P (fst s) (fst (f x s)) \<and> I (f x s)" "I s"
  shows "emits P (fst s) (fst (fold f xs s)) \<and> I (fold f xs s)"
  using assms
proof (induction xs arbitrary: s)
  case (Cons x xs)
  then have "emits P (fst s) (fst (f x s))" "I (f x s)" by auto
  moreover have "emits P (fst (f x s)) (fst (fold f xs (f x s))) \<and> I (fold f xs (f x s))"
    using Cons by (intro Cons.IH) auto
  ultimately show ?case by (auto intro: emits_trans)
qed (simp add: emits_same)

text \<open>The new calls of a run, and what a predicate on them gives.\<close>

definition new_calls :: "Worker \<Rightarrow> Worker \<Rightarrow> call list" where
  "new_calls w w' = drop (length (w_trace w)) (w_trace w')"

lemma emits_new: "emits P w w' \<Longrightarrow> w_trace w' = w_trace w @ new_calls w w'"
  by (auto simp: emits_def new_calls_def)

lemma emitsD: "emits P w w' \<Longrightarrow> c \<in> set (new_calls w w') \<Longrightarrow>
   \<exists>xs ys. w_trace w' = w_trace w @ xs @ c # ys \<and> P (w_trace w @ xs) c"
  by (auto simp: emits_def new_calls_def dest!: split_list) blast

lemma called_simps [simp]:
  "w_trace (called c w) = w_trace w @ [c]" "w_cache (called c w) = w_cache w"
  "w_accessLists (called c w) = w_accessLists w" "w_stoppedSince (called c w) = w_stoppedSince w"
  "w_failures (called c w) = w_failures w" "w_certificates (called c w) = w_certificates w"
  by (simp_all add: called_def)

lemma emits_read: "\<not> is_write c \<Longrightarrow> w_trace w' = w_trace w @ [c] \<Longrightarrow> emits (permitted a opts deletion snap idx start) w w'"
  by (rule emits_one) (auto simp: permitted_def)

lemma emits_permitted: "emits (allowed a opts deletion snap idx start) w w' \<Longrightarrow> emits (permitted a opts deletion snap idx start) w w'"
  by (erule emits_mono) (simp add: permitted_def)

lemma listing_append: "listing a start h k live d \<Longrightarrow> listing a start (h @ z) k live d"
  unfolding listing_def by (elim exE conjE, rule exI, rule exI [of _ "_ @ z"]) auto

section \<open>Indexes\<close>

lemma index_sorted_distinct: "distinct (map fst out) \<Longrightarrow> distinct (map fst (fst (index_sorted ts out)))"
  by (induction ts out rule: index_sorted.induct) (simp_all add: has_key_iff)

lemma index_sorted_sub:
  "x \<in> set (fst (index_sorted ts out)) \<Longrightarrow> x \<in> set out \<or> (\<exists>t\<in>set ts. x = (t_Key t, t) \<and> t_Key t \<noteq> [])"
  by (induction ts out rule: index_sorted.induct) (auto split: if_splits)

lemma index_sorted_has:
  "has_key out key \<or> (key \<noteq> [] \<and> key \<in> t_Key ` set ts) \<Longrightarrow> has_key (fst (index_sorted ts out)) key"
  by (induction ts out rule: index_sorted.induct) (auto simp: has_key_iff)

lemma indexTargets_spec:
  assumes "indexTargets ts = (desired, cs)"
  shows "distinct (map fst desired)"
    and "(key, t) \<in> set desired \<Longrightarrow> t \<in> set ts \<and> t_Key t = key \<and> key \<noteq> []"
    and "t \<in> set ts \<Longrightarrow> t_Key t \<noteq> [] \<Longrightarrow> has_key desired (t_Key t)"
proof -
  have d: "desired = fst (index_sorted (sort_key target_order ts) [])" using assms by (simp add: indexTargets_def)
  show "distinct (map fst desired)" unfolding d by (rule index_sorted_distinct) simp
  show "t \<in> set ts \<and> t_Key t = key \<and> key \<noteq> []" if "(key, t) \<in> set desired"
    using index_sorted_sub [of "(key, t)" "sort_key target_order ts" "[]"] that unfolding d by auto
  show "has_key desired (t_Key t)" if "t \<in> set ts" "t_Key t \<noteq> []"
    unfolding d by (rule index_sorted_has) (use that in auto)
qed

lemma index_resource_keys:
  "fst ` set (index_resource r out) = fst ` set out \<union> (if ResourceKey r = [] then {} else {ResourceKey r})"
proof (cases "ResourceKey r = []")
  case False
  show ?thesis
  proof (cases "map_of out (ResourceKey r)")
    case None
    with False show ?thesis by (simp add: index_resource_def Let_def dom_update)
  next
    case (Some prev)
    then have "ResourceKey r \<in> fst ` set out" by (force dest: map_of_SomeD)
    with False Some show ?thesis by (auto simp: index_resource_def Let_def dom_update)
  qed
qed (simp add: index_resource_def)

lemma index_resource_distinct: "distinct (map fst out) \<Longrightarrow> distinct (map fst (index_resource r out))"
  by (simp add: index_resource_def Let_def distinct_update split: option.split)

lemma index_resource_sub:
  "x \<in> set (index_resource r out) \<Longrightarrow> x \<in> set out \<or> x = (ResourceKey r, r) \<and> ResourceKey r \<noteq> []"
  by (auto simp: index_resource_def Let_def split: option.splits if_splits dest!: set_AList_update)

lemma fold_index_resource:
  "distinct (map fst out) \<Longrightarrow> distinct (map fst (fold index_resource rs out))"
  "x \<in> set (fold index_resource rs out) \<Longrightarrow> x \<in> set out \<or> (\<exists>r\<in>set rs. x = (ResourceKey r, r) \<and> ResourceKey r \<noteq> [])"
  "fst ` set (fold index_resource rs out) = fst ` set out \<union> (ResourceKey ` set rs - {[]})"
  by (induction rs arbitrary: out)
     (auto simp: index_resource_distinct index_resource_keys dest: index_resource_sub split: if_splits)

lemma indexResources_spec:
  "distinct (map fst (indexResources rs))"
  "(key, r) \<in> set (indexResources rs) \<Longrightarrow> r \<in> set rs \<and> ResourceKey r = key \<and> key \<noteq> []"
  "map_of (indexResources rs) key = None \<longleftrightarrow> key = [] \<or> (\<forall>r\<in>set rs. ResourceKey r \<noteq> key)"
proof -
  note f = fold_index_resource [where out = "[]" and rs = rs, folded indexResources_def]
  show "distinct (map fst (indexResources rs))" using f(1) by simp
  show "r \<in> set rs \<and> ResourceKey r = key \<and> key \<noteq> []" if "(key, r) \<in> set (indexResources rs)"
    using f(2) [OF that] by auto
  show "map_of (indexResources rs) key = None \<longleftrightarrow> key = [] \<or> (\<forall>r\<in>set rs. ResourceKey r \<noteq> key)"
    using f(3) by (auto simp: map_of_eq_None_iff)
qed

lemma existing_live:
  "map_of (indexResources rs) key = Some r \<Longrightarrow> r \<in> set rs \<and> ResourceKey r = key \<and> key \<noteq> []"
  by (rule indexResources_spec(2)) (rule map_of_SomeD)

section \<open>Frames\<close>

text \<open>What no step of the target loop changes.\<close>

definition frame :: "Worker \<Rightarrow> Worker \<Rightarrow> bool" where
  "frame w w' \<longleftrightarrow> w_accessLists w' = w_accessLists w \<and> w_cache w' = w_cache w
     \<and> w_stoppedSince w' = w_stoppedSince w \<and> w_certificates w' = w_certificates w"

lemma frame_refl [simp]: "frame w w" and frame_trans: "frame w w' \<Longrightarrow> frame w' w'' \<Longrightarrow> frame w w''"
  by (auto simp: frame_def)

lemma frame_called [simp]: "frame w (called c w') = frame w w'" "frame (called c w) w' = frame w w'"
  by (simp_all add: frame_def)

lemma frame_quiet [simp]:
  "frame w (backOff v key h e w') = frame w w'"
  "frame w (succeeded v key w') = frame w w'"
  "frame w (warnUnsupported key t r d w') = frame w w'"
  "frame w (countCertificate c w') = frame w w'"
  "frame w (w'\<lparr> w_failures := fs \<rparr>) = frame w w'"
  "frame w (w'\<lparr> w_ticks := n \<rparr>) = frame w w'"
  by (simp_all add: frame_def backOff_def succeeded_def warnUnsupported_def countCertificate_def Let_def)

lemma trace_quiet [simp]:
  "w_trace (backOff v key h e w) = w_trace w"
  "w_trace (succeeded v key w) = w_trace w"
  "w_trace (warnUnsupported key t r d w) = w_trace w"
  "w_trace (countCertificate c w) = w_trace w"
  "w_trace (trackStopped a ts w) = w_trace w"
  "w_trace (setStatus a errs failed b w) = w_trace w"
  "w_trace (countBlockedDeletion n w) = w_trace w"
  by (simp_all add: backOff_def succeeded_def warnUnsupported_def countCertificate_def Let_def trackStopped_def
      read_clock_def setStatus_def countBlockedDeletion_def)

lemma emits_quiet [simp]:
  "emits P w (backOff v key h e w') = emits P w w'"
  "emits P w (succeeded v key w') = emits P w w'"
  "emits P w (warnUnsupported key t r d w') = emits P w w'"
  "emits P w (countCertificate c w') = emits P w w'"
  "emits P w (w'\<lparr> w_failures := fs \<rparr>) = emits P w w'"
  "emits P w (w'\<lparr> w_ticks := n \<rparr>) = emits P w w'"
  "emits P w (w'\<lparr> w_cache := c' \<rparr>) = emits P w w'"
  "emits P w (setStatus a errs k b w') = emits P w w'"
  "emits P w (countBlockedDeletion n w') = emits P w w'"
  by (simp_all add: emits_def)

lemma refs_of_quiet [simp]:
  "refs_of (setStatus a errs failed b w) = refs_of w"
  "refs_of (countBlockedDeletion n w) = refs_of w"
  "refs_of (called c w) = refs_of w"
  by (simp_all add: setStatus_def read_clock_def countBlockedDeletion_def refs_of_def)

lemma read_clock_quiet: "read_clock a w = (n, w') \<Longrightarrow> w_trace w' = w_trace w \<and> frame w w'"
  by (auto simp: read_clock_def frame_def)

section \<open>The calls of each operation\<close>

lemma applyEnabled_emits:
  assumes "applyEnabled a opts k key i des live w = (x, w')"
    and "\<not> o_DryRun opts \<Longrightarrow> des \<noteq> live \<Longrightarrow> i \<noteq> 0 \<Longrightarrow> P (w_trace w) (CSetEnabled k i des)"
  shows "emits P w w' \<and> frame w w'"
  using assms
  by (auto simp: applyEnabled_def Let_def emits_same emits_one split: if_splits option.splits)

lemma create_emits:
  assumes "create a opts t r w = (x, w')"
    and "\<not> o_DryRun opts \<Longrightarrow> P (w_trace w) (CCreate r)"
    and "\<And>made. \<not> o_DryRun opts \<Longrightarrow> api_Create a (w_trace w) r = Inr made \<Longrightarrow> ResourceID made \<noteq> 0
      \<Longrightarrow> r_IsEnabled r \<noteq> r_IsEnabled made
      \<Longrightarrow> P (w_trace w @ [CCreate r]) (CSetEnabled (t_Kind t) (ResourceID made) (r_IsEnabled r))"
  shows "emits P w w' \<and> frame w w'"
proof (cases "o_DryRun opts")
  case False
  let ?w = "called (CCreate r) w"
  have one: "emits P w ?w" using assms(2) False by (intro emits_one) auto
  show ?thesis
  proof (cases "api_Create a (w_trace w) r")
    case (Inl e)
    with assms(1) False one show ?thesis by (auto simp: create_def Let_def)
  next
    case (Inr made)
    obtain y w'' where ae: "applyEnabled a opts (t_Kind t) (t_Key t) (ResourceID made) (r_IsEnabled r) (r_IsEnabled made) ?w = (y, w'')"
      by fastforce
    have "w' = w''" using assms(1) False Inr ae by (auto simp: create_def Let_def split: sum.splits)
    with applyEnabled_emits [OF ae, of P] assms(3) [OF False Inr] one show ?thesis
      by (auto intro: emits_trans frame_trans)
  qed
qed (use assms in \<open>auto simp: create_def emits_same\<close>)

lemma stampMarker_emits:
  assumes "stampMarker a opts key i current w = (x, w')"
    and "\<not> o_DryRun opts \<Longrightarrow> P (w_trace w) (CUpdate i current)"
  shows "emits P w w' \<and> frame w w'"
  using assms by (auto simp: stampMarker_def Let_def emits_same emits_one split: if_splits sum.splits)

lemma create_missing_emits:
  assumes "\<not> o_DryRun opts \<Longrightarrow> t_Running t \<or> Complete t \<Longrightarrow> P (w_trace w) (CCreate r)"
    and "\<And>made. \<not> o_DryRun opts \<Longrightarrow> api_Create a (w_trace w) r = Inr made \<Longrightarrow> ResourceID made \<noteq> 0
      \<Longrightarrow> r_IsEnabled r \<noteq> r_IsEnabled made
      \<Longrightarrow> P (w_trace w @ [CCreate r]) (CSetEnabled (t_Kind t) (ResourceID made) (r_IsEnabled r))"
  shows "emits P w (fst (create_missing a opts v key t r (w, p))) \<and> frame w (fst (create_missing a opts v key t r (w, p)))"
proof (cases "\<not> t_Running t \<and> \<not> Complete t")
  case False
  obtain x w' where c: "create a opts t r w = (x, w')" by fastforce
  have "emits P w w' \<and> frame w w'" by (rule create_emits [OF c]) (use assms False in auto)
  with False c show ?thesis
    by (auto simp: create_missing_def intro: emits_trans emits_same split: sum.split option.split)
qed (simp add: create_missing_def emits_same)

lemma toggle_existing_emits:
  assumes "\<not> o_DryRun opts \<Longrightarrow> desired_enabled opts t current r \<noteq> r_IsEnabled current \<Longrightarrow> ResourceID current \<noteq> 0
      \<Longrightarrow> P (w_trace w) (CSetEnabled (vw_kind v) (ResourceID current) (desired_enabled opts t current r))"
  shows "emits P w (fst (toggle_existing a opts v key t current r h ch (w, p)))
    \<and> frame w (fst (toggle_existing a opts v key t current r h ch (w, p)))"
proof -
  obtain x w' where c: "applyEnabled a opts (vw_kind v) key (ResourceID current) (desired_enabled opts t current r)
      (r_IsEnabled current) w = (x, w')" by fastforce
  have "emits P w w' \<and> frame w w'" by (rule applyEnabled_emits [OF c]) (use assms in auto)
  with c show ?thesis
    by (auto simp: toggle_existing_def Let_def intro: emits_trans emits_same split: sum.split)
qed

lemma update_existing_emits:
  assumes up: "\<not> o_DryRun opts \<Longrightarrow> t_Running t \<Longrightarrow> Fingerprint r \<noteq> Fingerprint current
      \<Longrightarrow> P (w_trace w) (CUpdate (ResourceID current) r)"
    and mark: "\<not> o_DryRun opts \<Longrightarrow> \<not> t_Running t \<Longrightarrow> needsMarker current (vw_dialect v)
      \<Longrightarrow> P (w_trace w) (CUpdate (ResourceID current) current)"
    and tog: "\<And>z. \<not> o_DryRun opts \<Longrightarrow> desired_enabled opts t current r \<noteq> r_IsEnabled current \<Longrightarrow> ResourceID current \<noteq> 0
      \<Longrightarrow> P (w_trace w @ z) (CSetEnabled (vw_kind v) (ResourceID current) (desired_enabled opts t current r))"
  shows "emits P w (fst (update_existing a opts v key t current r (w, p)))
    \<and> frame w (fst (update_existing a opts v key t current r (w, p)))" (is "?goal")
proof -
  have T: "emits P w (fst (toggle_existing a opts v key t current r h ch (w', p)))
      \<and> frame w (fst (toggle_existing a opts v key t current r h ch (w', p)))"
    if "emits P w w'" "frame w w'" "\<exists>z. w_trace w' = w_trace w @ z" for h ch w'
  proof -
    have "emits P w' (fst (toggle_existing a opts v key t current r h ch (w', p)))
      \<and> frame w' (fst (toggle_existing a opts v key t current r h ch (w', p)))"
      using tog that(3) by (intro toggle_existing_emits) auto
    with that show ?thesis by (blast intro: emits_trans frame_trans)
  qed
  have same: "emits P w w" by (simp add: emits_same)
  consider (marked) "\<not> t_Running t" "needsMarker current (vw_dialect v)"
    | (frozen) "\<not> t_Running t" "\<not> needsMarker current (vw_dialect v)"
    | (synced) "t_Running t" "in_sync v key current r w" | (dry) "t_Running t" "\<not> in_sync v key current r w" "o_DryRun opts"
    | (put) "t_Running t" "\<not> in_sync v key current r w" "\<not> o_DryRun opts" by blast
  then show ?goal
  proof cases
    case marked
    obtain x w' where c: "stampMarker a opts key (ResourceID current) current w = (x, w')" by fastforce
    have e: "emits P w w' \<and> frame w w'" by (rule stampMarker_emits [OF c]) (use mark marked in auto)
    then have "\<exists>z. w_trace w' = w_trace w @ z" by (auto simp: emits_def)
    with e T marked c show ?thesis by (auto simp: update_existing_def Let_def split: sum.split)
  next
    case frozen
    then show ?thesis using T [OF same frame_refl] by (simp add: update_existing_def)
  next
    case synced
    then show ?thesis using T [OF same frame_refl] by (simp add: update_existing_def)
  next
    case dry
    then show ?thesis using same by (simp add: update_existing_def)
  next
    case put
    let ?w = "called (CUpdate (ResourceID current) r) w"
    have "Fingerprint r \<noteq> Fingerprint current" using put by (auto simp: in_sync_def)
    then have e: "emits P w ?w" using up put by (intro emits_one) auto
    have f: "frame w ?w" by simp
    from T [OF e f] e f put show ?thesis
      by (auto simp: update_existing_def Let_def split: sum.split)
  qed
qed

text \<open>The view of the loop, and the calls of one target.\<close>

definition view_ok :: "Api \<Rightarrow> history \<Rightarrow> history \<Rightarrow> view \<Rightarrow> Resource list \<Rightarrow> bool" where
  "view_ok a start h v live \<longleftrightarrow> vw_existing v = indexResources live \<and> vw_byDomain v = indexDomains live
     \<and> listing a start h (vw_kind v) live (vw_dialect v)"

lemma r_Kind_desired [simp]: "r_Kind (desired_resource opts d t certificate live) = t_Kind t"
  by (simp add: desired_resource_def Let_def split: option.split)

lemma r_IsEnabled_desired [simp]: "r_IsEnabled (desired_resource opts d t certificate live) = t_Enabled t"
  by (simp add: desired_resource_def Let_def res.enabled_adopt split: option.split)

lemma resolveAccessLists_keeps:
  assumes "resolveAccessLists idx t = Inr t'"
  shows "t_Kind t' = t_Kind t" "t_Key t' = t_Key t" "t_Domains t' = t_Domains t" "t_Running t' = t_Running t"
    "t_Enabled t' = t_Enabled t" "Complete t' = Complete t" "t_Certificate t' = t_Certificate t"
    "t_ContainerName t' = t_ContainerName t" "t_Index t' = t_Index t"
  using assms
  by (auto simp: resolveAccessLists_def rbind_Inr_iff t_Key_def t_Domains_def Complete_def split: Kind.split)

lemma resolveCertificate_emits:
  "resolveCertificate a opts t live w = (x, w') \<Longrightarrow> w_trace w' = w_trace w \<and> frame w w'
   \<and> (\<forall>c. x = Inr c \<longrightarrow> (\<exists>now1 now2 cl. certificate_choice a opts (w_certificates w) t live now1 now2 = Inr (c, cl)))"
  by (auto simp: resolveCertificate_def read_clock_def Let_def split: sum.splits option.splits)

lemma apply_target_missing:
  assumes v: "view_ok a start (w_trace w) v live" and want: "wants snap (vw_kind v) key t"
    and none: "\<forall>r\<in>set live. ResourceKey r \<noteq> key"
    and dom: "foreignDomain (indexDomains live) t None (owns opts) = None"
    and t': "resolveAccessLists (fst idx) t = Inr t'"
    and cert: "certificate_choice a opts (snd idx) t' None now1 now2 = Inr (certificate, cl)"
  shows "emits (allowed a opts deletion snap idx start) w (fst (apply_target a opts v key t' None certificate (w, p)))
    \<and> frame w (fst (apply_target a opts v key t' None certificate (w, p)))"
proof -
  let ?P = "allowed a opts deletion snap idx start"
  let ?r = "desired_resource opts (vw_dialect v) t' certificate None"
  note k = resolveAccessLists_keeps [OF t']
  have kind: "t_Kind t' = vw_kind v" using want k by (simp add: wants_def)
  have l: "listing a start (w_trace w) (vw_kind v) live (vw_dialect v)" using v by (simp add: view_ok_def)
  have len: "length start \<le> length (w_trace w)" using l by (auto simp: listing_def)
  have E: "emits ?P w1 (fst (create_missing a opts v key t' ?r (w1, p))) \<and> frame w1 (fst (create_missing a opts v key t' ?r (w1, p)))"
    if "w_trace w1 = w_trace w" for w1
  proof (rule create_missing_emits)
    show "?P (w_trace w1) (CCreate ?r)" if "\<not> o_DryRun opts" "t_Running t' \<or> Complete t'"
      using allowed.create [OF that(1) l want none dom t' _ cert] that(2) k \<open>w_trace w1 = _\<close> by simp
    show "?P (w_trace w1 @ [CCreate ?r]) (CSetEnabled (t_Kind t') (ResourceID made) (r_IsEnabled ?r))"
      if "\<not> o_DryRun opts" "api_Create a (w_trace w1) ?r = Inr made" "ResourceID made \<noteq> 0" "r_IsEnabled ?r \<noteq> r_IsEnabled made" for made
      using allowed.created [where h' = "w_trace w1" and r = ?r, OF that(1) refl _ that(2,3,4)] len \<open>w_trace w1 = _\<close> by simp
  qed
  let ?w1 = "warnUnsupported key t' (BuildResource t' certificate (o_InstanceID opts) (o_LabelPrefix opts)) (vw_dialect v) w"
  obtain b n fs where d: "deferred (vw_kind v) key (Fingerprint ?r) (vw_now v) (w_failures ?w1) = ((b, n), fs)"
    by (metis surj_pair)
  let ?w2 = "?w1\<lparr> w_failures := fs \<rparr>"
  have e2: "emits ?P w ?w2" "frame w ?w2" by (simp_all add: emits_same)
  have "emits ?P ?w2 (fst (create_missing a opts v key t' ?r (?w2, p))) \<and> frame ?w2 (fst (create_missing a opts v key t' ?r (?w2, p)))"
    by (rule E) simp
  with e2 show ?thesis
    using emits_trans [OF e2(1)] frame_trans [OF e2(2)] by (simp add: apply_target_def Let_def d)
qed

lemma apply_target_existing:
  assumes v: "view_ok a start (w_trace w) v live" and want: "wants snap (vw_kind v) key t"
    and cur: "current \<in> set live" "ResourceKey current = key" "\<not> fst (ownership_decision opts current)"
    and dom: "foreignDomain (indexDomains live) t (Some current) (owns opts) = None"
    and t': "resolveAccessLists (fst idx) t = Inr t'"
    and cert: "certificate_choice a opts (snd idx) t' (Some current) now1 now2 = Inr (certificate, cl)"
  shows "emits (allowed a opts deletion snap idx start) w (fst (apply_target a opts v key t' (Some current) certificate (w, p)))
    \<and> frame w (fst (apply_target a opts v key t' (Some current) certificate (w, p)))"
proof -
  let ?P = "allowed a opts deletion snap idx start"
  let ?r = "desired_resource opts (vw_dialect v) t' certificate (Some current)"
  note k = resolveAccessLists_keeps [OF t']
  have l: "listing a start (w_trace w @ z) (vw_kind v) live (vw_dialect v)" for z
    using v by (simp add: view_ok_def listing_append)
  have E: "emits ?P w1 (fst (update_existing a opts v key t' current ?r (w1, p)))
      \<and> frame w1 (fst (update_existing a opts v key t' current ?r (w1, p)))"
    if "w_trace w1 = w_trace w" for w1
  proof (rule update_existing_emits)
    show "?P (w_trace w1) (CUpdate (ResourceID current) ?r)"
      if "\<not> o_DryRun opts" "t_Running t'" "Fingerprint ?r \<noteq> Fingerprint current"
      using allowed.update [OF that(1) l [of "[]"] want _ cur dom t' cert refl that(3)] that(2) k \<open>w_trace w1 = _\<close> by simp
    show "?P (w_trace w1) (CUpdate (ResourceID current) current)"
      if "\<not> o_DryRun opts" "\<not> t_Running t'" "needsMarker current (vw_dialect v)"
      using allowed.mark [OF that(1) l [of "[]"] want _ cur that(3)] that(2) k \<open>w_trace w1 = _\<close> by simp
    show "?P (w_trace w1 @ z) (CSetEnabled (vw_kind v) (ResourceID current) (desired_enabled opts t' current ?r))"
      if "\<not> o_DryRun opts" "desired_enabled opts t' current ?r \<noteq> r_IsEnabled current" "ResourceID current \<noteq> 0" for z
      using allowed.toggle [OF that(1) l [of z] want cur that(3,2)] that(2) k \<open>w_trace w1 = _\<close>
      by (auto simp: desired_enabled_def split: if_splits OnStop.splits)
  qed
  let ?w1 = "warnUnsupported key t' (BuildResource t' certificate (o_InstanceID opts) (o_LabelPrefix opts)) (vw_dialect v) w"
  obtain b n fs where d: "deferred (vw_kind v) key (Fingerprint ?r) (vw_now v) (w_failures ?w1) = ((b, n), fs)"
    by (metis surj_pair)
  let ?w2 = "?w1\<lparr> w_failures := fs \<rparr>"
  have e2: "emits ?P w ?w2" "frame w ?w2" by (simp_all add: emits_same)
  have "emits ?P ?w2 (fst (update_existing a opts v key t' current ?r (?w2, p)))
      \<and> frame ?w2 (fst (update_existing a opts v key t' current ?r (?w2, p)))"
    by (rule E) simp
  with e2 show ?thesis
    using emits_trans [OF e2(1)] frame_trans [OF e2(2)] by (simp add: apply_target_def Let_def d)
qed

text \<open>One target, then the loop: the invariant is the view and the access lists.\<close>

lemma reconcile_target_emits:
  assumes v: "view_ok a start (w_trace w) v live" and want: "wants snap (vw_kind v) key t"
  shows "emits (allowed a opts deletion snap (refs_of w) start) w (fst (reconcile_target a opts v (key, t) (w, p)))
    \<and> frame w (fst (reconcile_target a opts v (key, t) (w, p)))"
proof -
  let ?P = "allowed a opts deletion snap (refs_of w) start"
  let ?live = "map_of (vw_existing v) key"
  have ex: "vw_existing v = indexResources live" "vw_byDomain v = indexDomains live" using v by (simp_all add: view_ok_def)
  have same: "emits ?P w w" by (simp add: emits_same)
  show ?thesis
  proof (cases "(case ?live of Some r \<Rightarrow> fst (ownership_decision opts r) | None \<Rightarrow> False)
      \<or> (\<not> t_Running t \<and> inGrace opts w t (vw_now v)) \<or> foreignDomain (vw_byDomain v) t ?live (owns opts) \<noteq> None")
    case True
    with same show ?thesis by (auto simp: reconcile_target_def Let_def split: option.splits)
  next
    case False
    then have go: "\<not> (case ?live of Some r \<Rightarrow> fst (ownership_decision opts r) | None \<Rightarrow> False)"
        "\<not> (\<not> t_Running t \<and> inGrace opts w t (vw_now v))"
        "foreignDomain (vw_byDomain v) t ?live (owns opts) = None" by blast+
    show ?thesis
    proof (cases "resolveAccessLists (w_accessLists w) t")
      case (Inl e)
      with go same show ?thesis by (simp add: reconcile_target_def Let_def)
    next
      case resolved: (Inr t')
      obtain x w' where c: "resolveCertificate a opts t' ?live w = (x, w')" by fastforce
      note rc = resolveCertificate_emits [OF c]
      then have w': "w_trace w' = w_trace w" "frame w w'" by simp_all
      then have e1: "emits ?P w w'" by (simp add: emits_same)
      show ?thesis
      proof (cases x)
        case (Inl e)
        with go Inl resolved c e1 w' same show ?thesis by (simp add: reconcile_target_def Let_def)
      next
        case (Inr certificate)
        with rc obtain n1 n2 cl where
          cert: "certificate_choice a opts (snd (refs_of w)) t' ?live n1 n2 = Inr (certificate, cl)"
          by (auto simp: refs_of_def)
        have al: "resolveAccessLists (fst (refs_of w)) t = Inr t'" using resolved by (simp add: refs_of_def)
        have "emits ?P w' (fst (apply_target a opts v key t' ?live certificate (w', p)))
          \<and> frame w' (fst (apply_target a opts v key t' ?live certificate (w', p)))"
        proof (cases ?live)
          case None
          then have "\<forall>r\<in>set live. ResourceKey r \<noteq> key" using ex want by (simp add: indexResources_spec wants_def)
          with None go(3) ex v want w' show ?thesis
            using apply_target_missing [OF _ want _ _ al, where w = w'] cert by simp
        next
          case (Some current)
          then have "current \<in> set live" "ResourceKey current = key" using ex existing_live by auto
          with Some go ex v want w' show ?thesis
            using apply_target_existing [OF _ want _ _ _ _ al, where w = w'] cert by simp
        qed
        with go Inr resolved c e1 w'(2) same show ?thesis
          using emits_trans [OF e1] frame_trans [OF w'(2)] by (simp add: reconcile_target_def Let_def)
      qed
    qed
  qed
qed

lemma target_loop_emits:
  assumes "view_ok a start (w_trace w) v live" "\<forall>(key, t)\<in>set xs. wants snap (vw_kind v) key t"
  shows "emits (allowed a opts deletion snap (refs_of w) start) w (fst (fold (reconcile_target a opts v) xs (w, p)))
    \<and> frame w (fst (fold (reconcile_target a opts v) xs (w, p)))"
proof -
  let ?P = "allowed a opts deletion snap (refs_of w) start"
  let ?I = "\<lambda>s :: Worker \<times> progress. view_ok a start (w_trace (fst s)) v live \<and> frame w (fst s)"
  have "emits ?P (fst (w, p)) (fst (fold (reconcile_target a opts v) xs (w, p))) \<and> ?I (fold (reconcile_target a opts v) xs (w, p))"
  proof (rule emits_fold [where I = ?I])
    fix x s assume x: "x \<in> set xs" and I: "?I s"
    obtain key t w1 p1 where eq: "x = (key, t)" "s = (w1, p1)" by (cases x; cases s)
    have want: "wants snap (vw_kind v) key t" using assms(2) x eq by auto
    have v1: "view_ok a start (w_trace w1) v live" and f1: "frame w w1" using I eq by simp_all
    have idx: "refs_of w1 = refs_of w" using f1 by (simp add: frame_def refs_of_def)
    note r = reconcile_target_emits [OF v1 want, of opts deletion p1, unfolded idx]
    then obtain new where "w_trace (fst (reconcile_target a opts v (key, t) (w1, p1))) = w_trace w1 @ new"
      by (auto simp: emits_def)
    then show "emits ?P (fst s) (fst (reconcile_target a opts v x s)) \<and> ?I (reconcile_target a opts v x s)"
      using r v1 f1 eq by (auto simp: view_ok_def listing_append intro: frame_trans)
  qed (use assms in auto)
  then show ?thesis by simp
qed

section \<open>Orphans\<close>

lemma orphan_fold:
  "snd (fold (orphan_step opts kind snap desired) xs (res, os)) =
     os @ (if o_DryRun opts then []
           else map (orphan_of kind) (filter (\<lambda>x. \<not> has_key desired (fst x) \<and> owns opts (snd x)
             \<and> \<not> IsProtected snap (meta_Container (ResourceMeta (snd x))) (meta_ContainerID (ResourceMeta (snd x)))) xs))"
  by (induction xs arbitrary: res os) (auto simp: orphan_step_def Let_def)

definition justified_orphan :: "Api \<Rightarrow> Options \<Rightarrow> Snapshot \<Rightarrow> history \<Rightarrow> history \<Rightarrow> orphan \<Rightarrow> bool" where
  "justified_orphan a opts snap start h x \<longleftrightarrow> \<not> o_DryRun opts
     \<and> (\<exists>live d current. listing a start h (or_kind x) live d \<and> current \<in> set live \<and> ResourceID current = or_id x
        \<and> ResourceKey current = or_key x \<and> owns opts current
        \<and> \<not> IsProtected snap (meta_Container (ResourceMeta current)) (meta_ContainerID (ResourceMeta current))
        \<and> unwanted opts snap (or_kind x) (ResourceKey current))"

lemma justified_orphan_append: "justified_orphan a opts snap start h x \<Longrightarrow> justified_orphan a opts snap start (h @ z) x"
  unfolding justified_orphan_def by (blast intro: listing_append)

lemma applyStopPolicy_spec:
  assumes "applyStopPolicy a opts ts w = (kept, w')"
  shows "set kept \<subseteq> set ts" "t \<in> set ts \<Longrightarrow> t \<notin> set kept \<Longrightarrow> \<not> t_Running t \<and> o_OnStop opts = OnStopDelete"
    "w_trace w' = w_trace w" "frame w w'"
  using assms by (auto simp: applyStopPolicy_def read_clock_def Let_def split: if_splits)

lemma unwanted_orphan:
  assumes "applyStopPolicy a opts (filter (\<lambda>t. t_Kind t = kind) (snap_Targets snap)) w = (kept, w')"
    and "indexTargets kept = (desired, cs)" "\<not> has_key desired key" "key \<noteq> []"
  shows "unwanted opts snap kind key"
  unfolding unwanted_def
proof safe
  fix t assume t: "t \<in> set (snap_Targets snap)" "kind = t_Kind t" "key = t_Key t"
  have "t \<notin> set kept" using indexTargets_spec(3) [OF assms(2)] assms(3,4) t by auto
  with applyStopPolicy_spec(2) [OF assms(1), of t] t
  show "t_Running t \<Longrightarrow> False" "o_OnStop opts = OnStopDelete" by auto
qed

text \<open>The parts of a successful \<open>reconcileKind\<close>, named once.\<close>

lemma reconcileKind_listed:
  assumes "api_List a (w_trace w) kind = Inr live"
    and "reconcileKind a opts kind targets snap w = (out, w')"
  obtains kept w2 desired cs now w3 v p0 w4 p res orphans where
    "applyStopPolicy a opts targets (called (CList kind) w) = (kept, w2)"
    "indexTargets kept = (desired, cs)" "read_clock a w2 = (now, w3)"
    "v = \<lparr> vw_kind = kind, vw_dialect = api_Dialect a (w_trace w @ [CList kind]), vw_existing = indexResources live,
       vw_byDomain = indexDomains live, vw_now = now \<rparr>"
    "p0 = \<lparr> pr_result = zero_result\<lparr> rs_Skipped := int (length cs) \<rparr>, pr_next = [], pr_errs = [] \<rparr>"
    "fold (reconcile_target a opts v) (sort_key fst desired) (w3, p0) = (w4, p)"
    "fold (orphan_step opts kind snap desired) (sort_key fst (indexResources live)) (pr_result p, []) = (res, orphans)"
    "out = \<lparr> ko_result = res, ko_fatal = None, ko_partial = pr_errs p, ko_orphans = orphans,
       ko_owned = length (filter (owns opts) live),
       ko_foreignPrefix = length (filter (foreign_prefix opts) (filter (owns opts) live)) \<rparr>"
    "w' = w4\<lparr> w_cache := ReplaceKind kind (pr_next p) (w_cache w4) \<rparr>"
  using assms by (auto simp: reconcileKind_def Let_def split: prod.splits)

lemma reconcileKind_failed:
  assumes "api_List a (w_trace w) kind = Inl e"
    and "reconcileKind a opts kind targets snap w = (out, w')"
  shows "w' = called (CList kind) w \<and> ko_orphans out = [] \<and> ko_owned out = 0 \<and> ko_foreignPrefix out = 0
    \<and> ko_partial out = [] \<and> ko_result out = zero_result
    \<and> ko_fatal out = (if IsNotFound e then None else Some (ListFailed kind e))"
  using assms by (auto simp: reconcileKind_def Let_def zero_outcome_def)

lemma reconcileKind_emits:
  assumes st: "w_trace w = start @ pre"
    and r: "reconcileKind a opts kind (filter (\<lambda>t. t_Kind t = kind) (snap_Targets snap)) snap w = (out, w')"
  shows "emits (permitted a opts deletion snap (refs_of w) start) w w' \<and> refs_of w' = refs_of w
    \<and> (\<forall>x\<in>set (ko_orphans out). justified_orphan a opts snap start (w_trace w') x)"
proof (cases "api_List a (w_trace w) kind")
  case (Inl e)
  from reconcileKind_failed [OF Inl r] show ?thesis by (simp add: emits_read [of "CList kind"])
next
  case (Inr live)
  let ?P = "permitted a opts deletion snap (refs_of w) start"
  obtain kept w2 desired cs now w3 v p0 w4 p res orphans where
    b: "applyStopPolicy a opts (filter (\<lambda>t. t_Kind t = kind) (snap_Targets snap)) (called (CList kind) w) = (kept, w2)"
      "indexTargets kept = (desired, cs)" "read_clock a w2 = (now, w3)"
    and v: "v = \<lparr> vw_kind = kind, vw_dialect = api_Dialect a (w_trace w @ [CList kind]), vw_existing = indexResources live,
       vw_byDomain = indexDomains live, vw_now = now \<rparr>"
    and loop: "fold (reconcile_target a opts v) (sort_key fst desired) (w3, p0) = (w4, p)"
    and orp: "fold (orphan_step opts kind snap desired) (sort_key fst (indexResources live)) (pr_result p, []) = (res, orphans)"
    and out: "ko_orphans out = orphans"
    and w': "w' = w4\<lparr> w_cache := ReplaceKind kind (pr_next p) (w_cache w4) \<rparr>"
    by (rule reconcileKind_listed [OF Inr r], rule that, assumption+, simp, assumption)
  note sp = applyStopPolicy_spec [OF b(1)] and it = indexTargets_spec [OF b(2)]
  have t3: "w_trace w3 = w_trace w @ [CList kind]" "frame w w3"
    using read_clock_quiet [OF b(3)] sp by (auto intro: frame_trans)
  have l: "listing a start (w_trace w3) kind live (vw_dialect v)"
    unfolding listing_def v by (rule exI [of _ pre], rule exI [of _ "[]"]) (use st t3 Inr in simp)
  have vo: "view_ok a start (w_trace w3) v live" using l by (simp add: view_ok_def v)
  have want: "\<forall>(key, t)\<in>set (sort_key fst desired). wants snap (vw_kind v) key t"
    using it(2) sp(1) by (fastforce simp: wants_def v)
  have e1: "emits ?P w w3" using t3 by (simp add: emits_read [of "CList kind"])
  have idx: "refs_of w3 = refs_of w" using t3 by (simp add: frame_def refs_of_def)
  from target_loop_emits [OF vo want, of opts deletion p0] loop idx
  have e2: "emits ?P w3 w4" "frame w3 w4" by (simp_all add: emits_permitted)
  then obtain z where z: "w_trace w4 = w_trace w3 @ z" by (auto simp: emits_def)
  have "justified_orphan a opts snap start (w_trace w') x" if "x \<in> set orphans" for x
  proof -
    from that orp obtain key cur where x: "\<not> o_DryRun opts" "x = orphan_of kind (key, cur)" "(key, cur) \<in> set (indexResources live)"
        "\<not> has_key desired key" "owns opts cur"
        "\<not> IsProtected snap (meta_Container (ResourceMeta cur)) (meta_ContainerID (ResourceMeta cur))"
      using orphan_fold [of opts kind snap desired "sort_key fst (indexResources live)" "pr_result p" "[]"]
      by (auto split: if_splits)
    from indexResources_spec(2) [OF x(3)] have c: "cur \<in> set live" "ResourceKey cur = key" "key \<noteq> []" by auto
    have "unwanted opts snap kind (ResourceKey cur)" using unwanted_orphan [OF b(1,2) x(4)] c by simp
    with x c listing_append [OF l, of z] show ?thesis
      unfolding justified_orphan_def by (auto simp: orphan_of_def w' z intro!: exI [of _ live] exI [of _ cur])
  qed
  with e1 e2 idx out show ?thesis
    using emits_trans [OF e1 e2(1)] by (simp add: w' frame_def refs_of_def)
qed

lemma length_filter_mono: "(\<And>x. P x \<Longrightarrow> Q x) \<Longrightarrow> length (filter P xs) \<le> length (filter Q xs)"
  by (induction xs) (auto intro: le_SucI)

lemma orphans_owned:
  assumes "reconcileKind a opts kind targets snap w = (out, w')"
  shows "length (ko_orphans out) \<le> ko_owned out"
proof (cases "api_List a (w_trace w) kind")
  case (Inl e)
  from reconcileKind_failed [OF Inl assms] show ?thesis by simp
next
  case (Inr live)
  let ?ex = "sort_key fst (indexResources live)"
  obtain desired and p :: progress and res orphans where
    "fold (orphan_step opts kind snap desired) ?ex (pr_result p, []) = (res, orphans)"
    "out = \<lparr> ko_result = res, ko_fatal = None, ko_partial = pr_errs p, ko_orphans = orphans,
       ko_owned = length (filter (owns opts) live),
       ko_foreignPrefix = length (filter (foreign_prefix opts) (filter (owns opts) live)) \<rparr>"
    by (rule reconcileKind_listed [OF Inr assms], rule that, assumption+)
  then have orp: "fold (orphan_step opts kind snap desired) ?ex (pr_result p, []) = (res, ko_orphans out)"
    and own: "ko_owned out = length (filter (owns opts) live)" by simp_all
  have d: "distinct (map snd ?ex)"
  proof -
    have "distinct (map fst ?ex)" using indexResources_spec(1) [of live] by (simp add: distinct_map)
    moreover have "map fst ?ex = map (ResourceKey \<circ> snd) ?ex"
      using indexResources_spec(2) [of _ _ live] by (auto intro!: map_cong)
    ultimately show ?thesis by (simp add: distinct_map comp_def inj_on_def)
  qed
  let ?f = "filter (owns opts) (map snd ?ex)"
  have "length (ko_orphans out) \<le> length (filter (\<lambda>x. owns opts (snd x)) ?ex)"
    using orphan_fold [of opts kind snap desired ?ex "pr_result p" "[]"] orp
    by (auto intro: length_filter_mono)
  also have "\<dots> = length ?f" by (simp add: filter_map comp_def)
  also have "\<dots> = card (set ?f)" using d by (metis distinct_card distinct_filter)
  also have "\<dots> \<le> card (set (filter (owns opts) live))"
    using indexResources_spec(2) [of _ _ live] by (intro card_mono) auto
  also have "\<dots> \<le> length (filter (owns opts) live)" by (rule card_length)
  finally show ?thesis using own by simp
qed

section \<open>The run\<close>


lemma emits_extends: "emits P w w' \<Longrightarrow> \<exists>z. w_trace w' = w_trace w @ z"
  by (auto simp: emits_def)

lemma run_kinds_emits:
  assumes "w_trace w = start @ pre" "run_kinds a opts snap ks w = (outs, w')"
  shows "emits (permitted a opts deletion snap (refs_of w) start) w w' \<and> refs_of w' = refs_of w
    \<and> (\<forall>x\<in>set (concat (map ko_orphans outs)). justified_orphan a opts snap start (w_trace w') x)
    \<and> length (concat (map ko_orphans outs)) \<le> sum_list (map ko_owned outs)"
  using assms
proof (induction ks arbitrary: w pre outs)
  case Nil
  then show ?case by (auto simp: emits_same)
next
  case (Cons k ks)
  let ?P = "permitted a opts deletion snap (refs_of w) start"
  obtain out w1 outs' where r: "reconcileKind a opts k (filter (\<lambda>t. t_Kind t = k) (snap_Targets snap)) snap w = (out, w1)"
    and rs: "run_kinds a opts snap ks w1 = (outs', w')" and outs: "outs = out # outs'"
    using Cons.prems(2) by (auto simp: Let_def split: prod.splits)
  note one = reconcileKind_emits [OF Cons.prems(1) r, of deletion]
  then obtain z where z: "w_trace w1 = start @ (pre @ z)" using Cons.prems(1) emits_extends [of ?P w w1] by auto
  note rest = Cons.IH [OF z rs]
  then obtain y where y: "w_trace w' = w_trace w1 @ y" using emits_extends [of _ w1 w'] by blast
  have "justified_orphan a opts snap start (w_trace w') x" if "x \<in> set (concat (map ko_orphans outs))" for x
    using that one rest justified_orphan_append [of a opts snap start "w_trace w1" x y] by (auto simp: outs y)
  moreover have "emits ?P w w'" using one rest emits_trans [of ?P w w1 w'] by simp
  moreover have "length (concat (map ko_orphans outs)) \<le> sum_list (map ko_owned outs)"
    using rest orphans_owned [OF r] by (simp add: outs)
  ultimately show ?case using one rest by simp
qed

lemma deleteOrphans_trace:
  "deleteOrphans a xs w = (r, w') \<Longrightarrow>
   w_trace w' = w_trace w @ map (\<lambda>x. CDelete (or_kind x) (or_id x)) xs \<and> refs_of w' = refs_of w
   \<and> w_cache w' = w_cache w \<and> w_failures w' = w_failures w"
proof (induction xs arbitrary: w r)
  case (Cons x xs)
  obtain r1 where "deleteOrphans a xs (called (CDelete (or_kind x) (or_id x)) w) = (r1, w')"
    using Cons.prems by (auto simp: Let_def split: prod.splits option.splits if_splits)
  from Cons.IH [OF this] show ?case by simp
qed simp

lemma deleteOrphans_emits:
  assumes "deleteOrphans a xs w = (r, w')"
    and "\<And>x z. x \<in> set xs \<Longrightarrow> P (w_trace w @ z) (CDelete (or_kind x) (or_id x))"
  shows "emits P w w'"
  using assms
proof (induction xs arbitrary: w r)
  case (Cons x xs)
  let ?w = "called (CDelete (or_kind x) (or_id x)) w"
  obtain r1 where r1: "deleteOrphans a xs ?w = (r1, w')"
    using Cons.prems(1) by (auto simp: Let_def split: prod.splits option.splits if_splits)
  have "emits P w ?w" using Cons.prems(2) [of x "[]"] by (intro emits_one) auto
  moreover have "emits P ?w w'" by (rule Cons.IH [OF r1]) (use Cons.prems(2) in simp)
  ultimately show ?case by (rule emits_trans)
qed (simp add: emits_same)

lemma delete_phase_cases:
  assumes "delete_phase a opts deletion orphans owned fp snap w = ((del, errs, blocked), w')"
  obtains (none) "orphans = []" "w' = w" "del = zero_result" "errs = []" "blocked = None"
  | (off) "orphans \<noteq> []" "\<not> deletion" "w' = w" "del = zero_result\<lparr> rs_Skipped := int (length orphans) \<rparr>" "errs = []" "blocked = None"
  | (blocked) reason where "orphans \<noteq> []" "deletion"
      "guardDeletions (o_DeleteGuard opts) (o_DeleteGuardMin opts) (length orphans) owned fp snap = Some reason"
      "w' = countBlockedDeletion (length orphans) w" "del = zero_result\<lparr> rs_Skipped := int (length orphans) \<rparr>"
      "errs = []" "blocked = Some reason"
  | (run) deleted where "orphans \<noteq> []" "deletion"
      "guardDeletions (o_DeleteGuard opts) (o_DeleteGuardMin opts) (length orphans) owned fp snap = None"
      "deleteOrphans a orphans w = ((deleted, errs), w')"
      "del = zero_result\<lparr> rs_Deleted := deleted, rs_Failed := int (length errs) \<rparr>" "blocked = None"
  using assms by (auto simp: delete_phase_def Let_def split: if_splits option.splits prod.splits)

lemma delete_phase_emits:
  assumes p: "delete_phase a opts deletion orphans owned fp snap w = (x, w')"
    and j: "\<forall>x\<in>set orphans. justified_orphan a opts snap start (w_trace w) x"
  shows "emits (permitted a opts deletion snap idx start) w w' \<and> refs_of w' = refs_of w"
proof -
  obtain del errs bl where x: "x = (del, errs, bl)" by (cases x)
  from p [unfolded x] show ?thesis
  proof (cases rule: delete_phase_cases)
    case (run deleted)
    have "allowed a opts deletion snap idx start (w_trace w @ z) (CDelete (or_kind y) (or_id y))" if "y \<in> set orphans" for y z
    proof -
      from j that obtain live d current where c: "\<not> o_DryRun opts" "listing a start (w_trace w) (or_kind y) live d"
          "current \<in> set live" "ResourceID current = or_id y" "owns opts current"
          "\<not> IsProtected snap (meta_Container (ResourceMeta current)) (meta_ContainerID (ResourceMeta current))"
          "unwanted opts snap (or_kind y) (ResourceKey current)"
        unfolding justified_orphan_def by blast
      from allowed.delete [OF run(2) c(1) listing_append [OF c(2)] c(3,5,6,7), of idx z] c(4) show ?thesis by simp
    qed
    with deleteOrphans_emits [where P = "permitted a opts deletion snap idx start", OF run(4)] deleteOrphans_trace [OF run(4)] show ?thesis by (simp add: permitted_def)
  qed (simp_all add: emits_same)
qed

lemma load_emits:
  "emits (permitted a opts deletion snap idx start) w (loadAccessLists a needed (loadCertificates a (trackStopped a ts w)))"
proof (rule emits_trans)
  let ?w1 = "loadCertificates a (trackStopped a ts w)"
  show "emits (permitted a opts deletion snap idx start) w ?w1"
    by (rule emits_read [of CListCertificates]) (simp_all add: loadCertificates_def Let_def split: sum.split)
  show "emits (permitted a opts deletion snap idx start) ?w1 (loadAccessLists a needed ?w1)"
  proof (cases needed)
    case True
    then show ?thesis
      by (intro emits_read [of CListAccessLists]) (simp_all add: loadAccessLists_def Let_def split: sum.split)
  qed (simp add: loadAccessLists_def emits_same)
qed

text \<open>The parts of a run, named once.\<close>

lemma reconcile_parts:
  assumes "reconcile a opts deletion (Inr snap) w = ((res, errs), w')"
  obtains w3 outs w4 del derrs blocked w5 where
    "w3 = loadAccessLists a (needsAccessListNames (snap_Targets snap)) (loadCertificates a (trackStopped a (snap_Targets snap) w))"
    "run_kinds a opts snap (o_Kinds opts) w3 = (outs, w4)"
    "delete_phase a opts deletion (concat (map ko_orphans outs)) (sum_list (map ko_owned outs))
       (sum_list (map ko_foreignPrefix outs)) snap w4 = ((del, derrs, blocked), w5)"
    "res = rs_add (fold (\<lambda>k r. rs_add r (ko_result k)) outs zero_result) del"
    "errs = fatals outs @ concat (map ko_partial outs) @ derrs"
    "w' = setStatus a (fatals outs) (rs_Failed res) blocked w5"
  using assms by (auto simp: reconcile_def Let_def split: prod.splits)


lemma reconcile_emits:
  assumes "reconcile a opts deletion (Inr snap) w = ((res, errs), w')"
  shows "emits (permitted a opts deletion snap (refs_of w') (w_trace w)) w w'"
proof -
  obtain w3 outs w4 del derrs blocked w5 where
    w3: "w3 = loadAccessLists a (needsAccessListNames (snap_Targets snap)) (loadCertificates a (trackStopped a (snap_Targets snap) w))"
    and rk: "run_kinds a opts snap (o_Kinds opts) w3 = (outs, w4)"
    and dp: "delete_phase a opts deletion (concat (map ko_orphans outs)) (sum_list (map ko_owned outs))
       (sum_list (map ko_foreignPrefix outs)) snap w4 = ((del, derrs, blocked), w5)"
    and w': "w' = setStatus a (fatals outs) (rs_Failed res) blocked w5"
    by (rule reconcile_parts [OF assms], rule that, assumption+)
  let ?P = "permitted a opts deletion snap (refs_of w3) (w_trace w)"
  have e1: "emits ?P w w3" unfolding w3 by (rule load_emits)
  then obtain pre where pre: "w_trace w3 = w_trace w @ pre" using emits_extends by blast
  note rk = run_kinds_emits [OF pre rk, of deletion]
  note dp = delete_phase_emits [OF dp, of "w_trace w" "refs_of w3"]
  have "emits ?P w w5" using e1 rk dp by (blast intro: emits_trans)
  moreover have "refs_of w' = refs_of w3" using rk dp by (simp add: w')
  ultimately show ?thesis by (simp add: w')
qed

lemma reconcile_no_snapshot: "reconcile a opts deletion (Inl e) w = ((res, errs), w') \<Longrightarrow> w_trace w' = w_trace w \<and> w_cache w' = w_cache w"
  by (auto simp: reconcile_def setStatus_def read_clock_def)

end
