(* ===== verification/Safety.thy ===== *)
theory Safety
  imports Contract
begin

text \<open>
  What a run never does: the safety properties of the reconcile loop, each read off the
  specification of \<open>Contract\<close>, whatever the server answers and whatever the worker remembers.
  At the end an example server and snapshot, on which the properties are applied.
\<close>

section \<open>From the specification to a call\<close>

lemma run_write:
  assumes "reconcile a opts deletion (Inr snap) w = ((res, errs), w')" "c \<in> set (new_calls w w')" "is_write c"
  obtains h ys where "w_trace w' = h @ c # ys" "length (w_trace w) \<le> length h"
    "allowed a opts deletion snap (refs_of w') (w_trace w) h c"
proof -
  from emitsD [OF reconcile_emits [OF assms(1)] assms(2)] obtain xs ys where
    "w_trace w' = w_trace w @ xs @ c # ys" "permitted a opts deletion snap (refs_of w') (w_trace w) (w_trace w @ xs) c"
    by blast
  with assms(3) show thesis by (intro that [of "w_trace w @ xs" ys]) (simp_all add: permitted_def)
qed

text \<open>The live resource a run may write: ours, one to migrate, or an unmanaged one to adopt.\<close>

definition admissible :: "Options \<Rightarrow> Resource \<Rightarrow> bool" where
  "admissible opts r \<longleftrightarrow> (let m = ResourceMeta r in
     if IsManaged m then OwnedByInstance m (o_InstanceID opts)
     else if IsRedth m then o_MigrateFromRedth opts
     else Owner m = [] \<and> o_AdoptExisting opts)"

lemma not_skipped_admissible: "\<not> fst (ownership_decision opts r) \<Longrightarrow> admissible opts r"
  by (auto simp: ownership_decision_def admissible_def Let_def split: if_splits)

text \<open>The resource was in a list the server returned during this run, before the call.\<close>

definition listed_before :: "Api \<Rightarrow> Worker \<Rightarrow> history \<Rightarrow> Kind \<Rightarrow> Resource \<Rightarrow> bool" where
  "listed_before a w h k r \<longleftrightarrow> (\<exists>xs ys live. h = w_trace w @ xs @ CList k # ys
     \<and> api_List a (w_trace w @ xs) k = Inr live \<and> r \<in> set live)"

lemma listing_before: "listing a (w_trace w) h k live d \<Longrightarrow> r \<in> set live \<Longrightarrow> listed_before a w h k r"
  unfolding listing_def listed_before_def by blast

section \<open>Examples\<close>

definition ex_api :: "Resource list \<Rightarrow> Api" where
  "ex_api stored = \<lparr> api_List = (\<lambda>h k. Inr (filter (\<lambda>r. r_Kind r = k) stored)),
     api_Create = (\<lambda>h r. Inr (SetResourceID 77 (SetEnabled True r))),
     api_Update = (\<lambda>h i r. Inr r), api_Delete = (\<lambda>h k i. None), api_SetEnabled = (\<lambda>h k i b. None),
     api_ListCertificates = (\<lambda>h. Inr []), api_ListAccessLists = (\<lambda>h. Inr []), api_Recheck = (\<lambda>h. None),
     api_Dialect = (\<lambda>h. ex_dialect), api_clock = (\<lambda>n. int n), api_idna = (\<lambda>_. None) \<rparr>"

definition ex_options :: Options where
  "ex_options = \<lparr> o_DeleteOrphans = True, o_AdoptExisting = False, o_DryRun = False, o_ResyncInterval = 0,
     o_ShutdownTimeout = 0, o_Kinds = Kinds, o_CertificatePartial = PartialPrimary, o_CertificateAutoCreate = False,
     o_MigrateFromRedth = False, o_CertificatePoll = 0, o_OnStop = OnStopDisable, o_StopGrace = 0,
     o_InstanceID = [], o_LabelPrefix = ''npm.'', o_DeleteGuard = Fin 0, o_DeleteGuardMin = 0 \<rparr>"

definition ex_target :: "string \<Rightarrow> Target" where
  "ex_target d = (zero_target KindDead)\<lparr> t_ContainerName := ''app'', t_Running := True, t_DomainNames := [d],
     t_Certificate := spec_of ModeNone [], t_Enabled := True \<rparr>"

definition ex_gone :: Resource where
  "ex_gone = Dead (zero_dead\<lparr> dh_ID := 9, dh_DomainNames := [''old.example.com''], dh_Enabled := True,
     dh_Meta := [MetaManagedBy \<mapsto> MStr ManagedByValue, MetaContainer \<mapsto> MStr ''old''] \<rparr>)"

definition ex_run :: "Options \<Rightarrow> bool \<Rightarrow> Resource list \<Rightarrow> Target list \<Rightarrow> (Result \<times> run_error list) \<times> Worker" where
  "ex_run opts deletion stored ts = reconcile (ex_api stored) opts deletion (Inr (ex_snapshot ts 1)) NewWorker"

lemma ex_runI:
  "w' = snd (ex_run opts deletion stored ts) \<Longrightarrow>
   reconcile (ex_api stored) opts deletion (Inr (ex_snapshot ts 1)) NewWorker =
     ((fst (fst (ex_run opts deletion stored ts)), snd (fst (ex_run opts deletion stored ts))), w')"
  by (simp add: ex_run_def)

section \<open>Properties\<close>

text \<open>C2: deletions are justified. If a run deletes the resource with id i of a kind, then orphan
  deletion was on for this run and it was no dry run; and during this very run the server listed
  a resource with that id which carries this instance's ownership marker (or Redth's, when
  migrating), whose container's labels are not unreadable, and which no target wants any more
  (stopped containers count as wanting it unless NPM_ON_STOP=delete).\<close>

theorem deletions_are_justified:
  assumes "reconcile a opts deletion (Inr snap) w = ((res, errs), w')" "CDelete k i \<in> set (new_calls w w')"
  shows "deletion \<and> \<not> o_DryRun opts \<and> (\<exists>h ys r. w_trace w' = h @ CDelete k i # ys \<and> listed_before a w h k r
    \<and> ResourceID r = i \<and> owns opts r
    \<and> \<not> IsProtected snap (meta_Container (ResourceMeta r)) (meta_ContainerID (ResourceMeta r))
    \<and> (\<forall>t\<in>set (snap_Targets snap). t_Kind t = k \<and> t_Key t = ResourceKey r \<longrightarrow>
         \<not> t_Running t \<and> o_OnStop opts = OnStopDelete))"
proof -
  obtain h ys where h: "w_trace w' = h @ CDelete k i # ys"
      "allowed a opts deletion snap (refs_of w') (w_trace w) h (CDelete k i)"
    by (rule run_write [OF assms]) simp
  from h(2) obtain live d r where c: "deletion" "\<not> o_DryRun opts" "listing a (w_trace w) h k live d" "r \<in> set live"
      "i = ResourceID r" "owns opts r"
      "\<not> IsProtected snap (meta_Container (ResourceMeta r)) (meta_ContainerID (ResourceMeta r))"
      "unwanted opts snap k (ResourceKey r)"
    by (rule allowed_deleteE)
  show ?thesis
    using h(1) c listing_before [OF c(3,4)]
    by (intro conjI exI [of _ h] exI [of _ ys] exI [of _ r]) (auto simp: unwanted_def)
qed

theorem deletions_are_justified_witness:
  "\<exists>r. r \<in> set [ex_gone] \<and> ResourceID r = 9 \<and> owns ex_options r"
proof -
  let ?w' = "snd (ex_run ex_options True [ex_gone] [ex_target ''a.example.com''])"
  have "list_ex (\<lambda>c. case c of CDelete k i \<Rightarrow> k = KindDead \<and> i = 9 | _ \<Rightarrow> False) (new_calls NewWorker ?w')" by code_simp
  then obtain c where "c \<in> set (new_calls NewWorker ?w')"
      "case c of CDelete k i \<Rightarrow> k = KindDead \<and> i = 9 | _ \<Rightarrow> False" by (auto simp: list_ex_iff)
  then have "CDelete KindDead 9 \<in> set (new_calls NewWorker ?w')" by - (cases c, auto)
  from deletions_are_justified [OF ex_runI [OF refl] this]
  show ?thesis by (auto simp: listed_before_def ex_api_def split: if_splits)
qed

text \<open>A dry run is silent. No run with NPM_DRY_RUN makes a call that changes the server.\<close>

theorem dry_run_is_silent:
  assumes "reconcile a opts deletion snap w = (out, w')" "o_DryRun opts" "c \<in> set (new_calls w w')"
  shows "\<not> is_write c"
proof (cases snap)
  case (Inl e)
  with assms show ?thesis
    by (cases out) (auto simp: new_calls_def dest: reconcile_no_snapshot)
next
  case (Inr s)
  show ?thesis
  proof
    assume "is_write c"
    obtain res errs where "out = (res, errs)" by (cases out)
    with assms(1) Inr have r: "reconcile a opts deletion (Inr s) w = ((res, errs), w')" by simp
    obtain h where "allowed a opts deletion s (refs_of w') (w_trace w) h c"
      by (rule run_write [OF r assms(3) \<open>is_write c\<close>])
    then show False using assms(2) by (cases rule: allowed.cases) auto
  qed
qed

theorem dry_run_is_silent_witness:
  "list_all (\<lambda>c. \<not> is_write c)
     (new_calls NewWorker (snd (ex_run (ex_options\<lparr> o_DryRun := True \<rparr>) True [ex_gone] [ex_target ''a.example.com''])))"
  unfolding list_all_iff by (intro ballI, rule dry_run_is_silent [OF ex_runI [OF refl]]) simp_all

text \<open>The shutdown flush never deletes. Whatever the last snapshot says - a compose stack that
  stopped before this process lists no container at all - the final run makes no DELETE call.\<close>

theorem flush_never_deletes:
  assumes "flush a opts snap w = (errs, w')" "c \<in> set (new_calls w w')"
  shows "\<not> is_delete c"
proof
  assume d: "is_delete c"
  then obtain k i where c: "c = CDelete k i" by (cases c) auto
  from assms(1) obtain res errs' where r: "reconcile a opts False snap w = ((res, errs'), w')"
    by (auto simp: flush_def Let_def split: prod.splits)
  show False
  proof (cases snap)
    case (Inl e)
    with r assms(2) show False by (auto simp: new_calls_def dest: reconcile_no_snapshot)
  next
    case (Inr s)
    with r have r: "reconcile a opts False (Inr s) w = ((res, errs'), w')" by simp
    obtain h where "allowed a opts False s (refs_of w') (w_trace w) h (CDelete k i)"
      by (rule run_write [OF r assms(2) [unfolded c]]) simp
    then show False by (cases rule: allowed_deleteE) simp
  qed
qed

theorem flush_never_deletes_witness:
  "list_all (\<lambda>c. \<not> is_delete c)
     (new_calls NewWorker (snd (flush (ex_api [ex_gone]) ex_options (Inr (ex_snapshot [] 0)) NewWorker)))"
  unfolding list_all_iff by (intro ballI, rule flush_never_deletes, rule prod.collapse [symmetric])

fun written_id :: "call \<Rightarrow> int option" where
  "written_id (CUpdate i _) = Some i"
| "written_id (CSetEnabled _ i _) = Some i"
| "written_id _ = None"


text \<open>A host that still exists, disabled, and a stopped container.\<close>

definition ex_other :: Resource where
  "ex_other = Dead (zero_dead\<lparr> dh_ID := 5, dh_DomainNames := [''b.example.com''], dh_Enabled := True,
     dh_Meta := [MetaManagedBy \<mapsto> MStr ManagedByValue, MetaContainer \<mapsto> MStr ''app''] \<rparr>)"

definition ex_stopped :: Target where
  "ex_stopped = (ex_target ''b.example.com'')\<lparr> t_Running := False \<rparr>"

text \<open>Two calls on \<open>ex_other\<close>: the marker, then the flag.\<close>

lemma ex_stopped_calls:
  "\<exists>r. CUpdate 5 r \<in> set (new_calls NewWorker (snd (ex_run ex_options True [ex_other] [ex_stopped])))"
proof -
  let ?w' = "snd (ex_run ex_options True [ex_other] [ex_stopped])"
  have "list_ex (\<lambda>c. case c of CUpdate i r \<Rightarrow> i = 5 | _ \<Rightarrow> False) (new_calls NewWorker ?w')" by code_simp
  then obtain c where "c \<in> set (new_calls NewWorker ?w')" "case c of CUpdate i r \<Rightarrow> i = 5 | _ \<Rightarrow> False"
    by (auto simp: list_ex_iff)
  then show ?thesis by - (cases c, auto)
qed


end
