(* ===== verification/Runs.thy ===== *)
theory Runs
  imports Safety
begin

text \<open>
  Whole runs: the order of their calls, the completeness of the counters, the guard at work, runs
  that find nothing to do.
\<close>

section \<open>The calls of one kind\<close>

fun is_list :: "call \<Rightarrow> bool" where
  "is_list (CList _) = True"
| "is_list _ = False"

lemma allowed_no_delete: "allowed a opts False snap idx start h c \<Longrightarrow> is_write c \<and> \<not> is_delete c"
  by (induction rule: allowed.induct) auto

lemma write_not_list: "is_write c \<Longrightarrow> \<not> is_list c"
  by (cases c) simp_all

text \<open>Listing a kind, then its writes.\<close>

lemma reconcileKind_trace:
  assumes r: "reconcileKind a opts kind (filter (\<lambda>t. t_Kind t = kind) (snap_Targets snap)) snap w = (out, w')"
  obtains z where "w_trace w' = w_trace w @ CList kind # z" "\<forall>c\<in>set z. is_write c \<and> \<not> is_delete c"
proof (cases "api_List a (w_trace w) kind")
  case (Inl e)
  from reconcileKind_failed [OF Inl r] that [of "[]"] show thesis by simp
next
  case (Inr live)
  obtain kept w2 desired cs now w3 v p0 w4 p where
    b: "applyStopPolicy a opts (filter (\<lambda>t. t_Kind t = kind) (snap_Targets snap)) (called (CList kind) w) = (kept, w2)"
      "indexTargets kept = (desired, cs)" "read_clock a w2 = (now, w3)"
    and v: "v = \<lparr> vw_kind = kind, vw_dialect = api_Dialect a (w_trace w @ [CList kind]), vw_existing = indexResources live,
       vw_byDomain = indexDomains live, vw_now = now \<rparr>"
    and loop: "fold (reconcile_target a opts v) (sort_key fst desired) (w3, p0) = (w4, p)"
    and w': "w' = w4\<lparr> w_cache := ReplaceKind kind (pr_next p) (w_cache w4) \<rparr>"
    by (rule reconcileKind_listed [OF Inr r], rule that, assumption+)
  have t3: "w_trace w3 = w_trace w @ [CList kind]"
    using read_clock_quiet [OF b(3)] applyStopPolicy_spec(3) [OF b(1)] by simp
  have "listing a (w_trace w) (w_trace w3) kind live (api_Dialect a (w_trace w @ [CList kind]))"
    unfolding listing_def by (rule exI [of _ "[]"], rule exI [of _ "[]"]) (simp add: Inr t3)
  then have "view_ok a (w_trace w) (w_trace w3) v live" by (simp add: view_ok_def v)
  moreover have "\<forall>(key, t)\<in>set (sort_key fst desired). wants snap (vw_kind v) key t"
    using indexTargets_spec(2) [OF b(2)] applyStopPolicy_spec(1) [OF b(1)] by (fastforce simp: wants_def v)
  ultimately have "emits (allowed a opts False snap (refs_of w3) (w_trace w)) w3 w4"
    using target_loop_emits [of a "w_trace w" w3 v live "sort_key fst desired" snap opts False p0] loop by simp
  then have e: "emits (\<lambda>h c. is_write c \<and> \<not> is_delete c) w3 w4"
    by (rule emits_mono) (rule allowed_no_delete)
  show thesis
  proof (rule that [of "new_calls w3 w4"])
    show "w_trace w' = w_trace w @ CList kind # new_calls w3 w4"
      using emits_new [OF e] by (simp add: w' t3)
    show "\<forall>c\<in>set (new_calls w3 w4). is_write c \<and> \<not> is_delete c" using emitsD [OF e] by blast
  qed
qed

lemma run_kinds_trace:
  assumes "run_kinds a opts snap ks w = (outs, w')"
  obtains zs where "w_trace w' = w_trace w @ concat (map2 (\<lambda>k z. CList k # z) ks zs)" "length zs = length ks"
    "\<forall>z\<in>set zs. \<forall>c\<in>set z. is_write c \<and> \<not> is_delete c"
  using assms
proof (induction ks arbitrary: w outs thesis)
  case Nil
  from Nil(1) [of "[]"] Nil(2) show ?case by simp
next
  case (Cons k ks)
  obtain out w1 outs' where r: "reconcileKind a opts k (filter (\<lambda>t. t_Kind t = k) (snap_Targets snap)) snap w = (out, w1)"
    and rs: "run_kinds a opts snap ks w1 = (outs', w')"
    using Cons.prems(2) by (auto simp: Let_def split: prod.splits)
  obtain z where z: "w_trace w1 = w_trace w @ CList k # z" "\<forall>c\<in>set z. is_write c \<and> \<not> is_delete c"
    by (rule reconcileKind_trace [OF r])
  obtain zs where zs: "w_trace w' = w_trace w1 @ concat (map2 (\<lambda>k z. CList k # z) ks zs)" "length zs = length ks"
      "\<forall>z\<in>set zs. \<forall>c\<in>set z. is_write c \<and> \<not> is_delete c"
    by (rule Cons.IH [OF _ rs])
  from z zs show ?case by (intro Cons.prems(1) [of "z # zs"]) auto
qed

section \<open>The order of a run\<close>

definition read_calls :: "Snapshot \<Rightarrow> call list" where
  "read_calls snap = CListCertificates # (if needsAccessListNames (snap_Targets snap) then [CListAccessLists] else [])"

lemma load_trace:
  "w_trace (loadAccessLists a (needsAccessListNames (snap_Targets snap)) (loadCertificates a (trackStopped a ts w))) =
   w_trace w @ read_calls snap"
proof -
  have c: "w_trace (loadCertificates a w1) = w_trace w1 @ [CListCertificates]" for w1
    by (simp add: loadCertificates_def Let_def split: sum.split)
  show ?thesis by (simp add: loadAccessLists_def Let_def c read_calls_def split: sum.split)
qed

lemma delete_phase_trace:
  assumes "delete_phase a opts deletion orphans owned fp snap w = ((del, errs, blocked), w')"
  obtains ds where "w_trace w' = w_trace w @ map (\<lambda>x. CDelete (or_kind x) (or_id x)) ds"
    "ds = [] \<or> ds = orphans \<and> deletion
      \<and> guardDeletions (o_DeleteGuard opts) (o_DeleteGuardMin opts) (length orphans) owned fp snap = None"
  using assms
proof (cases rule: delete_phase_cases)
  case (run deleted)
  then show thesis using that [of orphans] deleteOrphans_trace [OF run(4)] by simp
qed (use that [of "[]"] in simp_all)

lemma run_trace:
  assumes "reconcile a opts deletion (Inr snap) w = ((res, errs), w')"
  obtains zs orphans owned fp and ds :: "orphan list" where
    "new_calls w w' = read_calls snap @ concat (map2 (\<lambda>k z. CList k # z) (o_Kinds opts) zs)
        @ map (\<lambda>x. CDelete (or_kind x) (or_id x)) ds"
    "length zs = length (o_Kinds opts)" "\<forall>z\<in>set zs. \<forall>c\<in>set z. is_write c \<and> \<not> is_delete c"
    "ds = [] \<or> ds = orphans \<and> deletion
      \<and> guardDeletions (o_DeleteGuard opts) (o_DeleteGuardMin opts) (length orphans) owned fp snap = None"
    "length orphans \<le> owned"
proof -
  obtain w3 outs w4 del derrs blocked w5 where
    w3: "w3 = loadAccessLists a (needsAccessListNames (snap_Targets snap)) (loadCertificates a (trackStopped a (snap_Targets snap) w))"
    and rk: "run_kinds a opts snap (o_Kinds opts) w3 = (outs, w4)"
    and dp: "delete_phase a opts deletion (concat (map ko_orphans outs)) (sum_list (map ko_owned outs))
       (sum_list (map ko_foreignPrefix outs)) snap w4 = ((del, derrs, blocked), w5)"
    and w': "w' = setStatus a (fatals outs) (rs_Failed res) blocked w5"
    by (rule reconcile_parts [OF assms], rule that, assumption+)
  obtain zs where zs: "w_trace w4 = w_trace w3 @ concat (map2 (\<lambda>k z. CList k # z) (o_Kinds opts) zs)"
      "length zs = length (o_Kinds opts)" "\<forall>z\<in>set zs. \<forall>c\<in>set z. is_write c \<and> \<not> is_delete c"
    by (rule run_kinds_trace [OF rk])
  obtain ds where ds: "w_trace w5 = w_trace w4 @ map (\<lambda>x. CDelete (or_kind x) (or_id x)) ds"
    "ds = [] \<or> ds = concat (map ko_orphans outs) \<and> deletion
      \<and> guardDeletions (o_DeleteGuard opts) (o_DeleteGuardMin opts) (length (concat (map ko_orphans outs)))
          (sum_list (map ko_owned outs)) (sum_list (map ko_foreignPrefix outs)) snap = None"
    by (rule delete_phase_trace [OF dp])
  have le: "length (concat (map ko_orphans outs)) \<le> sum_list (map ko_owned outs)"
    using run_kinds_emits [OF _ rk, of "w_trace w3" "[]"] by simp
  have "new_calls w w' = read_calls snap @ concat (map2 (\<lambda>k z. CList k # z) (o_Kinds opts) zs)
        @ map (\<lambda>x. CDelete (or_kind x) (or_id x)) ds"
    by (simp add: new_calls_def w' ds(1) zs(1) w3 load_trace)
  then show thesis by (rule that) (fact zs(2), fact zs(3), fact ds(2), fact le)
qed

section \<open>Properties\<close>

text \<open>C8: one broken collection does not stop the others, and deletions come last. Every run with
  a snapshot first reads the certificates (and the access lists when a name needs them), then
  goes through all configured kinds in order - each is listed exactly once, whatever failed
  before - and only creates, updates and toggles between the lists; the deletions follow after
  the last kind.\<close>

theorem every_kind_is_visited:
  assumes "reconcile a opts deletion (Inr snap) w = ((res, errs), w')"
  shows "\<exists>zs ds. new_calls w w' = read_calls snap @ concat (map2 (\<lambda>k z. CList k # z) (o_Kinds opts) zs) @ ds
    \<and> length zs = length (o_Kinds opts)
    \<and> (\<forall>z\<in>set zs. \<forall>c\<in>set z. is_write c \<and> \<not> is_delete c) \<and> (\<forall>c\<in>set ds. is_delete c)
    \<and> filter is_list (new_calls w w') = map CList (o_Kinds opts)"
proof -
  obtain zs and ds :: "orphan list" where t: "new_calls w w' = read_calls snap @ concat (map2 (\<lambda>k z. CList k # z) (o_Kinds opts) zs)
        @ map (\<lambda>x. CDelete (or_kind x) (or_id x)) ds"
    "length zs = length (o_Kinds opts)" "\<forall>z\<in>set zs. \<forall>c\<in>set z. is_write c \<and> \<not> is_delete c"
    by (rule run_trace [OF assms])
  have "filter is_list (concat (map2 (\<lambda>k z. CList k # z) ks zs)) = map CList ks"
    if "length zs = length ks" "\<forall>z\<in>set zs. \<forall>c\<in>set z. is_write c \<and> \<not> is_delete c" for ks :: "Kind list" and zs
    using that
  proof (induction ks zs rule: list_induct2')
    case (4 k ks z zs)
    moreover have "filter is_list z = []" using 4 by (auto simp: filter_empty_conv write_not_list)
    ultimately show ?case by simp
  qed simp_all
  with t have "filter is_list (new_calls w w') = map CList (o_Kinds opts)"
    by (simp add: read_calls_def comp_def)
  with t show ?thesis by (intro exI [of _ zs] exI [of _ "map (\<lambda>x. CDelete (or_kind x) (or_id x)) ds"]) auto
qed

theorem every_kind_is_visited_witness:
  "filter is_list (new_calls NewWorker (snd (reconcile ((ex_api [])\<lparr> api_List := (\<lambda>h k. Inl (Refused ''500'')) \<rparr>)
     ex_options True (Inr (ex_snapshot [] 1)) NewWorker))) = map CList Kinds"
proof -
  let ?run = "reconcile ((ex_api [])\<lparr> api_List := (\<lambda>h k. Inl (Refused ''500'')) \<rparr>) ex_options True (Inr (ex_snapshot [] 1)) NewWorker"
  obtain res errs w' where r: "?run = ((res, errs), w')" by (metis prod.collapse)
  from every_kind_is_visited [OF r] have "filter is_list (new_calls NewWorker w') = map CList (o_Kinds ex_options)" by blast
  then show ?thesis by (simp only: r snd_conv) (simp add: ex_options_def)
qed



end
