(* ===== verification/RunLoop.thy ===== *)
theory RunLoop
  imports Runs
begin

text \<open>
  The life of the worker (\<open>Worker.Run\<close> of \<open>internal/syncer/worker.go\<close>) as a transition system:
  a first reconcile run, then one step per trigger, then the flush. The select statement picks any
  channel that is ready, so any order of triggers is a behaviour. With every trigger comes the
  Docker snapshot the run will read. The status and the metrics are what the endpoints read
  between two steps (\<open>internal/syncer/metrics.go\<close>). Log lines are left out.
\<close>

section \<open>The loop\<close>

datatype trigger = Batch | ResyncTick | CertificateTick | Shutdown

record process =
  ps_worker :: Worker
  ps_returned :: "run_error list option"

definition start_process :: "Api \<Rightarrow> Options \<Rightarrow> string + Snapshot \<Rightarrow> process" where
  "start_process a opts snap =
     \<lparr> ps_worker = snd (reconcile_recorded a opts snap NewWorker), ps_returned = None \<rparr>"

text \<open>The tickers exist only for a positive interval.\<close>

fun armed :: "Options \<Rightarrow> trigger \<Rightarrow> bool" where
  "armed opts ResyncTick = (o_ResyncInterval opts > 0)"
| "armed opts CertificateTick = (o_CertificatePoll opts > 0)"
| "armed opts _ = True"

fun handle :: "Api \<Rightarrow> Options \<Rightarrow> trigger \<Rightarrow> string + Snapshot \<Rightarrow> Worker \<Rightarrow> process" where
  "handle a opts Batch snap w =
     \<lparr> ps_worker = snd (reconcile_recorded a opts snap w), ps_returned = None \<rparr>"
| "handle a opts ResyncTick snap w =
     \<lparr> ps_worker = snd (reconcile_recorded a opts snap (called CRecheck w)), ps_returned = None \<rparr>"
| "handle a opts CertificateTick snap w =
     (let (changed, w') = PollCertificates a w
      in \<lparr> ps_worker = (if changed then snd (reconcile_recorded a opts snap w') else w'), ps_returned = None \<rparr>)"
| "handle a opts Shutdown snap w =
     (let (errs, w') = flush a opts snap w in \<lparr> ps_worker = w', ps_returned = Some errs \<rparr>)"

inductive run_step ::
  "Api \<Rightarrow> Options \<Rightarrow> process \<Rightarrow> trigger \<times> (string + Snapshot) \<Rightarrow> process \<Rightarrow> bool" for a opts where
  handled: "ps_returned p = None \<Longrightarrow> armed opts trigger
    \<Longrightarrow> run_step a opts p (trigger, snap) (handle a opts trigger snap (ps_worker p))"

inductive_cases run_stepE [elim]: "run_step a opts p (trigger, snap) p'"
inductive_simps run_step_simp: "run_step a opts p (trigger, snap) p'"

inductive lives :: "Api \<Rightarrow> Options \<Rightarrow> (string + Snapshot) list \<Rightarrow> process \<Rightarrow> bool" for a opts where
  boot: "lives a opts [snap] (start_process a opts snap)"
| step: "lives a opts snaps p \<Longrightarrow> run_step a opts p (trigger, snap) p' \<Longrightarrow> lives a opts (snaps @ [snap]) p'"

section \<open>Status and metrics\<close>

record StreamStatus =
  ss_Connected :: bool
  ss_Since :: int
  ss_LastError :: string

definition stream_Down :: "StreamStatus \<Rightarrow> int \<Rightarrow> int" where
  "stream_Down s now = (if ss_Connected s \<or> ss_Since s = 0 then 0 else now - ss_Since s)"

definition StreamDownGrace :: int where
  "StreamDownGrace = 2 * 60 * second"

record Status =
  st_LastRun :: int
  st_Managed :: nat
  st_Failed :: int
  st_Err :: "run_error list"
  st_Stream :: StreamStatus
  st_Blocked :: "guard_reason option"

definition no_stream :: StreamStatus where
  "no_stream = \<lparr> ss_Connected = False, ss_Since = 0, ss_LastError = [] \<rparr>"

definition status_of :: "StreamStatus option \<Rightarrow> Worker \<Rightarrow> Status" where
  "status_of stream w = \<lparr> st_LastRun = w_lastRun w, st_Managed = cache_Len (w_cache w), st_Failed = w_lastFailed w,
     st_Err = w_lastErr w, st_Stream = (case stream of Some s \<Rightarrow> s | None \<Rightarrow> no_stream), st_Blocked = w_blocked w \<rparr>"

definition Ready :: "Status \<Rightarrow> int \<Rightarrow> bool" where
  "Ready s now = (if st_LastRun s = 0 \<or> st_Err s \<noteq> [] then False
     else \<not> stream_Down (st_Stream s) now > StreamDownGrace)"

record Metrics =
  mx_counters :: metrics
  mx_Managed :: nat
  mx_ManagedByKind :: "(Kind \<times> nat) list"
  mx_LastRun :: int

definition Metrics_of :: "Worker \<Rightarrow> Metrics" where
  "Metrics_of w = \<lparr> mx_counters = w_metrics w, mx_Managed = cache_Len (w_cache w),
     mx_ManagedByKind = Counts (w_cache w), mx_LastRun = w_lastRun w \<rparr>"

record ResourceStatus =
  rx_Kind :: Kind
  rx_Key :: string
  rx_entry :: Entry
  rx_LastError :: "run_error option"
  rx_RetryAfter :: "int option"

definition resource_status :: "failures \<Rightarrow> Kind \<Rightarrow> string \<times> Entry \<Rightarrow> ResourceStatus" where
  "resource_status fs kind = (\<lambda>(key, e).
     \<lparr> rx_Kind = kind, rx_Key = key, rx_entry = e,
       rx_LastError = map_option f_reason (fs (backoffKey kind key)),
       rx_RetryAfter = map_option f_until (fs (backoffKey kind key)) \<rparr>)"

definition Resources_of :: "Worker \<Rightarrow> ResourceStatus list" where
  "Resources_of w =
     (let snapshot = cache_Snapshot (w_cache w);
          out = concat (map (\<lambda>kind. map (resource_status (w_failures w) kind) (snapshot kind)) Kinds)
      in sort_key (\<lambda>s. (kind_String (rx_Kind s), rx_Key s)) out)"

section \<open>What every operation keeps\<close>

text \<open>The state is well formed: distinct keys in the cache, delays of the backoff within their
  bounds, and the remembered certificate text is that of the remembered certificates.\<close>

definition certs_ok :: "Api \<Rightarrow> Worker \<Rightarrow> bool" where
  "certs_ok a w \<longleftrightarrow> w_certHash w = certs_Hash (api_idna a) (w_certificates w)
     \<or> w_certHash w = [] \<and> w_certificates w = []"

definition worker_ok :: "Api \<Rightarrow> Worker \<Rightarrow> bool" where
  "worker_ok a w \<longleftrightarrow> cache_ok (w_cache w) \<and> failures_ok (w_failures w) \<and> certs_ok a w"

text \<open>\<open>same_refs\<close>: cache and certificates are untouched, and the backoff stays well formed.\<close>

definition same_refs :: "Worker \<Rightarrow> Worker \<Rightarrow> bool" where
  "same_refs w w' \<longleftrightarrow> w_cache w' = w_cache w \<and> w_certHash w' = w_certHash w
     \<and> w_certificates w' = w_certificates w \<and> (failures_ok (w_failures w) \<longrightarrow> failures_ok (w_failures w'))"

lemma same_refs_refl [simp]: "same_refs w w" and same_refs_trans: "same_refs w w' \<Longrightarrow> same_refs w' w'' \<Longrightarrow> same_refs w w''"
  by (auto simp: same_refs_def)

lemma worker_ok_quiet [simp]:
  "worker_ok a (countBlockedDeletion n w) = worker_ok a w"
  "worker_ok a (setStatus a' errs k b w) = worker_ok a w"
  by (simp_all add: worker_ok_def certs_ok_def countBlockedDeletion_def setStatus_def read_clock_def)

lemma worker_ok_same: "same_refs w w' \<Longrightarrow> worker_ok a w \<Longrightarrow> worker_ok a w'"
  by (simp add: same_refs_def worker_ok_def certs_ok_def)

lemma same_refs_called [simp]: "same_refs w (called c w') = same_refs w w'"
  by (simp add: same_refs_def called_def)

lemma same_refs_clock [simp]: "same_refs w (snd (read_clock a w')) = same_refs w w'"
  by (simp add: same_refs_def read_clock_def)

lemma same_refs_quiet [simp]:
  "same_refs w (warnUnsupported key t r d w') = same_refs w w'"
  "same_refs w (countCertificate c w') = same_refs w w'"
  "same_refs w (countBlockedDeletion n w') = same_refs w w'"
  "same_refs w (setStatus a errs k b w') = same_refs w w'"
  "same_refs w (trackStopped a ts w') = same_refs w w'"
  "same_refs w (record_run res f took w') = same_refs w w'"
  by (simp_all add: same_refs_def warnUnsupported_def countCertificate_def Let_def countBlockedDeletion_def
      setStatus_def trackStopped_def record_run_def read_clock_def)

lemma same_refs_backOff: "same_refs w w' \<Longrightarrow> same_refs w (backOff v key h e w')"
  by (auto simp: same_refs_def backOff_def noteFailure_def Let_def next_delay_bounds intro!: failures_ok_add)

lemma same_refs_succeeded: "same_refs w w' \<Longrightarrow> same_refs w (succeeded v key w')"
  by (auto simp: same_refs_def succeeded_def noteSuccess_def intro!: failures_ok_del)

lemma same_refs_deferred:
  "deferred kind key h now (w_failures w') = (x, fs) \<Longrightarrow> same_refs w w' \<Longrightarrow> same_refs w (w'\<lparr> w_failures := fs \<rparr>)"
  using failures_ok_deferred [of "w_failures w'" kind key h now] by (auto simp: same_refs_def)

lemma same_refs_applyEnabled: "applyEnabled a opts kind key i b b' w = (x, w') \<Longrightarrow> same_refs w w'"
  by (auto simp: applyEnabled_def Let_def split: if_splits option.splits)

lemma same_refs_create: "create a opts t r w = (x, w') \<Longrightarrow> same_refs w w'"
  by (auto simp: create_def Let_def split: if_splits sum.splits prod.splits
      dest!: same_refs_applyEnabled elim: same_refs_trans [rotated])

lemma same_refs_stampMarker: "stampMarker a opts key i current w = (x, w') \<Longrightarrow> same_refs w w'"
  by (auto simp: stampMarker_def Let_def split: if_splits sum.splits)

lemma same_refs_create_missing: "same_refs w (fst (create_missing a opts v key t r (w, p)))"
  by (auto simp: create_missing_def split: sum.splits option.splits prod.splits
      dest!: same_refs_create intro: same_refs_backOff same_refs_succeeded)

lemma same_refs_toggle: "same_refs w (fst (toggle_existing a opts v key t current r h changed (w, p)))"
  by (auto simp: toggle_existing_def Let_def split: sum.splits prod.splits
      dest!: same_refs_applyEnabled intro: same_refs_succeeded)

lemma same_refs_update: "same_refs w (fst (update_existing a opts v key t current r (w, p)))"
proof -
  have "same_refs w (fst (toggle_existing a opts v key t current r h changed (w', p)))" if "same_refs w w'" for h changed w'
    using same_refs_trans [OF that same_refs_toggle] .
  then show ?thesis
    by (auto simp: update_existing_def Let_def split: sum.splits prod.splits dest!: same_refs_stampMarker intro: same_refs_backOff)
qed

lemma same_refs_apply: "same_refs w (fst (apply_target a opts v key t live certificate (w, p)))"
proof -
  have "same_refs w (fst (create_missing a opts v key t r (w', p)))"
    "same_refs w (fst (update_existing a opts v key t current r (w', p)))" if "same_refs w w'" for r w' current
    using same_refs_trans [OF that same_refs_create_missing] same_refs_trans [OF that same_refs_update] .
  then show ?thesis
    by (auto simp: apply_target_def Let_def split: prod.splits option.splits dest: same_refs_deferred [where w = w])
qed

lemma same_refs_certificate: "resolveCertificate a opts t live w = (x, w') \<Longrightarrow> same_refs w w'"
  by (auto simp: resolveCertificate_def read_clock_def Let_def split: sum.splits option.splits prod.splits)
     (auto simp: same_refs_def)

lemma same_refs_target: "same_refs (fst s) (fst (reconcile_target a opts v x s))"
proof -
  have "same_refs w (fst (apply_target a opts v key t live c (w', p)))" if "same_refs w w'" for w w' key t live c p
    using same_refs_trans [OF that same_refs_apply] .
  then show ?thesis
    by (cases x; cases s)
       (auto simp: reconcile_target_def Let_def split: sum.splits prod.splits option.splits dest: same_refs_certificate)
qed

lemma same_refs_loop: "same_refs (fst s) (fst (fold (reconcile_target a opts v) xs s))"
proof (induction xs arbitrary: s)
  case (Cons x xs)
  from Cons [of "reconcile_target a opts v x s"] show ?case
    using same_refs_trans [OF same_refs_target [of s a opts v x]] by simp
qed simp

section \<open>Runs and the loop keep the state well formed\<close>

lemma cache_ok_Replace: "cache_ok c \<Longrightarrow> cache_ok (ReplaceKind kind es c)"
  by (auto simp: cache_ok_iff ReplaceKind_def distinct_copy_bucket)

lemma same_refs_stop: "applyStopPolicy a opts ts w = (kept, w') \<Longrightarrow> same_refs w w'"
  by (auto simp: applyStopPolicy_def read_clock_def Let_def same_refs_def split: if_splits)

lemma reconcileKind_ok: "worker_ok a w \<Longrightarrow> reconcileKind a opts kind ts snap w = (out, w') \<Longrightarrow> worker_ok a w'"
proof (cases "api_List a (w_trace w) kind")
  case (Inl e)
  assume "worker_ok a w" "reconcileKind a opts kind ts snap w = (out, w')"
  with Inl show ?thesis by (auto simp: reconcileKind_def Let_def split: if_splits elim: worker_ok_same [rotated])
next
  case (Inr live)
  assume ok: "worker_ok a w" and r: "reconcileKind a opts kind ts snap w = (out, w')"
  obtain kept w2 where k: "applyStopPolicy a opts ts (called (CList kind) w) = (kept, w2)" by fastforce
  obtain now w3 where n: "read_clock a w2 = (now, w3)" by fastforce
  have "same_refs w w2" using same_refs_trans [OF _ same_refs_stop [OF k]] by simp
  then have s3: "same_refs w w3" using same_refs_clock [of w a w2] by (simp add: n)
  have *: "worker_ok a (w4\<lparr> w_cache := ReplaceKind kind es (w_cache w4) \<rparr>)"
    if "fold (reconcile_target a opts v) xs (w3, p0) = (w4, p)" for w4 p es v xs p0
  proof -
    have "worker_ok a w4"
      using worker_ok_same [OF same_refs_trans [OF s3 same_refs_loop [of "(w3, p0)" a opts v xs, unfolded that fst_conv]] ok] .
    then show ?thesis by (simp add: worker_ok_def certs_ok_def cache_ok_Replace)
  qed
  from r Inr k n * show ?thesis by (auto simp: reconcileKind_def Let_def split: prod.splits)
qed

lemma run_kinds_ok: "worker_ok a w \<Longrightarrow> run_kinds a opts snap ks w = (outs, w') \<Longrightarrow> worker_ok a w'"
  by (induction ks arbitrary: w outs) (auto split: prod.splits dest: reconcileKind_ok)

lemma same_refs_deletes: "deleteOrphans a xs w = (x, w') \<Longrightarrow> same_refs w w'"
proof (induction xs arbitrary: w x)
  case (Cons y ys)
  obtain z w1 where d: "deleteOrphans a ys (called (CDelete (or_kind y) (or_id y)) w) = (z, w1)" by fastforce
  have "w1 = w'" using Cons(2) d by (auto simp: Let_def split: prod.splits option.splits if_splits)
  with Cons(1) [of _ z] d show ?case by (simp add: same_refs_def called_def)
qed simp

lemma delete_phase_ok:
  "worker_ok a w \<Longrightarrow> delete_phase a opts deletion xs n m snap w = (x, w') \<Longrightarrow> worker_ok a w'"
  by (auto simp: delete_phase_def Let_def split: if_splits option.splits prod.splits
      intro: worker_ok_same dest: same_refs_deletes)

lemma load_ok: "worker_ok a w \<Longrightarrow> worker_ok a (loadCertificates a w)"
  "worker_ok a w \<Longrightarrow> worker_ok a (loadAccessLists a b w)"
  by (auto simp: loadCertificates_def loadAccessLists_def Let_def worker_ok_def certs_ok_def called_def split: sum.splits)

lemma reconcile_ok:
  assumes ok: "worker_ok a w" and r: "reconcile a opts deletion snap w = (x, w')"
  shows "worker_ok a w'"
proof (cases snap)
  case (Inl e)
  with r ok show ?thesis by (auto simp: reconcile_def)
next
  case (Inr s)
  obtain res errs where x: "x = (res, errs)" by fastforce
  obtain w3 outs w4 del derrs blocked w5 where
    w3: "w3 = loadAccessLists a (needsAccessListNames (snap_Targets s)) (loadCertificates a (trackStopped a (snap_Targets s) w))"
    and rk: "run_kinds a opts s (o_Kinds opts) w3 = (outs, w4)"
    and dp: "delete_phase a opts deletion (concat (map ko_orphans outs)) (sum_list (map ko_owned outs))
       (sum_list (map ko_foreignPrefix outs)) s w4 = ((del, derrs, blocked), w5)"
    and w': "w' = setStatus a (fatals outs) (rs_Failed res) blocked w5"
    by (rule reconcile_parts [OF r [unfolded Inr x]], rule that, assumption+)
  have "worker_ok a (trackStopped a (snap_Targets s) w)" by (rule worker_ok_same [OF _ ok]) simp
  then have "worker_ok a w3" by (simp add: w3 load_ok)
  from delete_phase_ok [OF run_kinds_ok [OF this rk] dp] show ?thesis
    unfolding w' by (rule worker_ok_same [rotated]) simp
qed

lemma reconcile_recorded_ok: "worker_ok a w \<Longrightarrow> worker_ok a (snd (reconcile_recorded a opts snap w))"
proof -
  assume ok: "worker_ok a w"
  obtain started w1 where s: "read_clock a w = (started, w1)" by fastforce
  obtain x w2 where r: "reconcile a opts (o_DeleteOrphans opts) snap w1 = (x, w2)" by fastforce
  have "same_refs w w1" using same_refs_clock [of w a w] by (simp add: s)
  then have "worker_ok a w1" using ok worker_ok_same by blast
  from reconcile_ok [OF this r] have "worker_ok a (record_run res b took (snd (read_clock a w2)))" for res b took
    by (rule worker_ok_same [rotated]) simp
  with s r show ?thesis by (auto simp: reconcile_recorded_def Let_def split: prod.splits)
qed

lemma poll_ok: "worker_ok a w \<Longrightarrow> PollCertificates a w = (b, w') \<Longrightarrow> worker_ok a w'"
  by (auto simp: PollCertificates_def Let_def worker_ok_def certs_ok_def called_def split: sum.splits if_splits)

lemma handle_ok: "worker_ok a w \<Longrightarrow> worker_ok a (ps_worker (handle a opts trigger snap w))"
proof (cases trigger)
  case ResyncTick
  assume "worker_ok a w"
  then have "worker_ok a (called CRecheck w)" by (rule worker_ok_same [rotated]) simp
  with ResyncTick show ?thesis by (simp add: reconcile_recorded_ok)
next
  case CertificateTick
  assume "worker_ok a w"
  with CertificateTick show ?thesis by (auto simp: reconcile_recorded_ok dest: poll_ok split: prod.splits)
next
  case Shutdown
  assume "worker_ok a w"
  with Shutdown show ?thesis by (auto simp: flush_def dest: reconcile_ok split: prod.splits)
qed (simp add: reconcile_recorded_ok)

lemma NewWorker_ok: "worker_ok a NewWorker"
  by (simp add: worker_ok_def NewWorker_def certs_ok_def)

lemma lives_ok: "lives a opts snaps p \<Longrightarrow> worker_ok a (ps_worker p)"
  by (induction rule: lives.induct)
     (auto simp: start_process_def reconcile_recorded_ok NewWorker_ok run_step_simp handle_ok)

section \<open>The calls of a life\<close>

text \<open>A predicate on calls that holds of every write the specification allows, and of every read,
  holds of every call of a process.\<close>

lemma reconcile_calls:
  assumes r: "reconcile a opts deletion snap w = (x, w')"
    and P: "\<And>c. \<not> is_write c \<Longrightarrow> P c" "\<And>s idx h c. allowed a opts deletion s idx (w_trace w) h c \<Longrightarrow> P c"
    and old: "\<forall>c\<in>set (w_trace w). P c"
  shows "\<forall>c\<in>set (w_trace w'). P c"
proof (cases snap)
  case (Inl e)
  with r old show ?thesis by (auto simp: reconcile_def)
next
  case (Inr s)
  obtain res errs where x: "x = (res, errs)" by fastforce
  note e = reconcile_emits [OF r [unfolded Inr x]]
  have "P c" if c: "c \<in> set (new_calls w w')" for c
  proof -
    from split_list [OF c] obtain xs ys where "new_calls w w' = xs @ c # ys" by blast
    with e have "permitted a opts deletion s (refs_of w') (w_trace w) (w_trace w @ xs) c"
      using emits_new [OF e] by (auto simp: emits_def)
    then show ?thesis using P unfolding permitted_def by blast
  qed
  with old emits_new [OF e] show ?thesis by auto
qed

lemma recorded_calls:
  assumes P: "\<And>c. \<not> is_write c \<Longrightarrow> P c"
      "\<And>s idx start h c. allowed a opts (o_DeleteOrphans opts) s idx start h c \<Longrightarrow> P c"
    and old: "\<forall>c\<in>set (w_trace w). P c"
  shows "\<forall>c\<in>set (w_trace (snd (reconcile_recorded a opts snap w))). P c"
proof -
  obtain started w1 where s: "read_clock a w = (started, w1)" by fastforce
  obtain x w2 where r: "reconcile a opts (o_DeleteOrphans opts) snap w1 = (x, w2)" by fastforce
  have "w_trace w1 = w_trace w" using read_clock_quiet [OF s] by simp
  with old have "\<forall>c\<in>set (w_trace w2). P c" using reconcile_calls [OF r, of P] P by metis
  with s r show ?thesis
    by (auto simp: reconcile_recorded_def Let_def record_run_def read_clock_def split: prod.splits)
qed

lemma poll_calls: "PollCertificates a w = (b, w') \<Longrightarrow> w_trace w' = w_trace w @ [CListCertificates]"
  by (auto simp: PollCertificates_def Let_def called_def split: sum.splits if_splits)

lemma lives_calls:
  assumes "lives a opts snaps p"
    and P: "\<And>c. \<not> is_write c \<Longrightarrow> P c"
      "\<And>deletion s idx start h c. deletion \<longrightarrow> o_DeleteOrphans opts \<Longrightarrow> allowed a opts deletion s idx start h c \<Longrightarrow> P c"
  shows "\<forall>c\<in>set (w_trace (ps_worker p)). P c"
proof -
  have rec: "\<forall>c\<in>set (w_trace (snd (reconcile_recorded a opts snap w))). P c"
    if "\<forall>c\<in>set (w_trace w). P c" for w snap
    by (rule recorded_calls [OF P(1) P(2) [of "o_DeleteOrphans opts"] that]) simp_all
  show ?thesis
    using assms(1)
  proof (induction rule: lives.induct)
    case (boot snap)
    have "\<forall>c\<in>set (w_trace NewWorker). P c" by (simp add: NewWorker_def)
    from rec [OF this] show ?case by (simp add: start_process_def)
  next
    case (step snaps p trigger snap p')
    let ?w = "ps_worker p"
    from step(2) have p': "p' = handle a opts trigger snap ?w" by (auto simp: run_step_simp)
    show ?case
    proof (cases trigger)
      case ResyncTick
      have "\<forall>c\<in>set (w_trace (called CRecheck ?w)). P c" using step.IH P(1) [of CRecheck] by (simp add: called_def)
      from rec [OF this] ResyncTick show ?thesis by (simp add: p')
    next
      case CertificateTick
      obtain b w1 where b: "PollCertificates a ?w = (b, w1)" by fastforce
      from step.IH have "\<forall>c\<in>set (w_trace w1). P c" using P(1) [of CListCertificates] by (simp add: poll_calls [OF b])
      with rec [OF this] b CertificateTick show ?thesis by (simp add: p')
    next
      case Shutdown
      obtain x w1 where x: "reconcile a opts False snap ?w = (x, w1)" by fastforce
      have "\<forall>c\<in>set (w_trace w1). P c"
        by (rule reconcile_calls [OF x P(1) P(2) [of False] step.IH]) simp_all
      with x Shutdown show ?thesis by (simp add: p' flush_def split: prod.splits)
    next
      case Batch
      from rec [OF step.IH] Batch show ?thesis by (simp add: p')
    qed
qed
qed

section \<open>Errors of a run\<close>

text \<open>Docker or a whole collection out of reach, as against a single host.\<close>

fun infrastructure :: "run_error \<Rightarrow> bool" where
  "infrastructure (SnapshotFailed _) = True"
| "infrastructure (ListFailed _ _) = True"
| "infrastructure _ = False"

definition host_errors :: "progress \<Rightarrow> bool" where
  "host_errors p \<longleftrightarrow> list_all (\<lambda>e. \<not> infrastructure e) (pr_errs p)"

lemma host_errors_simps [simp]:
  "host_errors (p_skipped p) = host_errors p" "host_errors (p_unchanged p) = host_errors p"
  "host_errors (p_updated p) = host_errors p" "host_errors (p_created p) = host_errors p"
  "host_errors (p_keep key entry p) = host_errors p"
  "host_errors (p_failed e p) = (host_errors p \<and> \<not> infrastructure e)"
  by (auto simp: host_errors_def p_skipped_def p_unchanged_def p_updated_def p_created_def p_keep_def p_failed_def)

lemma host_error_write:
  "applyEnabled a opts kind key i b b' w = (Inl e, w') \<Longrightarrow> \<not> infrastructure e"
  "create a opts t r w = (Inl e, w') \<Longrightarrow> \<not> infrastructure e"
  "stampMarker a opts key i current w = (Inl e, w') \<Longrightarrow> \<not> infrastructure e"
  by (auto simp: applyEnabled_def create_def stampMarker_def Let_def split: if_splits sum.splits option.splits prod.splits)

lemma host_errors_toggle: "host_errors p \<Longrightarrow> host_errors (snd (toggle_existing a opts v key t current r h changed (w, p)))"
  by (auto simp: toggle_existing_def Let_def split: sum.splits prod.splits dest: host_error_write)

lemma host_errors_create: "host_errors p \<Longrightarrow> host_errors (snd (create_missing a opts v key t r (w, p)))"
  by (auto simp: create_missing_def split: sum.splits prod.splits option.splits dest: host_error_write)

lemma host_errors_update: "host_errors p \<Longrightarrow> host_errors (snd (update_existing a opts v key t current r (w, p)))"
  by (auto simp: update_existing_def Let_def split: sum.splits prod.splits
      dest: host_error_write intro: host_errors_toggle)

lemma host_errors_apply: "host_errors p \<Longrightarrow> host_errors (snd (apply_target a opts v key t live certificate (w, p)))"
  by (auto simp: apply_target_def Let_def split: prod.splits option.splits intro: host_errors_create host_errors_update)

lemma host_error_lists: "resolveAccessLists index t = Inl e \<Longrightarrow> \<not> infrastructure e"
proof -
  have "map_result (resolve_location index) ls = Inl e \<Longrightarrow> \<not> infrastructure e" for ls
    by (induction ls) (auto simp: resolve_location_def rbind_Inl_iff map_err_Inl_iff)
  then show "resolveAccessLists index t = Inl e \<Longrightarrow> \<not> infrastructure e"
    by (auto simp: resolveAccessLists_def rbind_Inl_iff map_err_Inl_iff)
qed

lemma host_error_certificate: "resolveCertificate a opts t live w = (Inl e, w') \<Longrightarrow> \<not> infrastructure e"
  by (auto simp: resolveCertificate_def certificate_choice_def Let_def split: sum.splits prod.splits if_splits)

lemma host_errors_target: "host_errors (snd s) \<Longrightarrow> host_errors (snd (reconcile_target a opts v x s))"
  by (cases x; cases s)
     (auto simp: reconcile_target_def Let_def split: sum.splits prod.splits option.splits
       dest: host_error_lists host_error_certificate intro: host_errors_apply)

lemma host_errors_loop: "host_errors (snd s) \<Longrightarrow> host_errors (snd (fold (reconcile_target a opts v) xs s))"
  by (induction xs arbitrary: s) (simp_all add: host_errors_target)

lemma kind_partial: "reconcileKind a opts kind ts snap w = (out, w') \<Longrightarrow> list_all (\<lambda>e. \<not> infrastructure e) (ko_partial out)"
proof (cases "api_List a (w_trace w) kind")
  case (Inl e)
  assume "reconcileKind a opts kind ts snap w = (out, w')"
  with Inl show ?thesis by (auto simp: reconcileKind_def zero_outcome_def Let_def split: if_splits)
next
  case (Inr live)
  assume r: "reconcileKind a opts kind ts snap w = (out, w')"
  have *: "list_all (\<lambda>e. \<not> infrastructure e) (pr_errs p)"
    if "fold (reconcile_target a opts v) xs (w3, \<lparr> pr_result = res, pr_next = [], pr_errs = [] \<rparr>) = (w4, p)" for v xs w3 res w4 p
    using host_errors_loop [of "(w3, \<lparr> pr_result = res, pr_next = [], pr_errs = [] \<rparr>)" a opts v xs, unfolded that]
    by (simp add: host_errors_def)
  from r Inr show ?thesis by (auto simp: reconcileKind_def Let_def split: prod.splits dest: *)
qed

lemma kinds_partial:
  "run_kinds a opts snap ks w = (outs, w') \<Longrightarrow> list_all (\<lambda>e. \<not> infrastructure e) (concat (map ko_partial outs))"
  by (induction ks arbitrary: w outs) (auto split: prod.splits dest: kind_partial)

lemma delete_errors: "deleteOrphans a xs w = ((n, errs), w') \<Longrightarrow> list_all (\<lambda>e. \<not> infrastructure e) errs"
  by (induction xs arbitrary: w n errs w') (auto simp: Let_def split: prod.splits option.splits if_splits)

lemma delete_phase_errors:
  "delete_phase a opts deletion xs n m snap w = ((del, errs, blocked), w') \<Longrightarrow> list_all (\<lambda>e. \<not> infrastructure e) errs"
  by (auto simp: delete_phase_def Let_def split: if_splits option.splits prod.splits dest: delete_errors)

lemma kind_fatal: "reconcileKind a opts kind ts snap w = (out, w') \<Longrightarrow> ko_fatal out = Some e \<Longrightarrow> infrastructure e"
  by (auto simp: reconcileKind_def Let_def zero_outcome_def split: sum.splits if_splits prod.splits)

lemma kinds_fatal: "run_kinds a opts snap ks w = (outs, w') \<Longrightarrow> list_all infrastructure (fatals outs)"
  by (induction ks arbitrary: w outs) (auto simp: fatals_def split: prod.splits option.splits dest: kind_fatal)

lemma run_status:
  assumes "reconcile a opts deletion snap w = ((res, errs), w')"
  shows "w_lastErr w' = filter infrastructure errs"
proof (cases snap)
  case (Inl e)
  with assms show ?thesis by (auto simp: reconcile_def setStatus_def read_clock_def)
next
  case (Inr s)
  obtain w3 outs w4 del derrs blocked w5 where
    w3: "w3 = loadAccessLists a (needsAccessListNames (snap_Targets s)) (loadCertificates a (trackStopped a (snap_Targets s) w))"
    and rk: "run_kinds a opts s (o_Kinds opts) w3 = (outs, w4)"
    and dp: "delete_phase a opts deletion (concat (map ko_orphans outs)) (sum_list (map ko_owned outs))
       (sum_list (map ko_foreignPrefix outs)) s w4 = ((del, derrs, blocked), w5)"
    and errs: "errs = fatals outs @ concat (map ko_partial outs) @ derrs"
    and w': "w' = setStatus a (fatals outs) (rs_Failed res) blocked w5"
    by (rule reconcile_parts [OF assms [unfolded Inr]], rule that, assumption+)
  have "filter infrastructure (concat (map ko_partial outs)) = []" "filter infrastructure derrs = []"
      "filter infrastructure (fatals outs) = fatals outs"
    using kinds_partial [OF rk] delete_phase_errors [OF dp] kinds_fatal [OF rk]
    by (auto simp: list_all_iff filter_empty_conv filter_id_conv)
  then show ?thesis by (simp add: errs w' setStatus_def read_clock_def)
qed

section \<open>Properties\<close>



text \<open>The switches hold for the whole life of the process: with DRY_RUN it never sends a request
  that changes the server, and without DELETE_ORPHANS it never sends a DELETE.\<close>

theorem process_respects_switches:
  assumes "lives a opts snaps p" "c \<in> set (w_trace (ps_worker p))"
  shows "(o_DryRun opts \<longrightarrow> \<not> is_write c) \<and> (\<not> o_DeleteOrphans opts \<longrightarrow> \<not> is_delete c)"
proof -
  have "\<forall>c\<in>set (w_trace (ps_worker p)). (o_DryRun opts \<longrightarrow> \<not> is_write c) \<and> (\<not> o_DeleteOrphans opts \<longrightarrow> \<not> is_delete c)"
  proof (rule lives_calls [OF assms(1)])
    fix c :: call
    show "\<not> is_write c \<Longrightarrow> (o_DryRun opts \<longrightarrow> \<not> is_write c) \<and> (\<not> o_DeleteOrphans opts \<longrightarrow> \<not> is_delete c)" by (cases c) auto
  next
    fix deletion s idx start h c
    assume "deletion \<longrightarrow> o_DeleteOrphans opts" "allowed a opts deletion s idx start h c"
    then show "(o_DryRun opts \<longrightarrow> \<not> is_write c) \<and> (\<not> o_DeleteOrphans opts \<longrightarrow> \<not> is_delete c)"
      by - (erule allowed.cases, auto)
  qed
  with assms(2) show ?thesis by blast
qed

theorem process_respects_switches_witness:
  "list_all (\<lambda>c. \<not> is_write c)
     (w_trace (ps_worker (start_process (ex_api [ex_gone]) (ex_options\<lparr> o_DryRun := True \<rparr>) (Inr (ex_snapshot [] 1)))))"
  using process_respects_switches [OF lives.boot [of "ex_api [ex_gone]" "ex_options\<lparr> o_DryRun := True \<rparr>" "Inr (ex_snapshot [] 1)"]]
  by (simp add: list_all_iff)

text \<open>C21: readiness means infrastructure. After a run the status carries exactly those errors of the
  run that concern Docker or a whole collection; the readiness probe fails for them and for an
  event stream that is down for more than two minutes, and for nothing else: a host the server
  rejects never makes the process unready.\<close>

theorem readiness_means_infrastructure:
  assumes "reconcile a opts deletion snap w = ((res, errs), w')" "w_lastRun w' \<noteq> 0"
  shows "st_Err (status_of stream w') = filter infrastructure errs
    \<and> (Ready (status_of stream w') now \<longleftrightarrow>
        \<not> list_ex infrastructure errs
        \<and> (case stream of Some s \<Rightarrow> stream_Down s now \<le> 120 * second | None \<Rightarrow> True))"
  using run_status [OF assms(1)] assms(2)
  by (auto simp: Ready_def status_of_def no_stream_def stream_Down_def StreamDownGrace_def second_def
      filter_empty_conv list_ex_iff split: option.splits)

theorem readiness_means_infrastructure_witness:
  "\<not> Ready (status_of None (snd (reconcile (ex_api []) ex_options True (Inl ''down'') (NewWorker\<lparr> w_ticks := 5 \<rparr>)))) 9"
proof -
  let ?r = "reconcile (ex_api []) ex_options True (Inl ''down'') (NewWorker\<lparr> w_ticks := 5 \<rparr>)"
  have r: "?r = ((fst (fst ?r), snd (fst ?r)), snd ?r)" by simp
  have o: "w_lastRun (snd ?r) \<noteq> 0" "list_ex infrastructure (snd (fst ?r))"
    by (simp_all add: reconcile_def setStatus_def read_clock_def ex_api_def)
  from readiness_means_infrastructure [OF r o(1), of None 9] o(2) show ?thesis by simp
qed

text \<open>C22: the process can be shut down at every moment, and then ends: the flush is the last thing it
  does, its errors are the result, it deletes nothing. No other trigger ends the process.\<close>

theorem shutdown_ends_the_process:
  assumes "lives a opts snaps p" "ps_returned p = None"
  shows "(\<exists>p'. run_step a opts p (Shutdown, snap) p' \<and> lives a opts (snaps @ [snap]) p'
      \<and> ps_returned p' = Some (snd (fst (reconcile a opts False snap (ps_worker p))))
      \<and> filter is_delete (new_calls (ps_worker p) (ps_worker p')) = []
      \<and> (\<forall>x p''. \<not> run_step a opts p' x p''))
    \<and> (\<forall>trigger p'. run_step a opts p (trigger, snap) p' \<longrightarrow> trigger = Shutdown \<or> ps_returned p' = None)"
proof -
  obtain res errs w' where r: "reconcile a opts False snap (ps_worker p) = ((res, errs), w')" by (metis surj_pair)
  let ?p' = "\<lparr> ps_worker = w', ps_returned = Some errs \<rparr>"
  have s: "run_step a opts p (Shutdown, snap) ?p'" using assms(2) by (simp add: run_step_simp flush_def r)
  have "filter is_delete (new_calls (ps_worker p) w') = []"
  proof (cases snap)
    case (Inl e)
    with r have "w_trace w' = w_trace (ps_worker p)" using reconcile_no_snapshot by blast
    then show ?thesis by (simp add: new_calls_def)
  next
    case (Inr sn)
    note e = reconcile_emits [OF r [unfolded Inr]]
    have "\<not> is_delete c" if "c \<in> set (new_calls (ps_worker p) w')" for c
    proof -
      from split_list [OF that] obtain xs ys where "new_calls (ps_worker p) w' = xs @ c # ys" by blast
      with e have "permitted a opts False sn (refs_of w') (w_trace (ps_worker p)) (w_trace (ps_worker p) @ xs) c"
        using emits_new [OF e] by (auto simp: emits_def)
      moreover have "is_delete c \<Longrightarrow> is_write c" by (cases c) auto
      ultimately show ?thesis using allowed_no_delete permitted_def by blast
    qed
    then show ?thesis by (auto simp: filter_empty_conv)
  qed
  moreover have "trigger = Shutdown \<or> ps_returned p' = None" if "run_step a opts p (trigger, snap) p'" for trigger p'
    using that by (cases trigger) (auto simp: run_step_simp Let_def split: prod.splits)
  ultimately show ?thesis
    using lives.step [OF assms(1) s] s r by (auto intro!: exI [of _ ?p'] elim: run_step.cases)
qed

theorem shutdown_ends_the_process_witness:
  "\<exists>p'. run_step (ex_api []) ex_options (start_process (ex_api []) ex_options (Inl ''down'')) (Shutdown, Inl ''down'') p'"
  using shutdown_ends_the_process [OF lives.boot [of "ex_api []" ex_options "Inl ''down''"], of "Inl ''down''"]
  by (auto simp: start_process_def)

end
