(* ===== verification/Refinement.thy ===== *)
theory Refinement
  imports RunLoop
begin

text \<open>
  The whole process against its abstract specification. The abstract machine knows snapshots and the
  calls made so far, nothing of caches, backoff, stages or tickers: it may read whenever it likes,
  take note of a new snapshot, and write only what the contract of \<open>Contract\<close> allows for the last
  snapshot, judged by what the server answered since then. Every life of the process, with all its
  triggers, is a run of this machine.
\<close>

section \<open>The abstract machine\<close>

inductive machine ::
  "Api \<Rightarrow> Options \<Rightarrow> (string + Snapshot) list \<Rightarrow> bool \<Rightarrow> refs \<Rightarrow> history \<Rightarrow> history \<Rightarrow> bool" for a opts where
  off: "machine a opts [] False idx [] []"
| query: "machine a opts snaps deletion idx start h \<Longrightarrow> \<not> is_write c \<Longrightarrow> machine a opts snaps deletion idx start (h @ [c])"
| wake: "machine a opts snaps deletion idx start h \<Longrightarrow> deletion' \<longrightarrow> o_DeleteOrphans opts
    \<Longrightarrow> machine a opts (snaps @ [snap]) deletion' idx' h h"
| written: "machine a opts (snaps @ [Inr snap]) deletion idx start h \<Longrightarrow> allowed a opts deletion snap idx start h c
    \<Longrightarrow> machine a opts (snaps @ [Inr snap]) deletion idx start (h @ [c])"

lemma machine_emits:
  assumes "emits (permitted a opts deletion snap idx start) w w'"
    and "machine a opts (snaps @ [Inr snap]) deletion idx start (w_trace w)"
  shows "machine a opts (snaps @ [Inr snap]) deletion idx start (w_trace w')"
proof -
  have "machine a opts (snaps @ [Inr snap]) deletion idx start (w_trace w @ new)"
    if "\<forall>xs c ys. new = xs @ c # ys \<longrightarrow> permitted a opts deletion snap idx start (w_trace w @ xs) c" for new
    using that
  proof (induction new rule: rev_induct)
    case Nil
    with assms(2) show ?case by simp
  next
    case (snoc c new)
    from snoc.prems have p: "permitted a opts deletion snap idx start (w_trace w @ new) c" by simp
    have "\<forall>xs d ys. new = xs @ d # ys \<longrightarrow> permitted a opts deletion snap idx start (w_trace w @ xs) d"
      using snoc.prems by (metis append.assoc append_Cons)
    then have m: "machine a opts (snaps @ [Inr snap]) deletion idx start (w_trace w @ new)" by (rule snoc.IH)
    show ?case
    proof (cases "is_write c")
      case True
      with p machine.written [OF m, of c] show ?thesis by (simp add: permitted_def)
    next
      case False
      from machine.query [OF m False] show ?thesis by simp
    qed
  qed
  then show ?thesis using assms(1) unfolding emits_def by auto
qed

section \<open>One run, one trigger\<close>

definition reachable :: "Api \<Rightarrow> Options \<Rightarrow> (string + Snapshot) list \<Rightarrow> Worker \<Rightarrow> bool" where
  "reachable a opts snaps w \<longleftrightarrow> (\<exists>deletion idx start. machine a opts snaps deletion idx start (w_trace w))"

lemma reachable_same: "reachable a opts snaps w \<Longrightarrow> w_trace w' = w_trace w \<Longrightarrow> reachable a opts snaps w'"
  by (simp add: reachable_def)

lemma reachable_wake: "reachable a opts snaps w \<Longrightarrow> reachable a opts (snaps @ [snap]) w"
  unfolding reachable_def using machine.wake [of a opts snaps _ _ _ _ False] by blast

lemma reachable_read:
  "reachable a opts snaps w \<Longrightarrow> \<not> is_write c \<Longrightarrow> w_trace w' = w_trace w @ [c] \<Longrightarrow> reachable a opts snaps w'"
  unfolding reachable_def by (elim exE, simp only:) (blast intro: machine.query)

lemma reachable_reconcile:
  assumes "reachable a opts snaps w" "reconcile a opts deletion snap w = (x, w')" "deletion \<longrightarrow> o_DeleteOrphans opts"
  shows "reachable a opts (snaps @ [snap]) w'"
proof (cases snap)
  case (Inl e)
  obtain res errs where x: "x = (res, errs)" by fastforce
  have "w_trace w' = w_trace w" using reconcile_no_snapshot assms(2) unfolding Inl x by blast
  with assms(1) show ?thesis by (blast intro: reachable_wake reachable_same)
next
  case (Inr s)
  obtain res errs where x: "x = (res, errs)" by fastforce
  obtain d idx start where "machine a opts snaps d idx start (w_trace w)" using assms(1) by (auto simp: reachable_def)
  then have "machine a opts (snaps @ [Inr s]) deletion (refs_of w') (w_trace w) (w_trace w)"
    by (rule machine.wake) (rule assms(3))
  with machine_emits [OF reconcile_emits [OF assms(2) [unfolded Inr x]]] show ?thesis
    unfolding reachable_def Inr by blast
qed

lemma reachable_recorded:
  assumes "reachable a opts snaps w"
  shows "reachable a opts (snaps @ [snap]) (snd (reconcile_recorded a opts snap w))"
proof -
  obtain started w1 where s: "read_clock a w = (started, w1)" by fastforce
  obtain x w2 where r: "reconcile a opts (o_DeleteOrphans opts) snap w1 = (x, w2)" by fastforce
  have "reachable a opts snaps w1" by (rule reachable_same [OF assms]) (use read_clock_quiet [OF s] in simp)
  from reachable_reconcile [OF this r] have "reachable a opts (snaps @ [snap]) w2" by simp
  then show ?thesis
    by (rule reachable_same) (use s r in \<open>auto simp: reconcile_recorded_def Let_def record_run_def read_clock_def split: prod.splits\<close>)
qed

lemma reachable_handle:
  assumes "reachable a opts snaps w"
  shows "reachable a opts (snaps @ [snap]) (ps_worker (handle a opts trigger snap w))"
proof (cases trigger)
  case Batch
  then show ?thesis using reachable_recorded [OF assms] by simp
next
  case ResyncTick
  have "reachable a opts snaps (called CRecheck w)" by (rule reachable_read [OF assms, of CRecheck]) (simp_all add: called_def)
  then show ?thesis using ResyncTick reachable_recorded by simp
next
  case CertificateTick
  obtain b w1 where p: "PollCertificates a w = (b, w1)" by fastforce
  have "reachable a opts snaps w1" by (rule reachable_read [OF assms _ poll_calls [OF p]]) simp
  then show ?thesis using CertificateTick p by (simp add: reachable_recorded reachable_wake)
next
  case Shutdown
  obtain x w' where r: "reconcile a opts False snap w = (x, w')" by fastforce
  have "reachable a opts (snaps @ [snap]) w'" by (rule reachable_reconcile [OF assms r]) simp
  then show ?thesis using Shutdown r by (cases x) (simp add: flush_def)
qed

section \<open>Properties\<close>

text \<open>C1: the process implements its specification. Whatever triggers come, in whatever order and with
  whatever snapshots, and whatever the server answers, the calls the process has made are a run of the
  abstract machine on the same snapshots: every write was allowed by the contract for the snapshot of
  its own run, judged by the lists fetched in that run.\<close>

theorem process_refines_specification:
  assumes "lives a opts snaps p"
  shows "\<exists>deletion idx start. machine a opts snaps deletion idx start (w_trace (ps_worker p))"
proof -
  have "reachable a opts snaps (ps_worker p)"
    using assms
  proof (induction rule: lives.induct)
    case (boot snap)
    have "machine a opts [] False (\<lambda>_. None, []) [] (w_trace NewWorker)" using machine.off by (simp add: NewWorker_def)
    then have "reachable a opts [] NewWorker" unfolding reachable_def by (intro exI)
    from reachable_recorded [OF this] show ?case by (simp add: start_process_def)
  next
    case (step snaps p trigger snap p')
    then show ?case using reachable_handle by (auto simp: run_step_simp)
  qed
  then show ?thesis by (simp add: reachable_def)
qed

theorem process_refines_specification_witness:
  "\<exists>(w :: Worker) deletion idx start. machine (ex_api [ex_gone]) ex_options [Inr (ex_snapshot [] 1)] deletion idx start (w_trace w)
     \<and> CDelete KindDead 9 \<in> set (w_trace w)"
proof -
  let ?a = "ex_api [ex_gone]" and ?s = "Inr (ex_snapshot [] 1)"
  let ?t = "w_trace (snd (reconcile ?a ex_options True ?s (NewWorker\<lparr> w_ticks := 1 \<rparr>)))"
  have "list_ex (\<lambda>c. case c of CDelete k i \<Rightarrow> k = KindDead \<and> i = 9 | _ \<Rightarrow> False) ?t" by code_simp
  then obtain c where "c \<in> set ?t" "case c of CDelete k i \<Rightarrow> k = KindDead \<and> i = 9 | _ \<Rightarrow> False" by (auto simp: list_ex_iff)
  then have "CDelete KindDead 9 \<in> set ?t" by - (cases c, auto)
  moreover have "w_trace (ps_worker (start_process ?a ex_options ?s)) = ?t"
    by (simp add: start_process_def reconcile_recorded_def read_clock_def record_run_def Let_def split_def NewWorker_def
        ex_options_def)
  ultimately have "CDelete KindDead 9 \<in> set (w_trace (ps_worker (start_process ?a ex_options ?s)))" by simp
  moreover obtain deletion idx start where
    "machine ?a ex_options [?s] deletion idx start (w_trace (ps_worker (start_process ?a ex_options ?s)))"
    using process_refines_specification [OF lives.boot [of ?a ex_options ?s]] by (elim exE)
  ultimately show ?thesis by (intro exI [of _ "ps_worker (start_process ?a ex_options ?s)"] exI conjI)
qed

end
