(* ===== verification/Writes.thy ===== *)
theory Writes
  imports Safety
begin

text \<open>
  What the bodies of a run's writes contain: the owner's stamp, the resolved access lists, the
  stored configuration of a stopped container's resource; and what the cache hides.
\<close>

section \<open>Lemmas\<close>

lemma ownership_desired:
  "ownership (ResourceMeta (desired_resource opts d t certificate live)) =
     \<lparr> own_managedBy = ManagedByValue, own_container = t_ContainerName t, own_index = t_Index t,
       own_instance = o_InstanceID opts \<rparr>"
  by (simp add: desired_resource_def Let_def stamped stamped_adopted split: option.split)

lemma owns_desired: "owns opts (desired_resource opts d t certificate live)"
  using stamp_owner [OF ownership_desired [of opts d t certificate live]]
  by (simp add: owns_def Let_def OwnedByInstance_def)

lemma adopt_location_lists [simp]:
  "loc_AccessListIDs (adopt_location live l) = loc_AccessListIDs l"
  "loc_AccessListNames (adopt_location live l) = loc_AccessListNames l"
  by (simp_all add: adopt_location_def Let_def split: option.split)

lemma stripPlus_names [simp]: "loc_AccessListNames (stripPlus l) = loc_AccessListNames l"
  by (simp add: stripPlus_def)

lemma build_is_proxy:
  "BuildResource t c inst pre = Proxy h \<Longrightarrow> t_Kind t = KindProxy \<and> h = build_proxy t c (buildMeta t c inst pre) (normalizeSSL t c)"
  by (auto simp: BuildResource_def Let_def split: Kind.splits)

lemma adopted_lists:
  "ph_AccessListIDs (ph_AdoptServerState g c) = ph_AccessListIDs g"
  "ph_AccessListNames (ph_AdoptServerState g c) = ph_AccessListNames g"
  "map loc_AccessListNames (ph_Locations (ph_AdoptServerState g c)) = map loc_AccessListNames (ph_Locations g)"
  "map loc_AccessListIDs (ph_Locations (ph_AdoptServerState g c)) = map loc_AccessListIDs (ph_Locations g)"
  by (simp_all add: ph_AdoptServerState_def adoptLocationDefaults_def comp_def split: Resource.split)

lemma desired_proxy_lists:
  assumes "desired_resource opts d t certificate live = Proxy h"
  shows "ph_AccessListIDs h = t_AccessListIDs t" "ph_AccessListNames h = t_AccessListNames t"
    "map loc_AccessListNames (ph_Locations h) = map loc_AccessListNames (t_Locations t)"
    "d_Flavour d \<noteq> FlavourNPM \<Longrightarrow> map loc_AccessListIDs (ph_Locations h) = map loc_AccessListIDs (t_Locations t)"
proof -
  obtain h0 where h0: "BuildResource t certificate (o_InstanceID opts) (o_LabelPrefix opts) = Proxy h0"
    using assms by (cases "BuildResource t certificate (o_InstanceID opts) (o_LabelPrefix opts)")
      (auto simp: desired_resource_def Let_def Conform_def split: option.splits if_splits)
  let ?h1 = "ph_conform d (if d_Flavour d = FlavourNPM then ph_stripPlus h0 else h0)"
  have h: "h = (case live of Some c \<Rightarrow> ph_AdoptServerState ?h1 c | None \<Rightarrow> ?h1)"
    using assms by (auto simp: desired_resource_def Let_def Conform_def h0 split: option.splits if_splits)
  have b: "ph_AccessListIDs h0 = t_AccessListIDs t" "ph_AccessListNames h0 = t_AccessListNames t" "ph_Locations h0 = t_Locations t"
    using build_is_proxy [OF h0] by (simp_all add: build_proxy_def)
  have h1: "ph_AccessListIDs ?h1 = t_AccessListIDs t" "ph_AccessListNames ?h1 = t_AccessListNames t"
    "map loc_AccessListNames (ph_Locations ?h1) = map loc_AccessListNames (t_Locations t)"
    "d_Flavour d \<noteq> FlavourNPM \<Longrightarrow> map loc_AccessListIDs (ph_Locations ?h1) = map loc_AccessListIDs (t_Locations t)"
    by (simp_all add: ph_conform_def ph_stripPlus_def b comp_def)
  have e: "ph_AccessListIDs h = ph_AccessListIDs ?h1" "ph_AccessListNames h = ph_AccessListNames ?h1"
    "map loc_AccessListNames (ph_Locations h) = map loc_AccessListNames (ph_Locations ?h1)"
    "map loc_AccessListIDs (ph_Locations h) = map loc_AccessListIDs (ph_Locations ?h1)"
    by (cases live; simp only: h option.case adopted_lists)+
  show "ph_AccessListIDs h = t_AccessListIDs t" by (simp only: e h1)
  show "ph_AccessListNames h = t_AccessListNames t" by (simp only: e h1)
  show "map loc_AccessListNames (ph_Locations h) = map loc_AccessListNames (t_Locations t)" by (simp only: e h1)
  show "d_Flavour d \<noteq> FlavourNPM \<Longrightarrow> map loc_AccessListIDs (ph_Locations h) = map loc_AccessListIDs (t_Locations t)"
    by (rule trans [OF e(4) h1(4)])
qed

lemma resolve_names_spec:
  assumes "resolve_names idx names = Inr ids"
  shows "n \<in> set names \<Longrightarrow> \<exists>i\<in>set ids. idx (list_key n) = Some i"
proof -
  from assms have l: "list_all2 (\<lambda>x y. (case idx (list_key x) of None \<Rightarrow> Inl x | Some i \<Rightarrow> Inr i) = Inr y) names ids"
    by (simp add: resolve_names_def map_result_Inr)
  assume "n \<in> set names"
  then obtain j where j: "j < length names" "names ! j = n" by (auto simp: in_set_conv_nth)
  with list_all2_nthD [OF l j(1)] have "idx (list_key n) = Some (ids ! j)" by (auto split: option.splits)
  moreover have "ids ! j \<in> set ids" using j list_all2_lengthD [OF l] by simp
  ultimately show ?thesis by blast
qed

lemma resolveAccessLists_spec:
  assumes "resolveAccessLists idx t = Inr t'"
  shows "t_AccessListNames t' = []"
    and "set (t_AccessListIDs t) \<subseteq> set (t_AccessListIDs t')"
    and "n \<in> set (t_AccessListNames t) \<Longrightarrow> \<exists>i\<in>set (t_AccessListIDs t'). idx (list_key n) = Some i"
    and "list_all2 (\<lambda>l l'. loc_AccessListNames l' = [] \<and> set (loc_AccessListIDs l) \<subseteq> set (loc_AccessListIDs l')
      \<and> (\<forall>n\<in>set (loc_AccessListNames l). \<exists>i\<in>set (loc_AccessListIDs l'). idx (list_key n) = Some i))
      (t_Locations t) (t_Locations t')"
proof -
  from assms obtain ids ls where r: "resolve_names idx (t_AccessListNames t) = Inr ids"
    "map_result (resolve_location idx) (t_Locations t) = Inr ls"
    "t' = t\<lparr> t_AccessListIDs := t_AccessListIDs t @ ids, t_AccessListNames := [], t_Locations := ls \<rparr>"
    by (auto simp: resolveAccessLists_def rbind_Inr_iff)
  then show "t_AccessListNames t' = []" "set (t_AccessListIDs t) \<subseteq> set (t_AccessListIDs t')" by simp_all
  show "n \<in> set (t_AccessListNames t) \<Longrightarrow> \<exists>i\<in>set (t_AccessListIDs t'). idx (list_key n) = Some i"
    using resolve_names_spec [OF r(1)] r(3) by fastforce
  have "loc_AccessListNames l' = [] \<and> set (loc_AccessListIDs l) \<subseteq> set (loc_AccessListIDs l')
      \<and> (\<forall>n\<in>set (loc_AccessListNames l). \<exists>i\<in>set (loc_AccessListIDs l'). idx (list_key n) = Some i)"
    if "resolve_location idx l = Inr l'" for l l'
    using that resolve_names_spec by (fastforce simp: resolve_location_def rbind_Inr_iff)
  then show "list_all2 (\<lambda>l l'. loc_AccessListNames l' = [] \<and> set (loc_AccessListIDs l) \<subseteq> set (loc_AccessListIDs l')
      \<and> (\<forall>n\<in>set (loc_AccessListNames l). \<exists>i\<in>set (loc_AccessListIDs l'). idx (list_key n) = Some i))
      (t_Locations t) (t_Locations t')"
    using r(2,3) list_all2_mono [where P = "\<lambda>l l'. resolve_location idx l = Inr l'"] by (simp add: map_result_Inr)
qed

section \<open>Properties\<close>

text \<open>C6: everything written stays ours. The body of every create and of every update of a run is
  one this instance recognises as its own when it lists the server again, so no run writes a host
  it would later refuse to change or to clean up; and unless the body is a stored resource
  written back, it names the container and label index of a target of the snapshot.\<close>

theorem writes_stay_owned:
  assumes "reconcile a opts deletion (Inr snap) w = ((res, errs), w')"
    and "CCreate r \<in> set (new_calls w w') \<or> CUpdate i r \<in> set (new_calls w w')"
  shows "owns opts r \<and> ((\<exists>h k. listed_before a w h k r)
    \<or> (\<exists>t\<in>set (snap_Targets snap). r_Kind r = t_Kind t \<and> ownership (ResourceMeta r) =
        \<lparr> own_managedBy = ManagedByValue, own_container = t_ContainerName t, own_index = t_Index t,
          own_instance = o_InstanceID opts \<rparr>))"
proof -
  obtain c where c: "c \<in> set (new_calls w w')" "c = CCreate r \<or> c = CUpdate i r" using assms(2) by blast
  then have "is_write c" by auto
  then obtain h where h: "allowed a opts deletion snap (refs_of w') (w_trace w) h c"
    by (rule run_write [OF assms(1) c(1)])
  have built: "owns opts r \<and> (\<exists>t\<in>set (snap_Targets snap). r_Kind r = t_Kind t \<and> ownership (ResourceMeta r) =
        \<lparr> own_managedBy = ManagedByValue, own_container = t_ContainerName t, own_index = t_Index t,
          own_instance = o_InstanceID opts \<rparr>)"
    if "wants snap k key t" "resolveAccessLists x t = Inr t'" "r = desired_resource opts d t' certificate live"
    for k key t x t' d certificate live
    using that resolveAccessLists_keeps [OF that(2)] owns_desired ownership_desired
    by (intro conjI bexI [of _ t]) (auto simp: wants_def)
  from h c(2) show ?thesis
  proof (cases rule: allowed.cases)
    case (create k live d key t t' now1 now2 certificate cl)
    then show ?thesis using built [of k key t _ t'] c(2) by blast
  next
    case (update k live d key t current t' now1 now2 certificate cl r')
    then show ?thesis using built [of k key t _ t'] c(2) by blast
  next
    case (mark k live d key t current)
    then have "owns opts current"
      using not_skipped_admissible [of opts current] by (simp add: needsMarker_def owns_def admissible_def Let_def)
    with mark c(2) listing_before show ?thesis by blast
  qed (use c(2) in auto)
qed

theorem writes_stay_owned_witness:
  "\<exists>r. owns ex_options r \<and> CUpdate 5 r \<in> set (new_calls NewWorker (snd (ex_run ex_options True [ex_other] [ex_stopped])))"
proof -
  obtain r where "CUpdate 5 r \<in> set (new_calls NewWorker (snd (ex_run ex_options True [ex_other] [ex_stopped])))"
    using ex_stopped_calls by blast
  with writes_stay_owned [OF ex_runI [OF refl] disjI2 [OF this]] show ?thesis by blast
qed

definition follows_target ::
  "Api \<Rightarrow> Options \<Rightarrow> Snapshot \<Rightarrow> Worker \<Rightarrow> refs \<Rightarrow> history \<Rightarrow> call \<Rightarrow> bool" where
  "follows_target a opts snap w refs h c \<longleftrightarrow> (\<exists>t\<in>set (snap_Targets snap). \<exists>current.
     listed_before a w h (t_Kind t) current \<and> ResourceKey current = t_Key t \<and>
     (case c of
        CUpdate i r \<Rightarrow> i = ResourceID current \<and>
          (if t_Running t then
             \<exists>d t' certificate. resolveAccessLists (fst refs) t = Inr t' \<and> r = desired_resource opts d t' certificate (Some current)
           else r = current \<and> IsManaged (ResourceMeta current) \<and> \<not> OwnerMarked current)
      | CSetEnabled k i b \<Rightarrow> k = t_Kind t \<and> i = ResourceID current \<and>
          (if t_Running t then b = t_Enabled t else \<not> b \<and> o_OnStop opts = OnStopDisable)
      | _ \<Rightarrow> False))"




definition ex_protected :: Target where
  "ex_protected = (zero_target KindProxy)\<lparr> t_ContainerName := ''app'', t_Running := True, t_DomainNames := [''a.example.com''],
     t_Certificate := spec_of ModeNone [], t_ForwardHost := ''app'', t_ForwardPort := 80, t_AccessListNames := [''office''] \<rparr>"

definition ex_lists_api :: Api where
  "ex_lists_api = (ex_api [])\<lparr> api_ListAccessLists := (\<lambda>h. Inr [\<lparr> acl_ID = 4, acl_Name = '' Office'' \<rparr>]) \<rparr>"



definition ex_view :: view where
  "ex_view = \<lparr> vw_kind = KindDead, vw_dialect = ex_dialect, vw_existing = [(''b.example.com'', ex_other)],
     vw_byDomain = (\<lambda>_. None), vw_now = 0 \<rparr>"


end
