(* ===== verification/Convergence.thy ===== *)
theory Convergence
  imports Runs Writes
begin

text \<open>
  When the work is done. A target is settled when its resource exists with the wanted configuration -
  by its own fingerprint or by the hash written last - and the wanted enabled flag. Once all targets
  are settled and nothing is left to delete, no further run writes anything, for as long as Docker and
  the server stay as they are.
\<close>

section \<open>Settled targets\<close>

text \<open>The certificate of a target does not change with the time of the run.\<close>

definition certificate_at :: "Api \<Rightarrow> Options \<Rightarrow> Certificate list \<Rightarrow> Target \<Rightarrow> Resource \<Rightarrow> CertificateID \<Rightarrow> bool" where
  "certificate_at a opts certs t current c \<longleftrightarrow>
     (\<forall>now1 now2. \<exists>n. certificate_choice a opts certs t (Some current) now1 now2 = Inr (c, n))"

definition matches :: "Options \<Rightarrow> Dialect \<Rightarrow> Target \<Rightarrow> CertificateID \<Rightarrow> Resource \<Rightarrow> Entry option \<Rightarrow> bool" where
  "matches opts d t c current e \<longleftrightarrow>
     (let r = desired_resource opts d t c (Some current) in
      (if t_Running t then Fingerprint current = Fingerprint r
         \<or> (\<exists>x. e = Some x \<and> en_ID x = ResourceID current \<and> en_Hash x = Fingerprint r)
       else \<not> needsMarker current d)
      \<and> desired_enabled opts t current r = r_IsEnabled current)"

definition settled_with ::
  "Api \<Rightarrow> Options \<Rightarrow> Dialect \<Rightarrow> Resource list \<Rightarrow> Certificate list \<Rightarrow> (string \<rightharpoonup> int) \<Rightarrow> string \<times> Target
     \<Rightarrow> Entry option \<Rightarrow> failure option \<Rightarrow> bool" where
  "settled_with a opts d live certs acls x e f \<longleftrightarrow>
     (\<exists>current t c. map_of (indexResources live) (fst x) = Some current
        \<and> \<not> fst (ownership_decision opts current)
        \<and> foreignDomain (indexDomains live) (snd x) (Some current) (owns opts) = None
        \<and> resolveAccessLists acls (snd x) = Inr t
        \<and> certificate_at a opts certs t current c
        \<and> matches opts d t c current e \<and> f = None)"

definition settled_in ::
  "Api \<Rightarrow> Options \<Rightarrow> Dialect \<Rightarrow> Resource list \<Rightarrow> Certificate list \<Rightarrow> (string \<rightharpoonup> int) \<Rightarrow> Kind \<Rightarrow> Worker
     \<Rightarrow> string \<times> Target \<Rightarrow> bool" where
  "settled_in a opts d live certs acls kind w x \<longleftrightarrow>
     settled_with a opts d live certs acls x (cache_Get (w_cache w) kind (fst x)) (w_failures w (backoffKey kind (fst x)))"

section \<open>One target\<close>

text \<open>What a silent step leaves as it was.\<close>

definition silent :: "Worker \<Rightarrow> Worker \<Rightarrow> bool" where
  "silent w w' \<longleftrightarrow> w_trace w' = w_trace w \<and> frame w w' \<and> w_failures w' = w_failures w"

lemma silent_refl [simp]: "silent w w"
  by (simp add: silent_def)

lemma silent_trans: "silent w w1 \<Longrightarrow> silent w1 w' \<Longrightarrow> silent w w'"
  by (auto simp: silent_def intro: frame_trans)

text \<open>A cache entry that settles a target whatever the server echoes.\<close>

definition vouches :: "Options \<Rightarrow> Dialect \<Rightarrow> Target \<Rightarrow> CertificateID \<Rightarrow> Resource \<Rightarrow> Entry \<Rightarrow> bool" where
  "vouches opts d t c current e \<longleftrightarrow> en_ID e = ResourceID current
     \<and> (t_Running t \<longrightarrow> en_Hash e = Fingerprint (desired_resource opts d t c (Some current)))"

lemma vouches_matches: "vouches opts d t c current e \<Longrightarrow> matches opts d t c current e' \<Longrightarrow> matches opts d t c current (Some e)"
  by (auto simp: matches_def vouches_def Let_def)

lemma settled_keeps: 
  assumes "vouches opts d t c current e" "matches opts d t c current e'"
    and "map_of (indexResources live) (fst x) = Some current" "\<not> fst (ownership_decision opts current)"
    and "foreignDomain (indexDomains live) (snd x) (Some current) (owns opts) = None"
    and "resolveAccessLists acls (snd x) = Inr t" "certificate_at a opts certs t current c"
  shows "settled_with a opts d live certs acls x (Some e) None"
  unfolding settled_with_def using assms vouches_matches by blast

lemma toggle_settled:
  assumes "desired_enabled opts t current r = r_IsEnabled current" "w_failures w (backoffKey (vw_kind v) key) = None"
  obtains w' where "toggle_existing a opts v key t current r h False (w, p) =
      (w', p_keep key (entry_of (ResourceID current) h t (r_IsEnabled current) (cid_ID (ResourceCertificate r))) (p_unchanged p))"
    "silent w w'"
proof (rule that)
  show "toggle_existing a opts v key t current r h False (w, p) =
      (succeeded v key w, p_keep key (entry_of (ResourceID current) h t (r_IsEnabled current) (cid_ID (ResourceCertificate r))) (p_unchanged p))"
    using assms(1) by (simp add: toggle_existing_def applyEnabled_def Let_def)
  show "silent w (succeeded v key w)"
    using assms(2) by (simp add: silent_def) (auto simp: succeeded_def noteSuccess_def)
qed

lemma update_settled:
  assumes "matches opts d t c current (cache_Get (w_cache w) (vw_kind v) key)" "vw_dialect v = d"
    and "r = desired_resource opts d t c (Some current)" "w_failures w (backoffKey (vw_kind v) key) = None"
  obtains w' e where "update_existing a opts v key t current r (w, p) = (w', p_keep key e (p_unchanged p))"
    "silent w w'" "vouches opts d t c current e"
proof -
  let ?h = "if t_Running t then Fingerprint r else Fingerprint current"
  have "update_existing a opts v key t current r (w, p) = toggle_existing a opts v key t current r ?h False (w, p)"
    using assms(1-3) by (auto simp: update_existing_def matches_def Let_def in_sync_def)
  moreover have "desired_enabled opts t current r = r_IsEnabled current"
    using assms(1,3) by (simp add: matches_def Let_def)
  ultimately obtain w' where "update_existing a opts v key t current r (w, p) =
      (w', p_keep key (entry_of (ResourceID current) ?h t (r_IsEnabled current) (cid_ID (ResourceCertificate r))) (p_unchanged p))"
    "silent w w'" by (metis toggle_settled [OF _ assms(4)])
  then show thesis by (rule that) (auto simp: vouches_def entry_of_def assms(3))
qed

lemma reconcile_settled:
  assumes "settled_in a opts d live certs acls (vw_kind v) w x"
    and v: "vw_dialect v = d" "vw_existing v = indexResources live" "vw_byDomain v = indexDomains live"
    and w: "w_certificates w = certs" "w_accessLists w = acls"
  obtains w' e where "reconcile_target a opts v x (w, p) = (w', p_keep (fst x) e (p_unchanged p))" "silent w w'"
    "settled_with a opts d live certs acls x (Some e) None"
proof -
  obtain key t0 where x: "x = (key, t0)" by fastforce
  from assms(1) obtain current t c where
    l: "map_of (indexResources live) (fst x) = Some current" "\<not> fst (ownership_decision opts current)"
      "foreignDomain (indexDomains live) (snd x) (Some current) (owns opts) = None"
      "resolveAccessLists acls (snd x) = Inr t" "certificate_at a opts certs t current c"
    and m: "matches opts d t c current (cache_Get (w_cache w) (vw_kind v) key)"
    and f: "w_failures w (backoffKey (vw_kind v) key) = None"
    by (auto simp: settled_in_def settled_with_def x)
  have run: "t_Running t = t_Running t0" using resolveAccessLists_keeps(4) [OF l(4)] by (simp add: x)
  note keeps = settled_keeps [OF _ m l]
  show thesis
  proof (cases "\<not> t_Running t0 \<and> inGrace opts w t0 (vw_now v)")
    case True
    let ?e = "entry_of (ResourceID current) (Fingerprint current) t0 (r_IsEnabled current) (cid_ID (ResourceCertificate current))"
    have "reconcile_target a opts v x (w, p) = (w, p_keep (fst x) ?e (p_unchanged p))"
      using True l by (simp add: reconcile_target_def x v)
    moreover have "vouches opts d t c current ?e" using True run by (simp add: vouches_def entry_of_def)
    ultimately show thesis using that keeps by simp
  next
    case False
    obtain w1 n where c: "resolveCertificate a opts t (Some current) w = (Inr c, w1)" "silent w w1"
    proof -
      obtain n where "certificate_choice a opts certs t (Some current) (api_clock a (w_ticks w)) (api_clock a (Suc (w_ticks w))) = Inr (c, n)"
        using l(5) by (auto simp: certificate_at_def)
      then show thesis
        using that by (cases n) (auto simp: resolveCertificate_def read_clock_def w silent_def frame_def countCertificate_def Let_def)
    qed
    let ?r = "desired_resource opts d t c (Some current)"
    define w2 where "w2 = warnUnsupported key t (BuildResource t c (o_InstanceID opts) (o_LabelPrefix opts)) d w1"
    have w2: "silent w w2" using c(2) by (simp add: silent_def w2_def) (simp add: warnUnsupported_def)
    then have f2: "w_failures w2 (backoffKey (vw_kind v) key) = None" "w_cache w2 = w_cache w"
      using f by (simp_all add: silent_def frame_def)
    have "reconcile_target a opts v x (w, p) = update_existing a opts v key t current ?r (w2, p)"
      using False l by (auto simp: reconcile_target_def x v w c(1) apply_target_def deferred_def f2 Let_def simp flip: w2_def)
    moreover obtain w' e where "update_existing a opts v key t current ?r (w2, p) = (w', p_keep key e (p_unchanged p))"
      "silent w2 w'" "vouches opts d t c current e"
      by (rule update_settled [OF m [folded f2(2)] v(1) refl f2(1)])
    ultimately show thesis using that keeps silent_trans [OF w2] by (simp add: x)
  qed
qed

section \<open>One kind\<close>

lemma settled_in_silent: "silent w w' \<Longrightarrow> settled_in a opts d live certs acls kind w' x = settled_in a opts d live certs acls kind w x"
  by (simp add: settled_in_def silent_def frame_def)

text \<open>Counters of a run without writes and failures.\<close>

definition idle :: "Result \<Rightarrow> bool" where
  "idle r \<longleftrightarrow> rs_Created r = 0 \<and> rs_Updated r = 0 \<and> rs_Deleted r = 0 \<and> rs_Failed r = 0"

lemma idle_simps [simp]:
  "idle zero_result" "idle (r\<lparr> rs_Skipped := n \<rparr>) = idle r" "idle r \<Longrightarrow> idle s \<Longrightarrow> idle (rs_add r s)"
  by (simp_all add: idle_def zero_result_def rs_add_def)

text \<open>The entries a settled loop leaves, one for each target.\<close>

definition entries_settle ::
  "Api \<Rightarrow> Options \<Rightarrow> Dialect \<Rightarrow> Resource list \<Rightarrow> Certificate list \<Rightarrow> (string \<rightharpoonup> int)
     \<Rightarrow> (string \<times> Target) list \<Rightarrow> (string \<times> Entry) list \<Rightarrow> bool" where
  "entries_settle a opts d live certs acls xs es \<longleftrightarrow>
     list_all2 (\<lambda>x y. fst y = fst x \<and> settled_with a opts d live certs acls x (Some (snd y)) None) xs es"

lemma loop_settled:
  assumes "\<forall>x\<in>set xs. settled_in a opts d live certs acls (vw_kind v) w x"
    and v: "vw_dialect v = d" "vw_existing v = indexResources live" "vw_byDomain v = indexDomains live"
    and w: "w_certificates w = certs" "w_accessLists w = acls"
  shows "\<exists>w' p' es. fold (reconcile_target a opts v) xs (w, p) = (w', p') \<and> silent w w'
    \<and> pr_next p' = pr_next p @ es \<and> entries_settle a opts d live certs acls xs es
    \<and> pr_errs p' = pr_errs p \<and> (idle (pr_result p) \<longrightarrow> idle (pr_result p'))"
  using assms(1) w
proof (induction xs arbitrary: w p)
  case Nil
  then show ?case by (simp add: entries_settle_def)
next
  case (Cons x xs)
  from Cons.prems(1) have "settled_in a opts d live certs acls (vw_kind v) w x" by simp
  from reconcile_settled [OF this v Cons.prems(2,3)] obtain w1 e where
    one: "reconcile_target a opts v x (w, p) = (w1, p_keep (fst x) e (p_unchanged p))" "silent w w1"
      "settled_with a opts d live certs acls x (Some e) None" by blast
  let ?p = "p_keep (fst x) e (p_unchanged p)"
  have w1: "w_certificates w1 = certs" "w_accessLists w1 = acls"
    using one(2) Cons.prems(2,3) by (simp_all add: silent_def frame_def)
  have "\<forall>x\<in>set xs. settled_in a opts d live certs acls (vw_kind v) w1 x"
    using Cons.prems(1) settled_in_silent [OF one(2)] by auto
  from Cons.IH [OF this w1, of ?p] obtain w' p' es where
    rest: "fold (reconcile_target a opts v) xs (w1, ?p) = (w', p')" "silent w1 w'"
      "pr_next p' = pr_next ?p @ es" "entries_settle a opts d live certs acls xs es" "pr_errs p' = pr_errs ?p"
      "idle (pr_result ?p) \<longrightarrow> idle (pr_result p')" by blast
  have "pr_next p' = pr_next p @ ((fst x, e) # es)" "pr_errs p' = pr_errs p"
      "idle (pr_result p) \<longrightarrow> idle (pr_result p')"
    using rest(3,5,6) by (simp_all add: p_keep_def p_unchanged_def idle_def)
  moreover have "entries_settle a opts d live certs acls (x # xs) ((fst x, e) # es)"
    using one(3) rest(4) by (simp add: entries_settle_def)
  ultimately show ?case using one(1) rest(1) silent_trans [OF one(2) rest(2)] by auto
qed

lemma entries_keys: "entries_settle a opts d live certs acls xs es \<Longrightarrow> map fst es = map fst xs"
  unfolding entries_settle_def by (induction rule: list_all2_induct) auto

lemma entries_found:
  assumes "entries_settle a opts d live certs acls xs es" "distinct (map fst xs)" "x \<in> set xs"
  shows "\<exists>e. map_of es (fst x) = Some e \<and> settled_with a opts d live certs acls x (Some e) None"
proof -
  from assms(3) obtain i where i: "i < length xs" "x = xs ! i" by (auto simp: in_set_conv_nth)
  with assms(1) have "i < length es" "fst (es ! i) = fst x" "settled_with a opts d live certs acls x (Some (snd (es ! i))) None"
    by (auto simp: entries_settle_def list_all2_conv_all_nth)
  moreover from this have "(fst x, snd (es ! i)) \<in> set es" by (metis nth_mem prod.collapse)
  ultimately show ?thesis using entries_keys [OF assms(1)] assms(2) by (metis map_of_is_SomeI)
qed

lemma cache_Get_ReplaceKind:
  "distinct (map fst es) \<Longrightarrow> cache_Get (ReplaceKind k es c) k' key = (if k' = k then map_of es key else cache_Get c k' key)"
  by (simp add: cache_Get_def ReplaceKind_def map_of_copy)

definition targets_of :: "Snapshot \<Rightarrow> Kind \<Rightarrow> Target list" where
  "targets_of snap kind = filter (\<lambda>t. t_Kind t = kind) (snap_Targets snap)"

definition settled_kind ::
  "Api \<Rightarrow> Options \<Rightarrow> Snapshot \<Rightarrow> Dialect \<Rightarrow> Resource list \<Rightarrow> Certificate list \<Rightarrow> (string \<rightharpoonup> int) \<Rightarrow> Kind \<Rightarrow> Worker \<Rightarrow> bool" where
  "settled_kind a opts snap d live certs acls kind w \<longleftrightarrow>
     (\<forall>t\<in>set (targets_of snap kind). t_Running t \<or> o_OnStop opts \<noteq> OnStopDelete)
     \<and> (\<forall>x\<in>set (fst (indexTargets (targets_of snap kind))). settled_in a opts d live certs acls kind w x)
     \<and> (\<forall>r\<in>set live. owns opts r \<longrightarrow> ResourceKey r = [] \<or> ResourceKey r \<in> t_Key ` set (targets_of snap kind)
          \<or> IsProtected snap (meta_Container (ResourceMeta r)) (meta_ContainerID (ResourceMeta r)))"

lemma settled_kind_cong:
  assumes "\<And>key. cache_Get (w_cache w') kind key = cache_Get (w_cache w) kind key" "w_failures w' = w_failures w"
  shows "settled_kind a opts snap d live certs acls kind w' = settled_kind a opts snap d live certs acls kind w"
  by (simp add: settled_kind_def settled_in_def assms)

text \<open>Nothing to delete: the orphans of a settled kind.\<close>

lemma orphans_settled:
  assumes "\<forall>x\<in>set xs. has_key desired (fst x) \<or> \<not> owns opts (snd x)
      \<or> IsProtected snap (meta_Container (ResourceMeta (snd x))) (meta_ContainerID (ResourceMeta (snd x)))"
  shows "\<exists>res'. fold (orphan_step opts kind snap desired) xs (res, []) = (res', []) \<and> (idle res \<longrightarrow> idle res')"
  using assms
proof (induction xs arbitrary: res)
  case (Cons x xs)
  have "\<exists>res1. orphan_step opts kind snap desired x (res, []) = (res1, []) \<and> (idle res \<longrightarrow> idle res1)"
    using Cons.prems by (auto simp: orphan_step_def Let_def)
  then obtain res1 where "orphan_step opts kind snap desired x (res, []) = (res1, [])" "idle res \<longrightarrow> idle res1" by blast
  with Cons.IH [of res1] Cons.prems show ?case by auto
qed simp

lemma kind_settled:
  assumes l: "api_List a (w_trace w) kind = Inr live" "api_Dialect a (w_trace w @ [CList kind]) = d"
    and s: "settled_kind a opts snap d live certs acls kind w"
    and w: "w_certificates w = certs" "w_accessLists w = acls"
    and r: "reconcileKind a opts kind (targets_of snap kind) snap w = (out, w')"
  shows "w_trace w' = w_trace w @ [CList kind] \<and> w_failures w' = w_failures w \<and> w_certificates w' = certs
    \<and> w_accessLists w' = acls \<and> (\<forall>k key. k \<noteq> kind \<longrightarrow> cache_Get (w_cache w') k key = cache_Get (w_cache w) k key)
    \<and> settled_kind a opts snap d live certs acls kind w'
    \<and> ko_orphans out = [] \<and> idle (ko_result out) \<and> ko_fatal out = None \<and> ko_partial out = []"
proof -
  obtain kept w2 desired cs now w3 v and p0 :: progress and w4 p res orphans where
    b: "applyStopPolicy a opts (targets_of snap kind) (called (CList kind) w) = (kept, w2)"
      "indexTargets kept = (desired, cs)" "read_clock a w2 = (now, w3)"
    and v: "v = \<lparr> vw_kind = kind, vw_dialect = api_Dialect a (w_trace w @ [CList kind]), vw_existing = indexResources live,
       vw_byDomain = indexDomains live, vw_now = now \<rparr>"
    and p0: "p0 = \<lparr> pr_result = zero_result\<lparr> rs_Skipped := int (length cs) \<rparr>, pr_next = [], pr_errs = [] \<rparr>"
    and loop: "fold (reconcile_target a opts v) (sort_key fst desired) (w3, p0) = (w4, p)"
    and orp: "fold (orphan_step opts kind snap desired) (sort_key fst (indexResources live)) (pr_result p, []) = (res, orphans)"
    and out: "out = \<lparr> ko_result = res, ko_fatal = None, ko_partial = pr_errs p, ko_orphans = orphans,
       ko_owned = length (filter (owns opts) live),
       ko_foreignPrefix = length (filter (foreign_prefix opts) (filter (owns opts) live)) \<rparr>"
    and w': "w' = w4\<lparr> w_cache := ReplaceKind kind (pr_next p) (w_cache w4) \<rparr>"
    by (rule reconcileKind_listed [OF l(1) r], rule that, assumption+)
  have kept: "kept = targets_of snap kind"
    using b(1) s by (auto simp: applyStopPolicy_def read_clock_def Let_def settled_kind_def filter_id_conv split: if_splits)
  have w2: "w_trace w3 = w_trace w @ [CList kind]" "w_failures w3 = w_failures w" "w_cache w3 = w_cache w"
      "w_certificates w3 = certs" "w_accessLists w3 = acls"
    using b(1,3) w by (auto simp: applyStopPolicy_def read_clock_def Let_def split: if_splits)
  have desired: "desired = fst (indexTargets (targets_of snap kind))" using b(2) kept by simp
  let ?xs = "sort_key fst desired"
  have dist: "distinct (map fst ?xs)" using indexTargets_spec(1) [OF b(2)] by (simp add: distinct_map)
  have "\<forall>x\<in>set ?xs. settled_in a opts d live certs acls (vw_kind v) w3 x"
    using s w2 by (simp add: v desired settled_kind_def settled_in_def)
  from loop_settled [OF this _ _ _ w2(4,5), of p0] loop obtain es where
    es: "silent w3 w4" "pr_next p = es" "entries_settle a opts d live certs acls ?xs es" "pr_errs p = []" "idle (pr_result p)"
    by (auto simp: v l(2) p0)
  note keys = entries_keys [OF es(3)]
  have cache: "cache_Get (w_cache w') k key = (if k = kind then map_of es key else cache_Get (w_cache w) k key)" for k key
    using es(1,2) dist keys w2(3) by (simp add: w' cache_Get_ReplaceKind silent_def frame_def)
  have f: "w_failures w' = w_failures w" using es(1) w2(2) by (simp add: w' silent_def)
  have "settled_in a opts d live certs acls kind w' x" if x: "x \<in> set desired" for x
  proof -
    obtain e where "map_of es (fst x) = Some e" "settled_with a opts d live certs acls x (Some e) None"
      using entries_found [OF es(3) dist, of x] x by auto
    moreover have "w_failures w (backoffKey kind (fst x)) = None"
      using s x by (auto simp: settled_kind_def settled_in_def settled_with_def desired)
    ultimately show ?thesis by (simp add: settled_in_def cache f)
  qed
  with s have s': "settled_kind a opts snap d live certs acls kind w'" by (simp add: settled_kind_def desired)
  have "has_key desired key \<or> \<not> owns opts x \<or> IsProtected snap (meta_Container (ResourceMeta x)) (meta_ContainerID (ResourceMeta x))"
    if "(key, x) \<in> set (indexResources live)" for key x
    using indexResources_spec(2) [OF that] s indexTargets_spec(3) [OF b(2)] by (auto simp: settled_kind_def kept)
  then obtain res' where "fold (orphan_step opts kind snap desired) (sort_key fst (indexResources live)) (pr_result p, []) = (res', [])"
      "idle (pr_result p) \<longrightarrow> idle res'"
    using orphans_settled [of "sort_key fst (indexResources live)" desired opts snap kind "pr_result p"] by fastforce
  with orp es(5) have "orphans = []" "idle res" by auto
  with es(1,4) w2 f cache s' show ?thesis
    by (simp add: out w' silent_def frame_def)
qed

section \<open>Whole runs\<close>

text \<open>A server that answers as before for as long as it is only read.\<close>

definition still :: "Api \<Rightarrow> history \<Rightarrow> Dialect \<Rightarrow> (Kind \<Rightarrow> Resource list) \<Rightarrow> Certificate list \<Rightarrow> AccessList list \<Rightarrow> bool" where
  "still a h d live certs found \<longleftrightarrow>
     (\<forall>reads. list_all (\<lambda>c. \<not> is_write c) reads \<longrightarrow>
        api_Dialect a (h @ reads) = d \<and> (\<forall>kind. api_List a (h @ reads) kind = Inr (live kind))
        \<and> api_ListCertificates a (h @ reads) = Inr certs \<and> api_ListAccessLists a (h @ reads) = Inr found)"

definition settled ::
  "Api \<Rightarrow> Options \<Rightarrow> Snapshot \<Rightarrow> Dialect \<Rightarrow> (Kind \<Rightarrow> Resource list) \<Rightarrow> Certificate list \<Rightarrow> (string \<rightharpoonup> int) \<Rightarrow> Worker \<Rightarrow> bool" where
  "settled a opts snap d live certs acls w \<longleftrightarrow>
     (\<forall>kind\<in>set (o_Kinds opts). settled_kind a opts snap d (live kind) certs acls kind w)"

text \<open>The access lists a run works with: read from the server when a label names one.\<close>

definition lists_of :: "Snapshot \<Rightarrow> AccessList list \<Rightarrow> Worker \<Rightarrow> (string \<rightharpoonup> int)" where
  "lists_of snap found w =
     (if needsAccessListNames (snap_Targets snap) then indexAccessLists found else w_accessLists w)"

lemma still_later: "still a h d live certs found \<Longrightarrow> list_all (\<lambda>c. \<not> is_write c) reads \<Longrightarrow> still a (h @ reads) d live certs found"
  by (simp add: still_def)

lemma settled_cong:
  assumes "w_cache w' = w_cache w" "w_failures w' = w_failures w"
  shows "settled a opts snap d live certs acls w' = settled a opts snap d live certs acls w"
  using settled_kind_cong [of w' _ w] assms by (simp add: settled_def)

lemma kinds_settled:
  assumes "run_kinds a opts snap ks w = (outs, w')" "set ks \<subseteq> set (o_Kinds opts)"
    and "still a (w_trace w) d live certs found" "settled a opts snap d live certs acls w"
    and "w_certificates w = certs" "w_accessLists w = acls"
  shows "w_trace w' = w_trace w @ map CList ks \<and> settled a opts snap d live certs acls w' \<and> w_accessLists w' = acls
    \<and> list_all (\<lambda>out. ko_orphans out = [] \<and> idle (ko_result out) \<and> ko_fatal out = None \<and> ko_partial out = []) outs"
  using assms
proof (induction ks arbitrary: w outs)
  case (Cons k ks)
  obtain out w1 outs' where r: "reconcileKind a opts k (targets_of snap k) snap w = (out, w1)"
    and rs: "run_kinds a opts snap ks w1 = (outs', w')" and outs: "outs = out # outs'"
    using Cons.prems(1) by (auto simp: Let_def targets_of_def split: prod.splits)
  have k: "k \<in> set (o_Kinds opts)" using Cons.prems(2) by simp
  have l: "api_List a (w_trace w) k = Inr (live k)" "api_Dialect a (w_trace w @ [CList k]) = d"
    using Cons.prems(3) [unfolded still_def, rule_format, of "[]"] Cons.prems(3) [unfolded still_def, rule_format, of "[CList k]"]
    by simp_all
  from k Cons.prems(4) have "settled_kind a opts snap d (live k) certs acls k w" by (simp add: settled_def)
  note one = kind_settled [OF l this Cons.prems(5,6) r]
  have "settled_kind a opts snap d (live k') certs acls k' w1" if "k' \<in> set (o_Kinds opts)" for k'
  proof (cases "k' = k")
    case False
    then have "settled_kind a opts snap d (live k') certs acls k' w1 = settled_kind a opts snap d (live k') certs acls k' w"
      using one by (intro settled_kind_cong) auto
    with Cons.prems(4) that show ?thesis by (simp add: settled_def)
  qed (use one in simp)
  then have "settled a opts snap d live certs acls w1" by (simp add: settled_def)
  moreover have "still a (w_trace w1) d live certs found" using still_later [OF Cons.prems(3), of "[CList k]"] one by simp
  ultimately show ?case using Cons.IH [OF rs] Cons.prems(2) one by (simp add: outs)
qed simp

lemma load_still:
  assumes "still a (w_trace w) d live certs found"
    and w3_def: "w3 = loadAccessLists a (needsAccessListNames (snap_Targets snap)) (loadCertificates a (trackStopped a (snap_Targets snap) w))"
  shows "w_certificates w3 = certs" "w_accessLists w3 = lists_of snap found w" "w_trace w3 = w_trace w @ read_calls snap"
    "w_cache w3 = w_cache w" "w_failures w3 = w_failures w" "list_all (\<lambda>c. \<not> is_write c) (read_calls snap)"
proof -
  note s = assms(1) [unfolded still_def, rule_format]
  have "api_ListCertificates a (w_trace w) = Inr certs" "api_ListAccessLists a (w_trace w @ [CListCertificates]) = Inr found"
    using s [of "[]"] s [of "[CListCertificates]"] by simp_all
  then show "w_certificates w3 = certs" "w_accessLists w3 = lists_of snap found w" "w_cache w3 = w_cache w" "w_failures w3 = w_failures w"
    by (simp_all add: w3_def loadAccessLists_def loadCertificates_def trackStopped_def read_clock_def Let_def lists_of_def called_def)
  show "w_trace w3 = w_trace w @ read_calls snap" unfolding w3_def by (rule load_trace)
  show "list_all (\<lambda>c. \<not> is_write c) (read_calls snap)" by (simp add: read_calls_def)
qed

lemma fold_idle: "list_all (\<lambda>out. idle (ko_result out)) outs \<Longrightarrow> idle r \<Longrightarrow> idle (fold (\<lambda>k r. rs_add r (ko_result k)) outs r)"
  by (induction outs arbitrary: r) simp_all

lemma run_settled:
  assumes "still a (w_trace w) d live certs found" "settled a opts snap d live certs (lists_of snap found w) w"
    and "reconcile a opts deletion (Inr snap) w = ((res, errs), w')"
  shows "w_trace w' = w_trace w @ read_calls snap @ map CList (o_Kinds opts) \<and> idle res \<and> errs = []
    \<and> still a (w_trace w') d live certs found \<and> settled a opts snap d live certs (lists_of snap found w') w'"
proof -
  obtain w3 outs w4 del derrs blocked w5 where
    w3: "w3 = loadAccessLists a (needsAccessListNames (snap_Targets snap)) (loadCertificates a (trackStopped a (snap_Targets snap) w))"
    and rk: "run_kinds a opts snap (o_Kinds opts) w3 = (outs, w4)"
    and dp: "delete_phase a opts deletion (concat (map ko_orphans outs)) (sum_list (map ko_owned outs))
       (sum_list (map ko_foreignPrefix outs)) snap w4 = ((del, derrs, blocked), w5)"
    and res: "res = rs_add (fold (\<lambda>k r. rs_add r (ko_result k)) outs zero_result) del"
      "errs = fatals outs @ concat (map ko_partial outs) @ derrs"
    and w': "w' = setStatus a (fatals outs) (rs_Failed res) blocked w5"
    by (rule reconcile_parts [OF assms(3)], rule that, assumption+)
  note ld = load_still [OF assms(1) w3]
  have "settled a opts snap d live certs (lists_of snap found w) w3" using assms(2) settled_cong [OF ld(4,5)] by simp
  moreover have "still a (w_trace w3) d live certs found" using still_later [OF assms(1) ld(6)] ld(3) by simp
  ultimately have k: "w_trace w4 = w_trace w3 @ map CList (o_Kinds opts)" "settled a opts snap d live certs (lists_of snap found w) w4"
      "w_accessLists w4 = lists_of snap found w"
      "list_all (\<lambda>out. ko_orphans out = [] \<and> idle (ko_result out) \<and> ko_fatal out = None \<and> ko_partial out = []) outs"
    using kinds_settled [OF rk subset_refl _ _ ld(1,2)] by blast+
  have o: "concat (map ko_orphans outs) = []" "fatals outs = []" "concat (map ko_partial outs) = []"
      "list_all (\<lambda>out. idle (ko_result out)) outs"
    using k(4) by (auto simp: list_all_iff fatals_def)
  with dp have d: "del = zero_result" "derrs = []" "w5 = w4" by (simp_all add: delete_phase_def Let_def)
  have w5: "w_cache w' = w_cache w4" "w_failures w' = w_failures w4" "w_accessLists w' = w_accessLists w4" "w_trace w' = w_trace w4"
    by (simp_all add: w' d setStatus_def read_clock_def)
  have "lists_of snap found w' = lists_of snap found w" using k(3) w5 by (simp add: lists_of_def)
  then have "settled a opts snap d live certs (lists_of snap found w') w'" using k(2) settled_cong [OF w5(1,2)] by simp
  moreover have "list_all (\<lambda>c. \<not> is_write c) (read_calls snap @ map CList (o_Kinds opts))"
    using ld(6) by (auto simp: list_all_iff)
  from still_later [OF assms(1) this] have "still a (w_trace w') d live certs found" using ld(3) k(1) w5(4) by simp
  moreover have "idle res" unfolding res d by (intro idle_simps(3) fold_idle o) simp_all
  ultimately show ?thesis using k(1) ld(3) w5(4) o d by (simp add: res(2))
qed

text \<open>A series of runs on one snapshot, each with or without deletions.\<close>

fun runs :: "Api \<Rightarrow> Options \<Rightarrow> Snapshot \<Rightarrow> bool list \<Rightarrow> Worker \<Rightarrow> (Result \<times> run_error list) list \<times> Worker" where
  "runs a opts snap [] w = ([], w)"
| "runs a opts snap (deletion # ds) w =
     (let (x, w1) = reconcile a opts deletion (Inr snap) w; (xs, w2) = runs a opts snap ds w1 in (x # xs, w2))"

section \<open>Properties\<close>

lemma runs_settled:
  assumes "still a (w_trace w) d live certs found" "settled a opts snap d live certs (lists_of snap found w) w"
    and "runs a opts snap ds w = (xs, w')"
  shows "w_trace w' = w_trace w @ concat (replicate (length ds) (read_calls snap @ map CList (o_Kinds opts)))
    \<and> list_all (\<lambda>(res, errs). idle res \<and> errs = []) xs \<and> settled a opts snap d live certs (lists_of snap found w') w'"
  using assms
proof (induction ds arbitrary: w xs)
  case (Cons deletion ds)
  obtain res errs w1 where r: "reconcile a opts deletion (Inr snap) w = ((res, errs), w1)" by (metis prod.collapse)
  obtain xs' where rs: "runs a opts snap ds w1 = (xs', w')" "xs = (res, errs) # xs'"
    using Cons.prems(3) r by (auto split: prod.splits)
  note one = run_settled [OF Cons.prems(1,2) r]
  then have "still a (w_trace w1) d live certs found" "settled a opts snap d live certs (lists_of snap found w1) w1" by blast+
  from Cons.IH [OF this rs(1)] one show ?case by (simp add: rs(2))
qed simp

text \<open>C12: convergence. Once every target is settled and nothing is left to delete, no further run writes:
  it reads the certificates, the access lists if a label names one, and each collection once, reports
  no error and counts no change, and leaves everything settled. So for any number of runs, with or
  without deletions, as long as Docker and the server answer as before.\<close>

theorem settled_runs_are_silent:
  assumes "still a (w_trace w) d live certs found" "settled a opts snap d live certs (lists_of snap found w) w"
    and "runs a opts snap ds w = (xs, w')"
  shows "new_calls w w' = concat (replicate (length ds) (read_calls snap @ map CList (o_Kinds opts)))
    \<and> list_all (\<lambda>c. \<not> is_write c) (new_calls w w')
    \<and> list_all (\<lambda>(res, errs). \<not> rs_Changed res \<and> errs = []) xs
    \<and> settled a opts snap d live certs (lists_of snap found w') w'"
proof -
  note r = runs_settled [OF assms]
  then have n: "new_calls w w' = concat (replicate (length ds) (read_calls snap @ map CList (o_Kinds opts)))"
    by (simp add: new_calls_def)
  then have "list_all (\<lambda>c. \<not> is_write c) (new_calls w w')"
    by (auto simp: list_all_iff read_calls_def)
  moreover have "list_all (\<lambda>(res, errs). \<not> rs_Changed res \<and> errs = []) xs"
    using r by (auto simp: list_all_iff idle_def rs_Changed_def)
  ultimately show ?thesis using r n by blast
qed

text \<open>A 404 host as the tool itself would write it, with one target that wants it.\<close>

definition ex_settled :: Resource where
  "ex_settled = SetEnabled True (SetResourceID 5
     (desired_resource ex_options ex_dialect (ex_target ''b.example.com'') (CertificateRef 0) None))"

definition ex_settled_options :: Options where "ex_settled_options = ex_options\<lparr> o_Kinds := [KindDead] \<rparr>"

lemma ex_settled_server:
  "still (ex_api [ex_settled]) h ex_dialect (\<lambda>k. filter (\<lambda>r. r_Kind r = k) [ex_settled]) [] []"
  by (simp add: still_def ex_api_def)

definition ex_settled_target :: Target where "ex_settled_target = ex_target ''b.example.com''"

lemma ex_settled_start:
  "settled (ex_api [ex_settled]) ex_settled_options (ex_snapshot [ex_settled_target] 1) ex_dialect
     (\<lambda>k. filter (\<lambda>r. r_Kind r = k) [ex_settled]) [] Map.empty NewWorker"
proof -
  have i: "fst (indexTargets (targets_of (ex_snapshot [ex_settled_target] 1) KindDead)) = [(''b.example.com'', ex_settled_target)]"
    by code_simp
  have k: "r_Kind ex_settled = KindDead" "ResourceKey ex_settled = ''b.example.com''" by code_simp+
  then have m: "map_of (indexResources [ex_settled]) ''b.example.com'' = Some ex_settled"
    by (simp add: indexResources_def index_resource_def Let_def)
  have o: "\<not> fst (ownership_decision ex_settled_options ex_settled)" by code_simp
  have "Option.is_none (foreignDomain (indexDomains [ex_settled]) ex_settled_target (Some ex_settled) (owns ex_settled_options))"
    by code_simp
  then have f: "foreignDomain (indexDomains [ex_settled]) ex_settled_target (Some ex_settled) (owns ex_settled_options) = None"
    by (simp add: Option.is_none_def)
  have r: "resolveAccessLists Map.empty ex_settled_target = Inr ex_settled_target" by code_simp
  have c: "certificate_at (ex_api [ex_settled]) ex_settled_options [] ex_settled_target ex_settled (CertificateRef 0)"
    by (simp add: certificate_at_def certificate_choice_def ex_settled_target_def ex_target_def spec_of_def Resolve_def zero_selection_def)
  have h: "Fingerprint ex_settled = Fingerprint (desired_resource ex_settled_options ex_dialect ex_settled_target (CertificateRef 0) (Some ex_settled))"
    by code_simp
  have e: "desired_enabled ex_settled_options ex_settled_target ex_settled
      (desired_resource ex_settled_options ex_dialect ex_settled_target (CertificateRef 0) (Some ex_settled)) = r_IsEnabled ex_settled"
    by code_simp
  have t: "t_Running ex_settled_target" "t_Kind ex_settled_target = KindDead" "t_Key ex_settled_target = ''b.example.com''" by code_simp+
  have "matches ex_settled_options ex_dialect ex_settled_target (CertificateRef 0) ex_settled x" for x
    using h e t(1) by (simp add: matches_def Let_def)
  then have s: "settled_with (ex_api [ex_settled]) ex_settled_options ex_dialect [ex_settled] [] Map.empty
      (''b.example.com'', ex_settled_target) x None" for x
    unfolding settled_with_def using m o f r c by (intro exI [of _ ex_settled] exI [of _ ex_settled_target] exI [of _ "CertificateRef 0"]) simp
  have "set (targets_of (ex_snapshot [ex_settled_target] 1) KindDead) = {ex_settled_target}"
    using t(2) by (simp add: targets_of_def ex_snapshot_def)
  with i k s t show ?thesis
    by (simp add: settled_def settled_kind_def settled_in_def ex_settled_options_def NewWorker_def)
qed

theorem settled_runs_are_silent_witness:
  "list_all (\<lambda>c. \<not> is_write c) (new_calls NewWorker
     (snd (runs (ex_api [ex_settled]) ex_settled_options (ex_snapshot [ex_settled_target] 1) [True, True, False] NewWorker)))"
proof -
  let ?runs = "runs (ex_api [ex_settled]) ex_settled_options (ex_snapshot [ex_settled_target] 1) [True, True, False] NewWorker"
  obtain xs w' where r: "?runs = (xs, w')" by fastforce
  have "\<not> needsAccessListNames (snap_Targets (ex_snapshot [ex_settled_target] 1))" by code_simp
  then have "lists_of (ex_snapshot [ex_settled_target] 1) [] NewWorker = Map.empty" by (simp add: lists_of_def NewWorker_def)
  with ex_settled_start have "settled (ex_api [ex_settled]) ex_settled_options (ex_snapshot [ex_settled_target] 1) ex_dialect
     (\<lambda>k. filter (\<lambda>r. r_Kind r = k) [ex_settled]) [] (lists_of (ex_snapshot [ex_settled_target] 1) [] NewWorker) NewWorker" by simp
  from settled_runs_are_silent [OF ex_settled_server this r] have "list_all (\<lambda>c. \<not> is_write c) (new_calls NewWorker w')" by blast
  then show ?thesis by (simp only: r snd_conv)
qed

end
