(* ===== verification/Findings.thy ===== *)
theory Findings
  imports Writes
begin

text \<open>
  Runs on concrete inputs in which the code does something else than its documentation says. Each is
  one evaluated reconcile run; \<open>docs/MIGRATION.md\<close> and \<open>docs/CONFIGURATION.md\<close> are the documents.
\<close>

text \<open>With \<open>MIGRATE_FROM_REDTH\<close> a host of the other tool that no label claims is not left alone: it counts as an
  own host without a container and is deleted.\<close>

definition ex_redth :: Resource where
  "ex_redth = Dead (zero_dead\<lparr> dh_ID := 4, dh_DomainNames := [''kept.example.com''], dh_Enabled := True,
     dh_Meta := [MetaManagedBy \<mapsto> MStr RedthManagedByValue] \<rparr>)"

lemma unclaimed_redth_host_is_deleted:
  "list_ex (\<lambda>c. case c of CDelete k i \<Rightarrow> k = KindDead \<and> i = 4 | _ \<Rightarrow> False)
     (new_calls NewWorker (snd (ex_run (ex_options\<lparr> o_MigrateFromRedth := True \<rparr>) True [ex_redth] [ex_target ''a.example.com''])))"
  by code_simp

text \<open>With \<open>NPM_ON_STOP=disable\<close> the host of a container that is stopped when it is first seen is created, and
  enabled.\<close>

lemma stopped_container_gets_an_enabled_host:
  "list_ex (\<lambda>c. case c of CCreate r \<Rightarrow> r_IsEnabled r | _ \<Rightarrow> False)
     (new_calls NewWorker (snd (ex_run ex_options True [] [ex_stopped])))
   \<and> o_OnStop ex_options = OnStopDisable"
  by code_simp

end
