(* ===== verification/Counters.thy ===== *)
theory Counters
  imports Runs
begin

text \<open>
  The counters of a run are complete: every target and every orphan of a listed collection is
  counted exactly once, whatever branch it takes.
\<close>

definition rs_total :: "Result \<Rightarrow> int" where
  "rs_total r = rs_Created r + rs_Updated r + rs_Deleted r + rs_Unchanged r + rs_Skipped r + rs_Failed r"

definition rs_nonneg :: "Result \<Rightarrow> bool" where
  "rs_nonneg r \<longleftrightarrow> 0 \<le> rs_Created r \<and> 0 \<le> rs_Updated r \<and> 0 \<le> rs_Deleted r \<and> 0 \<le> rs_Unchanged r
     \<and> 0 \<le> rs_Skipped r \<and> 0 \<le> rs_Failed r"

text \<open>\<open>counts p p'\<close>: one more in exactly one counter, and an error for each failure.\<close>

definition counts :: "progress \<Rightarrow> progress \<Rightarrow> bool" where
  "counts p p' \<longleftrightarrow> rs_total (pr_result p') = rs_total (pr_result p) + 1 \<and> (rs_nonneg (pr_result p) \<longrightarrow> rs_nonneg (pr_result p'))
     \<and> rs_Failed (pr_result p') - int (length (pr_errs p')) = rs_Failed (pr_result p) - int (length (pr_errs p))"

named_theorems counting \<open>steps that count one target\<close>

lemma counts_steps [counting]:
  "counts p (p_skipped p)" "counts p (p_unchanged p)" "counts p (p_updated p)" "counts p (p_created p)"
  "counts p (p_failed e p)"
  by (simp_all add: counts_def rs_total_def rs_nonneg_def p_skipped_def p_unchanged_def p_updated_def p_created_def p_failed_def)

lemma counts_keep [counting]: "counts p p' \<Longrightarrow> counts p (p_keep key e p')"
  by (simp add: counts_def p_keep_def)

lemma create_missing_counts [counting]: "counts p (snd (create_missing a opts v key t r (w, p)))"
  by (auto simp: create_missing_def counting split: prod.split sum.split option.split)

lemma toggle_existing_counts [counting]: "counts p (snd (toggle_existing a opts v key t current r h ch (w, p)))"
  by (auto simp: toggle_existing_def Let_def counting split: prod.split sum.split)

lemma update_existing_counts [counting]: "counts p (snd (update_existing a opts v key t current r (w, p)))"
  by (auto simp: update_existing_def Let_def counting split: prod.split sum.split)

lemma apply_target_counts [counting]: "counts p (snd (apply_target a opts v key t live certificate (w, p)))"
  by (simp add: apply_target_def Let_def case_prod_beta counting split: option.split)

lemma reconcile_target_counts [counting]: "counts p (snd (reconcile_target a opts v x (w, p)))"
  by (cases x) (auto simp: reconcile_target_def Let_def counting split: option.splits sum.split prod.split)

lemma target_loop_counts:
  "rs_total (pr_result (snd (fold (reconcile_target a opts v) xs s))) = rs_total (pr_result (snd s)) + int (length xs)
   \<and> (rs_nonneg (pr_result (snd s)) \<longrightarrow> rs_nonneg (pr_result (snd (fold (reconcile_target a opts v) xs s))))
   \<and> rs_Failed (pr_result (snd (fold (reconcile_target a opts v) xs s))) - int (length (pr_errs (snd (fold (reconcile_target a opts v) xs s))))
      = rs_Failed (pr_result (snd s)) - int (length (pr_errs (snd s)))"
proof (induction xs arbitrary: s)
  case (Cons x xs)
  have "counts (snd s) (snd (reconcile_target a opts v x s))"
    using reconcile_target_counts [of "snd s" a opts v x "fst s"] by simp
  with Cons.IH [of "reconcile_target a opts v x s"] show ?case by (simp add: counts_def)
qed simp

section \<open>Orphans and conflicts\<close>

definition orphaned :: "Options \<Rightarrow> (string \<times> Target) list \<Rightarrow> string \<times> Resource \<Rightarrow> bool" where
  "orphaned opts desired x \<longleftrightarrow> \<not> has_key desired (fst x) \<and> owns opts (snd x)"

lemma orphan_fold_counts:
  assumes "fold (orphan_step opts kind snap desired) xs (res, os) = (res', os')"
  shows "rs_total res' + int (length os') = rs_total res + int (length os) + int (length (filter (orphaned opts desired) xs))
    \<and> (rs_nonneg res \<longrightarrow> rs_nonneg res') \<and> rs_Failed res' = rs_Failed res"
  using assms
proof (induction xs arbitrary: res os)
  case (Cons x xs)
  obtain r1 o1 where s: "orphan_step opts kind snap desired x (res, os) = (r1, o1)" by fastforce
  from Cons.IH [of r1 o1] Cons.prems s
  have ih: "rs_total res' + int (length os') = rs_total r1 + int (length o1) + int (length (filter (orphaned opts desired) xs))"
      "rs_nonneg r1 \<longrightarrow> rs_nonneg res'" "rs_Failed res' = rs_Failed r1" by simp_all
  have "rs_total r1 + int (length o1) = rs_total res + int (length os) + (if orphaned opts desired x then 1 else 0)"
      "rs_nonneg res \<longrightarrow> rs_nonneg r1" "rs_Failed r1 = rs_Failed res"
    using s by (auto simp: orphan_step_def orphaned_def Let_def rs_total_def rs_nonneg_def split: if_splits)
  with ih show ?case by simp
qed simp

lemma index_sorted_length:
  "length (fst (index_sorted ts out)) + length (snd (index_sorted ts out)) = length out + length (filter (\<lambda>t. t_Key t \<noteq> []) ts)"
  by (induction ts out rule: index_sorted.induct) auto

lemma length_filter_sort_key: "length (filter P (sort_key f xs)) = length (filter P xs)"
  by (metis filter_sort length_sort)

lemma indexTargets_length:
  "indexTargets ts = (desired, cs) \<Longrightarrow> length desired + length cs = length (filter (\<lambda>t. t_Key t \<noteq> []) ts)"
  using index_sorted_length [of "sort_key target_order ts" "[]"] by (simp add: indexTargets_def length_filter_sort_key)

section \<open>Properties\<close>

text \<open>Every target is accounted for. For a collection the server lists, the counters of the
  result and the orphans add up to the targets of the kind that have a key plus the resources of
  this instance that no target wants; no counter is negative, and there is an error message for
  every failure.\<close>

theorem every_target_is_counted:
  assumes "api_List a (w_trace w) kind = Inr live" "reconcileKind a opts kind targets snap w = (out, w')"
    and "o_OnStop opts \<noteq> OnStopDelete"
  shows "rs_total (ko_result out) + int (length (ko_orphans out)) =
      int (length (filter (\<lambda>t. t_Key t \<noteq> []) targets))
      + int (length (filter (orphaned opts (fst (indexTargets targets))) (indexResources live)))
    \<and> rs_nonneg (ko_result out) \<and> rs_Failed (ko_result out) = int (length (ko_partial out))"
proof -
  obtain kept w2 desired cs now w3 v p0 w4 p res orphans where
    b: "applyStopPolicy a opts targets (called (CList kind) w) = (kept, w2)" "indexTargets kept = (desired, cs)"
    and p0: "p0 = \<lparr> pr_result = zero_result\<lparr> rs_Skipped := int (length cs) \<rparr>, pr_next = [], pr_errs = [] \<rparr>"
    and loop: "fold (reconcile_target a opts v) (sort_key fst desired) (w3, p0) = (w4, p)"
    and orp: "fold (orphan_step opts kind snap desired) (sort_key fst (indexResources live)) (pr_result p, []) = (res, orphans)"
    and out: "out = \<lparr> ko_result = res, ko_fatal = None, ko_partial = pr_errs p, ko_orphans = orphans,
       ko_owned = length (filter (owns opts) live),
       ko_foreignPrefix = length (filter (foreign_prefix opts) (filter (owns opts) live)) \<rparr>"
    by (rule reconcileKind_listed [OF assms(1,2)], rule that, assumption+)
  have k: "kept = targets" using b(1) assms(3) by (simp add: applyStopPolicy_def)
  have z: "rs_total (pr_result p0) = int (length cs)" "rs_nonneg (pr_result p0)" "rs_Failed (pr_result p0) = 0" "pr_errs p0 = []"
    by (simp_all add: p0 zero_result_def rs_total_def rs_nonneg_def)
  have t: "rs_total (pr_result p) = int (length cs) + int (length desired)" "rs_nonneg (pr_result p)"
      "rs_Failed (pr_result p) = int (length (pr_errs p))"
    using target_loop_counts [of a opts v "sort_key fst desired" "(w3, p0)"] loop z by simp_all
  from orphan_fold_counts [OF orp] t indexTargets_length [OF b(2)] b(2) show ?thesis
    by (simp add: out k length_filter_sort_key)
qed

theorem every_target_is_counted_witness:
  "rs_total (ko_result (fst (reconcileKind (ex_api [ex_gone]) ex_options KindDead [ex_target ''a.example.com''] (ex_snapshot [] 1) NewWorker))) = 1"
proof -
  let ?r = "reconcileKind (ex_api [ex_gone]) ex_options KindDead [ex_target ''a.example.com''] (ex_snapshot [] 1) NewWorker"
  have l: "api_List (ex_api [ex_gone]) (w_trace NewWorker) KindDead = Inr [ex_gone]" by (simp add: ex_api_def ex_gone_def)
  have o: "length (ko_orphans (fst ?r)) = 1"
    "length (filter (\<lambda>t. t_Key t \<noteq> []) [ex_target ''a.example.com'']) = 1"
    "length (filter (orphaned ex_options (fst (indexTargets [ex_target ''a.example.com'']))) (indexResources [ex_gone])) = 1"
    "o_OnStop ex_options \<noteq> OnStopDelete" by code_simp+
  from every_target_is_counted [OF l prod.collapse [symmetric] o(4), of "[ex_target ''a.example.com'']" "ex_snapshot [] 1", unfolded o]
  show ?thesis by simp
qed

end
