(* ===== verification/Debounce.thy ===== *)
theory Debounce
  imports GoTime
begin

text \<open>
  The event debouncer (\<open>internal/syncer/debounce.go\<close>) as a labelled transition system. A label is
  what the goroutine reacts to: an event with the clock reading, the timer, the hand-over of a
  batch, the end of the input, the cancellation. The select statement picks any enabled label; a
  timer that has fired but was not read yet is drained by \<open>Stop\<close>, so an event may still come
  first. The timer is its due time.
\<close>

section \<open>The loop\<close>

datatype 'e label =
    Arrive 'e int
  | Tick int
  | Handover
  | Closed
  | Cancel

text \<open>\<open>Sending b last\<close>: blocked on \<open>out <- b\<close>; \<open>last\<close> when the input is closed.\<close>

datatype 'e phase = Waiting | Sending "'e list" bool | Stopped

record 'e debouncer =
  db_pending :: "'e list"
  db_timer :: "int option"
  db_deadline :: int
  db_phase :: "'e phase"
  db_sent :: "'e list list"

definition quiet_period :: "int \<Rightarrow> int" where
  "quiet_period interval = (if interval \<le> 0 then second else interval)"

definition db_init :: "'e debouncer" where
  "db_init = \<lparr> db_pending = [], db_timer = None, db_deadline = 0, db_phase = Waiting, db_sent = [] \<rparr>"

text \<open>The event branch of the select.\<close>

definition on_event :: "int \<Rightarrow> int \<Rightarrow> 'e \<Rightarrow> int \<Rightarrow> 'e debouncer \<Rightarrow> 'e debouncer" where
  "on_event interval maxWait e now s =
     (let wait = quiet_period interval; s = s\<lparr> db_pending := db_pending s @ [e] \<rparr> in
      case db_timer s of
        None \<Rightarrow> s\<lparr> db_deadline := (if maxWait > 0 then now + maxWait else 0), db_timer := Some (now + wait) \<rparr>
      | Some _ \<Rightarrow>
          let remaining = db_deadline s - now;
              wait = (if db_deadline s \<noteq> 0 \<and> remaining < wait then max remaining 0 else wait)
          in s\<lparr> db_timer := Some (now + wait) \<rparr>)"

inductive db_step :: "int \<Rightarrow> int \<Rightarrow> 'e debouncer \<Rightarrow> 'e label \<Rightarrow> 'e debouncer \<Rightarrow> bool"
  for interval maxWait where
  arrive: "db_phase s = Waiting \<Longrightarrow> db_step interval maxWait s (Arrive e now) (on_event interval maxWait e now s)"
| tick: "db_phase s = Waiting \<Longrightarrow> db_timer s = Some due \<Longrightarrow> due \<le> t
    \<Longrightarrow> db_step interval maxWait s (Tick t)
          (s\<lparr> db_timer := None, db_pending := [], db_phase := Sending (db_pending s) False \<rparr>)"
| handover: "db_phase s = Sending b final
    \<Longrightarrow> db_step interval maxWait s Handover
          (s\<lparr> db_sent := db_sent s @ [b], db_phase := (if final then Stopped else Waiting) \<rparr>)"
| closed: "db_phase s = Waiting
    \<Longrightarrow> db_step interval maxWait s Closed
          (if db_pending s = [] then s\<lparr> db_phase := Stopped \<rparr>
           else s\<lparr> db_pending := [], db_timer := None, db_phase := Sending (db_pending s) True \<rparr>)"
| cancel: "db_phase s \<noteq> Stopped \<Longrightarrow> db_step interval maxWait s Cancel (s\<lparr> db_phase := Stopped \<rparr>)"

inductive_cases db_arriveE [elim!]: "db_step interval maxWait s (Arrive e now) s'"
inductive_cases db_tickE [elim!]: "db_step interval maxWait s (Tick t) s'"
inductive_cases db_handoverE [elim!]: "db_step interval maxWait s Handover s'"
inductive_cases db_closedE [elim!]: "db_step interval maxWait s Closed s'"
inductive_cases db_cancelE [elim!]: "db_step interval maxWait s Cancel s'"

inductive db_run :: "int \<Rightarrow> int \<Rightarrow> 'e label list \<Rightarrow> 'e debouncer \<Rightarrow> bool" for interval maxWait where
  start: "db_run interval maxWait [] db_init"
| more: "db_run interval maxWait ls s \<Longrightarrow> db_step interval maxWait s l s' \<Longrightarrow> db_run interval maxWait (ls @ [l]) s'"

section \<open>What the labels say\<close>

fun arrived :: "'e label \<Rightarrow> 'e list" where
  "arrived (Arrive e _) = [e]"
| "arrived _ = []"

fun clock_of :: "'e label \<Rightarrow> int list" where
  "clock_of (Arrive _ t) = [t]"
| "clock_of (Tick t) = [t]"
| "clock_of _ = []"

definition events_of :: "'e label list \<Rightarrow> 'e list" where
  "events_of ls = concat (map arrived ls)"

definition clocks_of :: "'e label list \<Rightarrow> int list" where
  "clocks_of ls = concat (map clock_of ls)"

fun in_hand :: "'e phase \<Rightarrow> 'e list" where
  "in_hand (Sending b _) = b"
| "in_hand _ = []"

section \<open>Invariants\<close>

lemma events_of_snoc [simp]: "events_of (ls @ [l]) = events_of ls @ arrived l"
  by (simp add: events_of_def)

lemma clocks_of_snoc [simp]: "clocks_of (ls @ [l]) = clocks_of ls @ clock_of l"
  by (simp add: clocks_of_def)

lemma on_event_simps [simp]:
  "db_pending (on_event interval maxWait e now s) = db_pending s @ [e]"
  "db_phase (on_event interval maxWait e now s) = db_phase s"
  "db_sent (on_event interval maxWait e now s) = db_sent s"
  "db_timer (on_event interval maxWait e now s) \<noteq> None"
  by (simp_all add: on_event_def Let_def split: option.split)

text \<open>The timer is armed exactly while events wait, and batches are never empty.\<close>

lemma db_armed:
  assumes "db_run interval maxWait ls s"
  shows "(db_phase s = Waiting \<longrightarrow> (db_timer s = None) = (db_pending s = []))
    \<and> (in_hand (db_phase s) \<noteq> [] \<longrightarrow> db_pending s = [])
    \<and> (\<forall>b final. db_phase s = Sending b final \<longrightarrow> b \<noteq> [] \<and> db_timer s = None \<and> db_pending s = [])
    \<and> [] \<notin> set (db_sent s)"
  using assms
proof (induction rule: db_run.induct)
  case start
  then show ?case by (simp add: db_init_def)
next
  case (more ls s l s')
  from more(2,3) show ?case
    by (cases rule: db_step.cases) (auto split: if_splits)
qed

text \<open>Nothing is lost, doubled or reordered before a cancellation.\<close>

lemma db_conserves:
  assumes "db_run interval maxWait ls s"
  shows "Cancel \<notin> set ls \<Longrightarrow> concat (db_sent s) @ in_hand (db_phase s) @ db_pending s = events_of ls"
    and "\<exists>rest. events_of ls = concat (db_sent s) @ rest"
proof -
  have "(Cancel \<notin> set ls \<longrightarrow> concat (db_sent s) @ in_hand (db_phase s) @ db_pending s = events_of ls)
    \<and> (\<exists>rest. events_of ls = concat (db_sent s) @ rest)
    \<and> (db_phase s \<noteq> Stopped \<longrightarrow> Cancel \<notin> set ls)"
    using assms
  proof (induction rule: db_run.induct)
    case start
    then show ?case by (simp add: db_init_def events_of_def)
  next
    case (more ls s l s')
    from more(1) have a: "db_phase s = Sending b final \<Longrightarrow> db_pending s = []" for b final
      using db_armed by blast
    from more(2,3) show ?case
      by (cases rule: db_step.cases) (auto dest: a split: if_splits)
  qed
  then show "Cancel \<notin> set ls \<Longrightarrow> concat (db_sent s) @ in_hand (db_phase s) @ db_pending s = events_of ls"
    and "\<exists>rest. events_of ls = concat (db_sent s) @ rest" by blast+
qed

text \<open>The burst that is waiting: the labels since its first event are events only, and the timer is
  due a quiet period after the last of them, or at the deadline of the burst.\<close>

fun is_arrive :: "'e label \<Rightarrow> bool" where
  "is_arrive (Arrive _ _) = True"
| "is_arrive _ = False"

definition due_ok :: "int \<Rightarrow> int \<Rightarrow> int \<Rightarrow> int \<Rightarrow> int \<Rightarrow> bool" where
  "due_ok interval maxWait t0 tn due \<longleftrightarrow>
     due = tn + quiet_period interval
     \<or> maxWait > 0 \<and> t0 + maxWait < tn + quiet_period interval \<and> due = max (t0 + maxWait) tn"

definition waiting_burst :: "int \<Rightarrow> int \<Rightarrow> 'e label list \<Rightarrow> 'e debouncer \<Rightarrow> 'e label list \<Rightarrow> bool" where
  "waiting_burst interval maxWait ls s burst \<longleftrightarrow>
     (\<exists>before. ls = before @ burst) \<and> burst \<noteq> [] \<and> list_all is_arrive burst \<and> db_pending s = events_of burst
     \<and> db_deadline s = (if maxWait > 0 then hd (clocks_of burst) + maxWait else 0)
     \<and> (\<exists>due. db_timer s = Some due \<and> due_ok interval maxWait (hd (clocks_of burst)) (last (clocks_of burst)) due)"

lemma arrive_clocks: "list_all is_arrive burst \<Longrightarrow> burst \<noteq> [] \<Longrightarrow> clocks_of burst \<noteq> []"
  by (cases burst; cases "hd burst") (auto simp: clocks_of_def)

lemma due_next:
  assumes "maxWait > 0 \<Longrightarrow> t0 + maxWait \<noteq> 0" "deadline = (if maxWait > 0 then t0 + maxWait else 0)"
  shows "due_ok interval maxWait t0 now (now + (if deadline \<noteq> 0 \<and> deadline - now < quiet_period interval
     then max (deadline - now) 0 else quiet_period interval))"
  using assms by (auto simp: due_ok_def max_def)

lemma on_event_waiting:
  assumes "waiting_burst interval maxWait ls s burst" "maxWait > 0 \<Longrightarrow> hd (clocks_of burst) + maxWait \<noteq> 0"
  shows "waiting_burst interval maxWait (ls @ [Arrive e now]) (on_event interval maxWait e now s) (burst @ [Arrive e now])"
proof -
  obtain due where b: "burst \<noteq> []" "list_all is_arrive burst" "db_pending s = events_of burst"
      "db_deadline s = (if maxWait > 0 then hd (clocks_of burst) + maxWait else 0)" "db_timer s = Some due"
    and l: "\<exists>before. ls = before @ burst"
    using assms(1) unfolding waiting_burst_def by blast
  have h: "hd (clocks_of (burst @ [Arrive e now])) = hd (clocks_of burst)" using arrive_clocks [OF b(2,1)] by simp
  have d: "db_deadline (on_event interval maxWait e now s) = db_deadline s"
    "db_timer (on_event interval maxWait e now s) = Some (now + (if db_deadline s \<noteq> 0 \<and> db_deadline s - now < quiet_period interval
     then max (db_deadline s - now) 0 else quiet_period interval))"
    using b(5) by (simp_all add: on_event_def Let_def)
  show ?thesis
    unfolding waiting_burst_def h using b l d due_next [OF assms(2) b(4)] by auto
qed

lemma on_event_first:
  assumes "db_timer s = None" "db_pending s = []"
  shows "waiting_burst interval maxWait (ls @ [Arrive e now]) (on_event interval maxWait e now s) [Arrive e now]"
  using assms by (simp add: waiting_burst_def on_event_def Let_def events_of_def clocks_of_def due_ok_def)

lemma db_burst:
  assumes "db_run interval maxWait ls s"
  shows "\<forall>t\<in>set (clocks_of ls). 0 < t \<Longrightarrow> db_phase s = Waiting \<Longrightarrow> db_pending s \<noteq> []
    \<Longrightarrow> \<exists>burst. waiting_burst interval maxWait ls s burst"
  using assms
proof (induction rule: db_run.induct)
  case start
  then show ?case by (simp add: db_init_def)
next
  case (more ls s l s')
  from more(2) show ?case
  proof (cases rule: db_step.cases)
    case (arrive e now)
    show ?thesis
    proof (cases "db_pending s = []")
      case True
      then have "db_timer s = None" using db_armed [OF more(1)] arrive by blast
      with True show ?thesis unfolding arrive(1,2) by (intro exI) (rule on_event_first)
    next
      case False
      then obtain burst where w: "waiting_burst interval maxWait ls s burst" using more arrive by auto
      then obtain before where "ls = before @ burst" "burst \<noteq> []" "list_all is_arrive burst"
        unfolding waiting_burst_def by blast
      then have "hd (clocks_of burst) \<in> set (clocks_of ls)"
        using hd_in_set [OF arrive_clocks [of burst]] by (auto simp: clocks_of_def)
      then have "0 < hd (clocks_of burst)" using more(4) by simp
      with w arrive show ?thesis using on_event_waiting by fastforce
    qed
  qed (use more db_armed [OF more(1)] in \<open>auto split: if_splits\<close>)
qed

section \<open>Properties\<close>

text \<open>The debouncer loses nothing. Along every run without a cancellation the delivered batches,
  the batch being handed over and the waiting events are, in order, exactly the events received;
  a cancellation only cuts the end off; and no batch is ever empty.\<close>

theorem debouncer_conserves_events:
  assumes "db_run interval maxWait ls s"
  shows "(Cancel \<notin> set ls \<longrightarrow> concat (db_sent s) @ in_hand (db_phase s) @ db_pending s = events_of ls)
    \<and> (\<exists>rest. events_of ls = concat (db_sent s) @ rest) \<and> [] \<notin> set (db_sent s)"
  using db_conserves [OF assms] db_armed [OF assms] by blast

lemma ex_burst:
  "db_run 10 15 [Arrive ''a'' 1, Arrive ''b'' 8]
     (on_event 10 15 ''b'' 8 (on_event 10 15 ''a'' 1 db_init))"
proof -
  have "db_run 10 15 ([] @ [Arrive ''a'' 1]) (on_event 10 15 ''a'' 1 db_init)"
    by (rule more [OF start arrive]) (simp add: db_init_def)
  then have "db_run 10 15 (([] @ [Arrive ''a'' 1]) @ [Arrive ''b'' 8]) (on_event 10 15 ''b'' 8 (on_event 10 15 ''a'' 1 db_init))"
    by (rule more) (rule arrive, simp add: db_init_def)
  then show ?thesis by simp
qed

theorem debouncer_conserves_events_witness:
  "\<exists>rest. events_of [Arrive ''a'' 1, Arrive ''b'' (8::int)] =
     concat (db_sent (on_event 10 15 ''b'' 8 (on_event 10 15 ''a'' 1 db_init))) @ rest"
  using debouncer_conserves_events [OF ex_burst] by blast



end
