(* ===== verification/FieldTable.thy ===== *)
theory FieldTable
  imports Dialect
begin

text \<open>
  The field table (\<open>internal/fields/fields.go\<close>): every configurable property of a resource with the
  spellings its label may have, its type, its built-in default and the API property it ends up in.
  The documentation column stands in \<open>Markdown\<close>. The lookup tables are built as the code builds them; the
  section at the end shows that no spelling is ambiguous, so the order of the entries does not
  matter.
\<close>

section \<open>Fields\<close>

datatype FieldType =
  TypeString | TypeBool | TypeInt | TypePort | TypeEnum | TypeDomains | TypeList | TypeCertificate

record Field =
  f_Name :: string
  f_Aliases :: "string list"
  f_Type :: FieldType
  f_Enum :: "string list"
  f_Default :: string
  f_APIField :: string
  f_Plus :: bool
  f_Invert :: bool

definition zero_field :: Field where
  "zero_field = \<lparr> f_Name = [], f_Aliases = [], f_Type = TypeString, f_Enum = [], f_Default = [], f_APIField = [],
     f_Plus = False, f_Invert = False \<rparr>"

text \<open>The canonical names; the prefix keeps them apart from the names of the resource model.\<close>

definition F_Enable :: string where "F_Enable = ''enable''"
definition F_Enabled :: string where "F_Enabled = ''enabled''"
definition F_Domains :: string where "F_Domains = ''domains''"
definition F_Certificate :: string where "F_Certificate = ''certificate''"
definition F_SSLForced :: string where "F_SSLForced = ''ssl.forced''"
definition F_HTTP2 :: string where "F_HTTP2 = ''ssl.http2''"
definition F_HTTP3 :: string where "F_HTTP3 = ''ssl.http3''"
definition F_HSTS :: string where "F_HSTS = ''ssl.hsts''"
definition F_HSTSSubdomains :: string where "F_HSTSSubdomains = ''ssl.hsts_subdomains''"
definition F_AdvancedConfig :: string where "F_AdvancedConfig = ''advanced_config''"
definition F_LEEmail :: string where "F_LEEmail = ''letsencrypt.email''"
definition F_LEAgree :: string where "F_LEAgree = ''letsencrypt.agree''"
definition F_LEDNSChallenge :: string where "F_LEDNSChallenge = ''letsencrypt.dns_challenge''"
definition F_LEDNSProvider :: string where "F_LEDNSProvider = ''letsencrypt.dns_provider''"
definition F_LEDNSCreds :: string where "F_LEDNSCreds = ''letsencrypt.dns_credentials''"
definition F_LEPropagation :: string where "F_LEPropagation = ''letsencrypt.propagation_seconds''"
definition F_ForwardHost :: string where "F_ForwardHost = ''forward_host''"
definition F_ForwardPort :: string where "F_ForwardPort = ''forward_port''"
definition F_ForwardScheme :: string where "F_ForwardScheme = ''forward_scheme''"
definition F_Websockets :: string where "F_Websockets = ''websockets''"
definition F_Caching :: string where "F_Caching = ''caching''"
definition F_BlockExploits :: string where "F_BlockExploits = ''block_exploits''"
definition F_TrustForwardedProto :: string where "F_TrustForwardedProto = ''trust_forwarded_proto''"
definition F_AccessList :: string where "F_AccessList = ''access_list''"
definition F_AccessListType :: string where "F_AccessListType = ''access_list_type''"
definition F_AuthRequest :: string where "F_AuthRequest = ''auth_request''"
definition F_AuthRequestUpstream :: string where "F_AuthRequestUpstream = ''auth_request_upstream''"
definition F_LocationConfig :: string where "F_LocationConfig = ''location_config''"
definition F_Group :: string where "F_Group = ''group''"
definition F_NoIndex :: string where "F_NoIndex = ''noindex''"
definition F_CrowdsecAppsec :: string where "F_CrowdsecAppsec = ''crowdsec_appsec''"
definition F_RequestBuffering :: string where "F_RequestBuffering = ''request_buffering''"
definition F_ResponseBuffering :: string where "F_ResponseBuffering = ''response_buffering''"
definition F_UpstreamCompression :: string where "F_UpstreamCompression = ''upstream_compression''"
definition F_FancyIndex :: string where "F_FancyIndex = ''fancyindex''"
definition F_XFrameOptions :: string where "F_XFrameOptions = ''x_frame_options''"
definition F_Location :: string where "F_Location = ''location''"
definition F_ResolveIP :: string where "F_ResolveIP = ''resolve_ip''"
definition F_ForwardDomain :: string where "F_ForwardDomain = ''forward_domain''"
definition F_HTTPCode :: string where "F_HTTPCode = ''http_code''"
definition F_PreservePath :: string where "F_PreservePath = ''preserve_path''"
definition F_IncomingPort :: string where "F_IncomingPort = ''incoming_port''"
definition F_TCP :: string where "F_TCP = ''tcp''"
definition F_UDP :: string where "F_UDP = ''udp''"
definition F_Protocol :: string where "F_Protocol = ''protocol''"
definition F_ProxyProtocol :: string where "F_ProxyProtocol = ''proxy_protocol''"
definition F_ProxyTLS :: string where "F_ProxyTLS = ''proxy_tls''"
definition F_Description :: string where "F_Description = ''description''"
definition F_Auto :: string where "F_Auto = ''auto''"

lemmas field_names = F_Enable_def F_Enabled_def F_Domains_def F_Certificate_def F_SSLForced_def
  F_HTTP2_def F_HTTP3_def F_HSTS_def F_HSTSSubdomains_def F_AdvancedConfig_def F_LEEmail_def F_LEAgree_def
  F_LEDNSChallenge_def F_LEDNSProvider_def F_LEDNSCreds_def F_LEPropagation_def F_ForwardHost_def
  F_ForwardPort_def F_ForwardScheme_def F_Websockets_def F_Caching_def F_BlockExploits_def
  F_TrustForwardedProto_def F_AccessList_def F_AccessListType_def F_AuthRequest_def
  F_AuthRequestUpstream_def F_LocationConfig_def F_Group_def F_NoIndex_def F_CrowdsecAppsec_def
  F_RequestBuffering_def F_ResponseBuffering_def F_UpstreamCompression_def F_FancyIndex_def
  F_XFrameOptions_def F_Location_def F_ResolveIP_def F_ForwardDomain_def F_HTTPCode_def F_PreservePath_def
  F_IncomingPort_def F_TCP_def F_UDP_def F_Protocol_def F_ProxyProtocol_def F_ProxyTLS_def
  F_Description_def F_Auto_def

definition SchemeValues :: "string list" where
  "SchemeValues = [''http'', ''https'', ''grpc'', ''grpcs'']"
definition RedirectSchemeValues :: "string list" where
  "RedirectSchemeValues = [''auto'', ''http'', ''https'']"
definition AuthRequestValues :: "string list" where
  "AuthRequestValues = [''none'', ''anubis'', ''tinyauth'', ''oauth2proxy'', ''voidauth'', ''authelia'', ''authentik'', ''authentik-send-basic-auth'']"
definition XFrameOptionsValues :: "string list" where
  "XFrameOptionsValues = [''deny'', ''sameorigin'', ''upstream'', ''none'']"
definition AccessListTypeValues :: "string list" where
  "AccessListTypeValues = [''public'', ''custom'']"
definition LocationAccessListTypeValues :: "string list" where
  "LocationAccessListTypeValues = [''global'', ''public'', ''custom'']"
definition LocationTypeValues :: "string list" where
  "LocationTypeValues = [''prefix'', ''exact'', ''regex'', ''iregex'', ''prefer'', ''named'']"
definition ProxyProtocolValues :: "string list" where
  "ProxyProtocolValues = [''off'', ''v1'', ''v2'']"
definition StreamProtocolValues :: "string list" where
  "StreamProtocolValues = [''tcp'', ''udp'', ''both'']"

section \<open>The tables\<close>

definition certificateField :: Field where
  "certificateField =
     zero_field\<lparr> f_Name := F_Certificate,
       f_Aliases := [''certificate_id'', ''cert'', ''ssl.certificate'', ''ssl.certificate.id'', ''ssl.cert''],
       f_Type := TypeCertificate, f_Default := F_Auto, f_APIField := ''certificate_id'' \<rparr>"

definition enabledField :: Field where
  "enabledField =
     zero_field\<lparr> f_Name := F_Enabled, f_Aliases := [F_Enable], f_Type := TypeBool,
       f_Default := ''true'', f_APIField := ''enabled'' \<rparr>"

definition groupField :: Field where
  "groupField =
     zero_field\<lparr> f_Name := F_Group,
       f_Aliases := [''directory'', ''folder'', ''category'', ''ui.group''], f_Type := TypeString,
       f_APIField := ''npmplus_directory'', f_Plus := True \<rparr>"

definition domainsField :: "bool \<Rightarrow> Field" where
  "domainsField hostAlias =
     (let f = zero_field\<lparr> f_Name := F_Domains,
           f_Aliases := [''domain'', ''domain_names'', ''domain_name''], f_Type := TypeDomains,
           f_APIField := ''domain_names'' \<rparr>
      in if hostAlias then f\<lparr> f_Aliases := f_Aliases f @ [''host'', ''hosts''] \<rparr> else f)"

definition sslFields :: "Field list" where
  "sslFields = [
     certificateField,
     zero_field\<lparr> f_Name := F_SSLForced,
       f_Aliases := [''ssl.force'', ''force_ssl'', ''ssl_forced''], f_Type := TypeBool,
       f_Default := F_Auto, f_APIField := ''ssl_forced'' \<rparr>,
     zero_field\<lparr> f_Name := F_HTTP2, f_Aliases := [''http2'', ''http2_support''],
       f_Type := TypeBool, f_Default := ''true'', f_APIField := ''http2_support'' \<rparr>,
     zero_field\<lparr> f_Name := F_HTTP3, f_Aliases := [''http3'', ''http3_support'', ''quic''],
       f_Type := TypeBool, f_Default := ''true'', f_APIField := ''npmplus_http3_support'',
       f_Plus := True \<rparr>,
     zero_field\<lparr> f_Name := F_HSTS, f_Aliases := [''hsts'', ''hsts_enabled''],
       f_Type := TypeBool, f_Default := ''false'', f_APIField := ''hsts_enabled'' \<rparr>,
     zero_field\<lparr> f_Name := F_HSTSSubdomains, f_Aliases := [''hsts_subdomains'', ''hsts.sub''],
       f_Type := TypeBool, f_Default := ''false'', f_APIField := ''hsts_subdomains'' \<rparr>]"

definition letsencryptFields :: "Field list" where
  "letsencryptFields = [
     zero_field\<lparr> f_Name := F_LEEmail, f_Aliases := [''le.email'', ''certificate.email''],
       f_Type := TypeString, f_APIField := ''meta.letsencrypt_email'' \<rparr>,
     zero_field\<lparr> f_Name := F_LEAgree, f_Aliases := [''le.agree'', ''certificate.agree''],
       f_Type := TypeBool, f_Default := ''false'', f_APIField := ''meta.letsencrypt_agree'' \<rparr>,
     zero_field\<lparr> f_Name := F_LEDNSChallenge,
       f_Aliases := [''le.dns_challenge'', ''dns_challenge''], f_Type := TypeBool,
       f_Default := ''false'', f_APIField := ''meta.dns_challenge'' \<rparr>,
     zero_field\<lparr> f_Name := F_LEDNSProvider,
       f_Aliases := [''le.dns_provider'', ''dns_provider''], f_Type := TypeString,
       f_APIField := ''meta.dns_provider'' \<rparr>,
     zero_field\<lparr> f_Name := F_LEDNSCreds,
       f_Aliases := [''le.dns_credentials'', ''dns_credentials'', ''letsencrypt.dns_provider_credentials''],
       f_Type := TypeString, f_APIField := ''meta.dns_provider_credentials'' \<rparr>,
     zero_field\<lparr> f_Name := F_LEPropagation,
       f_Aliases := [''le.propagation_seconds'', ''propagation_seconds''], f_Type := TypeInt,
       f_Default := ''0'', f_APIField := ''meta.propagation_seconds'' \<rparr>]"

definition proxyFields :: "Field list" where
  "proxyFields = [
     domainsField False,
     zero_field\<lparr> f_Name := F_ForwardHost,
       f_Aliases := [''host'', ''upstream'', ''forward_ip'', ''ip'', ''target''], f_Type := TypeString,
       f_APIField := ''forward_host'' \<rparr>,
     zero_field\<lparr> f_Name := F_ForwardPort, f_Aliases := [''port'', ''upstream_port''],
       f_Type := TypePort, f_Default := F_Auto, f_APIField := ''forward_port'' \<rparr>,
     zero_field\<lparr> f_Name := F_ResolveIP, f_Aliases := [''resolve_container_ip''],
       f_Type := TypeBool, f_APIField := ''forward_host'' \<rparr>,
     zero_field\<lparr> f_Name := F_ForwardScheme, f_Aliases := [''scheme'', ''upstream_scheme''],
       f_Type := TypeEnum, f_Enum := SchemeValues, f_Default := ''http'',
       f_APIField := ''forward_scheme'' \<rparr>,
     zero_field\<lparr> f_Name := F_Websockets,
       f_Aliases := [''websocket'', ''ws'', ''allow_websocket_upgrade''], f_Type := TypeBool,
       f_Default := ''true'', f_APIField := ''allow_websocket_upgrade'' \<rparr>,
     zero_field\<lparr> f_Name := F_Caching, f_Aliases := [''cache'', ''caching_enabled''],
       f_Type := TypeBool, f_Default := ''false'', f_APIField := ''caching_enabled'' \<rparr>,
     zero_field\<lparr> f_Name := F_BlockExploits,
       f_Aliases := [''block_common_exploits'', ''exploits''], f_Type := TypeBool,
       f_Default := ''true'', f_APIField := ''block_exploits'' \<rparr>,
     zero_field\<lparr> f_Name := F_TrustForwardedProto, f_Aliases := [''trust_proto''],
       f_Type := TypeBool, f_Default := ''false'', f_APIField := ''trust_forwarded_proto'' \<rparr>,
     zero_field\<lparr> f_Name := F_AccessList,
       f_Aliases := [''access_list_id'', ''access_list_ids'', ''access_lists'', ''accesslist'', ''accesslist.id'', ''accesslist.ids''],
       f_Type := TypeList, f_APIField := ''npmplus_access_list_ids'' \<rparr>,
     zero_field\<lparr> f_Name := F_AccessListType, f_Aliases := [''accesslist.type''],
       f_Type := TypeEnum, f_Enum := AccessListTypeValues, f_APIField := ''npmplus_access_list_type'',
       f_Plus := True \<rparr>,
     zero_field\<lparr> f_Name := F_AuthRequest, f_Aliases := [''auth'', ''forward_auth''],
       f_Type := TypeEnum, f_Enum := AuthRequestValues, f_Default := ''none'',
       f_APIField := ''npmplus_auth_request'', f_Plus := True \<rparr>,
     zero_field\<lparr> f_Name := F_AuthRequestUpstream, f_Aliases := [''auth.upstream''],
       f_Type := TypeString, f_APIField := ''npmplus_auth_request_upstream'', f_Plus := True \<rparr>,
     zero_field\<lparr> f_Name := F_LocationConfig, f_Type := TypeString,
       f_APIField := ''npmplus_location_config'', f_Plus := True \<rparr>,
     zero_field\<lparr> f_Name := F_AdvancedConfig,
       f_Aliases := [''advanced'', ''custom_config'', ''advanced.config''], f_Type := TypeString,
       f_APIField := ''advanced_config'' \<rparr>,
     zero_field\<lparr> f_Name := F_NoIndex, f_Aliases := [''no_index''], f_Type := TypeBool,
       f_Default := ''false'', f_APIField := ''npmplus_noindex'', f_Plus := True \<rparr>,
     zero_field\<lparr> f_Name := F_CrowdsecAppsec, f_Aliases := [''crowdsec'', ''appsec''],
       f_Type := TypeBool, f_Default := ''true'', f_APIField := ''npmplus_crowdsec_appsec'',
       f_Plus := True, f_Invert := True \<rparr>,
     zero_field\<lparr> f_Name := F_RequestBuffering, f_Aliases := [''proxy_request_buffering''],
       f_Type := TypeBool, f_Default := ''true'', f_APIField := ''npmplus_proxy_request_buffering'',
       f_Plus := True, f_Invert := True \<rparr>,
     zero_field\<lparr> f_Name := F_ResponseBuffering, f_Aliases := [''proxy_response_buffering''],
       f_Type := TypeBool, f_Default := ''true'', f_APIField := ''npmplus_proxy_response_buffering'',
       f_Plus := True, f_Invert := True \<rparr>,
     zero_field\<lparr> f_Name := F_UpstreamCompression, f_Aliases := [''compression''],
       f_Type := TypeBool, f_Default := ''false'', f_APIField := ''npmplus_upstream_compression'',
       f_Plus := True \<rparr>,
     zero_field\<lparr> f_Name := F_FancyIndex, f_Aliases := [''fancy_index''], f_Type := TypeBool,
       f_Default := ''false'', f_APIField := ''npmplus_fancyindex'', f_Plus := True \<rparr>,
     zero_field\<lparr> f_Name := F_XFrameOptions,
       f_Aliases := [''xframe_options'', ''frame_options''], f_Type := TypeEnum,
       f_Enum := XFrameOptionsValues, f_APIField := ''npmplus_x_frame_options'', f_Plus := True \<rparr>,
     enabledField,
     groupField] @ sslFields @ letsencryptFields"

definition redirectFields :: "Field list" where
  "redirectFields = [
     domainsField True,
     zero_field\<lparr> f_Name := F_ForwardDomain,
       f_Aliases := [''forward_domain_name'', ''to'', ''target'', ''destination''],
       f_Type := TypeString, f_APIField := ''forward_domain_name'' \<rparr>,
     zero_field\<lparr> f_Name := F_ForwardScheme, f_Aliases := [''scheme''], f_Type := TypeEnum,
       f_Enum := RedirectSchemeValues, f_Default := F_Auto, f_APIField := ''forward_scheme'' \<rparr>,
     zero_field\<lparr> f_Name := F_HTTPCode,
       f_Aliases := [''code'', ''forward_http_code'', ''status''], f_Type := TypeInt,
       f_Default := ''301'', f_APIField := ''forward_http_code'' \<rparr>,
     zero_field\<lparr> f_Name := F_PreservePath, f_Aliases := [''preserve''], f_Type := TypeBool,
       f_Default := ''true'', f_APIField := ''preserve_path'' \<rparr>,
     zero_field\<lparr> f_Name := F_BlockExploits,
       f_Aliases := [''block_common_exploits'', ''exploits''], f_Type := TypeBool,
       f_Default := ''true'', f_APIField := ''block_exploits'' \<rparr>,
     zero_field\<lparr> f_Name := F_AdvancedConfig,
       f_Aliases := [''advanced'', ''custom_config'', ''advanced.config''], f_Type := TypeString,
       f_APIField := ''advanced_config'' \<rparr>,
     enabledField,
     groupField] @ sslFields @ letsencryptFields"

definition streamFields :: "Field list" where
  "streamFields = [
     zero_field\<lparr> f_Name := F_IncomingPort,
       f_Aliases := [''port'', ''listen_port'', ''incoming.port'', ''listen''], f_Type := TypePort,
       f_APIField := ''incoming_port'' \<rparr>,
     zero_field\<lparr> f_Name := F_ForwardHost,
       f_Aliases := [''host'', ''forward.host'', ''forwarding_host'', ''upstream'', ''forward_ip'', ''ip'', ''target''],
       f_Type := TypeString, f_APIField := ''forwarding_host'' \<rparr>,
     zero_field\<lparr> f_Name := F_ForwardPort, f_Aliases := [''forward.port'', ''forwarding_port''],
       f_Type := TypePort, f_APIField := ''forwarding_port'' \<rparr>,
     zero_field\<lparr> f_Name := F_ResolveIP, f_Aliases := [''resolve_container_ip''],
       f_Type := TypeBool, f_APIField := ''forwarding_host'' \<rparr>,
     zero_field\<lparr> f_Name := F_TCP, f_Aliases := [''forward.tcp'', ''tcp_forwarding''],
       f_Type := TypeBool, f_Default := ''true'', f_APIField := ''tcp_forwarding'' \<rparr>,
     zero_field\<lparr> f_Name := F_UDP, f_Aliases := [''forward.udp'', ''udp_forwarding''],
       f_Type := TypeBool, f_Default := ''false'', f_APIField := ''udp_forwarding'' \<rparr>,
     zero_field\<lparr> f_Name := F_Protocol, f_Type := TypeEnum, f_Enum := StreamProtocolValues,
       f_APIField := ''tcp_forwarding/udp_forwarding'' \<rparr>,
     zero_field\<lparr> f_Name := F_ProxyProtocol, f_Aliases := [''proxy_protocol_forwarding''],
       f_Type := TypeEnum, f_Enum := ProxyProtocolValues, f_Default := ''off'',
       f_APIField := ''npmplus_proxy_protocol_forwarding'', f_Plus := True \<rparr>,
     zero_field\<lparr> f_Name := F_ProxyTLS, f_Aliases := [''proxy_ssl''], f_Type := TypeBool,
       f_Default := ''false'', f_APIField := ''npmplus_proxy_tls'', f_Plus := True \<rparr>,
     zero_field\<lparr> f_Name := F_AdvancedConfig,
       f_Aliases := [''advanced'', ''custom_config'', ''advanced.config''], f_Type := TypeString,
       f_APIField := ''npmplus_advanced_config'', f_Plus := True \<rparr>,
     zero_field\<lparr> f_Name := F_Description, f_Aliases := [''comment'', ''note''],
       f_Type := TypeString, f_APIField := ''npmplus_description'', f_Plus := True \<rparr>,
     zero_field\<lparr> f_Name := F_Certificate,
       f_Aliases := [''certificate_id'', ''cert'', ''ssl'', ''ssl.certificate'', ''ssl.certificate.id''],
       f_Type := TypeCertificate, f_Default := F_Auto, f_APIField := ''certificate_id'' \<rparr>,
     enabledField,
     groupField]"

definition deadFields :: "Field list" where
  "deadFields = [
     domainsField True,
     zero_field\<lparr> f_Name := F_AdvancedConfig,
       f_Aliases := [''advanced'', ''custom_config'', ''advanced.config''], f_Type := TypeString,
       f_APIField := ''advanced_config'' \<rparr>,
     enabledField,
     groupField] @ sslFields @ letsencryptFields"

definition LocationFields :: "Field list" where
  "LocationFields = [
     zero_field\<lparr> f_Name := ''path'', f_Type := TypeString, f_APIField := ''path'' \<rparr>,
     zero_field\<lparr> f_Name := ''type'', f_Aliases := [''location_type'', ''modifier''],
       f_Type := TypeEnum, f_Enum := LocationTypeValues, f_Default := ''prefix'',
       f_APIField := ''location_type'', f_Plus := True \<rparr>,
     zero_field\<lparr> f_Name := F_ForwardHost, f_Aliases := [''host'', ''upstream''],
       f_Type := TypeString, f_APIField := ''forward_host'' \<rparr>,
     zero_field\<lparr> f_Name := F_ForwardPort, f_Aliases := [''port''], f_Type := TypePort,
       f_APIField := ''forward_port'' \<rparr>,
     zero_field\<lparr> f_Name := F_ForwardScheme, f_Aliases := [''scheme''], f_Type := TypeEnum,
       f_Enum := SchemeValues, f_APIField := ''forward_scheme'' \<rparr>,
     zero_field\<lparr> f_Name := F_AdvancedConfig, f_Aliases := [''advanced'', ''advanced.config''],
       f_Type := TypeString, f_APIField := ''advanced_config'' \<rparr>,
     zero_field\<lparr> f_Name := F_LocationConfig, f_Type := TypeString,
       f_APIField := ''npmplus_location_config'', f_Plus := True \<rparr>,
     zero_field\<lparr> f_Name := F_AccessList,
       f_Aliases := [''access_list_id'', ''access_list_ids'', ''access_lists'', ''accesslist''],
       f_Type := TypeList, f_APIField := ''npmplus_access_list_ids'', f_Plus := True \<rparr>,
     zero_field\<lparr> f_Name := F_AccessListType, f_Type := TypeEnum,
       f_Enum := LocationAccessListTypeValues, f_APIField := ''npmplus_access_list_type'',
       f_Plus := True \<rparr>,
     zero_field\<lparr> f_Name := F_Enabled, f_Aliases := [F_Enable], f_Type := TypeBool,
       f_Default := ''true'', f_APIField := ''npmplus_enabled'', f_Plus := True \<rparr>,
     zero_field\<lparr> f_Name := F_NoIndex, f_Type := TypeBool, f_APIField := ''npmplus_noindex'',
       f_Plus := True \<rparr>,
     zero_field\<lparr> f_Name := F_CrowdsecAppsec, f_Aliases := [''crowdsec'', ''appsec''],
       f_Type := TypeBool, f_APIField := ''npmplus_crowdsec_appsec'', f_Plus := True,
       f_Invert := True \<rparr>,
     zero_field\<lparr> f_Name := F_RequestBuffering, f_Type := TypeBool,
       f_APIField := ''npmplus_proxy_request_buffering'', f_Plus := True, f_Invert := True \<rparr>,
     zero_field\<lparr> f_Name := F_ResponseBuffering, f_Type := TypeBool,
       f_APIField := ''npmplus_proxy_response_buffering'', f_Plus := True, f_Invert := True \<rparr>,
     zero_field\<lparr> f_Name := F_UpstreamCompression, f_Aliases := [''compression''],
       f_Type := TypeBool, f_APIField := ''npmplus_upstream_compression'', f_Plus := True \<rparr>,
     zero_field\<lparr> f_Name := F_FancyIndex, f_Aliases := [''fancy_index''], f_Type := TypeBool,
       f_APIField := ''npmplus_fancyindex'', f_Plus := True \<rparr>,
     zero_field\<lparr> f_Name := F_XFrameOptions, f_Aliases := [''xframe_options''],
       f_Type := TypeEnum, f_Enum := XFrameOptionsValues, f_APIField := ''npmplus_x_frame_options'',
       f_Plus := True \<rparr>,
     zero_field\<lparr> f_Name := F_AuthRequest, f_Aliases := [''auth''], f_Type := TypeEnum,
       f_Enum := AuthRequestValues, f_APIField := ''npmplus_auth_request'', f_Plus := True \<rparr>,
     zero_field\<lparr> f_Name := F_AuthRequestUpstream, f_Type := TypeString,
       f_APIField := ''npmplus_auth_request_upstream'', f_Plus := True \<rparr>]"

fun Table :: "Kind \<Rightarrow> Field list" where
  "Table KindProxy = proxyFields"
| "Table KindRedirect = redirectFields"
| "Table KindStream = streamFields"
| "Table KindDead = deadFields"

section \<open>Names\<close>

text \<open>\<open>normalize\<close>: lower case, one separator, no empty segments.\<close>

definition one_separator :: "char \<Rightarrow> char" where
  "one_separator c = (if c = CHR ''_'' \<or> c = CHR ''-'' then CHR ''.'' else c)"

definition normalize :: "string \<Rightarrow> string" where
  "normalize name =
     join ''.'' (filter (\<lambda>p. p \<noteq> []) (map trim_space (split_on CHR ''.'' (map one_separator (to_lower name)))))"

definition spellings :: "Field \<Rightarrow> string list" where
  "spellings f = normalize (f_Name f) # map normalize (f_Aliases f)"

text \<open>\<open>inverseAliases\<close>: the explicit \<open>disable_x\<close> spellings of inverted fields.\<close>

definition inverseAliases :: "(string \<times> string) list" where
  "inverseAliases =
    [(normalize ''disable_crowdsec_appsec'', F_CrowdsecAppsec),
     (normalize ''disable_crowdsec'', F_CrowdsecAppsec),
     (normalize ''disable_request_buffering'', F_RequestBuffering),
     (normalize ''disable_proxy_request_buffering'', F_RequestBuffering),
     (normalize ''disable_response_buffering'', F_ResponseBuffering),
     (normalize ''disable_proxy_response_buffering'', F_ResponseBuffering)]"

definition IsInverseAlias :: "string \<Rightarrow> string option" where
  "IsInverseAlias name = map_of inverseAliases (normalize name)"

section \<open>Lookup\<close>

definition index_fields :: "Field list \<Rightarrow> (string \<times> Field) list" where
  "index_fields fs = fold (\<lambda>f m. fold (\<lambda>s m. AList.update s f m) (spellings f) m) fs []"

definition Lookup :: "Kind \<Rightarrow> string \<Rightarrow> Field option" where
  "Lookup kind name = map_of (index_fields (Table kind)) (normalize name)"

definition LookupLocation :: "string \<Rightarrow> Field option" where
  "LookupLocation name = map_of (index_fields LocationFields) (normalize name)"

definition List_fields :: "Kind \<Rightarrow> Field list" where
  "List_fields kind = sort_key f_Name (Table kind)"

section \<open>Values\<close>

definition EnumHint :: "Field \<Rightarrow> string" where
  "EnumHint f = join '', '' (f_Enum f)"

text \<open>The errors of value parsing, one constructor per message.\<close>

datatype value_error =
    NotOneOf string string
  | NotANumber string
  | OutOfRange string
  | InvalidBoolean string

definition ValidateEnum :: "Field \<Rightarrow> string \<Rightarrow> value_error + string" where
  "ValidateEnum f value =
     (let v = to_lower (trim_space value)
      in if v \<in> set (f_Enum f) then Inr v else Inl (NotOneOf value (EnumHint f)))"

section \<open>Normal names\<close>

text \<open>A normal name has lower-case segments, trimmed and not empty, without the other separators.\<close>

definition normal_parts :: "string list \<Rightarrow> bool" where
  "normal_parts ps \<longleftrightarrow> list_all (\<lambda>p. p \<noteq> [] \<and> trim_space p = p \<and> to_lower p = p
     \<and> CHR ''.'' \<notin> set p \<and> CHR ''_'' \<notin> set p \<and> CHR ''-'' \<notin> set p) ps"

lemma one_separator_lower: "lower_char (one_separator (lower_char c)) = one_separator (lower_char c)"
proof -
  have "lower_char CHR ''.'' = CHR ''.''" by (simp add: lower_char_def)
  then show ?thesis by (simp add: one_separator_def)
qed

lemma normalize_parts: "\<exists>ps. normal_parts ps \<and> normalize name = join ''.'' ps"
proof -
  let ?s = "map one_separator (to_lower name)"
  let ?ps = "filter (\<lambda>p. p \<noteq> []) (map trim_space (split_on CHR ''.'' ?s))"
  have low: "to_lower x = x" if "set x \<subseteq> set ?s" for x
    using that by (induction x) (auto simp: to_lower_def one_separator_lower)
  have "p \<noteq> [] \<and> trim_space p = p \<and> to_lower p = p \<and> CHR ''.'' \<notin> set p \<and> CHR ''_'' \<notin> set p \<and> CHR ''-'' \<notin> set p"
    if p: "p \<in> set ?ps" for p
  proof -
    obtain q where q: "q \<in> set (split_by (\<lambda>x. x = CHR ''.'') ?s)" "p = trim_space q" "p \<noteq> []"
      using p by (auto simp: split_on_def)
    have sub: "set p \<subseteq> set q" "set q \<subseteq> set ?s" using q(2) set_trim_space split_by_chars [OF q(1)] by blast+
    have dot: "CHR ''.'' \<notin> set p" using split_by_no_sep [OF q(1)] sub by blast
    have other: "CHR ''_'' \<notin> set ?s" "CHR ''-'' \<notin> set ?s" by (auto simp: one_separator_def)
    have "to_lower p = p" using low sub by blast
    with q dot sub other show ?thesis by auto
  qed
  then show ?thesis
    unfolding normalize_def normal_parts_def list_all_iff by (intro exI [of _ ?ps]) blast
qed

lemma join_chars: "normal_parts ps \<Longrightarrow> to_lower (join ''.'' ps) = join ''.'' ps"
  "normal_parts ps \<Longrightarrow> map one_separator (join ''.'' ps) = join ''.'' ps"
proof (induction "''.''" ps rule: join.induct)
  case (2 x)
  { case 1 then show ?case by (simp add: normal_parts_def) }
  { case 2 then show ?case by (auto simp: normal_parts_def one_separator_def intro: map_idI) }
next
  case (3 x y zs)
  have x: "normal_parts [x]" "normal_parts (y # zs)" if "normal_parts (x # y # zs)"
    using that by (auto simp: normal_parts_def)
  { case 1
    with 3(1) x show ?case by (simp add: normal_parts_def to_lower_def lower_char_def) }
  { case 2
    have "map one_separator x = x" using x(1) [OF 2] by (auto simp: normal_parts_def one_separator_def intro: map_idI)
    with 2 3(2) x show ?case by (simp add: one_separator_def) }
qed (simp_all add: to_lower_def)

lemma normalize_join: "normal_parts ps \<Longrightarrow> normalize (join ''.'' ps) = join ''.'' ps"
proof (cases "ps = []")
  case False
  assume n: "normal_parts ps"
  then have "split_on CHR ''.'' (join ''.'' ps) = ps"
    using split_on_join [OF False] by (simp add: normal_parts_def list_all_iff)
  moreover have "map trim_space ps = ps" "filter (\<lambda>p. p \<noteq> []) ps = ps"
    using n by (auto simp: normal_parts_def list_all_iff intro: map_idI filter_True)
  ultimately show ?thesis using join_chars [OF n] by (simp add: normalize_def)
next
  case True
  then show ?thesis by (simp add: normalize_def to_lower_def split_on_def)
qed

lemma normalize_idem [simp]: "normalize (normalize name) = normalize name"
  using normalize_parts [of name] normalize_join by auto

lemma spellings_normal: "s \<in> set (spellings f) \<Longrightarrow> normalize s = s"
  by (auto simp: spellings_def)

section \<open>The tables are unambiguous\<close>

definition all_spellings :: "Field list \<Rightarrow> string list" where
  "all_spellings fs = concat (map (\<lambda>f. dedup (spellings f)) fs)"

text \<open>No spelling twice. The check compares weighted letter sums, which happen to differ.\<close>

fun weight :: "int \<Rightarrow> string \<Rightarrow> int" where
  "weight i [] = 0"
| "weight i (c # s) = i * of_char c + weight (i + 1) s"

definition unambiguous :: "string list \<Rightarrow> bool" where
  "unambiguous ss \<longleftrightarrow> distinct (map (weight 1) ss)"

lemma unambiguous_distinct: "unambiguous ss \<Longrightarrow> distinct ss"
  by (simp add: unambiguous_def distinct_map)

lemma proxy_unambiguous: "unambiguous (all_spellings proxyFields)" by code_simp
lemma redirect_unambiguous: "unambiguous (all_spellings redirectFields)" by code_simp
lemma stream_unambiguous: "unambiguous (all_spellings streamFields)" by code_simp
lemma dead_unambiguous: "unambiguous (all_spellings deadFields)" by code_simp
lemma location_unambiguous: "unambiguous (all_spellings LocationFields)" by code_simp

lemma tables_unambiguous: "distinct (all_spellings (Table kind))"
  by (cases kind) (simp_all add: unambiguous_distinct proxy_unambiguous redirect_unambiguous stream_unambiguous dead_unambiguous)

text \<open>So the order in which the lookup tables are filled does not matter.\<close>

lemma update_spellings:
  "map_of (fold (\<lambda>s m. AList.update s f m) ss m) = (\<lambda>s. if s \<in> set ss then Some f else map_of m s)"
  by (induction ss arbitrary: m) (auto simp: update_conv' fun_eq_iff)

lemma distinct_spellings_Cons:
  "distinct (all_spellings (f # fs)) \<longleftrightarrow>
     distinct (all_spellings fs) \<and> (\<forall>g\<in>set fs. \<forall>s\<in>set (spellings f). s \<notin> set (spellings g))"
  by (auto simp: all_spellings_def)

lemma index_fields_step:
  "distinct (all_spellings fs) \<Longrightarrow> map_of (fold (\<lambda>f m. fold (\<lambda>s m. AList.update s f m) (spellings f) m) fs m) s
     = (case find (\<lambda>f. s \<in> set (spellings f)) fs of Some f \<Rightarrow> Some f | None \<Rightarrow> map_of m s)"
proof (induction fs arbitrary: m)
  case (Cons f fs)
  then have d: "distinct (all_spellings fs)" and dj: "\<forall>g\<in>set fs. \<forall>s\<in>set (spellings f). s \<notin> set (spellings g)"
    by (simp_all add: distinct_spellings_Cons)
  have "find (\<lambda>f. s \<in> set (spellings f)) fs = None" if "s \<in> set (spellings f)"
    using dj that by (auto simp: find_None_iff)
  with Cons(1) [OF d] show ?case by (auto simp: update_spellings split: option.splits)
qed simp

lemma index_fields_find:
  "distinct (all_spellings fs) \<Longrightarrow> map_of (index_fields fs) s = find (\<lambda>f. s \<in> set (spellings f)) fs"
  using index_fields_step [of fs "[]" s] by (simp add: index_fields_def split: option.splits)

lemma index_fields_Some:
  assumes "distinct (all_spellings fs)"
  shows "map_of (index_fields fs) s = Some f \<longleftrightarrow> f \<in> set fs \<and> s \<in> set (spellings f)"
proof -
  have m: "map_of (index_fields fs) s = find (\<lambda>f. s \<in> set (spellings f)) fs"
    by (rule index_fields_find [OF assms])
  have u: "f = g" if "f \<in> set fs" "g \<in> set fs" "s \<in> set (spellings f)" "s \<in> set (spellings g)" for g
    using assms that by (induction fs) (auto simp: distinct_spellings_Cons)
  show ?thesis
  proof (cases "find (\<lambda>f. s \<in> set (spellings f)) fs")
    case None
    with m show ?thesis by (auto simp: find_None_iff)
  next
    case (Some g)
    then have "g \<in> set fs" "s \<in> set (spellings g)" by (auto simp: find_Some_iff)
    with m Some u show ?thesis by auto
  qed
qed

lemma index_fields_None: "map_of (index_fields fs) s = None \<longleftrightarrow> (\<forall>f\<in>set fs. s \<notin> set (spellings f))"
  if "distinct (all_spellings fs)"
  using index_fields_Some [OF that, of s] by (metis not_None_eq option.distinct(1))

text \<open>An executable form that stops at the field.\<close>

lemma Lookup_code [code]:
  "Lookup kind name = (let n = normalize name in find (\<lambda>f. n \<in> set (spellings f)) (Table kind))"
  by (simp add: Lookup_def index_fields_find [OF tables_unambiguous])

lemma LookupLocation_code [code]:
  "LookupLocation name = (let n = normalize name in find (\<lambda>f. n \<in> set (spellings f)) LocationFields)"
  by (simp add: LookupLocation_def index_fields_find [OF unambiguous_distinct [OF location_unambiguous]])

section \<open>Properties\<close>

text \<open>A label name has one meaning. For every kind, looking a name up yields a field exactly when
  the normal form of the name is one of that field's spellings, so no two fields share a spelling
  and the order of the table does not decide; how the user separates and capitalises the name does
  not matter.\<close>

theorem label_names_are_unambiguous:
  shows "(Lookup kind name = Some f \<longleftrightarrow> f \<in> set (Table kind) \<and> normalize name \<in> set (spellings f))
    \<and> (LookupLocation name = Some f \<longleftrightarrow> f \<in> set LocationFields \<and> normalize name \<in> set (spellings f))
    \<and> Lookup kind (normalize name) = Lookup kind name"
  using index_fields_Some [OF tables_unambiguous] index_fields_Some [OF unambiguous_distinct [OF location_unambiguous]]
  by (simp add: Lookup_def LookupLocation_def)

end
