(* ===== verification/EditDistance.thy ===== *)
theory EditDistance
  imports FieldTable
begin

text \<open>
  The "did you mean" hint for unknown labels (\<open>suggestFrom\<close> and \<open>levenshtein\<close> of
  \<open>internal/fields/fields.go\<close>). The routine with its two rows is shown to compute the least number of
  single-byte insertions, deletions and replacements. The rows are lists; the swap of the two
  slices becomes the passing on of the new row.
\<close>

section \<open>The code\<close>

definition min3 :: "nat \<Rightarrow> nat \<Rightarrow> nat \<Rightarrow> nat" where
  "min3 a b c = (let a = (if b < a then b else a) in if c < a then c else a)"

text \<open>The inner loop over \<open>b\<close>: \<open>left\<close> is \<open>curr[j-1]\<close>, the first two elements of the old row are
  \<open>prev[j-1]\<close> and \<open>prev[j]\<close>. The old row is one longer than \<open>b\<close>.\<close>

fun lev_cells :: "char \<Rightarrow> string \<Rightarrow> nat list \<Rightarrow> nat \<Rightarrow> nat list" where
  "lev_cells c (y # ys) (diag # up # prev) left =
     (let v = min3 (left + 1) (up + 1) (diag + (if c = y then 0 else 1)) in v # lev_cells c ys (up # prev) v)"
| "lev_cells c _ _ left = []"

fun lev_rows :: "string \<Rightarrow> nat \<Rightarrow> string \<Rightarrow> nat list \<Rightarrow> nat list" where
  "lev_rows b i [] prev = prev"
| "lev_rows b i (c # cs) prev = lev_rows b (i + 1) cs (i # lev_cells c b prev i)"

definition levenshtein :: "string \<Rightarrow> string \<Rightarrow> nat" where
  "levenshtein a b = (if a = b then 0 else lev_rows b 1 a [0..<length b + 1] ! length b)"

definition closer :: "(string \<times> Field) list \<Rightarrow> string \<Rightarrow> string \<Rightarrow> string \<times> nat \<Rightarrow> string \<times> nat" where
  "closer candidates normalized spelling = (\<lambda>(best, bestDistance).
     let d = levenshtein normalized spelling in
     if d < bestDistance
     then ((case map_of candidates spelling of Some f \<Rightarrow> f_Name f | None \<Rightarrow> []), d)
     else (best, bestDistance))"

definition suggestFrom :: "(string \<times> Field) list \<Rightarrow> string \<Rightarrow> string" where
  "suggestFrom candidates name =
     (let normalized = normalize name in
      if normalized = [] then []
      else let budget = length normalized div 4 + 1;
               (best, bestDistance) = fold (closer candidates normalized) (sorted_keys candidates) ([], budget + 1)
           in if bestDistance > budget then [] else best)"

definition Suggest :: "Kind \<Rightarrow> string \<Rightarrow> string" where
  "Suggest kind name = suggestFrom (index_fields (Table kind)) name"

definition SuggestLocation :: "string \<Rightarrow> string" where
  "SuggestLocation name = suggestFrom (index_fields LocationFields) name"

section \<open>The recursive distance\<close>

fun edit_dist :: "'a list \<Rightarrow> 'a list \<Rightarrow> nat" where
  "edit_dist [] ys = length ys"
| "edit_dist xs [] = length xs"
| "edit_dist (x # xs) (y # ys) =
     min (min (edit_dist (x # xs) ys + 1) (edit_dist xs (y # ys) + 1)) (edit_dist xs ys + (if x = y then 0 else 1))"

lemma edit_dist_Nil [simp]: "edit_dist xs [] = length xs"
  by (cases xs) simp_all

lemma min3_min: "min3 a b c = min (min a b) c"
  by (simp add: min3_def Let_def min_def)

text \<open>A row of the table: the distances from the letters read so far to the prefixes of \<open>b\<close>, all
  kept reversed.\<close>

fun row :: "'a list \<Rightarrow> 'a list \<Rightarrow> 'a list \<Rightarrow> nat list" where
  "row p d [] = [edit_dist p d]"
| "row p d (y # ys) = edit_dist p d # row p (y # d) ys"

lemma row_not_Nil: "row p d ys = edit_dist p d # tl (row p d ys)"
  by (cases ys) simp_all

lemma lev_cells_row: "edit_dist (c # p) d # lev_cells c ys (row p d ys) (edit_dist (c # p) d) = row (c # p) d ys"
proof (induction ys arbitrary: d)
  case (Cons y ys)
  have r: "row p d (y # ys) = edit_dist p d # edit_dist p (y # d) # tl (row p (y # d) ys)"
    using row_not_Nil [of p "y # d" ys] by simp
  have v: "min3 (edit_dist (c # p) d + 1) (edit_dist p (y # d) + 1) (edit_dist p d + (if c = y then 0 else 1)) = edit_dist (c # p) (y # d)"
    by (simp add: min3_min)
  from Cons [of "y # d"] show ?case
    unfolding r lev_cells.simps Let_def v using row_not_Nil [of p "y # d" ys] by simp
qed simp

lemma lev_rows_row:
  "length p = i \<Longrightarrow> lev_rows b (i + 1) cs (row p [] b) = row (rev cs @ p) [] b"
proof (induction cs arbitrary: p i)
  case (Cons c cs)
  have "edit_dist (c # p) [] = i + 1" using Cons(2) by simp
  then have "(i + 1) # lev_cells c b (row p [] b) (i + 1) = row (c # p) [] b"
    using lev_cells_row [of c p "[]" b] by simp
  with Cons(1) [of "c # p" "i + 1"] Cons(2) show ?case by simp
qed simp

lemma row_first: "row [] d ys = [length d..<length d + length ys + 1]"
proof (induction ys arbitrary: d)
  case (Cons y ys)
  from Cons [of "y # d"] show ?case
    using upt_conv_Cons [of "length d" "length d + length (y # ys) + 1"] by (simp del: upt_Suc)
qed simp

lemma row_last: "row p d ys ! length ys = edit_dist p (rev ys @ d)"
  by (induction ys arbitrary: d) simp_all

lemma edit_dist_self: "edit_dist xs xs = 0"
  by (induction xs) simp_all

lemma levenshtein_dist: "levenshtein a b = edit_dist (rev a) (rev b)"
proof (cases "a = b")
  case False
  have "lev_rows b 1 a [0..<length b + 1] = row (rev a) [] b"
    using lev_rows_row [of "[]" 0 b a] row_first [of "[]" b] by simp
  with False row_last [of "rev a" "[]" b] show ?thesis by (simp add: levenshtein_def)
qed (simp add: levenshtein_def edit_dist_self)

section \<open>Edit scripts\<close>

inductive one_edit :: "'a list \<Rightarrow> 'a list \<Rightarrow> bool" where
  insertion: "one_edit (u @ v) (u @ c # v)"
| deletion: "one_edit (u @ c # v) (u @ v)"
| replacement: "one_edit (u @ c # v) (u @ d # v)"

inductive edits :: "nat \<Rightarrow> 'a list \<Rightarrow> 'a list \<Rightarrow> bool" where
  no_edit: "edits 0 xs xs"
| edit: "one_edit xs ys \<Longrightarrow> edits n ys zs \<Longrightarrow> edits (Suc n) xs zs"

text \<open>The distance is a script.\<close>

lemma one_edit_Cons: "one_edit xs ys \<Longrightarrow> one_edit (x # xs) (x # ys)"
  by (induction rule: one_edit.induct) (metis append_Cons one_edit.intros)+

lemma edits_Cons: "edits n xs ys \<Longrightarrow> edits n (x # xs) (x # ys)"
  by (induction rule: edits.induct) (auto intro: edits.intros one_edit_Cons)

lemma edits_front:
  "edits n xs ys \<Longrightarrow> edits (Suc n) xs (y # ys)"
  "edits n xs ys \<Longrightarrow> edits (Suc n) (x # xs) ys"
  "edits n xs ys \<Longrightarrow> edits (Suc n) (x # xs) (y # ys)"
proof -
  assume e: "edits n xs ys"
  have i: "one_edit xs (y # xs)" using one_edit.insertion [of "[]" xs y] by simp
  show "edits (Suc n) xs (y # ys)" by (rule edits.edit [OF i edits_Cons [OF e]])
  have d: "one_edit (x # xs) xs" using one_edit.deletion [of "[]" x xs] by simp
  show "edits (Suc n) (x # xs) ys" by (rule edits.edit [OF d e])
  have r: "one_edit (x # xs) (y # xs)" using one_edit.replacement [of "[]" x xs y] by simp
  show "edits (Suc n) (x # xs) (y # ys)" by (rule edits.edit [OF r edits_Cons [OF e]])
qed

lemma edits_all: "edits (length xs) [] xs" "edits (length xs) xs []"
  by (induction xs) (auto intro: edits.no_edit edits_front)

lemma edits_dist: "edits (edit_dist xs ys) xs ys"
proof (induction xs ys rule: edit_dist.induct)
  case (3 x xs y ys)
  from edits_front(1) [OF 3(1)] edits_front(2) [OF 3(2)] edits_front(3) [OF 3(3), of x y] edits_Cons [OF 3(3), of x]
  show ?case by (auto simp: min_def)
next
  case (2 x xs)
  show ?case using edits_all(2) [of "x # xs"] by simp
qed (simp add: edits_all)

text \<open>And no script is shorter: one edit changes the distance to any list by at most one.\<close>

lemma edit_dist_deletion: "edit_dist (c # v) zs \<le> edit_dist v zs + 1"
  by (cases zs) auto

lemma edit_dist_target: "edit_dist v (z # zs) \<le> edit_dist v zs + 1"
  by (cases v) auto

lemma edit_dist_insertion: "edit_dist v zs \<le> edit_dist (c # v) zs + 1"
proof (induction zs)
  case (Cons z zs)
  from Cons edit_dist_target [of v z zs] show ?case by (auto simp: min_def split: if_splits)
qed simp

lemma edit_dist_replacement: "edit_dist (c # v) zs \<le> edit_dist (d # v) zs + 1"
  by (induction zs) auto

lemma edit_dist_Cons:
  assumes "\<And>zs. edit_dist xs zs \<le> edit_dist ys zs + 1"
  shows "edit_dist (x # xs) zs \<le> edit_dist (x # ys) zs + 1"
proof (induction zs)
  case Nil
  from assms [of "[]"] show ?case by simp
next
  case (Cons z zs)
  from Cons assms [of "z # zs"] assms [of zs] show ?case by auto
qed

lemma edit_dist_one_edit: "one_edit xs ys \<Longrightarrow> edit_dist xs zs \<le> edit_dist ys zs + 1"
proof (induction arbitrary: zs rule: one_edit.induct)
  case (insertion u v c)
  have "edit_dist (u @ v) zs \<le> edit_dist (u @ c # v) zs + 1" for zs
    by (induction u arbitrary: zs) (simp only: append.simps edit_dist_insertion edit_dist_Cons)+
  then show ?case .
next
  case (deletion u c v)
  have "edit_dist (u @ c # v) zs \<le> edit_dist (u @ v) zs + 1" for zs
    by (induction u arbitrary: zs) (simp only: append.simps edit_dist_deletion edit_dist_Cons)+
  then show ?case .
next
  case (replacement u c v d)
  have "edit_dist (u @ c # v) zs \<le> edit_dist (u @ d # v) zs + 1" for zs
    by (induction u arbitrary: zs) (simp only: append.simps edit_dist_replacement edit_dist_Cons)+
  then show ?case .
qed

lemma edit_dist_least: "edits n xs ys \<Longrightarrow> edit_dist xs ys \<le> n"
proof (induction rule: edits.induct)
  case (edit xs ys n zs)
  with edit_dist_one_edit [OF edit(1), of zs] show ?case by simp
qed (simp add: edit_dist_self)

lemma one_edit_rev: "one_edit xs ys \<Longrightarrow> one_edit (rev xs) (rev ys)"
  by (induction rule: one_edit.induct) (simp_all add: one_edit.intros)

lemma edits_rev: "edits n xs ys \<Longrightarrow> edits n (rev xs) (rev ys)"
  by (induction rule: edits.induct) (auto intro: edits.intros one_edit_rev)

lemma levenshtein_least: "edits (levenshtein a b) a b" "edits n a b \<Longrightarrow> levenshtein a b \<le> n"
  using edits_rev [OF edits_dist [of "rev a" "rev b"]] edit_dist_least [OF edits_rev]
  by (simp_all add: levenshtein_dist)

section \<open>The closest spelling\<close>

lemma fold_closer:
  assumes "fold (closer candidates n) ks (best, d) = (best', d')"
  shows "((best', d') = (best, d)
      \<or> (\<exists>k\<in>set ks. d' = levenshtein n k \<and> best' = (case map_of candidates k of Some f \<Rightarrow> f_Name f | None \<Rightarrow> []) \<and> d' < d))
    \<and> d' \<le> d \<and> (\<forall>k\<in>set ks. d' \<le> levenshtein n k)"
  using assms
proof (induction ks arbitrary: best d)
  case (Cons k ks)
  obtain b e where step: "closer candidates n k (best, d) = (b, e)" by fastforce
  with Cons(2) have "fold (closer candidates n) ks (b, e) = (best', d')" by simp
  from Cons(1) [OF this] step show ?case by (auto simp: closer_def Let_def split: if_splits)
qed simp

lemma fold_update_keys: "fst ` set (fold (\<lambda>s m. AList.update s f m) ss m) = fst ` set m \<union> set ss"
  by (induction ss arbitrary: m) (auto simp: dom_update)

lemma index_fields_keys: "fst ` set (index_fields fs) = (\<Union>f\<in>set fs. set (spellings f))"
proof -
  have "fst ` set (fold (\<lambda>f m. fold (\<lambda>s m. AList.update s f m) (spellings f) m) fs m)
      = fst ` set m \<union> (\<Union>f\<in>set fs. set (spellings f))" for m
    by (induction fs arbitrary: m) (auto simp: fold_update_keys)
  then show ?thesis by (simp add: index_fields_def)
qed

lemma names_not_Nil: "f \<in> set (Table kind) \<Longrightarrow> f_Name f \<noteq> []"
proof -
  have "list_all (\<lambda>kind. list_all (\<lambda>f. f_Name f \<noteq> []) (Table kind)) Kinds" by code_simp
  then show "f \<in> set (Table kind) \<Longrightarrow> f_Name f \<noteq> []" by (cases kind) (auto simp: list_all_iff Kinds_def)
qed

lemma suggestFrom_nearest:
  assumes u: "distinct (all_spellings fs)" and names: "\<And>f. f \<in> set fs \<Longrightarrow> f_Name f \<noteq> []" and n: "normalize name \<noteq> []"
  shows "(suggestFrom (index_fields fs) name = [] \<longleftrightarrow>
      (\<forall>f\<in>set fs. \<forall>s\<in>set (spellings f). levenshtein (normalize name) s > length (normalize name) div 4 + 1))
    \<and> (suggestFrom (index_fields fs) name \<noteq> [] \<longrightarrow>
      (\<exists>f\<in>set fs. \<exists>s\<in>set (spellings f). suggestFrom (index_fields fs) name = f_Name f
         \<and> (\<forall>g\<in>set fs. \<forall>t\<in>set (spellings g). levenshtein (normalize name) s \<le> levenshtein (normalize name) t)))"
proof -
  let ?n = "normalize name" and ?cs = "index_fields fs" and ?b = "length (normalize name) div 4 + 1"
  obtain best d where f: "fold (closer ?cs ?n) (sorted_keys ?cs) ([], ?b + 1) = (best, d)" by fastforce
  note c = fold_closer [OF f]
  have sf: "suggestFrom ?cs name = (if d > ?b then [] else best)" using n f by (simp add: suggestFrom_def Let_def)
  have keys: "k \<in> set (sorted_keys ?cs) \<longleftrightarrow> (\<exists>f\<in>set fs. k \<in> set (spellings f))" for k
    by (simp add: index_fields_keys)
  have all: "\<forall>g\<in>set fs. \<forall>t\<in>set (spellings g). d \<le> levenshtein ?n t" using c keys by blast
  show ?thesis
  proof (cases "d > ?b")
    case True
    with all sf show ?thesis by fastforce
  next
    case False
    with c obtain k where k: "k \<in> set (sorted_keys ?cs)" "d = levenshtein ?n k"
        "best = (case map_of ?cs k of Some f \<Rightarrow> f_Name f | None \<Rightarrow> [])" by auto
    then obtain g where g: "g \<in> set fs" "k \<in> set (spellings g)" using keys by blast
    then have "map_of ?cs k = Some g" using index_fields_Some [OF u] by blast
    with k have best: "best = f_Name g" by simp
    with False sf names [OF g(1)] have "suggestFrom ?cs name = f_Name g" "f_Name g \<noteq> []" by simp_all
    with g k all False show ?thesis by fastforce
  qed
qed

section \<open>Properties\<close>

text \<open>C27: the hint for an unknown label is the right one. The two-row routine computes the least number
  of single-byte insertions, deletions and replacements that turn one name into the other; a hint
  is given exactly when some spelling of the kind is within one edit per four letters plus one, and
  the field it names has a spelling no other spelling is closer than.\<close>

theorem suggestions_are_nearest:
  assumes "normalize name \<noteq> []"
  shows "edits (levenshtein a b) a b \<and> (edits n a b \<longrightarrow> levenshtein a b \<le> n)
    \<and> (Suggest kind name = [] \<longleftrightarrow>
      (\<forall>f\<in>set (Table kind). \<forall>s\<in>set (spellings f).
         levenshtein (normalize name) s > length (normalize name) div 4 + 1))
    \<and> (Suggest kind name \<noteq> [] \<longrightarrow>
      (\<exists>f\<in>set (Table kind). \<exists>s\<in>set (spellings f). Suggest kind name = f_Name f
         \<and> (\<forall>g\<in>set (Table kind). \<forall>t\<in>set (spellings g).
              levenshtein (normalize name) s \<le> levenshtein (normalize name) t)))"
proof -
  note near = suggestFrom_nearest [OF tables_unambiguous [of kind] names_not_Nil [of _ kind] assms]
  show ?thesis
    unfolding Suggest_def using levenshtein_least(1) [of a b] levenshtein_least(2) [of n a b] near by (intro conjI) simp_all
qed

theorem suggestions_are_nearest_witness:
  "\<exists>f. f \<in> set (Table KindDead) \<and> Suggest KindDead ''domans'' = f_Name f"
proof -
  have n: "normalize ''domans'' = ''domans''" by code_simp
  have d: "levenshtein ''domans'' ''domains'' = 1" by code_simp
  have f: "domainsField True \<in> set (Table KindDead)" "''domains'' \<in> set (spellings (domainsField True))"
    by (simp add: deadFields_def, code_simp)
  have c: "\<not> (\<forall>f\<in>set (Table KindDead). \<forall>s\<in>set (spellings f).
      levenshtein (normalize ''domans'') s > length (normalize ''domans'') div 4 + 1)"
    using f d by (force simp: n)
  have "normalize ''domans'' \<noteq> []" by (simp add: n)
  from suggestions_are_nearest [OF this, of "[]" "[]" 0 KindDead] c show ?thesis by blast
qed

end
