(* ===== verification/Defaults.thy ===== *)
theory Defaults
  imports FieldTable
begin

text \<open>
  The field defaults and their environment variables (\<open>internal/fields/defaults.go\<close>). The process
  environment is an argument: the lookup function and the list of its entries. The two maps of
  \<open>Defaults\<close> are partial functions on the keys the code builds.
\<close>

section \<open>Values\<close>

definition bool_true :: "string list" where
  "bool_true = [''1'', ''t'', ''true'', ''y'', ''yes'', ''on'', ''enable'', ''enabled'']"

definition bool_false :: "string list" where
  "bool_false = [''0'', ''f'', ''false'', ''n'', ''no'', ''off'', ''disable'', ''disabled'']"

definition ParseBool :: "string \<Rightarrow> value_error + bool" where
  "ParseBool raw =
     (let v = to_lower (trim_space raw)
      in if v \<in> set bool_true then Inr True
         else if v \<in> set bool_false then Inr False
         else Inl (InvalidBoolean raw))"

definition FormatBool :: "bool \<Rightarrow> string" where
  "FormatBool b = (if b then ''true'' else ''false'')"

definition Parse :: "Field \<Rightarrow> string \<Rightarrow> value_error + string" where
  "Parse f raw0 =
     (let raw = trim_space raw0 in
      case f_Type f of
        TypeBool \<Rightarrow>
          if equal_fold raw F_Auto \<and> f_Default f = F_Auto then Inr F_Auto
          else rbind (ParseBool raw) (\<lambda>b. Inr (FormatBool b))
      | TypeInt \<Rightarrow> (case atoi raw of None \<Rightarrow> Inl (NotANumber raw) | Some _ \<Rightarrow> Inr raw)
      | TypePort \<Rightarrow>
          if equal_fold raw F_Auto then Inr F_Auto
          else (case atoi raw of
                  None \<Rightarrow> Inl (NotANumber raw)
                | Some n \<Rightarrow> if n < 1 \<or> n > 65535 then Inl (OutOfRange raw) else Inr raw)
      | TypeEnum \<Rightarrow> ValidateEnum f raw
      | TypeString \<Rightarrow> Inr raw
      | TypeDomains \<Rightarrow> Inr raw
      | TypeList \<Rightarrow> Inr raw
      | TypeCertificate \<Rightarrow> Inr raw)"

section \<open>Environment variables\<close>

definition envPrefix :: string where "envPrefix = ''NPM_''"
definition envDefaultPrefix :: string where "envDefaultPrefix = ''NPM_DEFAULT_''"

definition envKind :: "Kind \<Rightarrow> string" where
  "envKind kind = (if kind = KindDead then ''DEAD'' else to_upper (kind_String kind))"

definition envName :: "string \<Rightarrow> string \<Rightarrow> string" where
  "envName prefix field =
     prefix @ to_upper (map (\<lambda>c. if c = CHR ''.'' then CHR ''_'' else c) (normalize field))"

definition EnvNames :: "Kind \<Rightarrow> Field \<Rightarrow> string list" where
  "EnvNames kind f =
     (let kindPrefix = envPrefix @ envKind kind @ ''_'' in
      dedup (envName kindPrefix (f_Name f) # map (envName kindPrefix) (f_Aliases f)
        @ envName envDefaultPrefix (f_Name f) # map (envName envDefaultPrefix) (f_Aliases f)))"

section \<open>Loading\<close>

record Defaults =
  df_values :: "string \<rightharpoonup> string"
  df_source :: "string \<rightharpoonup> string"

definition builtin :: string where "builtin = ''builtin''"

definition default_key :: "Kind \<Rightarrow> string \<Rightarrow> string" where
  "default_key kind field = kind_String kind @ ''|'' @ normalize field"

text \<open>The variables of a field, strongest first: the first that is set wins.\<close>

definition read_env :: "(string \<Rightarrow> string) \<Rightarrow> string \<Rightarrow> string \<times> string \<Rightarrow> string \<times> string" where
  "read_env getenv name = (\<lambda>(value, source).
     let raw = trim_space (getenv name) in
     if raw \<noteq> [] \<and> source = builtin then (raw, name) else (value, source))"

definition load_field ::
  "(string \<Rightarrow> string) \<Rightarrow> Kind \<times> Field \<Rightarrow> Defaults \<times> (string \<times> value_error) list
     \<Rightarrow> Defaults \<times> (string \<times> value_error) list" where
  "load_field getenv = (\<lambda>(kind, f) (d, errs).
     let (value, source) = fold (read_env getenv) (EnvNames kind f) (f_Default f, builtin);
         k = default_key kind (f_Name f);
         parsed = (if source \<noteq> builtin then Parse f value else Inr value)
     in case parsed of
          Inl e \<Rightarrow> (d, errs @ [(source, e)])
        | Inr v \<Rightarrow> (d\<lparr> df_values := (df_values d)(k \<mapsto> v), df_source := (df_source d)(k \<mapsto> source) \<rparr>, errs))"

definition all_fields :: "(Kind \<times> Field) list" where
  "all_fields = concat (map (\<lambda>kind. map (Pair kind) (Table kind)) Kinds)"

definition known_env :: "string list" where
  "known_env = concat (map (\<lambda>(kind, f). EnvNames kind f) all_fields)"

definition env_prefixes :: "string list" where
  "env_prefixes = envDefaultPrefix # map (\<lambda>kind. envPrefix @ envKind kind @ ''_'') Kinds"

definition unknownEnv :: "string list \<Rightarrow> string list \<Rightarrow> string list" where
  "unknownEnv environ known =
     sort (concat (map (\<lambda>entry. case cut CHR ''='' entry of
         None \<Rightarrow> []
       | Some (name, _) \<Rightarrow>
           if name \<in> set known then []
           else if list_ex (has_prefix name) env_prefixes then [name] else []) environ))"

definition LoadDefaults ::
  "(string \<Rightarrow> string) \<Rightarrow> string list \<Rightarrow> Defaults \<times> string list \<times> (string \<times> value_error) list" where
  "LoadDefaults getenv environ =
     (let (d, errs) = fold (load_field getenv) all_fields (\<lparr> df_values = (\<lambda>_. None), df_source = (\<lambda>_. None) \<rparr>, [])
      in (d, unknownEnv environ known_env, errs))"

section \<open>Reading\<close>

text \<open>\<open>None\<close> is the nil pointer, which serves the built-in defaults.\<close>

definition Value :: "Defaults option \<Rightarrow> Kind \<Rightarrow> string \<Rightarrow> string" where
  "Value d kind field =
     (case (case d of Some d \<Rightarrow> df_values d (default_key kind field) | None \<Rightarrow> None) of
        Some v \<Rightarrow> v
      | None \<Rightarrow> (case Lookup kind field of Some f \<Rightarrow> f_Default f | None \<Rightarrow> []))"

definition Source :: "Defaults option \<Rightarrow> Kind \<Rightarrow> string \<Rightarrow> string" where
  "Source d kind field =
     (case (case d of Some d \<Rightarrow> df_source d (default_key kind field) | None \<Rightarrow> None) of
        Some v \<Rightarrow> v
      | None \<Rightarrow> builtin)"

record DefaultEntry =
  de_Kind :: Kind
  de_Field :: string
  de_Value :: string
  de_Source :: string

definition Entries :: "Defaults option \<Rightarrow> DefaultEntry list" where
  "Entries d = concat (map (\<lambda>kind. map (\<lambda>f. \<lparr> de_Kind = kind, de_Field = f_Name f,
     de_Value = Value d kind (f_Name f), de_Source = Source d kind (f_Name f) \<rparr>) (List_fields kind)) Kinds)"

definition FromEnv :: "Defaults option \<Rightarrow> DefaultEntry list" where
  "FromEnv d = filter (\<lambda>e. de_Source e \<noteq> builtin) (Entries d)"

section \<open>Values are canonical\<close>

lemma equal_fold_Auto [simp]: "equal_fold F_Auto F_Auto"
  by simp

lemma trim_Auto [simp]: "trim_space F_Auto = F_Auto"
  by code_simp

lemma FormatBool_canonical [simp]:
  "trim_space (FormatBool b) = FormatBool b" "ParseBool (FormatBool b) = Inr b"
proof -
  have "trim_space ''true'' = ''true''" "trim_space ''false'' = ''false''"
    "ParseBool ''true'' = Inr True" "ParseBool ''false'' = Inr False" by code_simp+
  then show "trim_space (FormatBool b) = FormatBool b" "ParseBool (FormatBool b) = Inr b"
    by (simp_all add: FormatBool_def)
qed

lemma not_auto: "equal_fold (FormatBool b) F_Auto = False"
proof -
  have "\<not> equal_fold ''true'' F_Auto" "\<not> equal_fold ''false'' F_Auto" by code_simp+
  then show ?thesis by (simp add: FormatBool_def)
qed

lemma Parse_canonical: "Parse f raw = Inr v \<Longrightarrow> Parse f v = Inr v"
  by (cases "f_Type f")
     (auto simp: Parse_def ValidateEnum_def Let_def not_auto rbind_Inr_iff trim_space_to_lower
       split: if_splits option.splits)

section \<open>What is loaded\<close>

definition first_set :: "(string \<Rightarrow> string) \<Rightarrow> string list \<Rightarrow> (string \<times> string) option" where
  "first_set getenv = first_some (\<lambda>n. if trim_space (getenv n) = [] then None else Some (n, trim_space (getenv n)))"

lemma read_env_fixed: "source \<noteq> builtin \<Longrightarrow> fold (read_env getenv) ns (value, source) = (value, source)"
  by (induction ns) (simp_all add: read_env_def)

lemma read_env_first: "builtin \<notin> set ns \<Longrightarrow> fold (read_env getenv) ns (value, builtin) =
    (case first_set getenv ns of None \<Rightarrow> (value, builtin) | Some (n, raw) \<Rightarrow> (raw, n))"
  unfolding first_set_def by (induction ns) (auto simp: read_env_def Let_def read_env_fixed)

lemma EnvNames_not_builtin: "builtin \<notin> set (EnvNames kind f)"
  by (auto simp: EnvNames_def Let_def envName_def envPrefix_def envDefaultPrefix_def builtin_def)

text \<open>What one field contributes; \<open>None\<close> when its variable is refused.\<close>

definition outcome :: "(string \<Rightarrow> string) \<Rightarrow> Kind \<times> Field \<Rightarrow> (string \<times> string) option" where
  "outcome getenv = (\<lambda>(kind, f). case first_set getenv (EnvNames kind f) of
       None \<Rightarrow> Some (f_Default f, builtin)
     | Some (n, raw) \<Rightarrow> (case Parse f raw of Inl _ \<Rightarrow> None | Inr v \<Rightarrow> Some (v, n)))"

definition field_key :: "Kind \<times> Field \<Rightarrow> string" where
  "field_key x = default_key (fst x) (f_Name (snd x))"

lemma first_set_name: "first_set getenv ns = Some (n, raw) \<Longrightarrow> n \<in> set ns"
  unfolding first_set_def by (drule first_some_Some) (auto split: if_splits)

lemma load_field_outcome:
  "load_field getenv x (d, errs) =
     (case outcome getenv x of
        None \<Rightarrow> (d, errs @ (case first_set getenv (EnvNames (fst x) (snd x)) of
                 Some (n, raw) \<Rightarrow> (case Parse (snd x) raw of Inl e \<Rightarrow> [(n, e)] | Inr _ \<Rightarrow> []) | None \<Rightarrow> []))
      | Some (v, s) \<Rightarrow> (d\<lparr> df_values := (df_values d)(field_key x \<mapsto> v), df_source := (df_source d)(field_key x \<mapsto> s) \<rparr>, errs))"
proof (cases x)
  case (Pair kind f)
  have "n \<noteq> builtin" if "first_set getenv (EnvNames kind f) = Some (n, raw)" for n raw
    using first_set_name [OF that] EnvNames_not_builtin by metis
  then show ?thesis
    by (auto simp: load_field_def outcome_def field_key_def Let_def Pair read_env_first [OF EnvNames_not_builtin]
        split: option.splits sum.splits)
qed

definition stored :: "Defaults \<Rightarrow> string \<Rightarrow> string option \<times> string option" where
  "stored d k = (df_values d k, df_source d k)"

lemma load_field_at: "load_field getenv y (d0, e0) = (d, e) \<Longrightarrow>
    stored d k = (case outcome getenv y of Some (v, s) \<Rightarrow> if field_key y = k then (Some v, Some s) else stored d0 k | None \<Rightarrow> stored d0 k)"
  by (auto simp: load_field_outcome stored_def split: option.splits)

lemma load_errors: "fold (load_field getenv) xs (d0, e0) = (d, e) \<Longrightarrow> set e0 \<subseteq> set e"
proof (induction xs arbitrary: d0 e0)
  case (Cons y ys)
  obtain d1 e1 where y: "load_field getenv y (d0, e0) = (d1, e1)" by fastforce
  then have "set e0 \<subseteq> set e1" by (auto simp: load_field_outcome split: option.splits)
  with Cons(1) [of d1 e1] Cons(2) y show ?case by auto
qed simp

lemma load_refused:
  assumes "fold (load_field getenv) xs (d0, e0) = (d, e)" "(kind, f) \<in> set xs"
    and n: "first_set getenv (EnvNames kind f) = Some (n, raw)" "Parse f raw = Inl err"
  shows "(n, err) \<in> set e"
  using assms(1,2)
proof (induction xs arbitrary: d0 e0)
  case (Cons y ys)
  obtain d1 e1 where y: "load_field getenv y (d0, e0) = (d1, e1)" by fastforce
  with Cons(2) have f: "fold (load_field getenv) ys (d1, e1) = (d, e)" by simp
  show ?case
  proof (cases "y = (kind, f)")
    case True
    with y n have "(n, err) \<in> set e1" by (auto simp: load_field_outcome outcome_def)
    with load_errors [OF f] show ?thesis by blast
  next
    case False
    with Cons(1) [OF f] Cons(3) show ?thesis by simp
  qed
qed simp

lemma load_at:
  assumes "fold (load_field getenv) xs (d0, e0) = (d, e)" "\<forall>y\<in>set xs. field_key y = field_key x \<longrightarrow> y = x"
  shows "stored d (field_key x) =
     (if x \<in> set xs then (case outcome getenv x of Some (v, s) \<Rightarrow> (Some v, Some s) | None \<Rightarrow> stored d0 (field_key x))
      else stored d0 (field_key x))"
  using assms
proof (induction xs arbitrary: d0 e0)
  case (Cons y ys)
  obtain d1 e1 where y: "load_field getenv y (d0, e0) = (d1, e1)" by fastforce
  with Cons(2) have f: "fold (load_field getenv) ys (d1, e1) = (d, e)" by simp
  have u: "\<forall>z\<in>set ys. field_key z = field_key x \<longrightarrow> z = x" and yx: "field_key y = field_key x \<longrightarrow> y = x"
    using Cons(3) by simp_all
  show ?case
  proof (cases "y = x")
    case True
    then show ?thesis
      unfolding Cons(1) [OF f u] load_field_at [OF y, of "field_key x"] by (cases "outcome getenv x") simp_all
  next
    case False
    with yx have "field_key y \<noteq> field_key x" by blast
    then have "stored d1 (field_key x) = stored d0 (field_key x)"
      unfolding load_field_at [OF y, of "field_key x"] by (simp split: option.split)
    with False show ?thesis unfolding Cons(1) [OF f u] by (auto split: option.split)
  qed
qed simp

lemma field_key_inj:
  assumes "x \<in> set all_fields" "y \<in> set all_fields" "field_key x = field_key y"
  shows "x = y"
proof -
  obtain k f k' g where x: "x = (k, f)" "y = (k', g)" by (cases x; cases y)
  have k: "k = k'" and n: "normalize (f_Name f) = normalize (f_Name g)"
    using assms(3) by (cases k; cases k'; simp add: x field_key_def default_key_def)+
  have "f \<in> set (Table k)" "g \<in> set (Table k)" using assms(1,2) x k by (auto simp: all_fields_def)
  moreover have "normalize (f_Name f) \<in> set (spellings f)" "normalize (f_Name f) \<in> set (spellings g)"
    by (simp_all add: spellings_def n)
  ultimately have "f = g"
    using index_fields_Some [OF tables_unambiguous [of k], of "normalize (f_Name f)"] by (metis option.inject)
  with k x show ?thesis by simp
qed

lemma Lookup_name: "f \<in> set (Table kind) \<Longrightarrow> Lookup kind (f_Name f) = Some f"
  using index_fields_Some [OF tables_unambiguous] by (simp add: Lookup_def spellings_def)

text \<open>Without a variable of a field nothing is refused.\<close>

lemma EnvNames_prefix: "n \<in> set (EnvNames kind f) \<Longrightarrow> list_ex (has_prefix n) env_prefixes"
proof -
  assume "n \<in> set (EnvNames kind f)"
  then obtain p x where n: "n = envName p x" "p = envDefaultPrefix \<or> p = envPrefix @ envKind kind @ ''_''"
    by (auto simp: EnvNames_def Let_def)
  have "p \<in> set env_prefixes" using n(2) by (cases kind) (auto simp: env_prefixes_def Kinds_def)
  moreover have "has_prefix n p" by (simp add: n(1) envName_def)
  ultimately show ?thesis by (auto simp: list_ex_iff)
qed

lemma first_set_None: "\<forall>n\<in>set ns. trim_space (getenv n) = [] \<Longrightarrow> first_set getenv ns = None"
  by (induction ns) (simp_all add: first_set_def)

lemma LoadDefaults_unset:
  assumes "\<And>n. list_ex (has_prefix n) env_prefixes \<Longrightarrow> trim_space (getenv n) = []"
  shows "snd (snd (LoadDefaults getenv environ)) = []"
proof -
  have "snd (fold (load_field getenv) xs acc) = snd acc" for xs and acc :: "Defaults \<times> (string \<times> value_error) list"
  proof (induction xs arbitrary: acc)
    case (Cons x xs)
    have "first_set getenv (EnvNames (fst x) (snd x)) = None"
      using first_set_None EnvNames_prefix assms by blast
    then have "snd (load_field getenv x acc) = snd acc"
      by (cases acc) (simp add: load_field_outcome split: option.split)
    with Cons show ?case by simp
  qed simp
  then show ?thesis by (simp add: LoadDefaults_def split: prod.split) (metis snd_conv)
qed

text \<open>The value of one field after loading.\<close>

lemma loaded_default:
  assumes "LoadDefaults getenv environ = (d, warnings, errs)" "f \<in> set (Table kind)"
  shows "case first_set getenv (EnvNames kind f) of
      None \<Rightarrow> Value (Some d) kind (f_Name f) = f_Default f \<and> Source (Some d) kind (f_Name f) = builtin
    | Some (n, raw) \<Rightarrow>
        (case Parse f raw of
           Inr v \<Rightarrow> Value (Some d) kind (f_Name f) = v \<and> Source (Some d) kind (f_Name f) = n
         | Inl e \<Rightarrow> (n, e) \<in> set errs
             \<and> Value (Some d) kind (f_Name f) = f_Default f \<and> Source (Some d) kind (f_Name f) = builtin)"
proof -
  let ?z = "(\<lparr> df_values = (\<lambda>_. None), df_source = (\<lambda>_. None) \<rparr>, []) :: Defaults \<times> (string \<times> value_error) list"
  let ?x = "(kind, f)" and ?k = "default_key kind (f_Name f)"
  have l: "fold (load_field getenv) all_fields ?z = (d, errs)"
    using assms(1) by (auto simp: LoadDefaults_def split: prod.splits)
  have x: "?x \<in> set all_fields" using assms(2) by (cases kind) (auto simp: all_fields_def Kinds_def)
  have k: "field_key ?x = ?k" by (simp add: field_key_def)
  have u: "\<forall>y\<in>set all_fields. field_key y = field_key ?x \<longrightarrow> y = ?x" using field_key_inj [OF _ x] by blast
  have val: "stored d ?k = (case outcome getenv ?x of Some (v, s) \<Rightarrow> (Some v, Some s) | None \<Rightarrow> (None, None))"
    using load_at [OF l u] x by (simp add: k stored_def split: option.split)
  show ?thesis
  proof (cases "first_set getenv (EnvNames kind f)")
    case None
    with val show ?thesis by (simp add: outcome_def stored_def Value_def Source_def)
  next
    case (Some nr)
    obtain n raw where nr: "nr = (n, raw)" by fastforce
    show ?thesis
    proof (cases "Parse f raw")
      case (Inl e)
      with Some nr val load_refused [OF l x] show ?thesis
        by (simp add: outcome_def stored_def Value_def Source_def Lookup_name [OF assms(2)])
    next
      case (Inr v)
      with Some nr val show ?thesis by (simp add: outcome_def stored_def Value_def Source_def)
    qed
  qed
qed

section \<open>Properties\<close>

text \<open>C39: field values have one canonical form. What \<open>Parse\<close> accepts it returns in a form it accepts
  again unchanged, and booleans survive printing and parsing.\<close>

theorem field_values_are_canonical:
  assumes "Parse f raw = Inr v"
  shows "Parse f v = Inr v \<and> ParseBool (FormatBool b) = Inr b"
  using Parse_canonical [OF assms] by simp

theorem field_values_are_canonical_witness:
  "Parse certificateField ''5'' = Inr ''5'' \<and> Parse enabledField ''true'' = Inr ''true''"
proof -
  have "Parse certificateField '' 5 '' = Inr ''5''" "Parse enabledField ''Yes'' = Inr ''true''" by code_simp+
  then show ?thesis using field_values_are_canonical by blast
qed



end
