(* ===== verification/LabelFields.thy ===== *)
theory LabelFields
  imports Defaults Target
begin

text \<open>
  The field set of one resource definition (\<open>internal/docker/labels.go\<close>, field access): the label
  values by canonical field name, the fallback to the configured defaults, and the typed readers
  with their errors. An error is the label or variable it is reported for and a problem, one
  constructor per message of \<open>labels.go\<close> and \<open>build.go\<close>.
\<close>

section \<open>Errors\<close>

datatype problem =
    NegativeIndex
  | MissingFieldName
  | BadValue value_error
  | InvalidDomain string
  | EmptyDomainLabel string
  | BadCertificate spec_error
  | GroupTooLong nat
  | ListIDNotPositive int
  | CustomNeedsList string
  | GlobalIsForLocations
  | UnknownListType string
  | LocationFieldExpected
  | InvalidLocationIndex string
  | IsRequired
  | HostIsNotTheDomain string string
  | NeedsSlash string
  | UnknownModifier string
  | HasAScheme string
  | InvalidForwardDomain string
  | NotARedirectCode int
  | NothingForwarded string
  | StreamCannotRequest
  | TlsIsTcpOnly
  | ProxyV1IsTcpOnly
  | CertificateIsTcpOnly
  | CannotPickPort "int list"
  | NoPortExposed
  | NotAttached "string list" "string list"
  | NoUpstreamHost
  | CertificateIsNone string

datatype parse_error = At string problem

section \<open>Options\<close>

record ParseOptions =
  po_Prefix :: string
  po_ResolveIP :: bool
  po_PreferNetworks :: "string list"
  po_StrictNetworks :: bool
  po_Defaults :: "Defaults option"
  po_ExposedByDefault :: bool
  po_StrictLabels :: bool
  po_PortPreference :: "int list"
  po_SelfID :: string
  po_Offline :: bool

section \<open>Field sets\<close>

record fieldSet =
  fs_prefix :: string
  fs_kind :: Kind
  fs_index :: int
  fs_values :: "(string \<times> string) list"
  fs_labels :: "(string \<times> string) list"
  fs_defaults :: "Defaults option"
  fs_tainted :: bool

definition newFieldSet :: "string \<Rightarrow> Kind \<Rightarrow> int \<Rightarrow> Defaults option \<Rightarrow> fieldSet" where
  "newFieldSet prefix kind index defaults = \<lparr> fs_prefix = prefix, fs_kind = kind, fs_index = index,
     fs_values = [], fs_labels = [], fs_defaults = defaults, fs_tainted = False \<rparr>"

definition fs_name :: "fieldSet \<Rightarrow> string \<Rightarrow> string" where
  "fs_name f field =
     (case map_of (fs_labels f) (normalize field) of
        Some label \<Rightarrow> label
      | None \<Rightarrow>
          if fs_index f = 0 then fs_prefix f @ ''.'' @ kind_String (fs_kind f) @ ''.'' @ field
          else fs_prefix f @ ''.'' @ kind_String (fs_kind f) @ ''.'' @ itoa (fs_index f) @ ''.'' @ field)"

definition fs_source :: "fieldSet \<Rightarrow> string \<Rightarrow> string" where
  "fs_source f field =
     (if map_of (fs_values f) (normalize field) \<noteq> None then fs_name f field
      else let src = Source (fs_defaults f) (fs_kind f) field in
        if src \<noteq> builtin then src else fs_name f field)"

definition fs_has :: "fieldSet \<Rightarrow> string \<Rightarrow> bool" where
  "fs_has f field \<longleftrightarrow> (case map_of (fs_values f) (normalize field) of Some v \<Rightarrow> v \<noteq> [] | None \<Rightarrow> False)"

definition fs_string :: "fieldSet \<Rightarrow> string \<Rightarrow> string" where
  "fs_string f field =
     (case map_of (fs_values f) (normalize field) of
        Some v \<Rightarrow> if v \<noteq> [] then v else Value (fs_defaults f) (fs_kind f) field
      | None \<Rightarrow> Value (fs_defaults f) (fs_kind f) field)"

definition fs_raw :: "fieldSet \<Rightarrow> string \<Rightarrow> string" where
  "fs_raw f field = (case map_of (fs_values f) (normalize field) of Some v \<Rightarrow> v | None \<Rightarrow> [])"

definition at_source :: "fieldSet \<Rightarrow> string \<Rightarrow> value_error + 'a \<Rightarrow> parse_error + 'a" where
  "at_source f field = map_err (\<lambda>e. At (fs_source f field) (BadValue e))"

definition fs_boolean :: "fieldSet \<Rightarrow> string \<Rightarrow> parse_error + bool" where
  "fs_boolean f field =
     (let raw = fs_string f field in
      if raw = [] then Inr False else at_source f field (ParseBool raw))"

definition fs_booleanAuto :: "fieldSet \<Rightarrow> string \<Rightarrow> parse_error + bool option" where
  "fs_booleanAuto f field =
     (let raw = trim_space (fs_string f field) in
      if raw = [] \<or> equal_fold raw F_Auto then Inr None
      else rbind (at_source f field (ParseBool raw)) (\<lambda>b. Inr (Some b)))"

definition fs_integer :: "fieldSet \<Rightarrow> string \<Rightarrow> parse_error + int" where
  "fs_integer f field =
     (let raw = fs_string f field in
      if raw = [] then Inr 0
      else case atoi raw of
        None \<Rightarrow> Inl (At (fs_source f field) (BadValue (NotANumber raw)))
      | Some n \<Rightarrow> Inr n)"

text \<open>0 when unset, -1 for \<open>auto\<close>.\<close>

definition fs_port :: "fieldSet \<Rightarrow> string \<Rightarrow> parse_error + int" where
  "fs_port f field =
     (let raw = trim_space (fs_string f field) in
      if raw = [] then Inr 0
      else if equal_fold raw F_Auto then Inr (-1)
      else case atoi raw of
        None \<Rightarrow> Inl (At (fs_source f field) (BadValue (NotANumber raw)))
      | Some n \<Rightarrow> if n < 1 \<or> n > 65535 then Inl (At (fs_source f field) (BadValue (OutOfRange raw))) else Inr n)"

definition fs_enum :: "fieldSet \<Rightarrow> string \<Rightarrow> parse_error + string" where
  "fs_enum f field =
     (let raw = trim_space (fs_string f field) in
      if raw = [] then Inr []
      else case Lookup (fs_kind f) field of
        None \<Rightarrow> Inr raw
      | Some definition \<Rightarrow> at_source f field (ValidateEnum definition raw))"

definition bad_domain_chars :: string where
  "bad_domain_chars = [CHR '' '', CHR ''/'', CHR 0x5C, CHR '':'']"

definition validDomain :: "string \<Rightarrow> problem option" where
  "validDomain domain =
     (if domain = [] then Some (InvalidDomain domain)
      else if contains_any domain bad_domain_chars then Some (InvalidDomain domain)
      else if [] \<in> set (split_on CHR ''.'' domain) then Some (EmptyDomainLabel domain)
      else None)"

definition list_separator :: "char \<Rightarrow> bool" where
  "list_separator c \<longleftrightarrow> c = CHR '','' \<or> c = CHR '' '' \<or> c = CHR 0x09 \<or> c = CHR 0x0A \<or> c = CHR '';''"

definition splitList :: "string \<Rightarrow> string list" where
  "splitList raw = fields_func list_separator raw"

definition fs_domains :: "fieldSet \<Rightarrow> string \<Rightarrow> parse_error + string list" where
  "fs_domains f field =
     (let domains = NormalizeDomains (splitList (fs_string f field)) in
      case first_some validDomain domains of
        Some problem \<Rightarrow> Inl (At (fs_source f field) problem)
      | None \<Rightarrow> Inr domains)"

section \<open>What the readers return\<close>

text \<open>A label that is set and not empty wins over every default.\<close>

lemma fs_string_label: "map_of (fs_values f) (normalize field) = Some v \<Longrightarrow> v \<noteq> [] \<Longrightarrow> fs_string f field = v"
  by (simp add: fs_string_def)

lemma fs_port_range: "fs_port f field = Inr n \<Longrightarrow> n = 0 \<or> n = -1 \<or> (1 \<le> n \<and> n \<le> 65535)"
  by (auto simp: fs_port_def Let_def split: if_splits option.splits)

lemma fs_enum_member:
  assumes "fs_enum f field = Inr v" "Lookup (fs_kind f) field = Some d"
  shows "v = [] \<or> v \<in> set (f_Enum d)"
  using assms by (auto simp: fs_enum_def Let_def at_source_def ValidateEnum_def split: if_splits)

text \<open>A valid domain has labels, none of them empty, and no character of a URL or a path.\<close>

definition domain_ok :: "string \<Rightarrow> bool" where
  "domain_ok d \<longleftrightarrow> d \<noteq> [] \<and> \<not> contains_any d bad_domain_chars \<and> [] \<notin> set (split_on CHR ''.'' d)"

lemma validDomain_ok: "validDomain d = None \<longleftrightarrow> domain_ok d"
  by (simp add: validDomain_def domain_ok_def)

lemma fs_domains_ok:
  "fs_domains f field = Inr ds \<Longrightarrow> list_all domain_ok ds \<and> ds = NormalizeDomains (splitList (fs_string f field))"
  by (auto simp: fs_domains_def Let_def list_all_iff first_some_None validDomain_ok split: option.splits)

end
