(* ===== verification/Labels.thy ===== *)
theory Labels
  imports LabelFields EditDistance
begin

text \<open>
  Reading the labels of a container (\<open>internal/docker/labels.go\<close>): the namespace, the position of kind
  and index, the canonical field, and the grouping of the labels into field sets. Where the code
  iterates over the label map without sorting, the list of labels is taken in the order the
  runtime happens to choose.
\<close>

section \<open>The namespace\<close>

definition DefaultPrefix :: string where "DefaultPrefix = ''npm''"

definition normalizePrefix :: "string \<Rightarrow> string" where
  "normalizePrefix prefix =
     (let p = trim_right_any (trim_space prefix) ''.-'' in if p = [] then DefaultPrefix else p)"

definition trimPrefix :: "string \<Rightarrow> string \<Rightarrow> string option" where
  "trimPrefix name prefix =
     (if \<not> has_prefix (to_lower name) (to_lower prefix) then None
      else case drop (length prefix) name of
        [] \<Rightarrow> None
      | c # rest \<Rightarrow> if c \<noteq> CHR ''.'' \<and> c \<noteq> CHR ''-'' \<and> c \<noteq> CHR ''_'' then None else Some rest)"

definition displayName :: "Container \<Rightarrow> string" where
  "displayName c = (if c_Name c \<noteq> [] then c_Name c else if length (c_ID c) > 12 then take 12 (c_ID c) else c_ID c)"

section \<open>Kind, index and field\<close>

definition kindAliases :: "(string \<times> Kind) list" where
  "kindAliases =
    [(''proxy'', KindProxy), (''proxies'', KindProxy), (''redirect'', KindRedirect), (''redirection'', KindRedirect),
     (''stream'', KindStream), (''dead'', KindDead), (''404'', KindDead)]"

text \<open>The loop of \<open>splitLabel\<close>: kind so far, index so far, which of them are set, the tokens left.\<close>

fun take_position :: "Kind \<Rightarrow> int \<Rightarrow> bool \<Rightarrow> bool \<Rightarrow> string list \<Rightarrow> problem + Kind \<times> int \<times> bool \<times> string list" where
  "take_position kind index kindSet indexSet [] = Inr (kind, index, kindSet, [])"
| "take_position kind index kindSet indexSet (token # tokens) =
     (if map_of kindAliases token \<noteq> None \<and> \<not> kindSet
      then take_position (the (map_of kindAliases token)) index True indexSet tokens
      else case atoi token of
        Some n \<Rightarrow>
          if \<not> indexSet then
            if n < 0 then Inl NegativeIndex else take_position kind n kindSet True tokens
          else Inr (kind, index, kindSet, token # tokens)
      | None \<Rightarrow> Inr (kind, index, kindSet, token # tokens))"

definition splitLabel :: "string \<Rightarrow> problem + Kind \<times> int \<times> string \<times> bool" where
  "splitLabel rest =
     rbind (take_position KindProxy 0 False False (split_on CHR ''.'' (normalize rest))) (\<lambda>(kind, index, kindSet, tokens).
       let field = join ''.'' tokens
       in if field = [] then Inl MissingFieldName else Inr (kind, index, field, kindSet))"

section \<open>Managed containers\<close>

datatype manage_reason = OwnContainer | InvalidEnable string string | OptedOut | NoOptIn | NoLabels | IsManagedContainer

definition lookupEnable :: "Container \<Rightarrow> string \<Rightarrow> string option" where
  "lookupEnable c prefix =
     first_some (\<lambda>(name, value).
       case trimPrefix name prefix of
         None \<Rightarrow> None
       | Some rest \<Rightarrow> if normalize rest = F_Enable then Some (trim_space value) else None) (c_Labels c)"

definition hasFieldLabel :: "Container \<Rightarrow> string \<Rightarrow> bool" where
  "hasFieldLabel c prefix =
     list_ex (\<lambda>(name, value).
       case trimPrefix name prefix of
         None \<Rightarrow> False
       | Some rest \<Rightarrow> normalize rest \<noteq> F_Enable \<and> (case splitLabel rest of Inr _ \<Rightarrow> True | Inl _ \<Rightarrow> False)) (c_Labels c)"

definition Managed :: "Container \<Rightarrow> ParseOptions \<Rightarrow> bool \<times> manage_reason" where
  "Managed c opts =
     (if po_SelfID opts \<noteq> [] \<and> c_ID c = po_SelfID opts then (False, OwnContainer)
      else let prefix = normalizePrefix (po_Prefix opts) in
        case lookupEnable c prefix of
          Some raw \<Rightarrow>
            (case ParseBool raw of
               Inl _ \<Rightarrow> (False, InvalidEnable prefix raw)
             | Inr enabled \<Rightarrow> if \<not> enabled then (False, OptedOut) else (True, IsManagedContainer))
        | None \<Rightarrow>
            if \<not> po_ExposedByDefault opts then (False, NoOptIn)
            else if \<not> hasFieldLabel c prefix then (False, NoLabels)
            else (True, IsManagedContainer))"

definition c_IsEnabled :: "Container \<Rightarrow> string \<Rightarrow> bool" where
  "c_IsEnabled c prefix = fst (Managed c \<lparr> po_Prefix = prefix, po_ResolveIP = False, po_PreferNetworks = [],
     po_StrictNetworks = False, po_Defaults = None, po_ExposedByDefault = True, po_StrictLabels = False,
     po_PortPreference = [], po_SelfID = [], po_Offline = False \<rparr>)"

text \<open>\<open>Classify\<close>, one container at a time.\<close>

definition classify_one :: "ParseOptions \<Rightarrow> Container \<Rightarrow> Summary \<Rightarrow> Summary" where
  "classify_one opts c s =
     (let (managed, reason) = Managed c opts in
      if managed then
        s\<lparr> sm_Managed := sm_Managed s + 1, sm_Stopped := sm_Stopped s + (if \<not> c_Running c then 1 else 0) \<rparr>
      else if reason = OptedOut then s\<lparr> sm_OptedOut := sm_OptedOut s + 1 \<rparr>
      else s\<lparr> sm_Unlabeled := sm_Unlabeled s + 1 \<rparr>)"

definition Classify :: "Container list \<Rightarrow> ParseOptions \<Rightarrow> Summary" where
  "Classify containers opts =
     fold (classify_one opts) containers \<lparr> sm_Managed = 0, sm_OptedOut = 0, sm_Unlabeled = 0, sm_Stopped = 0 \<rparr>"

section \<open>Field names\<close>

definition location_dot :: string where "location_dot = F_Location @ ''.''"

text \<open>The result is the canonical name and whether the value has to be negated.\<close>

definition locationField :: "string \<Rightarrow> (string \<times> bool) option" where
  "locationField field =
     (case cut CHR ''.'' (trim_prefix field location_dot) of
        None \<Rightarrow> None
      | Some (number, sub) \<Rightarrow>
          if atoi number = None then None
          else case LookupLocation sub of
            Some f \<Rightarrow> Some (location_dot @ number @ ''.'' @ normalize (f_Name f), False)
          | None \<Rightarrow>
              (case IsInverseAlias sub of
                 None \<Rightarrow> None
               | Some positive \<Rightarrow>
                   (case LookupLocation positive of
                      None \<Rightarrow> None
                    | Some f \<Rightarrow> Some (location_dot @ number @ ''.'' @ normalize (f_Name f), True))))"

definition resolveField :: "Kind \<Rightarrow> string \<Rightarrow> (string \<times> bool) option" where
  "resolveField kind field =
     (case Lookup kind field of
        Some f \<Rightarrow> Some (normalize (f_Name f), False)
      | None \<Rightarrow>
          if has_prefix field location_dot then locationField field
          else case IsInverseAlias field of
            None \<Rightarrow> None
          | Some positive \<Rightarrow> map_option (\<lambda>f. (normalize (f_Name f), True)) (Lookup kind positive))"

definition looksLikeLocationBlock :: "string \<Rightarrow> bool" where
  "looksLikeLocationBlock field =
     (case cut CHR ''.'' (trim_prefix field location_dot) of
        None \<Rightarrow> False
      | Some (number, _) \<Rightarrow> atoi number \<noteq> None)"

definition suggest :: "Kind \<Rightarrow> string \<Rightarrow> string" where
  "suggest kind field =
     (if has_prefix field location_dot \<and> looksLikeLocationBlock field then
        (case cut CHR ''.'' (trim_prefix field location_dot) of
           None \<Rightarrow> []
         | Some (_, sub) \<Rightarrow>
             let hint = SuggestLocation sub in if hint \<noteq> [] then location_dot @ ''<n>.'' @ hint else [])
      else Suggest kind field)"

section \<open>Grouping\<close>

type_synonym entryKey = "Kind \<times> int"

record grouping =
  gr_groups :: "(entryKey \<times> fieldSet) list"
  gr_disabled :: "(int \<times> bool) list"
  gr_errors :: "parse_error list"
  gr_warnings :: "string list"

definition unknown_warning :: "string \<Rightarrow> string \<Rightarrow> Kind \<Rightarrow> string \<Rightarrow> string" where
  "unknown_warning name prefix kind field =
     (let suggestion = suggest kind field in
      ''unknown label '' @ name @
      (if suggestion \<noteq> [] then '' - did you mean '' @ prefix @ kind_String kind @ ''.'' @ suggestion @ ''?'' else []))"

definition group_error :: "string \<Rightarrow> problem \<Rightarrow> grouping \<Rightarrow> grouping" where
  "group_error name e g = g\<lparr> gr_errors := gr_errors g @ [At name e] \<rparr>"

text \<open>A label of a resource: its field set is created first, then the field is resolved.\<close>

definition group_field ::
  "string \<Rightarrow> Defaults option \<Rightarrow> string \<Rightarrow> string \<Rightarrow> Kind \<Rightarrow> int \<Rightarrow> string \<Rightarrow> grouping \<Rightarrow> grouping" where
  "group_field prefix defaults name value kind index field g =
     (let set0 = (case map_of (gr_groups g) (kind, index) of
                    Some s \<Rightarrow> s | None \<Rightarrow> newFieldSet prefix kind index defaults);
          g = g\<lparr> gr_groups := AList.update (kind, index) set0 (gr_groups g) \<rparr>
      in case resolveField kind field of
           None \<Rightarrow> g\<lparr> gr_groups := AList.update (kind, index) (set0\<lparr> fs_tainted := True \<rparr>) (gr_groups g),
                      gr_warnings := gr_warnings g @ [unknown_warning name prefix kind field] \<rparr>
         | Some (canon, inverted) \<Rightarrow>
             (case (if inverted then rbind (ParseBool value) (\<lambda>b. Inr (FormatBool (\<not> b))) else Inr value) of
                Inl e \<Rightarrow> group_error name (BadValue e) g
              | Inr v \<Rightarrow> g\<lparr> gr_groups := AList.update (kind, index)
                    (set0\<lparr> fs_values := AList.update canon v (fs_values set0),
                           fs_labels := AList.update canon name (fs_labels set0) \<rparr>) (gr_groups g) \<rparr>))"

definition group_label ::
  "string \<Rightarrow> Defaults option \<Rightarrow> (string \<times> string) \<Rightarrow> grouping \<Rightarrow> grouping" where
  "group_label prefix defaults = (\<lambda>(name, labelled) g.
     case trimPrefix name prefix of
       None \<Rightarrow> g
     | Some rest \<Rightarrow>
         if rest = [] then g
         else let value = trim_space labelled in
           if normalize rest = F_Enable then g
           else case splitLabel rest of
             Inl e \<Rightarrow> group_error name e g
           | Inr (kind, index, field, kindSet) \<Rightarrow>
               if field = F_Enable \<and> \<not> kindSet then
                 (case ParseBool value of
                    Inl e \<Rightarrow> group_error name (BadValue e) g
                  | Inr enabled \<Rightarrow> g\<lparr> gr_disabled := AList.update index (\<not> enabled) (gr_disabled g) \<rparr>)
               else group_field prefix defaults name value kind index field g)"

definition groupLabels :: "Container \<Rightarrow> ParseOptions \<Rightarrow> grouping" where
  "groupLabels c opts =
     fold (group_label (normalizePrefix (po_Prefix opts)) (po_Defaults opts)) (sort_key fst (c_Labels c))
       \<lparr> gr_groups = [], gr_disabled = [], gr_errors = [], gr_warnings = [] \<rparr>"

end
