(* ===== verification/BuildTarget.thy ===== *)
theory BuildTarget
  imports Labels
begin

text \<open>
  From a field set to a validated target (\<open>internal/docker/build.go\<close>). The assignments of the code
  become binds in the same order, so the first problem in the code's order is the one reported.
\<close>

section \<open>Single fields\<close>

definition explicitFields :: "Kind \<Rightarrow> fieldSet \<Rightarrow> string list" where
  "explicitFields kind f =
     sort (concat (map (\<lambda>(name, _). case Lookup kind name of Some d \<Rightarrow> [f_Name d] | None \<Rightarrow> []) (fs_values f)))"

definition explicitPlus :: "Kind \<Rightarrow> fieldSet \<Rightarrow> string list" where
  "explicitPlus kind f =
     sort (concat (map (\<lambda>(name, _). case Lookup kind name of
         Some d \<Rightarrow> if f_Plus d then [f_Name d] else [] | None \<Rightarrow> []) (fs_values f)))"

definition isDomainish :: "string \<Rightarrow> bool" where
  "isDomainish value =
     (let v = trim_space value in
      if v = [] \<or> CHR ''.'' \<notin> set v then False
      else list_ex (\<lambda>c. (c < CHR ''0'' \<or> c > CHR ''9'') \<and> c \<noteq> CHR ''.'') v)"

definition missingDomains :: "fieldSet \<Rightarrow> parse_error" where
  "missingDomains f =
     (case map_of (fs_labels f) (normalize F_ForwardHost) of
        Some label \<Rightarrow>
          if isDomainish (fs_raw f F_ForwardHost)
          then At (fs_name f F_Domains) (HostIsNotTheDomain label (fs_raw f F_ForwardHost))
          else At (fs_name f F_Domains) IsRequired
      | None \<Rightarrow> At (fs_name f F_Domains) IsRequired)"

text \<open>The group: unset, cleared, or a name.\<close>

definition groupSpec :: "fieldSet \<Rightarrow> parse_error + string option" where
  "groupSpec f =
     (let raw = trim_space (fs_string f F_Group) in
      if raw = [] then Inr None
      else if to_lower raw \<in> set [''none'', ''off'', ''-''] then Inr (Some [])
      else if length raw > MaxDirectoryLength then Inl (At (fs_source f F_Group) (GroupTooLong (length raw)))
      else Inr (Some raw))"

definition certificateSpec :: "fieldSet \<Rightarrow> parse_error + Spec" where
  "certificateSpec f =
     map_err (\<lambda>e. At (fs_source f F_Certificate) (BadCertificate e)) (ParseSpec (fs_string f F_Certificate))"

definition xFrameOptions :: "fieldSet \<Rightarrow> parse_error + string" where
  "xFrameOptions f =
     rbind (fs_enum f F_XFrameOptions) (\<lambda>value.
       Inr (if value = ''deny'' then ''DENY'' else if value = ''sameorigin'' then ''SAMEORIGIN'' else value))"

definition or_default :: "string \<Rightarrow> string \<Rightarrow> string" where
  "or_default d value = (if value = [] then d else value)"

section \<open>Access lists\<close>

fun split_lists :: "fieldSet \<Rightarrow> string list \<Rightarrow> parse_error + int list \<times> string list" where
  "split_lists f [] = Inr ([], [])"
| "split_lists f (raw # raws) =
     (case atoi raw of
        Some i \<Rightarrow>
          if i < 1 then Inl (At (fs_source f F_AccessList) (ListIDNotPositive i))
          else rbind (split_lists f raws) (\<lambda>(ids, names). Inr (i # ids, names))
      | None \<Rightarrow> rbind (split_lists f raws) (\<lambda>(ids, names). Inr (ids, raw # names)))"

definition parseAccessList :: "fieldSet \<Rightarrow> string \<Rightarrow> parse_error + int list \<times> string list \<times> string" where
  "parseAccessList f defaultType =
     rbind (split_lists f (splitList (fs_string f F_AccessList))) (\<lambda>(ids, names).
       let listType = to_lower (fs_string f F_AccessListType); n = length ids + length names in
       if listType = [] then Inr (ids, names, if n > 0 then AccessListCustom else defaultType)
       else if listType = AccessListPublic then Inr ([], [], listType)
       else if listType = AccessListCustom then
         if n = 0 then Inl (At (fs_name f F_AccessListType) (CustomNeedsList (fs_name f F_AccessList)))
         else Inr (ids, names, listType)
       else if listType = AccessListGlobal then
         if defaultType \<noteq> AccessListGlobal then Inl (At (fs_name f F_AccessListType) GlobalIsForLocations)
         else Inr ([], [], listType)
       else Inl (At (fs_name f F_AccessListType) (UnknownListType listType)))"

section \<open>Locations\<close>

definition locationModifier :: "string \<Rightarrow> problem + string" where
  "locationModifier raw =
     (let value = to_lower (trim_space raw) in
      if value = [] \<or> value = ''prefix'' then Inr []
      else if value = ''exact'' then Inr ''= ''
      else if value = ''regex'' then Inr ''~ ''
      else if value = ''iregex'' then Inr ''~* ''
      else if value = ''prefer'' then Inr ''^~ ''
      else if value = ''named'' then Inr ''@''
      else Inl (UnknownModifier raw))"

definition location_label :: "fieldSet \<Rightarrow> int \<Rightarrow> string \<Rightarrow> string" where
  "location_label f n field =
     fs_prefix f @ ''.'' @ kind_String (fs_kind f) @ ''.'' @ F_Location @ ''.'' @ itoa n @ ''.'' @ field"

definition locationLabels :: "fieldSet \<Rightarrow> int \<Rightarrow> (string \<times> string) list \<Rightarrow> (string \<times> string) list" where
  "locationLabels f n values = map (\<lambda>(field, _). (field, location_label f n field)) values"

definition loc_value :: "(string \<times> string) list \<Rightarrow> string \<Rightarrow> string" where
  "loc_value values field = (case map_of values (normalize field) of Some v \<Rightarrow> v | None \<Rightarrow> [])"

definition loc_switch :: "fieldSet \<Rightarrow> int \<Rightarrow> (string \<times> string) list \<Rightarrow> string \<Rightarrow> bool \<Rightarrow> parse_error + bool" where
  "loc_switch f n values field inherited =
     (let raw = trim_space (loc_value values field) in
      if raw = [] then Inr inherited
      else map_err (\<lambda>e. At (location_label f n field) (BadValue e)) (ParseBool raw))"

definition loc_enum ::
  "fieldSet \<Rightarrow> int \<Rightarrow> (string \<times> string) list \<Rightarrow> string \<Rightarrow> string list \<Rightarrow> (string \<Rightarrow> string) \<Rightarrow> string \<Rightarrow> parse_error + string" where
  "loc_enum f n values field enum spelling inherited =
     (let raw = trim_space (loc_value values field) in
      if raw = [] then Inr inherited
      else rbind (map_err (\<lambda>e. At (location_label f n field) (BadValue e)) (ValidateEnum (zero_field\<lparr> f_Enum := enum \<rparr>) raw))
             (\<lambda>v. Inr (spelling v)))"

definition loc_path :: "fieldSet \<Rightarrow> int \<Rightarrow> (string \<times> string) list \<Rightarrow> parse_error + string \<times> string" where
  "loc_path f n values =
     (let path = trim_space (case map_of values ''path'' of Some v \<Rightarrow> v | None \<Rightarrow> []) in
      if path = [] then Inl (At (location_label f n ''path'') IsRequired)
      else rbind (map_err (At (location_label f n ''type''))
                   (locationModifier (case map_of values ''type'' of Some v \<Rightarrow> v | None \<Rightarrow> []))) (\<lambda>locationType.
             if locationType \<noteq> ''@'' \<and> \<not> has_prefix path ''/''
             then Inl (At (location_label f n ''path'') (NeedsSlash path))
             else Inr (path, locationType)))"

definition loc_upstream :: "Target \<Rightarrow> fieldSet \<Rightarrow> int \<Rightarrow> (string \<times> string) list \<Rightarrow> parse_error + string \<times> string \<times> int" where
  "loc_upstream t f n values =
     (let given = to_lower (trim_space (loc_value values F_ForwardScheme));
          scheme = (if given = [] then t_ForwardScheme t else given);
          given_host = trim_space (loc_value values F_ForwardHost);
          host = (if given_host = [] then t_ForwardHost t else given_host);
          raw = trim_space (loc_value values F_ForwardPort);
          port = (if raw = [] then Inr (t_ForwardPort t)
                  else case atoi raw of
                    None \<Rightarrow> Inl (At (location_label f n F_ForwardPort) (BadValue (NotANumber raw)))
                  | Some p \<Rightarrow> if p < 1 \<or> p > 65535
                              then Inl (At (location_label f n F_ForwardPort) (BadValue (OutOfRange raw))) else Inr p)
      in rbind (map_err (\<lambda>e. At (location_label f n F_ForwardScheme) (BadValue e))
                 (ValidateEnum (zero_field\<lparr> f_Enum := SchemeValues \<rparr>) scheme)) (\<lambda>_.
         rbind port (\<lambda>p. Inr (scheme, host, p))))"

definition buildLocation :: "Target \<Rightarrow> fieldSet \<Rightarrow> int \<Rightarrow> (string \<times> string) list \<Rightarrow> parse_error + Location" where
  "buildLocation t f n values =
     (let sub = \<lparr> fs_prefix = fs_prefix f, fs_kind = fs_kind f, fs_index = fs_index f, fs_values = values,
                  fs_labels = locationLabels f n values, fs_defaults = None, fs_tainted = False \<rparr> in
      rbind (loc_path f n values) (\<lambda>(path, locationType).
      rbind (loc_upstream t f n values) (\<lambda>(scheme, host, port).
      rbind (parseAccessList sub AccessListGlobal) (\<lambda>(ids, names, listType).
      rbind (loc_switch f n values F_Enabled True) (\<lambda>enabled.
      rbind (loc_switch f n values F_NoIndex (t_NoIndex t)) (\<lambda>noIndex.
      rbind (loc_switch f n values F_CrowdsecAppsec (t_CrowdsecAppsec t)) (\<lambda>crowdsec.
      rbind (loc_switch f n values F_RequestBuffering (t_RequestBuffering t)) (\<lambda>requestBuffering.
      rbind (loc_switch f n values F_ResponseBuffering (t_ResponseBuffering t)) (\<lambda>responseBuffering.
      rbind (loc_switch f n values F_UpstreamCompression (t_UpstreamCompression t)) (\<lambda>upstreamCompression.
      rbind (loc_switch f n values F_FancyIndex (t_FancyIndex t)) (\<lambda>fancyIndex.
      rbind (loc_enum f n values F_XFrameOptions XFrameOptionsValues XFrameOptionsValue (t_XFrameOptions t)) (\<lambda>xFrame.
      rbind (loc_enum f n values F_AuthRequest AuthRequestValues id (t_AuthRequest t)) (\<lambda>authRequest.
        let authUpstream = trim_space (loc_value values F_AuthRequestUpstream) in
        Inr (empty_location\<lparr> loc_Path := path, loc_LocationType := locationType, loc_ForwardScheme := scheme,
          loc_ForwardHost := host, loc_ForwardPort := port,
          loc_AdvancedConfig := loc_value values F_AdvancedConfig, loc_LocationConfig := loc_value values F_LocationConfig,
          loc_AccessListIDs := ids, loc_AccessListNames := names, loc_AccessListType := listType,
          loc_Enabled := Some enabled, loc_NoIndex := noIndex, loc_DisableCrowdsecAppsec := \<not> crowdsec,
          loc_DisableRequestBuffering := \<not> requestBuffering, loc_DisableResponseBuffering := \<not> responseBuffering,
          loc_UpstreamCompression := upstreamCompression, loc_FancyIndex := fancyIndex, loc_XFrameOptions := xFrame,
          loc_AuthRequest := authRequest,
          loc_AuthRequestUpstream := (if authUpstream = [] then t_AuthRequestUpstream t else authUpstream) \<rparr>))))))))))))))"

text \<open>The location labels of a host, grouped by index in the order of the label map.\<close>

fun group_locations ::
  "fieldSet \<Rightarrow> (string \<times> string) list \<Rightarrow> (int \<times> (string \<times> string) list) list
     \<Rightarrow> parse_error + (int \<times> (string \<times> string) list) list" where
  "group_locations f [] groups = Inr groups"
| "group_locations f ((field, value) # vs) groups =
     (if \<not> has_prefix field location_dot \<or> \<not> looksLikeLocationBlock field then group_locations f vs groups
      else case cut CHR ''.'' (trim_prefix field location_dot) of
        None \<Rightarrow> Inl (At (fs_name f field) LocationFieldExpected)
      | Some (number, sub) \<Rightarrow>
          (case atoi number of
             None \<Rightarrow> Inl (At (fs_name f field) (InvalidLocationIndex number))
           | Some n \<Rightarrow>
               if n < 0 then Inl (At (fs_name f field) (InvalidLocationIndex number))
               else let old = (case map_of groups n of Some g \<Rightarrow> g | None \<Rightarrow> [])
                 in group_locations f vs (AList.update n (AList.update sub value old) groups)))"

definition parseLocations :: "Target \<Rightarrow> fieldSet \<Rightarrow> parse_error + Location list" where
  "parseLocations t f =
     rbind (group_locations f (fs_values f) []) (\<lambda>groups.
       map_result (\<lambda>(n, values). buildLocation t f n values) (sort_key fst groups))"

section \<open>The upstream\<close>

definition resolvePort :: "Container \<Rightarrow> ParseOptions \<Rightarrow> fieldSet \<Rightarrow> string \<Rightarrow> int \<Rightarrow> parse_error + int" where
  "resolvePort c opts f field fallback =
     rbind (fs_port f field) (\<lambda>port.
       if port > 0 then Inr port
       else if port = 0 \<and> fallback > 0 then Inr fallback
       else if port = 0 \<and> (\<not> c_Running c \<or> po_Offline opts) then Inr 0
       else if port = 0 then Inl (At (fs_name f field) IsRequired)
       else case GuessPort c (po_PortPreference opts) of
         Some guessed \<Rightarrow> Inr guessed
       | None \<Rightarrow>
           if fallback > 0 then Inr fallback
           else if \<not> c_Running c \<or> po_Offline opts then Inr 0
           else if ExposedPorts c \<noteq> [] then Inl (At (fs_name f field) (CannotPickPort (ExposedPorts c)))
           else Inl (At (fs_name f field) NoPortExposed))"

definition resolveForwardHost :: "Container \<Rightarrow> ParseOptions \<Rightarrow> fieldSet \<Rightarrow> parse_error + string" where
  "resolveForwardHost c opts f =
     (let explicit = fs_string f F_ForwardHost in
      if explicit \<noteq> [] then Inr explicit
      else rbind (if fs_has f F_ResolveIP then fs_boolean f F_ResolveIP else Inr (po_ResolveIP opts)) (\<lambda>resolveIP.
        let host = ResolveHost c resolveIP (po_PreferNetworks opts) (po_StrictNetworks opts) in
        if host = [] \<and> (\<not> c_Running c \<or> po_Offline opts) then Inr []
        else if host = [] then
          (if po_StrictNetworks opts
           then Inl (At (fs_name f F_ForwardHost) (NotAttached (po_PreferNetworks opts) (NetworkNames c)))
           else Inl (At (fs_name f F_ForwardHost) NoUpstreamHost))
        else Inr host))"

section \<open>The four kinds\<close>

definition target_domains :: "fieldSet \<Rightarrow> parse_error + string list" where
  "target_domains f =
     rbind (fs_domains f F_Domains) (\<lambda>domains. if domains = [] then Inl (missingDomains f) else Inr domains)"

definition buildProxy :: "Target \<Rightarrow> Container \<Rightarrow> ParseOptions \<Rightarrow> fieldSet \<Rightarrow> parse_error + Target" where
  "buildProxy t c opts f =
     rbind (target_domains f) (\<lambda>domains.
     rbind (resolveForwardHost c opts f) (\<lambda>host.
     rbind (resolvePort c opts f F_ForwardPort 0) (\<lambda>port.
     rbind (fs_enum f F_ForwardScheme) (\<lambda>scheme.
     rbind (fs_boolean f F_Websockets) (\<lambda>websockets.
     rbind (fs_boolean f F_Caching) (\<lambda>caching.
     rbind (fs_boolean f F_BlockExploits) (\<lambda>blockExploits.
     rbind (fs_boolean f F_TrustForwardedProto) (\<lambda>trust.
     rbind (fs_boolean f F_NoIndex) (\<lambda>noIndex.
     rbind (fs_boolean f F_CrowdsecAppsec) (\<lambda>crowdsec.
     rbind (fs_boolean f F_RequestBuffering) (\<lambda>requestBuffering.
     rbind (fs_boolean f F_ResponseBuffering) (\<lambda>responseBuffering.
     rbind (fs_boolean f F_UpstreamCompression) (\<lambda>upstreamCompression.
     rbind (fs_boolean f F_FancyIndex) (\<lambda>fancyIndex.
     rbind (xFrameOptions f) (\<lambda>xFrame.
     rbind (fs_enum f F_AuthRequest) (\<lambda>authRequest.
     rbind (parseAccessList f AccessListPublic) (\<lambda>(ids, names, listType).
       let t' = t\<lparr> t_DomainNames := domains, t_ForwardHost := host, t_ForwardPort := port,
             t_ForwardScheme := or_default ''http'' scheme, t_Websockets := websockets,
             t_Caching := caching, t_BlockExploits := blockExploits, t_TrustForwardedProto := trust,
             t_NoIndex := noIndex, t_CrowdsecAppsec := crowdsec, t_RequestBuffering := requestBuffering,
             t_ResponseBuffering := responseBuffering, t_UpstreamCompression := upstreamCompression,
             t_FancyIndex := fancyIndex, t_XFrameOptions := xFrame, t_AuthRequest := authRequest,
             t_AuthRequestUpstream := fs_string f F_AuthRequestUpstream, t_LocationConfig := fs_string f F_LocationConfig,
             t_AccessListIDs := ids, t_AccessListNames := names, t_AccessListType := listType \<rparr> in
       rbind (parseLocations t' f) (\<lambda>locations. Inr (t'\<lparr> t_Locations := locations \<rparr>)))))))))))))))))))"

definition buildRedirect :: "Target \<Rightarrow> fieldSet \<Rightarrow> parse_error + Target" where
  "buildRedirect t f =
     rbind (target_domains f) (\<lambda>domains.
       let forward = to_lower (trim_space (fs_string f F_ForwardDomain)) in
       if forward = [] then Inl (At (fs_name f F_ForwardDomain) IsRequired)
       else if contains_str forward ''://'' then Inl (At (fs_name f F_ForwardDomain) (HasAScheme forward))
       else if contains_any forward [CHR '' '', CHR 0x09] then Inl (At (fs_name f F_ForwardDomain) (InvalidForwardDomain forward))
       else rbind (fs_enum f F_ForwardScheme) (\<lambda>scheme.
         rbind (fs_integer f F_HTTPCode) (\<lambda>code.
           if code < 300 \<or> code > 308 then Inl (At (fs_source f F_HTTPCode) (NotARedirectCode code))
           else rbind (fs_boolean f F_PreservePath) (\<lambda>preserve.
             rbind (fs_boolean f F_BlockExploits) (\<lambda>blockExploits.
               Inr (t\<lparr> t_DomainNames := domains, t_ForwardDomainName := forward,
                 t_ForwardScheme := or_default F_Auto scheme, t_ForwardHTTPCode := code,
                 t_PreservePath := preserve, t_BlockExploits := blockExploits \<rparr>))))))"

text \<open>The transports of a stream: the shorthand, then the explicit switches.\<close>

definition stream_transports :: "fieldSet \<Rightarrow> parse_error + bool \<times> bool" where
  "stream_transports f =
     rbind (fs_enum f F_Protocol) (\<lambda>protocol.
       let (tcp0, udp0) = (if protocol = ''tcp'' then (True, False)
             else if protocol = ''udp'' then (False, True)
             else if protocol = ''both'' then (True, True) else (True, False)) in
       rbind (if fs_has f F_TCP \<or> protocol = [] then fs_boolean f F_TCP else Inr tcp0) (\<lambda>tcp.
       rbind (if fs_has f F_UDP \<or> protocol = [] then fs_boolean f F_UDP else Inr udp0) (\<lambda>udp.
         if \<not> tcp \<and> \<not> udp then Inl (At (fs_name f F_TCP) (NothingForwarded (fs_name f F_UDP)))
         else Inr (tcp, udp))))"

definition validateStream :: "Target \<Rightarrow> fieldSet \<Rightarrow> parse_error + Target" where
  "validateStream t f =
     (let labelled = fs_has f F_Certificate in
      if s_Mode (t_Certificate t) = ModeNew \<and> labelled then Inl (At (fs_source f F_Certificate) StreamCannotRequest)
      else let t = (if s_Mode (t_Certificate t) = ModeNew then t\<lparr> t_Certificate := spec_of ModeNone [] \<rparr> else t) in
        if \<not> t_UDPForwarding t then Inr t
        else if t_ProxyTLS t then Inl (At (fs_source f F_ProxyTLS) TlsIsTcpOnly)
        else if t_ProxyProtocol t = 1 then Inl (At (fs_source f F_ProxyProtocol) ProxyV1IsTcpOnly)
        else if s_Mode (t_Certificate t) = ModeAuto \<or> s_Mode (t_Certificate t) = ModeNone then Inr t
        else if labelled then Inl (At (fs_source f F_Certificate) CertificateIsTcpOnly)
        else Inr (t\<lparr> t_Certificate := spec_of ModeNone [] \<rparr>))"

definition stream_level :: "string \<Rightarrow> int" where
  "stream_level proxyProtocol = (if proxyProtocol = ''v1'' then 1 else if proxyProtocol = ''v2'' then 2 else 0)"

definition buildStream :: "Target \<Rightarrow> Container \<Rightarrow> ParseOptions \<Rightarrow> fieldSet \<Rightarrow> parse_error + Target" where
  "buildStream t c opts f =
     rbind (fs_port f F_IncomingPort) (\<lambda>incoming.
       if incoming \<le> 0 then Inl (At (fs_name f F_IncomingPort) IsRequired)
       else rbind (resolvePort c opts f F_ForwardPort incoming) (\<lambda>port.
       rbind (resolveForwardHost c opts f) (\<lambda>host.
       rbind (stream_transports f) (\<lambda>(tcp, udp).
       rbind (fs_enum f F_ProxyProtocol) (\<lambda>proxyProtocol.
       rbind (fs_boolean f F_ProxyTLS) (\<lambda>proxyTLS.
       rbind (validateStream (t\<lparr> t_IncomingPort := incoming, t_ForwardingPort := port, t_ForwardingHost := host,
           t_TCPForwarding := tcp, t_UDPForwarding := udp,
           t_ProxyProtocol := stream_level proxyProtocol,
           t_ProxyTLS := proxyTLS \<rparr>) f) (\<lambda>t.
         Inr (t\<lparr> t_Description := take MaxDescriptionLength (or_default (c_Name c) (fs_string f F_Description)) \<rparr>))))))))"

definition buildDead :: "Target \<Rightarrow> fieldSet \<Rightarrow> parse_error + Target" where
  "buildDead t f = rbind (target_domains f) (\<lambda>domains. Inr (t\<lparr> t_DomainNames := domains \<rparr>))"

definition validateCertificate :: "Target \<Rightarrow> fieldSet \<Rightarrow> parse_error + Target" where
  "validateCertificate t f =
     (if t_DNSChallenge t \<and> t_DNSProvider t = [] then Inl (At (fs_name f F_LEDNSProvider) IsRequired)
      else if s_Mode (t_Certificate t) = ModeNone \<and> t_SSLForced t = Some True
      then Inl (At (fs_source f F_SSLForced) (CertificateIsNone (fs_source f F_Certificate)))
      else Inr t)"

section \<open>One target\<close>

definition build_common :: "Container \<Rightarrow> entryKey \<Rightarrow> fieldSet \<Rightarrow> parse_error + Target" where
  "build_common c key f =
     rbind (fs_boolean f F_Enabled) (\<lambda>enabled.
     rbind (certificateSpec f) (\<lambda>certificate.
     rbind (fs_booleanAuto f F_SSLForced) (\<lambda>sslForced.
     rbind (fs_boolean f F_HTTP2) (\<lambda>http2.
     rbind (fs_boolean f F_HTTP3) (\<lambda>http3.
     rbind (fs_boolean f F_HSTS) (\<lambda>hsts.
     rbind (fs_boolean f F_HSTSSubdomains) (\<lambda>hstsSubdomains.
     rbind (groupSpec f) (\<lambda>grp.
     rbind (fs_boolean f F_LEAgree) (\<lambda>agree.
     rbind (fs_boolean f F_LEDNSChallenge) (\<lambda>dnsChallenge.
     rbind (fs_integer f F_LEPropagation) (\<lambda>propagation.
       Inr ((zero_target (fst key))\<lparr> t_Index := snd key, t_ContainerID := c_ID c, t_ContainerName := c_Name c,
         t_Running := c_Running c, t_ExplicitPlus := explicitPlus (fst key) f, t_Explicit := explicitFields (fst key) f,
         t_Enabled := enabled, t_Certificate := certificate, t_SSLForced := sslForced, t_HTTP2Support := http2,
         t_HTTP3Support := http3, t_HSTSEnabled := hsts, t_HSTSSubdomains := hstsSubdomains,
         t_AdvancedConfig := fs_string f F_AdvancedConfig, t_Group := grp, t_LetsEncryptEmail := fs_string f F_LEEmail,
         t_LetsEncryptAgree := agree, t_DNSChallenge := dnsChallenge, t_DNSProvider := fs_string f F_LEDNSProvider,
         t_DNSCredentials := fs_string f F_LEDNSCreds, t_PropagationSeconds := propagation \<rparr>))))))))))))"

definition buildTarget :: "Container \<Rightarrow> ParseOptions \<Rightarrow> entryKey \<Rightarrow> fieldSet \<Rightarrow> parse_error + Target" where
  "buildTarget c opts key f =
     rbind (build_common c key f) (\<lambda>t.
     rbind (case fst key of
              KindProxy \<Rightarrow> buildProxy t c opts f
            | KindRedirect \<Rightarrow> buildRedirect t f
            | KindStream \<Rightarrow> buildStream t c opts f
            | KindDead \<Rightarrow> buildDead t f) (\<lambda>t.
       validateCertificate t f))"

end
