(* ===== verification/Scan.thy ===== *)
theory Scan
  imports BuildTarget
begin

text \<open>
  From containers to the snapshot of a run (\<open>Parse\<close>, \<open>ParseAll\<close> and \<open>Scan\<close> of
  \<open>internal/docker/labels.go\<close>): every resource definition of every managed container becomes a
  target or an error, and the containers with errors become protected.
\<close>

record LabelResult =
  lr_Targets :: "Target list"
  lr_Errors :: "parse_error list"
  lr_Warnings :: "string list"
  lr_Skipped :: bool

definition no_result :: LabelResult where
  "no_result = \<lparr> lr_Targets = [], lr_Errors = [], lr_Warnings = [], lr_Skipped = False \<rparr>"

fun kindOrder :: "Kind \<Rightarrow> nat" where
  "kindOrder KindProxy = 0"
| "kindOrder KindRedirect = 1"
| "kindOrder KindStream = 2"
| "kindOrder KindDead = 3"

definition entry_order :: "entryKey \<Rightarrow> int \<times> nat" where
  "entry_order key = (snd key, kindOrder (fst key))"

definition strict_warning :: "Container \<Rightarrow> entryKey \<Rightarrow> string" where
  "strict_warning c key = displayName c @ ''#'' @ itoa (snd key) @ '' '' @ kind_String (fst key)
     @ '': skipped because of an unknown label (STRICT_LABELS)''"

definition parse_entry ::
  "Container \<Rightarrow> ParseOptions \<Rightarrow> (int \<times> bool) list \<Rightarrow> entryKey \<times> fieldSet \<Rightarrow> LabelResult \<Rightarrow> LabelResult" where
  "parse_entry c opts disabled = (\<lambda>(key, f) res.
     if map_of disabled (snd key) = Some True then res
     else if fs_tainted f \<and> po_StrictLabels opts
     then res\<lparr> lr_Warnings := lr_Warnings res @ [strict_warning c key], lr_Skipped := True \<rparr>
     else case buildTarget c opts key f of
       Inl e \<Rightarrow> res\<lparr> lr_Errors := lr_Errors res @ [e] \<rparr>
     | Inr t \<Rightarrow> res\<lparr> lr_Targets := lr_Targets res @ [t] \<rparr>)"

definition Parse_labels :: "Container \<Rightarrow> ParseOptions \<Rightarrow> LabelResult" where
  "Parse_labels c opts =
     (if \<not> fst (Managed c opts) then no_result
      else let g = groupLabels c opts in
        fold (parse_entry c opts (gr_disabled g)) (sort_key (\<lambda>x. entry_order (fst x)) (gr_groups g))
          (no_result\<lparr> lr_Errors := gr_errors g, lr_Warnings := gr_warnings g \<rparr>))"

text \<open>The messages of a list of containers carry the container's name.\<close>

definition container_errors :: "Container \<Rightarrow> LabelResult \<Rightarrow> (string \<times> parse_error) list" where
  "container_errors c one = map (Pair (displayName c)) (lr_Errors one)"

definition container_warnings :: "Container \<Rightarrow> LabelResult \<Rightarrow> string list" where
  "container_warnings c one = map (\<lambda>w. ''container '' @ displayName c @ '': '' @ w) (lr_Warnings one)"

record ScanResult =
  sr_Errors :: "(string \<times> parse_error) list"
  sr_Warnings :: "string list"

definition ParseAll :: "Container list \<Rightarrow> ParseOptions \<Rightarrow> Target list \<times> ScanResult" where
  "ParseAll containers opts =
     fold (\<lambda>c (targets, res). let one = Parse_labels c opts in
         (targets @ lr_Targets one,
          \<lparr> sr_Errors = sr_Errors res @ container_errors c one, sr_Warnings = sr_Warnings res @ container_warnings c one \<rparr>))
       containers ([], \<lparr> sr_Errors = [], sr_Warnings = [] \<rparr>)"

definition protected_names :: "Container \<Rightarrow> string list" where
  "protected_names c = filter (\<lambda>n. n \<noteq> []) [c_Name c, c_ID c]"

definition scan_one ::
  "ParseOptions \<Rightarrow> Container \<Rightarrow> Snapshot \<times> ScanResult \<Rightarrow> Snapshot \<times> ScanResult" where
  "scan_one opts c = (\<lambda>(snapshot, res).
     let one = Parse_labels c opts;
         protect = (lr_Errors one \<noteq> [] \<or> (lr_Skipped one \<and> po_StrictLabels opts))
     in (snapshot\<lparr> snap_Targets := snap_Targets snapshot @ lr_Targets one,
           snap_Protected := snap_Protected snapshot @ (if protect then protected_names c else []) \<rparr>,
         \<lparr> sr_Errors = sr_Errors res @ container_errors c one, sr_Warnings = sr_Warnings res @ container_warnings c one \<rparr>))"

definition ScanContainers :: "Container list \<Rightarrow> ParseOptions \<Rightarrow> Snapshot \<times> ScanResult" where
  "ScanContainers containers opts =
     (let (snapshot, res) = fold (scan_one opts) containers
            (\<lparr> snap_Targets = [], snap_Protected = [],
               snap_Summary = \<lparr> sm_Managed = 0, sm_OptedOut = 0, sm_Unlabeled = 0, sm_Stopped = 0 \<rparr>,
               snap_Containers = length containers \<rparr>, \<lparr> sr_Errors = [], sr_Warnings = [] \<rparr>)
      in (snapshot\<lparr> snap_Summary := Classify containers opts \<rparr>, res))"

section \<open>What a scan returns\<close>

lemma scan_fold:
  "fst (fold (scan_one opts) cs (s, r)) = s\<lparr>
     snap_Targets := snap_Targets s @ concat (map (\<lambda>c. lr_Targets (Parse_labels c opts)) cs),
     snap_Protected := snap_Protected s @ concat (map (\<lambda>c. let one = Parse_labels c opts in
        if lr_Errors one \<noteq> [] \<or> (lr_Skipped one \<and> po_StrictLabels opts) then protected_names c else []) cs) \<rparr>"
  by (induction cs arbitrary: s r) (simp_all add: scan_one_def Let_def)

lemma scan_targets: "snap_Targets (fst (ScanContainers cs opts)) = concat (map (\<lambda>c. lr_Targets (Parse_labels c opts)) cs)"
  and scan_protected: "set (snap_Protected (fst (ScanContainers cs opts))) =
    (\<Union>c\<in>{c \<in> set cs. lr_Errors (Parse_labels c opts) \<noteq> [] \<or> (lr_Skipped (Parse_labels c opts) \<and> po_StrictLabels opts)}.
       set (protected_names c))"
  and scan_length: "snap_Containers (fst (ScanContainers cs opts)) = length cs"
  by (auto simp: ScanContainers_def scan_fold Let_def split_def)

lemma set_protected_names: "n \<in> set (protected_names c) \<longleftrightarrow> n \<noteq> [] \<and> (n = c_Name c \<or> n = c_ID c)"
  by (auto simp: protected_names_def)

lemma scan_protects:
  assumes "c \<in> set cs" "lr_Errors (Parse_labels c opts) \<noteq> [] \<or> (lr_Skipped (Parse_labels c opts) \<and> po_StrictLabels opts)"
  shows "(n = c_Name c \<and> n \<noteq> []) \<or> (i = c_ID c \<and> i \<noteq> []) \<Longrightarrow> IsProtected (fst (ScanContainers cs opts)) n i"
proof -
  assume ni: "(n = c_Name c \<and> n \<noteq> []) \<or> (i = c_ID c \<and> i \<noteq> [])"
  have sub: "set (protected_names c) \<subseteq> set (snap_Protected (fst (ScanContainers cs opts)))"
    using assms unfolding scan_protected by blast
  show ?thesis
  proof (cases "n = c_Name c \<and> n \<noteq> []")
    case True
    then have "n \<in> set (snap_Protected (fst (ScanContainers cs opts)))" using sub set_protected_names by blast
    with True show ?thesis by (auto simp: IsProtected_def)
  next
    case False
    with ni have "i \<in> set (snap_Protected (fst (ScanContainers cs opts)))" using sub set_protected_names by blast
    with False ni show ?thesis by (auto simp: IsProtected_def)
  qed
qed

end
