(* ===== verification/WellFormed.thy ===== *)
theory WellFormed
  imports Scan
begin

text \<open>
  What the label parser guarantees of the targets it returns. The definitions of this theory are the
  specification: the well-formed target, with the ranges and enumerations the server insists on.
\<close>

section \<open>The specification\<close>

definition names_ok :: "string list \<Rightarrow> bool" where
  "names_ok ds \<longleftrightarrow> ds \<noteq> [] \<and> sorted ds \<and> distinct ds \<and> list_all domain_ok ds"

definition lists_ok :: "string \<Rightarrow> int list \<Rightarrow> string list \<Rightarrow> string \<Rightarrow> bool" where
  "lists_ok inherited ids names listType \<longleftrightarrow> list_all (\<lambda>i. i \<ge> 1) ids
     \<and> (if ids = [] \<and> names = [] then listType \<in> {AccessListPublic, inherited} else listType = AccessListCustom)"

definition location_ok :: "Location \<Rightarrow> bool" where
  "location_ok l \<longleftrightarrow> loc_Path l \<noteq> [] \<and> (has_prefix (loc_Path l) ''/'' \<or> loc_LocationType l = ''@'')
     \<and> loc_LocationType l \<in> set [[], ''= '', ''~ '', ''~* '', ''^~ '', ''@'']
     \<and> 0 \<le> loc_ForwardPort l \<and> loc_ForwardPort l \<le> 65535 \<and> to_lower (trim_space (loc_ForwardScheme l)) \<in> set SchemeValues
     \<and> lists_ok AccessListGlobal (loc_AccessListIDs l) (loc_AccessListNames l) (loc_AccessListType l)"

definition proxy_ok :: "Target \<Rightarrow> bool" where
  "proxy_ok t \<longleftrightarrow> names_ok (t_DomainNames t) \<and> 0 \<le> t_ForwardPort t \<and> t_ForwardPort t \<le> 65535
     \<and> t_ForwardScheme t \<in> set SchemeValues
     \<and> lists_ok AccessListPublic (t_AccessListIDs t) (t_AccessListNames t) (t_AccessListType t)
     \<and> list_all location_ok (t_Locations t)"

definition redirect_ok :: "Target \<Rightarrow> bool" where
  "redirect_ok t \<longleftrightarrow> names_ok (t_DomainNames t) \<and> t_ForwardDomainName t \<noteq> [] \<and> \<not> contains_str (t_ForwardDomainName t) ''://''
     \<and> 300 \<le> t_ForwardHTTPCode t \<and> t_ForwardHTTPCode t \<le> 308 \<and> t_ForwardScheme t \<in> set RedirectSchemeValues"

definition stream_ok :: "Target \<Rightarrow> bool" where
  "stream_ok t \<longleftrightarrow> 1 \<le> t_IncomingPort t \<and> t_IncomingPort t \<le> 65535
     \<and> 1 \<le> t_ForwardingPort t \<and> t_ForwardingPort t \<le> 65535
     \<and> (t_TCPForwarding t \<or> t_UDPForwarding t) \<and> t_ProxyProtocol t \<in> {0, 1, 2}
     \<and> s_Mode (t_Certificate t) \<noteq> ModeNew \<and> length (t_Description t) \<le> MaxDescriptionLength
     \<and> (t_UDPForwarding t \<longrightarrow> \<not> t_ProxyTLS t \<and> t_ProxyProtocol t \<noteq> 1
          \<and> (s_Mode (t_Certificate t) = ModeAuto \<or> s_Mode (t_Certificate t) = ModeNone))"

definition target_ok :: "Target \<Rightarrow> bool" where
  "target_ok t \<longleftrightarrow>
     (case t_Kind t of
        KindProxy \<Rightarrow> proxy_ok t
      | KindRedirect \<Rightarrow> redirect_ok t
      | KindStream \<Rightarrow> stream_ok t
      | KindDead \<Rightarrow> names_ok (t_DomainNames t))
     \<and> t_Key t \<noteq> []
     \<and> (t_DNSChallenge t \<longrightarrow> t_DNSProvider t \<noteq> [])
     \<and> (s_Mode (t_Certificate t) = ModeNone \<longrightarrow> t_SSLForced t \<noteq> Some True)
     \<and> (case t_Group t of Some g \<Rightarrow> length g \<le> MaxDirectoryLength | None \<Rightarrow> True)"

text \<open>The ports Docker reports are 16 bit.\<close>

definition ports_ok :: "Container \<Rightarrow> bool" where
  "ports_ok c \<longleftrightarrow> list_all (\<lambda>b. pb_Private b \<le> 65535) (c_Ports c)"

section \<open>Domains and keys\<close>

lemma target_domains_ok: "target_domains f = Inr ds \<Longrightarrow> names_ok ds \<and> (\<exists>xs. ds = NormalizeDomains xs)"
  using NormalizeDomains_wf
  by (auto simp: target_domains_def rbind_Inr_iff names_ok_def split: if_splits dest!: fs_domains_ok)

lemma trim_space_hd: "trim_space s = c # r \<Longrightarrow> \<not> is_space c"
  using trim_space_edges(1) [of s] by (auto simp: trim_left_def split: if_splits)
     (metis dropWhile_eq_Cons_conv)

lemma domain_ok_hd: "domain_ok (c # r) \<Longrightarrow> c \<noteq> CHR ''.''"
  by (auto simp: domain_ok_def split_on_def)

lemma trim_space_Cons: "\<not> is_space c \<Longrightarrow> \<exists>r'. trim_space (c # r) = c # r'"
proof -
  assume c: "\<not> is_space c"
  then have "trim_space (c # r) = rev (dropWhile is_space (rev r @ [c]))"
    by (simp add: trim_space_def trim_left_def trim_right_def)
  moreover have "dropWhile is_space (rev r @ [c]) = dropWhile is_space (rev r) @ [c]"
    using c by (induction "rev r" arbitrary: r) (simp_all add: dropWhile_append)
  then obtain xs where "dropWhile is_space (rev r @ [c]) = xs @ [c]" by blast
  ultimately have "trim_space (c # r) = c # rev xs" by simp
  then show ?thesis by blast
qed

lemma clean_twice: "domain_ok (clean_domain x) \<Longrightarrow> clean_domain (clean_domain x) \<noteq> []"
proof -
  assume ok: "domain_ok (clean_domain x)"
  then obtain c r where d: "clean_domain x = c # r" by (cases "clean_domain x") (auto simp: domain_ok_def)
  have dot: "c \<noteq> CHR ''.''" using ok domain_ok_hd d by metis
  obtain s where s: "to_lower (trim_space x) = c # s"
    by (rule trim_suffix_cases [of "to_lower (trim_space x)" "''.''"]) (use d in \<open>auto simp: clean_domain_def\<close>)
  then obtain c0 s0 where "trim_space x = c0 # s0" "c = lower_char c0" by (auto simp: to_lower_def)
  then have "\<not> is_space c" using trim_space_hd by simp
  from trim_space_Cons [OF this, of r] obtain r' where "trim_space (clean_domain x) = c # r'" using d by auto
  then have "to_lower (trim_space (clean_domain x)) = lower_char c # to_lower r'" by (simp add: to_lower_def)
  moreover have "lower_char c = c" using s by (auto simp: to_lower_def)
  ultimately have "to_lower (trim_space (clean_domain x)) = c # to_lower r'" by simp
  with dot show ?thesis
    by (simp add: clean_domain_def) (rule trim_suffix_cases [of "c # to_lower r'" "''.''"], auto simp: Cons_eq_append_conv)
qed

lemma names_key: "names_ok ds \<Longrightarrow> ds = NormalizeDomains xs \<Longrightarrow> NormalizeDomains ds \<noteq> []"
proof -
  assume n: "names_ok ds" and ds: "ds = NormalizeDomains xs"
  then have d: "hd ds \<in> set ds" "domain_ok (hd ds)" by (auto simp: names_ok_def list_all_iff)
  then obtain x where "hd ds = clean_domain x" using ds set_NormalizeDomains by blast
  with d clean_twice have "clean_domain (hd ds) \<in> set (NormalizeDomains ds)" by (auto simp: set_NormalizeDomains)
  then show ?thesis by force
qed

section \<open>Fields\<close>

lemma split_lists_pos: "split_lists f raws = Inr (ids, names) \<Longrightarrow> list_all (\<lambda>i. i \<ge> 1) ids"
  by (induction raws arbitrary: ids names) (auto simp: rbind_Inr_iff split: option.splits if_splits)

lemma parseAccessList_ok:
  "parseAccessList f inherited = Inr (ids, names, listType) \<Longrightarrow> inherited \<in> {AccessListPublic, AccessListGlobal}
    \<Longrightarrow> lists_ok inherited ids names listType"
  by (auto simp: parseAccessList_def rbind_Inr_iff Let_def lists_ok_def split: if_splits dest: split_lists_pos)

lemma GuessPort_range: "ports_ok c \<Longrightarrow> GuessPort c pref = Some p \<Longrightarrow> 1 \<le> p \<and> p \<le> 65535"
  using GuessPort_exposed [of c pref p] tcp_ports_pos [of p c]
  by (auto simp: ports_ok_def tcp_ports_def list_all_iff)

lemma resolvePort_range:
  assumes "resolvePort c opts f field fallback = Inr p" "ports_ok c" "0 \<le> fallback" "fallback \<le> 65535"
  shows "0 \<le> p \<and> p \<le> 65535 \<and> (fallback > 0 \<longrightarrow> 1 \<le> p)"
  using assms fs_port_range [of f field] GuessPort_range [OF assms(2)]
  by (fastforce simp: resolvePort_def rbind_Inr_iff split: if_splits option.splits)

lemma scheme_fields:
  "\<exists>d. Lookup KindProxy F_ForwardScheme = Some d \<and> f_Enum d = SchemeValues"
  "\<exists>d. Lookup KindRedirect F_ForwardScheme = Some d \<and> f_Enum d = RedirectSchemeValues"
proof -
  have "zero_field\<lparr> f_Name := F_ForwardScheme, f_Aliases := [''scheme'', ''upstream_scheme''],
       f_Type := TypeEnum, f_Enum := SchemeValues, f_Default := ''http'', f_APIField := ''forward_scheme'' \<rparr>
     \<in> set (Table KindProxy)" by (simp add: proxyFields_def)
  from Lookup_name [OF this] show "\<exists>d. Lookup KindProxy F_ForwardScheme = Some d \<and> f_Enum d = SchemeValues" by simp
  have "zero_field\<lparr> f_Name := F_ForwardScheme, f_Aliases := [''scheme''], f_Type := TypeEnum,
       f_Enum := RedirectSchemeValues, f_Default := F_Auto, f_APIField := ''forward_scheme'' \<rparr>
     \<in> set (Table KindRedirect)" by (simp add: redirectFields_def)
  from Lookup_name [OF this]
  show "\<exists>d. Lookup KindRedirect F_ForwardScheme = Some d \<and> f_Enum d = RedirectSchemeValues" by simp
qed

lemma scheme_enum:
  "fs_kind f = KindProxy \<Longrightarrow> fs_enum f F_ForwardScheme = Inr v \<Longrightarrow> v = [] \<or> v \<in> set SchemeValues"
  "fs_kind f = KindRedirect \<Longrightarrow> fs_enum f F_ForwardScheme = Inr v \<Longrightarrow> v = [] \<or> v \<in> set RedirectSchemeValues"
  using scheme_fields fs_enum_member by metis+

lemma http_is_a_scheme: "''http'' \<in> set SchemeValues" "F_Auto \<in> set RedirectSchemeValues"
  by (simp_all add: SchemeValues_def RedirectSchemeValues_def F_Auto_def)

lemma groupSpec_ok: "groupSpec f = Inr g \<Longrightarrow> (case g of Some g \<Rightarrow> length g \<le> MaxDirectoryLength | None \<Rightarrow> True)"
  by (auto simp: groupSpec_def Let_def split: if_splits)

section \<open>Locations\<close>

lemma loc_path_ok: "loc_path f n values = Inr (path, ty) \<Longrightarrow>
    path \<noteq> [] \<and> (has_prefix path ''/'' \<or> ty = ''@'') \<and> ty \<in> set [[], ''= '', ''~ '', ''~* '', ''^~ '', ''@'']"
  by (auto simp: loc_path_def locationModifier_def Let_def rbind_Inr_iff split: if_splits)

lemma loc_upstream_ok:
  assumes "loc_upstream t f n values = Inr (scheme, host, port)" "0 \<le> t_ForwardPort t" "t_ForwardPort t \<le> 65535"
  shows "0 \<le> port \<and> port \<le> 65535 \<and> to_lower (trim_space scheme) \<in> set SchemeValues"
  using assms by (auto simp: loc_upstream_def ValidateEnum_def Let_def rbind_Inr_iff split: if_splits option.splits)

lemma buildLocation_ok:
  assumes b: "buildLocation t f n values = Inr l" and p: "0 \<le> t_ForwardPort t" "t_ForwardPort t \<le> 65535"
  shows "location_ok l"
proof -
  obtain sub path ty scheme host port ids names listType where
    l: "loc_path f n values = Inr (path, ty)" "loc_upstream t f n values = Inr (scheme, host, port)"
      "parseAccessList sub AccessListGlobal = Inr (ids, names, listType)"
    and e: "loc_Path l = path" "loc_LocationType l = ty" "loc_ForwardScheme l = scheme" "loc_ForwardPort l = port"
      "loc_AccessListIDs l = ids" "loc_AccessListNames l = names" "loc_AccessListType l = listType"
    using b by (auto simp: buildLocation_def Let_def rbind_Inr_iff split: prod.splits)
  from loc_path_ok [OF l(1)] loc_upstream_ok [OF l(2) p] parseAccessList_ok [OF l(3)] show ?thesis
    by (simp add: location_ok_def e)
qed

lemma parseLocations_ok:
  assumes "parseLocations t f = Inr ls" "0 \<le> t_ForwardPort t" "t_ForwardPort t \<le> 65535"
  shows "list_all location_ok ls"
proof -
  obtain gs where "list_all2 (\<lambda>x y. (case x of (n, values) \<Rightarrow> buildLocation t f n values) = Inr y) gs ls"
    using assms(1) by (auto simp: parseLocations_def rbind_Inr_iff map_result_Inr)
  then show ?thesis
    by (induction rule: list_all2_induct) (use buildLocation_ok assms(2,3) in \<open>auto split: prod.splits\<close>)
qed

section \<open>Targets\<close>

text \<open>What the kind-specific parts leave alone.\<close>

definition same_common :: "Target \<Rightarrow> Target \<Rightarrow> bool" where
  "same_common t t' \<longleftrightarrow> t_Kind t' = t_Kind t \<and> t_Group t' = t_Group t \<and> t_ContainerName t' = t_ContainerName t
     \<and> t_ContainerID t' = t_ContainerID t \<and> t_Running t' = t_Running t"

lemma buildProxy_ok:
  assumes b: "buildProxy t c opts f = Inr t'" and k: "fs_kind f = KindProxy" and p: "ports_ok c"
  shows "proxy_ok t' \<and> same_common t t' \<and> (\<exists>xs. t_DomainNames t' = NormalizeDomains xs)"
proof -
  obtain ds host port scheme ids names listType t1 ls where
    d: "target_domains f = Inr ds" and r: "resolvePort c opts f F_ForwardPort 0 = Inr port"
    and e: "fs_enum f F_ForwardScheme = Inr scheme" and al: "parseAccessList f AccessListPublic = Inr (ids, names, listType)"
    and loc: "parseLocations t1 f = Inr ls" and t': "t' = t1\<lparr> t_Locations := ls \<rparr>"
    and t1: "t_DomainNames t1 = ds" "t_ForwardPort t1 = port" "t_ForwardScheme t1 = or_default ''http'' scheme"
      "t_AccessListIDs t1 = ids" "t_AccessListNames t1 = names" "t_AccessListType t1 = listType" "same_common t t1"
    using b unfolding buildProxy_def Let_def by (elim rbind_InrE, clarsimp simp: same_common_def) (elim rbind_InrE, simp)
  have port: "0 \<le> port" "port \<le> 65535" using resolvePort_range [OF r p] by simp_all
  have sch: "t_ForwardScheme t1 \<in> set SchemeValues" using scheme_enum(1) [OF k e] http_is_a_scheme t1 by (auto simp: or_default_def)
  have "list_all location_ok ls" using parseLocations_ok [OF loc] port t1 by simp
  with target_domains_ok [OF d] port sch parseAccessList_ok [OF al] t1 show ?thesis
    by (simp add: t' proxy_ok_def same_common_def)
qed

lemma buildRedirect_ok:
  assumes b: "buildRedirect t f = Inr t'" and k: "fs_kind f = KindRedirect"
  shows "redirect_ok t' \<and> same_common t t' \<and> (\<exists>xs. t_DomainNames t' = NormalizeDomains xs)"
proof -
  obtain ds scheme where d: "target_domains f = Inr ds" and e: "fs_enum f F_ForwardScheme = Inr scheme"
    and t': "t_DomainNames t' = ds" "t_ForwardScheme t' = or_default F_Auto scheme" "t_ForwardDomainName t' \<noteq> []"
      "\<not> contains_str (t_ForwardDomainName t') ''://''" "300 \<le> t_ForwardHTTPCode t'" "t_ForwardHTTPCode t' \<le> 308"
      "same_common t t'"
    using b by (auto simp: buildRedirect_def Let_def rbind_Inr_iff same_common_def split: if_splits)
  have "t_ForwardScheme t' \<in> set RedirectSchemeValues"
    using scheme_enum(2) [OF k e] http_is_a_scheme t' by (auto simp: or_default_def)
  with t' target_domains_ok [OF d] show ?thesis by (simp add: redirect_ok_def)
qed

lemma stream_transports_ok: "stream_transports f = Inr (tcp, udp) \<Longrightarrow> tcp \<or> udp"
  by (auto simp: stream_transports_def Let_def rbind_Inr_iff split: if_splits)

definition same_stream :: "Target \<Rightarrow> Target \<Rightarrow> bool" where
  "same_stream t t' \<longleftrightarrow> t_IncomingPort t' = t_IncomingPort t \<and> t_ForwardingPort t' = t_ForwardingPort t
     \<and> t_TCPForwarding t' = t_TCPForwarding t \<and> t_UDPForwarding t' = t_UDPForwarding t
     \<and> t_ProxyProtocol t' = t_ProxyProtocol t \<and> same_common t t'"

lemma validateStream_ok:
  assumes "validateStream t f = Inr t'"
  shows "same_stream t t' \<and> s_Mode (t_Certificate t') \<noteq> ModeNew
    \<and> (t_UDPForwarding t' \<longrightarrow> \<not> t_ProxyTLS t' \<and> t_ProxyProtocol t' \<noteq> 1
          \<and> (s_Mode (t_Certificate t') = ModeAuto \<or> s_Mode (t_Certificate t') = ModeNone))"
proof -
  have none: "s_Mode (spec_of ModeNone []) = ModeNone" by (simp add: spec_of_def)
  from assms none show ?thesis
    by (auto simp: validateStream_def Let_def same_stream_def same_common_def split: if_splits)
qed

lemma buildStream_ok:
  assumes b: "buildStream t c opts f = Inr t'" and p: "ports_ok c"
  shows "stream_ok t' \<and> same_common t t'"
proof -
  obtain incoming port host tcp udp pp tls t1 t2 where
    i: "fs_port f F_IncomingPort = Inr incoming" "0 < incoming"
    and r: "resolvePort c opts f F_ForwardPort incoming = Inr port"
    and s: "stream_transports f = Inr (tcp, udp)"
    and t1: "t1 = t\<lparr> t_IncomingPort := incoming, t_ForwardingPort := port, t_ForwardingHost := host,
           t_TCPForwarding := tcp, t_UDPForwarding := udp, t_ProxyProtocol := stream_level pp, t_ProxyTLS := tls \<rparr>"
    and v: "validateStream t1 f = Inr t2"
    and t': "t' = t2\<lparr> t_Description := take MaxDescriptionLength (or_default (c_Name c) (fs_string f F_Description)) \<rparr>"
    using b by (force simp: buildStream_def rbind_Inr_iff split: if_splits)
  have inc: "1 \<le> incoming" "incoming \<le> 65535" using fs_port_range [OF i(1)] i(2) by auto
  have port: "1 \<le> port" "port \<le> 65535" using resolvePort_range [OF r p] inc by auto
  have t1': "t_IncomingPort t1 = incoming" "t_ForwardingPort t1 = port" "t_TCPForwarding t1 = tcp"
    "t_UDPForwarding t1 = udp" "t_ProxyProtocol t1 \<in> {0, 1, 2}" "same_common t t1"
    by (simp_all add: t1 stream_level_def same_common_def)
  from validateStream_ok [OF v] stream_transports_ok [OF s] inc port t1' show ?thesis
    by (auto simp: t' stream_ok_def same_common_def same_stream_def)
qed

lemma buildDead_ok:
  "buildDead t f = Inr t' \<Longrightarrow> names_ok (t_DomainNames t') \<and> same_common t t' \<and> (\<exists>xs. t_DomainNames t' = NormalizeDomains xs)"
  using target_domains_ok [of f] by (auto simp: buildDead_def rbind_Inr_iff same_common_def)

text \<open>The container a target comes from.\<close>

definition target_of :: "Container \<Rightarrow> Target \<Rightarrow> bool" where
  "target_of c t \<longleftrightarrow> t_ContainerName t = c_Name c \<and> t_ContainerID t = c_ID c \<and> t_Running t = c_Running c"

lemma build_common_ok:
  assumes "build_common c key f = Inr t"
  shows "t_Kind t = fst key \<and> target_of c t \<and> (case t_Group t of Some g \<Rightarrow> length g \<le> MaxDirectoryLength | None \<Rightarrow> True)"
  using assms unfolding build_common_def by (elim rbind_InrE) (auto simp: zero_target_def target_of_def dest: groupSpec_ok)

lemma buildTarget_ok:
  assumes b: "buildTarget c opts key f = Inr t" and k: "fs_kind f = fst key" and p: "ports_ok c"
  shows "target_ok t \<and> t_Kind t = fst key \<and> target_of c t"
proof -
  obtain t0 t1 where c: "build_common c key f = Inr t0"
    and s: "(case fst key of KindProxy \<Rightarrow> buildProxy t0 c opts f | KindRedirect \<Rightarrow> buildRedirect t0 f
        | KindStream \<Rightarrow> buildStream t0 c opts f | KindDead \<Rightarrow> buildDead t0 f) = Inr t1"
    and v: "validateCertificate t1 f = Inr t"
    using b by (auto simp: buildTarget_def rbind_Inr_iff)
  have t: "t = t1" "t_DNSChallenge t \<longrightarrow> t_DNSProvider t \<noteq> []" "s_Mode (t_Certificate t) = ModeNone \<longrightarrow> t_SSLForced t \<noteq> Some True"
    using v by (auto simp: validateCertificate_def split: if_splits)
  note common = build_common_ok [OF c]
  have key: "t_Key t \<noteq> []" if "names_ok (t_DomainNames t)" "\<exists>xs. t_DomainNames t = NormalizeDomains xs" "t_Kind t \<noteq> KindStream"
    using that names_key NormalizeDomains_wf [of "t_DomainNames t"]
    by (cases "NormalizeDomains (t_DomainNames t)") (auto simp: t_Key_def)
  show ?thesis
  proof (cases "fst key")
    case KindProxy
    with s k buildProxy_ok [OF _ _ p] have "proxy_ok t1" "same_common t0 t1" "\<exists>xs. t_DomainNames t1 = NormalizeDomains xs" by auto
    with KindProxy common t key show ?thesis by (auto simp: target_ok_def target_of_def same_common_def proxy_ok_def)
  next
    case KindRedirect
    with s k buildRedirect_ok have "redirect_ok t1" "same_common t0 t1" "\<exists>xs. t_DomainNames t1 = NormalizeDomains xs" by auto
    with KindRedirect common t key show ?thesis by (auto simp: target_ok_def target_of_def same_common_def redirect_ok_def)
  next
    case KindStream
    with s buildStream_ok [OF _ p] have "stream_ok t1" "same_common t0 t1" by auto
    with KindStream common t show ?thesis by (auto simp: target_ok_def target_of_def same_common_def stream_ok_def t_Key_def)
  next
    case KindDead
    with s buildDead_ok have "names_ok (t_DomainNames t1)" "same_common t0 t1" "\<exists>xs. t_DomainNames t1 = NormalizeDomains xs" by auto
    with KindDead common t key show ?thesis by (auto simp: target_ok_def target_of_def same_common_def)
  qed
qed

section \<open>Containers\<close>

definition groups_ok :: "grouping \<Rightarrow> bool" where
  "groups_ok g \<longleftrightarrow> (\<forall>key f. (key, f) \<in> set (gr_groups g) \<longrightarrow> fs_kind f = fst key)"

lemma groups_ok_update: "groups_ok g \<Longrightarrow> fs_kind s = fst key
    \<Longrightarrow> groups_ok (g\<lparr> gr_groups := AList.update key s (gr_groups g) \<rparr>)"
  by (auto simp: groups_ok_def dest: set_AList_update)

lemma group_field_ok: "groups_ok g \<Longrightarrow> groups_ok (group_field prefix defaults name value kind index field g)"
proof -
  assume g: "groups_ok g"
  define set0 where "set0 = (case map_of (gr_groups g) (kind, index) of
      Some s \<Rightarrow> s | None \<Rightarrow> newFieldSet prefix kind index defaults)"
  have k: "fs_kind set0 = kind"
    using g by (auto simp: set0_def groups_ok_def newFieldSet_def dest: map_of_SomeD split: option.splits)
  have up: "groups_ok (h\<lparr> gr_groups := AList.update (kind, index) s (gr_groups h) \<rparr>)"
    if "groups_ok h" "fs_kind s = kind" for h s
    using groups_ok_update [OF that(1)] that(2) by simp
  have irrelevant: "groups_ok (h\<lparr> gr_errors := es \<rparr>) = groups_ok h" "groups_ok (h\<lparr> gr_warnings := ws \<rparr>) = groups_ok h" for h es ws
    by (simp_all add: groups_ok_def)
  define g1 where "g1 = g\<lparr> gr_groups := AList.update (kind, index) set0 (gr_groups g) \<rparr>"
  have g1: "groups_ok g1" unfolding g1_def by (rule up [OF g k])
  show ?thesis
  proof (cases "resolveField kind field")
    case None
    have "group_field prefix defaults name value kind index field g
        = (g1\<lparr> gr_groups := AList.update (kind, index) (set0\<lparr> fs_tainted := True \<rparr>) (gr_groups g1) \<rparr>)
            \<lparr> gr_warnings := gr_warnings g1 @ [unknown_warning name prefix kind field] \<rparr>"
      by (simp add: group_field_def Let_def None g1_def set0_def)
    with up [OF g1, of "set0\<lparr> fs_tainted := True \<rparr>"] k show ?thesis by (simp only: irrelevant) simp
  next
    case (Some ci)
    obtain canon inverted where ci: "ci = (canon, inverted)" by fastforce
    define v where "v = (if inverted then rbind (ParseBool value) (\<lambda>b. Inr (FormatBool (\<not> b))) else Inr value)"
    show ?thesis
    proof (cases v)
      case (Inl e)
      have "group_field prefix defaults name value kind index field g = group_error name (BadValue e) g1"
        unfolding group_field_def Let_def Some ci set0_def [symmetric] g1_def [symmetric] option.case prod.case v_def [symmetric] Inl
        by simp
      with g1 show ?thesis by (simp add: group_error_def irrelevant)
    next
      case (Inr v')
      have "group_field prefix defaults name value kind index field g
          = g1\<lparr> gr_groups := AList.update (kind, index)
                (set0\<lparr> fs_values := AList.update canon v' (fs_values set0),
                       fs_labels := AList.update canon name (fs_labels set0) \<rparr>) (gr_groups g1) \<rparr>"
        unfolding group_field_def Let_def Some ci set0_def [symmetric] g1_def [symmetric] option.case prod.case v_def [symmetric] Inr
        by simp
      with up [OF g1] k show ?thesis by simp
    qed
  qed
qed

lemma group_label_cases:
  assumes "P g" "\<And>n e. P (group_error n e g)" "\<And>ds. P (g\<lparr> gr_disabled := ds \<rparr>)"
    and "\<And>n v k i fld. P (group_field prefix defaults n v k i fld g)"
  shows "P (group_label prefix defaults (name, labelled) g)"
proof (cases "trimPrefix name prefix")
  case None
  with assms(1) show ?thesis by (simp add: group_label_def)
next
  case (Some rest)
  show ?thesis
  proof (cases "rest = [] \<or> normalize rest = F_Enable")
    case True
    with assms(1) Some show ?thesis by (auto simp: group_label_def Let_def)
  next
    case False
    show ?thesis
    proof (cases "splitLabel rest")
      case (Inl e)
      with False Some assms(2) show ?thesis by (simp add: group_label_def Let_def)
    next
      case (Inr x)
      obtain kind index field kindSet where x: "x = (kind, index, field, kindSet)" by (metis surj_pair)
      show ?thesis
      proof (cases "field = F_Enable \<and> \<not> kindSet")
        case True
        with False Some Inr x assms(2,3) show ?thesis
          by (cases "ParseBool (trim_space labelled)") (simp_all add: group_label_def Let_def)
      next
        case other: False
        then have "(field = F_Enable \<and> \<not> kindSet) = False" by blast
        with False Some Inr x assms(4) show ?thesis by (simp add: group_label_def Let_def del: de_Morgan_conj)
      qed
    qed
  qed
qed

lemma group_label_ok: "groups_ok g \<Longrightarrow> groups_ok (group_label prefix defaults x g)"
proof (cases x)
  case (Pair name labelled)
  assume g: "groups_ok g"
  show ?thesis
    unfolding Pair
  proof (rule group_label_cases [where P = groups_ok, OF g])
    show "groups_ok (group_error n e g)" "groups_ok (g\<lparr> gr_disabled := ds \<rparr>)" for n e ds
      using g by (simp_all add: group_error_def groups_ok_def)
    show "groups_ok (group_field prefix defaults n v k i fld g)" for n v k i fld by (rule group_field_ok [OF g])
  qed
qed

lemma groupLabels_ok: "groups_ok (groupLabels c opts)"
proof -
  have f: "groups_ok (fold (group_label p d) xs g)" if "groups_ok g" for p d xs g
    using that by (induction xs arbitrary: g) (simp_all add: group_label_ok)
  show ?thesis unfolding groupLabels_def by (rule f) (simp add: groups_ok_def)
qed

lemma parse_entries_ok:
  assumes "\<forall>(key, f)\<in>set xs. fs_kind f = fst key" "ports_ok c" "list_all (\<lambda>t. target_ok t \<and> target_of c t) (lr_Targets res)"
  shows "list_all (\<lambda>t. target_ok t \<and> target_of c t) (lr_Targets (fold (parse_entry c opts disabled) xs res))"
  using assms(1,3)
proof (induction xs arbitrary: res)
  case (Cons x xs)
  have "list_all (\<lambda>t. target_ok t \<and> target_of c t) (lr_Targets (parse_entry c opts disabled x res))"
    using Cons(2,3) buildTarget_ok [OF _ _ assms(2)]
    by (cases x) (auto simp: parse_entry_def split: sum.splits)
  with Cons show ?case by simp
qed simp

lemma Parse_labels_ok:
  assumes "ports_ok c"
  shows "list_all (\<lambda>t. target_ok t \<and> target_of c t) (lr_Targets (Parse_labels c opts))"
proof (cases "fst (Managed c opts)")
  case True
  have "\<forall>(key, f)\<in>set (sort_key (\<lambda>x. entry_order (fst x)) (gr_groups (groupLabels c opts))). fs_kind f = fst key"
    using groupLabels_ok [of c opts] by (auto simp: groups_ok_def)
  from parse_entries_ok [OF this assms] True show ?thesis by (simp add: Parse_labels_def Let_def no_result_def)
qed (simp add: Parse_labels_def no_result_def)

lemma unmanaged_nothing: "\<not> fst (Managed c opts) \<Longrightarrow> Parse_labels c opts = no_result"
  by (simp add: Parse_labels_def)

section \<open>Properties\<close>

text \<open>C24: targets are typed. Every target of a snapshot belongs to a managed container that was
  scanned and is well formed: it has a key, valid sorted domain names or a port in range, schemes,
  redirect codes, transports and access lists as the server accepts them, and no certificate or
  DNS combination the server refuses.\<close>

theorem parsed_targets_are_well_formed:
  assumes "t \<in> set (snap_Targets (fst (ScanContainers cs opts)))" "list_all ports_ok cs"
  shows "target_ok t \<and> (\<exists>c\<in>set cs. fst (Managed c opts) \<and> target_of c t)"
proof -
  obtain c where c: "c \<in> set cs" "t \<in> set (lr_Targets (Parse_labels c opts))"
    using assms(1) by (auto simp: scan_targets)
  have "fst (Managed c opts)" using c(2) unmanaged_nothing by (fastforce simp: no_result_def)
  moreover have "target_ok t \<and> target_of c t"
    using Parse_labels_ok [of c opts] assms(2) c by (auto simp: list_all_iff)
  ultimately show ?thesis using c(1) by blast
qed

text \<open>The example reads one label; its defaults answer every field with 0.\<close>

definition ex_parse_options :: ParseOptions where
  "ex_parse_options = \<lparr> po_Prefix = ''npm'', po_ResolveIP = False, po_PreferNetworks = [], po_StrictNetworks = False,
     po_Defaults = Some \<lparr> df_values = (\<lambda>_. Some ''0''), df_source = (\<lambda>_. None) \<rparr>, po_ExposedByDefault = True,
     po_StrictLabels = False, po_PortPreference = [], po_SelfID = [], po_Offline = False \<rparr>"

definition ex_labelled :: Container where
  "ex_labelled = ex_container\<lparr> c_Labels := [(''npm.404.domains'', ''B.example.com,a.example.com'')] \<rparr>"

theorem parsed_targets_are_well_formed_witness:
  "\<exists>t. t_DomainNames t = [''a.example.com'', ''b.example.com''] \<and> target_ok t"
proof -
  let ?ts = "snap_Targets (fst (ScanContainers [ex_labelled] ex_parse_options))"
  have e: "map t_DomainNames ?ts = [[''a.example.com'', ''b.example.com'']]" "list_all ports_ok [ex_labelled]" by code_simp+
  then obtain t where t: "?ts = [t]" "t_DomainNames t = [''a.example.com'', ''b.example.com'']" by auto
  from parsed_targets_are_well_formed [of t "[ex_labelled]" ex_parse_options] e(2) t show ?thesis by auto
qed

end
