(* ===== verification/LabelSafety.thy ===== *)
theory LabelSafety
  imports WellFormed Safety
begin

text \<open>
  Properties of the labels that reach beyond one target: where kind and index may stand, what a
  broken label protects, and what a broken switch does not.
\<close>

section \<open>The order of kind and index\<close>

lemma split_by_sep: "p x \<Longrightarrow> split_by p (a @ x # b) = split_by p a @ split_by p b"
proof (induction a)
  case (Cons y a)
  then show ?case by (cases "split_by p a") auto
qed simp

definition name_tokens :: "string \<Rightarrow> string list" where
  "name_tokens name =
     filter (\<lambda>p. p \<noteq> []) (map trim_space (split_on CHR ''.'' (map one_separator (to_lower name))))"

lemma normalize_tokens: "normalize name = join ''.'' (name_tokens name)"
  by (simp add: normalize_def name_tokens_def)

lemma name_tokens_dot: "name_tokens (a @ ''.'' @ b) = name_tokens a @ name_tokens b"
proof -
  have "lower_char CHR ''.'' = CHR ''.''" "one_separator CHR ''.'' = CHR ''.''"
    by (simp_all add: lower_char_def one_separator_def)
  then have "map one_separator (to_lower (a @ ''.'' @ b)) = map one_separator (to_lower a) @ CHR ''.'' # map one_separator (to_lower b)"
    by (simp add: to_lower_def)
  then show ?thesis unfolding name_tokens_def split_on_def by (simp add: split_by_sep)
qed

definition plain_char :: "char \<Rightarrow> bool" where
  "plain_char c \<longleftrightarrow> \<not> is_space c \<and> lower_char c = c \<and> c \<notin> {CHR ''.'', CHR ''_'', CHR ''-''}"

lemma name_tokens_plain:
  assumes "s \<noteq> []" "list_all plain_char s"
  shows "name_tokens s = [s]"
proof -
  have p: "plain_char c" if "c \<in> set s" for c using assms(2) that by (simp add: list_all_iff)
  have "to_lower s = s" unfolding to_lower_def using p by (intro map_idI) (simp add: plain_char_def)
  moreover have "map one_separator s = s" using p by (intro map_idI) (auto simp: one_separator_def plain_char_def)
  ultimately have "map one_separator (to_lower s) = s" by simp
  moreover have "split_on CHR ''.'' s = [s]" unfolding split_on_def using p by (intro split_by_id) (auto simp: plain_char_def)
  moreover have "trim_space s = s" using p by (intro trim_space_no_space) (auto simp: plain_char_def)
  ultimately show ?thesis using assms(1) by (simp add: name_tokens_def)
qed

lemma name_tokens_alias:
  assumes "map_of kindAliases k = Some kind"
  shows "name_tokens k = [k]"
proof -
  have "list_all (\<lambda>x. fst x \<noteq> [] \<and> list_all plain_char (fst x)) kindAliases" by code_simp
  then have "fst (k, kind) \<noteq> [] \<and> list_all plain_char (fst (k, kind))"
    using map_of_SomeD [OF assms] unfolding list_all_iff [of _ kindAliases] by (rule bspec)
  then show ?thesis by (simp add: name_tokens_plain)
qed

lemma digit_plain: "is_digit c \<Longrightarrow> plain_char c"
proof -
  assume d: "is_digit c"
  then have "CHR ''0'' \<le> c" "c \<le> CHR ''9''" by (simp_all add: is_digit_def)
  then have "48 \<le> (of_char c :: nat)" "(of_char c :: nat) \<le> 57" by (simp_all add: less_eq_char_def)
  then show ?thesis
    using is_digit_not_space [OF d] by (auto simp: plain_char_def lower_char_def less_eq_char_def)
qed

lemma itoa_digits: "0 \<le> n \<Longrightarrow> c \<in> set (itoa n) \<Longrightarrow> is_digit c"
  by (auto simp: itoa_def nat_str_digits split: if_splits)

lemma name_tokens_itoa: "0 \<le> n \<Longrightarrow> name_tokens (itoa n) = [itoa n]"
  by (rule name_tokens_plain) (use digit_plain itoa_digits in \<open>auto simp: list_all_iff\<close>)

lemma split_join_tokens: "name_tokens s \<noteq> [] \<Longrightarrow> split_on CHR ''.'' (normalize s) = name_tokens s"
proof -
  assume n: "name_tokens s \<noteq> []"
  have "\<forall>x\<in>set (name_tokens s). CHR ''.'' \<notin> set x"
    unfolding name_tokens_def split_on_def
    using split_by_no_sep set_trim_space by fastforce
  with n show ?thesis unfolding normalize_tokens by (intro split_on_join)
qed

lemma itoa_alias: "0 \<le> n \<Longrightarrow> in_int64 n \<Longrightarrow> n \<noteq> 404 \<Longrightarrow> map_of kindAliases (itoa n) = None"
proof -
  assume n: "0 \<le> n" "in_int64 n" "n \<noteq> 404"
  have i: "itoa 404 = ''404''" "in_int64 404" by (code_simp, simp add: in_int64_def int_min_def int_max_def)
  have "itoa n \<noteq> ''404''" using itoa_inj [OF n(2) i(2)] n(3) i(1) by auto
  moreover have "itoa n \<noteq> c # s" if "\<not> is_digit c" for c s using itoa_digits [OF n(1)] that by (metis list.set_intros(1))
  ultimately show ?thesis
    by (auto simp: kindAliases_def is_digit_def less_eq_char_def)
qed

lemma take_position_stop:
  "ts \<noteq> [] \<Longrightarrow> take_position kind n True True ts = Inr (kind, n, True, ts)"
  by (cases ts) (auto split: option.splits)

section \<open>Properties\<close>

text \<open>The two index positions mean the same. npm.<kind>.<n>.<field> and npm.<n>.<kind>.<field>
  name the same field of the same resource, for every spelling of the kind. The index 404 is the
  exception: in front of the kind it is read as a 404 host.\<close>

theorem index_positions_agree:
  assumes "map_of kindAliases k = Some kind" "0 \<le> n" "in_int64 n" "n \<noteq> 404" "normalize field \<noteq> []"
  shows "splitLabel (k @ ''.'' @ itoa n @ ''.'' @ field) = Inr (kind, n, normalize field, True)
    \<and> splitLabel (itoa n @ ''.'' @ k @ ''.'' @ field) = Inr (kind, n, normalize field, True)"
proof -
  have t: "name_tokens field \<noteq> []" using assms(5) by (auto simp: normalize_tokens)
  have k: "name_tokens k = [k]" and i: "name_tokens (itoa n) = [itoa n]"
    using name_tokens_alias [OF assms(1)] name_tokens_itoa [OF assms(2)] by blast+
  have a: "name_tokens (k @ ''.'' @ itoa n @ ''.'' @ field) = k # itoa n # name_tokens field"
    and b: "name_tokens (itoa n @ ''.'' @ k @ ''.'' @ field) = itoa n # k # name_tokens field"
    using name_tokens_dot by (simp_all only: k i append_Cons append_Nil)
  have n: "atoi (itoa n) = Some n" "map_of kindAliases (itoa n) = None"
    using atoi_itoa [OF assms(3)] itoa_alias assms(2-4) by simp_all
  have field: "join ''.'' (name_tokens field) = normalize field" by (simp add: normalize_tokens)
  show ?thesis
    unfolding splitLabel_def using assms(1,2,5) n t
    by (simp add: split_join_tokens a b take_position_stop field Let_def del: append_Cons)
qed

theorem index_positions_agree_witness:
  "splitLabel ''redirect.2.domains'' = splitLabel ''2.redirect.domains''"
proof -
  have e: "map_of kindAliases ''redirect'' = Some KindRedirect" "in_int64 2" "normalize ''domains'' \<noteq> []" "itoa 2 = ''2''"
    by code_simp+
  from index_positions_agree [OF e(1) _ e(2) _ e(3)] show ?thesis by (simp add: e(4))
qed

text \<open>A container whose labels do not parse, and the resources that carry its stamp.\<close>

definition broken :: "ParseOptions \<Rightarrow> Container \<Rightarrow> bool" where
  "broken popts c \<longleftrightarrow> lr_Errors (Parse_labels c popts) \<noteq> []
     \<or> (lr_Skipped (Parse_labels c popts) \<and> po_StrictLabels popts)"

definition stamped_by :: "Container \<Rightarrow> Resource \<Rightarrow> bool" where
  "stamped_by c r \<longleftrightarrow>
     (meta_Container (ResourceMeta r) = c_Name c \<and> c_Name c \<noteq> [])
     \<or> (meta_ContainerID (ResourceMeta r) = c_ID c \<and> c_ID c \<noteq> [])"


definition ex_broken :: Container where
  "ex_broken = ex_container\<lparr> c_Labels := [(''npm.404.1'', ''x''), (''npm.enable'', ''true'')] \<rparr>"

lemma ex_broken_calls:
  "list_ex (\<lambda>c. case c of CDelete k i \<Rightarrow> k = KindDead \<and> i = 9 | _ \<Rightarrow> False)
     (new_calls NewWorker (snd (reconcile (ex_api [ex_gone]) ex_options True
        (Inr (fst (ScanContainers [ex_broken] ex_parse_options))) NewWorker)))"
  "broken ex_parse_options ex_broken"
  by code_simp+


text \<open>A typo in the switch is not a broken label. A container whose npm.enable label is no boolean is
  unmanaged: it yields no target and no error, and it does not protect the hosts it had; they are
  orphans from then on, unless another container with broken labels shares its name or id.\<close>

theorem invalid_enable_is_not_protected:
  assumes "lookupEnable c (normalizePrefix (po_Prefix popts)) = Some raw" "ParseBool raw = Inl e"
  shows "lr_Targets (Parse_labels c popts) = [] \<and> lr_Errors (Parse_labels c popts) = []
    \<and> (IsProtected (fst (ScanContainers cs popts)) (c_Name c) (c_ID c) \<longleftrightarrow>
        (\<exists>x\<in>set (filter (broken popts) cs). c_Name c \<noteq> [] \<and> (c_Name c = c_Name x \<or> c_Name c = c_ID x)
            \<or> c_ID c \<noteq> [] \<and> (c_ID c = c_Name x \<or> c_ID c = c_ID x)))"
proof -
  have "\<not> fst (Managed c popts)" using assms by (auto simp: Managed_def Let_def)
  then have n: "Parse_labels c popts = no_result" by (rule unmanaged_nothing)
  have p: "n \<in> set (snap_Protected (fst (ScanContainers cs popts))) \<longleftrightarrow>
      (\<exists>x\<in>set (filter (broken popts) cs). n \<noteq> [] \<and> (n = c_Name x \<or> n = c_ID x))" for n
    unfolding scan_protected broken_def [symmetric] by (auto simp: set_protected_names)
  have "IsProtected s m i \<longleftrightarrow> m \<in> set (snap_Protected s) \<or> i \<in> set (snap_Protected s)" if "[] \<notin> set (snap_Protected s)" for s m i
    using that by (auto simp: IsProtected_def)
  then have "IsProtected (fst (ScanContainers cs popts)) (c_Name c) (c_ID c) \<longleftrightarrow>
      c_Name c \<in> set (snap_Protected (fst (ScanContainers cs popts))) \<or> c_ID c \<in> set (snap_Protected (fst (ScanContainers cs popts)))"
    using p [of "[]"] by blast
  then show ?thesis unfolding p bex_disj_distrib by (simp add: n no_result_def)
qed

theorem invalid_enable_is_not_protected_witness:
  "\<not> IsProtected (fst (ScanContainers [ex_container\<lparr> c_Labels := [(''npm.enable'', ''ture'')] \<rparr>] ex_parse_options))
     ''app'' ''0123456789abcdef''"
proof -
  let ?c = "ex_container\<lparr> c_Labels := [(''npm.enable'', ''ture'')] \<rparr>"
  have e: "lookupEnable ?c (normalizePrefix (po_Prefix ex_parse_options)) = Some ''ture''"
      "ParseBool ''ture'' = Inl (InvalidBoolean ''ture'')" "c_Name ?c = ''app''" "c_ID ?c = ''0123456789abcdef''"
      "\<not> broken ex_parse_options ?c"
    by code_simp+
  from invalid_enable_is_not_protected [OF e(1,2), of "[?c]"] e(3-5) show ?thesis by simp
qed

end
