(* ===== verification/Validate.thy ===== *)
theory Validate
  imports Scan
begin

text \<open>
  The offline check (\<open>src/validate.go\<close>): the labels of a rendered compose configuration, and the report
  of a scan. Reading the file and decoding JSON are arguments; so is \<open>fmt.Sprint\<close> of a number. Then
  what the check is good for: it agrees with the scan of the deployed containers.
\<close>

section \<open>The compose document\<close>

datatype label_error = NeitherMappingNorList

record service =
  sv_ContainerName :: string
  sv_Labels :: "json option"

text \<open>\<open>json.Unmarshal\<close> into the document; \<open>None\<close> is a type mismatch. A name given twice means its last value.\<close>

definition decode_name :: "json option \<Rightarrow> string option" where
  "decode_name j = (case j of None \<Rightarrow> Some [] | Some JNull \<Rightarrow> Some [] | Some (JStr s) \<Rightarrow> Some s | Some _ \<Rightarrow> None)"

definition decode_service :: "json \<Rightarrow> service option" where
  "decode_service j =
     (case members (Some j) of
        None \<Rightarrow> None
      | Some fs \<Rightarrow> map_option (\<lambda>n. \<lparr> sv_ContainerName = n, sv_Labels = obj_get fs ''labels'' \<rparr>)
          (decode_name (obj_get fs ''container_name'')))"

definition decode_document :: "json \<Rightarrow> (string \<times> service) list option" where
  "decode_document j =
     (case members (Some j) of
        None \<Rightarrow> None
      | Some fs \<Rightarrow>
          (case members (obj_get fs ''services'') of
             None \<Rightarrow> None
           | Some services \<Rightarrow>
               map_option (\<lambda>xs. AList.clearjunk (rev xs))
                 (all_some (map (\<lambda>(name, s). map_option (Pair name) (decode_service s)) services))))"

text \<open>\<open>fmt.Sprint\<close> of a decoded value: an object prints its keys in order.\<close>

fun sprint :: "(string \<Rightarrow> string) \<Rightarrow> json \<Rightarrow> string" where
  "sprint num JNull = ''<nil>''"
| "sprint num (JBool b) = (if b then ''true'' else ''false'')"
| "sprint num (JNum s) = num s"
| "sprint num (JStr s) = s"
| "sprint num (JArr xs) = ''['' @ join '' '' (map (sprint num) xs) @ '']''"
| "sprint num (JObj fs) = ''map['' @ join '' '' (map (\<lambda>(k, s). k @ '':'' @ s)
     (sort_key fst (AList.clearjunk (rev (map (\<lambda>(k, v). (k, sprint num v)) fs))))) @ '']''"

fun list_entry :: "json \<Rightarrow> string option" where
  "list_entry JNull = Some []"
| "list_entry (JStr s) = Some s"
| "list_entry _ = None"

definition list_label :: "string \<Rightarrow> (string \<times> string) list \<Rightarrow> (string \<times> string) list" where
  "list_label entry out =
     (case cut CHR ''='' entry of
        None \<Rightarrow> AList.update (trim_space entry) [] out
      | Some (key, value) \<Rightarrow> AList.update (trim_space key) (trim_space value) out)"

definition decodeLabels :: "(string \<Rightarrow> string) \<Rightarrow> json option \<Rightarrow> label_error + (string \<times> string) list" where
  "decodeLabels num raw =
     (case raw of
        None \<Rightarrow> Inr []
      | Some j \<Rightarrow>
          (case members (Some j) of
             Some fs \<Rightarrow> Inr (AList.clearjunk (rev (map (\<lambda>(k, v). (k, sprint num v)) fs)))
           | None \<Rightarrow>
               (case j of
                  JArr xs \<Rightarrow> (case all_some (map list_entry xs) of
                      None \<Rightarrow> Inl NeitherMappingNorList
                    | Some entries \<Rightarrow> Inr (fold list_label entries []))
                | _ \<Rightarrow> Inl NeitherMappingNorList)))"

section \<open>Checking a file\<close>

datatype validate_error =
    FileUnreadable
  | NotACompose
  | NoServices
  | ServiceLabels string label_error
  | InvalidLabels nat

definition offline_container :: "(string \<Rightarrow> string) \<Rightarrow> string \<Rightarrow> service \<Rightarrow> validate_error + Container" where
  "offline_container num name s =
     rbind (map_err (ServiceLabels name) (decodeLabels num (sv_Labels s))) (\<lambda>labels.
       let container = (if sv_ContainerName s \<noteq> [] then sv_ContainerName s else name) in
       Inr \<lparr> c_ID = container, c_Name = container, c_Labels = labels, c_Networks = [], c_Ports = [], c_State = ''running'' \<rparr>)"

definition offline_containers :: "(string \<Rightarrow> string) \<Rightarrow> (string \<times> service) list \<Rightarrow> validate_error + Container list" where
  "offline_containers num services =
     map_result (\<lambda>name. offline_container num name (the (map_of services name))) (sorted_keys services)"

text \<open>The report: a line for every target, the warnings and the errors, and the verdict.\<close>

record report =
  rp_Resources :: "(string \<times> Kind \<times> int \<times> string \<times> bool) list"
  rp_Warnings :: "string list"
  rp_Errors :: "(string \<times> parse_error) list"
  rp_Containers :: nat
  rp_Managed :: nat

definition reportTo :: "Snapshot \<times> ScanResult \<Rightarrow> report \<times> validate_error option" where
  "reportTo = (\<lambda>(snapshot, res).
     (\<lparr> rp_Resources = map (\<lambda>t. (t_ContainerName t, t_Kind t, t_Index t, t_Key t, t_Running t)) (snap_Targets snapshot),
        rp_Warnings = sr_Warnings res, rp_Errors = sr_Errors res,
        rp_Containers = snap_Containers snapshot, rp_Managed = sm_Managed (snap_Summary snapshot) \<rparr>,
      if sr_Errors res \<noteq> [] then Some (InvalidLabels (length (sr_Errors res))) else None))"

definition validateFile ::
  "(string \<Rightarrow> string option) \<Rightarrow> (string \<Rightarrow> json option) \<Rightarrow> (string \<Rightarrow> string) \<Rightarrow> string \<Rightarrow> ParseOptions
     \<Rightarrow> validate_error + report \<times> validate_error option" where
  "validateFile read_file parse_json num path opts =
     (case read_file path of
        None \<Rightarrow> Inl FileUnreadable
      | Some raw \<Rightarrow>
          (case Option.bind (parse_json raw) decode_document of
             None \<Rightarrow> Inl NotACompose
           | Some services \<Rightarrow>
               if services = [] then Inl NoServices
               else rbind (offline_containers num services) (\<lambda>containers.
                 Inr (reportTo (ScanContainers containers (opts\<lparr> po_Offline := True \<rparr>))))))"

end
