(* ===== verification/OfflineCheck.thy ===== *)
theory OfflineCheck
  imports Validate
begin

text \<open>
  The offline check against the scan of the deployed containers. Offline nothing is known of
  addresses and ports, so the two builds differ exactly there: a resource that builds online also
  builds offline, with the same kind, index and key, and one that builds offline can fail online
  only because the upstream cannot be found.
\<close>

section \<open>Builds that agree\<close>

fun about_upstream :: "parse_error \<Rightarrow> bool" where
  "about_upstream (At label p) \<longleftrightarrow>
     (case p of CannotPickPort _ \<Rightarrow> True | NoPortExposed \<Rightarrow> True | NotAttached _ _ \<Rightarrow> True | NoUpstreamHost \<Rightarrow> True
      | IsRequired \<Rightarrow> True | _ \<Rightarrow> False)"

text \<open>The first result is the online one.\<close>

definition agrees :: "('a \<Rightarrow> 'b \<Rightarrow> bool) \<Rightarrow> parse_error + 'a \<Rightarrow> parse_error + 'b \<Rightarrow> bool" where
  "agrees R x y \<longleftrightarrow> (case x of Inr v \<Rightarrow> (\<exists>v'. y = Inr v' \<and> R v v') | Inl e \<Rightarrow> about_upstream e \<or> (\<exists>e'. y = Inl e'))"

named_theorems agree \<open>introduction rules for results that agree\<close>

lemma agrees_refl [agree]: "(\<And>v. R v v) \<Longrightarrow> agrees R x x"
  by (simp add: agrees_def split: sum.split)

lemma agrees_Inr [agree]: "R v v' \<Longrightarrow> agrees R (Inr v) (Inr v')"
  by (simp add: agrees_def)

lemma agrees_if: "agrees S x y \<Longrightarrow> agrees S (if b then Inl e else x) (if b then Inl e' else y)"
  by (simp add: agrees_def)

lemma agrees_bind:
  assumes "agrees R x y" "\<And>v v'. R v v' \<Longrightarrow> agrees S (f v) (g v')"
  shows "agrees S (rbind x f) (rbind y g)"
proof (cases x)
  case (Inl e)
  with assms(1) show ?thesis by (cases y) (auto simp: agrees_def)
next
  case (Inr v)
  with assms(1) obtain v' where "y = Inr v'" "R v v'" by (auto simp: agrees_def)
  with Inr assms(2) show ?thesis by simp
qed

lemma agrees_same [agree]: "(\<And>v. agrees S (f v) (g v)) \<Longrightarrow> agrees S (rbind x f) (rbind x g)"
  by (rule agrees_bind [where R = "(=)"]) (simp_all add: agree)

lemma agrees_map:
  assumes "\<And>x. x \<in> set xs \<Longrightarrow> agrees (\<lambda>_ _. True) (f x) (g x)"
  shows "agrees (\<lambda>_ _. True) (map_result f xs) (map_result g xs)"
  using assms
proof (induction xs)
  case (Cons x xs)
  have "agrees (\<lambda>_ _. True) (f x) (g x)" "agrees (\<lambda>_ _. True) (map_result f xs) (map_result g xs)"
    using Cons by simp_all
  then show ?case unfolding map_result.simps by (auto intro!: agrees_bind agree)
qed (simp add: agree)

section \<open>Targets up to the upstream\<close>

definition blur :: "Target \<Rightarrow> Target" where
  "blur t = t\<lparr> t_ContainerID := [], t_ContainerName := [], t_Running := True, t_ForwardHost := [], t_ForwardPort := 0,
     t_ForwardingHost := [], t_ForwardingPort := 0, t_Locations := [], t_Description := [] \<rparr>"

definition similar :: "Target \<Rightarrow> Target \<Rightarrow> bool" where
  "similar t t' \<longleftrightarrow> blur t = blur t'"

lemma blur_fields:
  "t_Kind (blur t) = t_Kind t" "t_Index (blur t) = t_Index t" "t_DomainNames (blur t) = t_DomainNames t"
  "t_IncomingPort (blur t) = t_IncomingPort t" "t_UDPForwarding (blur t) = t_UDPForwarding t"
  "t_ProxyTLS (blur t) = t_ProxyTLS t" "t_ProxyProtocol (blur t) = t_ProxyProtocol t"
  "t_Certificate (blur t) = t_Certificate t" "t_SSLForced (blur t) = t_SSLForced t"
  "t_DNSChallenge (blur t) = t_DNSChallenge t" "t_DNSProvider (blur t) = t_DNSProvider t"
  "t_ForwardScheme (blur t) = t_ForwardScheme t" "t_NoIndex (blur t) = t_NoIndex t"
  "t_CrowdsecAppsec (blur t) = t_CrowdsecAppsec t" "t_RequestBuffering (blur t) = t_RequestBuffering t"
  "t_ResponseBuffering (blur t) = t_ResponseBuffering t" "t_UpstreamCompression (blur t) = t_UpstreamCompression t"
  "t_FancyIndex (blur t) = t_FancyIndex t" "t_XFrameOptions (blur t) = t_XFrameOptions t"
  "t_AuthRequest (blur t) = t_AuthRequest t" "t_AuthRequestUpstream (blur t) = t_AuthRequestUpstream t"
  by (simp_all add: blur_def)

lemma similarD:
  assumes "similar t t'"
  shows "t_Kind t = t_Kind t'" "t_Index t = t_Index t'" "t_DomainNames t = t_DomainNames t'"
    "t_IncomingPort t = t_IncomingPort t'" "t_UDPForwarding t = t_UDPForwarding t'" "t_ProxyTLS t = t_ProxyTLS t'"
    "t_ProxyProtocol t = t_ProxyProtocol t'" "t_Certificate t = t_Certificate t'" "t_SSLForced t = t_SSLForced t'"
    "t_DNSChallenge t = t_DNSChallenge t'" "t_DNSProvider t = t_DNSProvider t'"
    "t_ForwardScheme t = t_ForwardScheme t'" "t_NoIndex t = t_NoIndex t'" "t_CrowdsecAppsec t = t_CrowdsecAppsec t'"
    "t_RequestBuffering t = t_RequestBuffering t'" "t_ResponseBuffering t = t_ResponseBuffering t'"
    "t_UpstreamCompression t = t_UpstreamCompression t'" "t_FancyIndex t = t_FancyIndex t'"
    "t_XFrameOptions t = t_XFrameOptions t'" "t_AuthRequest t = t_AuthRequest t'"
    "t_AuthRequestUpstream t = t_AuthRequestUpstream t'"
  using assms unfolding similar_def by (metis blur_fields)+

lemma similar_Key: "similar t t' \<Longrightarrow> t_Key t = t_Key t'"
  by (simp add: t_Key_def similarD)

section \<open>The builders\<close>

lemma resolvePort_agrees [agree]:
  "po_Offline opts' \<Longrightarrow> agrees (\<lambda>_ _. True) (resolvePort c opts f field fallback) (resolvePort c' opts' f field fallback)"
  unfolding resolvePort_def by (rule agrees_same) (auto simp: agrees_def split: option.splits)

lemma resolveForwardHost_agrees [agree]:
  assumes "po_Offline opts'"
  shows "agrees (\<lambda>_ _. True) (resolveForwardHost c opts f) (resolveForwardHost c' opts' f)"
proof (cases "fs_string f F_ForwardHost = []")
  case True
  define e where "e = (if fs_has f F_ResolveIP then fs_boolean f F_ResolveIP else Inr (po_ResolveIP opts))"
  define e' where "e' = (if fs_has f F_ResolveIP then fs_boolean f F_ResolveIP else Inr (po_ResolveIP opts'))"
  have e: "agrees (\<lambda>_ _. True) e e'" by (auto simp: e_def e'_def intro: agree)
  show ?thesis
    unfolding resolveForwardHost_def Let_def e_def [symmetric] e'_def [symmetric]
    unfolding True by (simp only: simp_thms if_False, rule agrees_bind [OF e]) (auto simp: agrees_def assms)
qed (simp add: resolveForwardHost_def agree)

lemma loc_upstream_agrees:
  assumes "t_ForwardScheme t = t_ForwardScheme t'"
  shows "agrees (\<lambda>_ _. True) (loc_upstream t f n values) (loc_upstream t' f n values)"
  unfolding loc_upstream_def Let_def assms
  by (intro agrees_same agrees_bind [where R = "\<lambda>_ _. True"]) (auto simp: agrees_def split: option.splits)

lemma buildLocation_agrees:
  assumes "similar t t'"
  shows "agrees (\<lambda>_ _. True) (buildLocation t f n values) (buildLocation t' f n values)"
  unfolding buildLocation_def Let_def similarD [OF assms] case_prod_beta
  by (intro agrees_same agrees_bind [OF loc_upstream_agrees] agrees_Inr) (simp_all add: similarD [OF assms])

lemma parseLocations_agrees:
  "similar t t' \<Longrightarrow> agrees (\<lambda>_ _. True) (parseLocations t f) (parseLocations t' f)"
  unfolding parseLocations_def by (intro agrees_same agrees_map) (auto simp: buildLocation_agrees split: prod.split)

lemma similar_refl [simp]: "similar t t"
  by (simp add: similar_def)

lemma blur_updates:
  "blur (t\<lparr> t_DomainNames := x0 \<rparr>) = (blur t)\<lparr> t_DomainNames := x0 \<rparr>"
  "blur (t\<lparr> t_ForwardScheme := x1 \<rparr>) = (blur t)\<lparr> t_ForwardScheme := x1 \<rparr>"
  "blur (t\<lparr> t_Websockets := x2 \<rparr>) = (blur t)\<lparr> t_Websockets := x2 \<rparr>"
  "blur (t\<lparr> t_Caching := x3 \<rparr>) = (blur t)\<lparr> t_Caching := x3 \<rparr>"
  "blur (t\<lparr> t_BlockExploits := x4 \<rparr>) = (blur t)\<lparr> t_BlockExploits := x4 \<rparr>"
  "blur (t\<lparr> t_TrustForwardedProto := x5 \<rparr>) = (blur t)\<lparr> t_TrustForwardedProto := x5 \<rparr>"
  "blur (t\<lparr> t_NoIndex := x6 \<rparr>) = (blur t)\<lparr> t_NoIndex := x6 \<rparr>"
  "blur (t\<lparr> t_CrowdsecAppsec := x7 \<rparr>) = (blur t)\<lparr> t_CrowdsecAppsec := x7 \<rparr>"
  "blur (t\<lparr> t_RequestBuffering := x8 \<rparr>) = (blur t)\<lparr> t_RequestBuffering := x8 \<rparr>"
  "blur (t\<lparr> t_ResponseBuffering := x9 \<rparr>) = (blur t)\<lparr> t_ResponseBuffering := x9 \<rparr>"
  "blur (t\<lparr> t_UpstreamCompression := x10 \<rparr>) = (blur t)\<lparr> t_UpstreamCompression := x10 \<rparr>"
  "blur (t\<lparr> t_FancyIndex := x11 \<rparr>) = (blur t)\<lparr> t_FancyIndex := x11 \<rparr>"
  "blur (t\<lparr> t_XFrameOptions := x12 \<rparr>) = (blur t)\<lparr> t_XFrameOptions := x12 \<rparr>"
  "blur (t\<lparr> t_AuthRequest := x13 \<rparr>) = (blur t)\<lparr> t_AuthRequest := x13 \<rparr>"
  "blur (t\<lparr> t_AuthRequestUpstream := x14 \<rparr>) = (blur t)\<lparr> t_AuthRequestUpstream := x14 \<rparr>"
  "blur (t\<lparr> t_LocationConfig := x15 \<rparr>) = (blur t)\<lparr> t_LocationConfig := x15 \<rparr>"
  "blur (t\<lparr> t_AccessListIDs := x16 \<rparr>) = (blur t)\<lparr> t_AccessListIDs := x16 \<rparr>"
  "blur (t\<lparr> t_AccessListNames := x17 \<rparr>) = (blur t)\<lparr> t_AccessListNames := x17 \<rparr>"
  "blur (t\<lparr> t_AccessListType := x18 \<rparr>) = (blur t)\<lparr> t_AccessListType := x18 \<rparr>"
  "blur (t\<lparr> t_ForwardDomainName := x19 \<rparr>) = (blur t)\<lparr> t_ForwardDomainName := x19 \<rparr>"
  "blur (t\<lparr> t_ForwardHTTPCode := x20 \<rparr>) = (blur t)\<lparr> t_ForwardHTTPCode := x20 \<rparr>"
  "blur (t\<lparr> t_PreservePath := x21 \<rparr>) = (blur t)\<lparr> t_PreservePath := x21 \<rparr>"
  "blur (t\<lparr> t_IncomingPort := x22 \<rparr>) = (blur t)\<lparr> t_IncomingPort := x22 \<rparr>"
  "blur (t\<lparr> t_TCPForwarding := x23 \<rparr>) = (blur t)\<lparr> t_TCPForwarding := x23 \<rparr>"
  "blur (t\<lparr> t_UDPForwarding := x24 \<rparr>) = (blur t)\<lparr> t_UDPForwarding := x24 \<rparr>"
  "blur (t\<lparr> t_ProxyProtocol := x25 \<rparr>) = (blur t)\<lparr> t_ProxyProtocol := x25 \<rparr>"
  "blur (t\<lparr> t_ProxyTLS := x26 \<rparr>) = (blur t)\<lparr> t_ProxyTLS := x26 \<rparr>"
  "blur (t\<lparr> t_Certificate := x27 \<rparr>) = (blur t)\<lparr> t_Certificate := x27 \<rparr>"
  "blur (t\<lparr> t_ForwardHost := y0 \<rparr>) = blur t" "blur (t\<lparr> t_ForwardPort := y1 \<rparr>) = blur t"
  "blur (t\<lparr> t_ForwardingHost := y2 \<rparr>) = blur t"
  "blur (t\<lparr> t_ForwardingPort := y3 \<rparr>) = blur t" "blur (t\<lparr> t_Locations := y4 \<rparr>) = blur t"
  "blur (t\<lparr> t_Description := y5 \<rparr>) = blur t"
  by (simp_all add: blur_def)

lemma buildProxy_agrees:
  assumes "similar t t'" "po_Offline opts'"
  shows "agrees similar (buildProxy t c opts f) (buildProxy t' c' opts' f)"
  unfolding buildProxy_def Let_def case_prod_beta
  by (intro agrees_same agrees_bind [OF resolveForwardHost_agrees] agrees_bind [OF resolvePort_agrees]
        agrees_bind [OF parseLocations_agrees] agrees_Inr)
     (use assms in \<open>simp_all add: similar_def blur_updates\<close>)

lemma buildRedirect_agrees:
  assumes "similar t t'"
  shows "agrees similar (buildRedirect t f) (buildRedirect t' f)"
  unfolding buildRedirect_def Let_def
  by (intro agrees_same, auto intro!: agrees_same agrees_Inr simp: agrees_def [of _ "Inl _"])
     (use assms in \<open>simp_all add: similar_def blur_updates\<close>)

lemma buildDead_agrees:
  assumes "similar t t'"
  shows "agrees similar (buildDead t f) (buildDead t' f)"
  unfolding buildDead_def by (intro agrees_same agrees_Inr) (use assms in \<open>simp add: similar_def blur_updates\<close>)

lemma validateStream_agrees:
  assumes "similar t t'"
  shows "agrees similar (validateStream t f) (validateStream t' f)"
  using assms unfolding validateStream_def Let_def
  by (auto simp: agrees_def similarD [OF assms] similar_def blur_updates)

lemma buildStream_agrees:
  assumes "similar t t'" "po_Offline opts'"
  shows "agrees similar (buildStream t c opts f) (buildStream t' c' opts' f)"
proof -
  have *: "agrees similar
     (rbind (validateStream (t\<lparr> t_IncomingPort := i, t_ForwardingPort := p, t_ForwardingHost := h,
           t_TCPForwarding := tcp, t_UDPForwarding := udp, t_ProxyProtocol := l, t_ProxyTLS := tls \<rparr>) f)
        (\<lambda>t. Inr (t\<lparr> t_Description := take MaxDescriptionLength (or_default (c_Name c) (fs_string f F_Description)) \<rparr>)))
     (rbind (validateStream (t'\<lparr> t_IncomingPort := i, t_ForwardingPort := p', t_ForwardingHost := h',
           t_TCPForwarding := tcp, t_UDPForwarding := udp, t_ProxyProtocol := l, t_ProxyTLS := tls \<rparr>) f)
        (\<lambda>t. Inr (t\<lparr> t_Description := take MaxDescriptionLength (or_default (c_Name c') (fs_string f F_Description)) \<rparr>)))"
    for i p p' h h' tcp udp l tls
    by (intro agrees_bind [OF validateStream_agrees] agrees_Inr)
       (use assms in \<open>simp_all add: similar_def blur_updates\<close>)
  show ?thesis
    unfolding buildStream_def Let_def case_prod_beta
    by (intro agrees_same agrees_if agrees_bind [OF resolvePort_agrees [OF assms(2)]]
          agrees_bind [OF resolveForwardHost_agrees [OF assms(2)]] *)
qed

lemma validateCertificate_agrees:
  "similar t t' \<Longrightarrow> agrees similar (validateCertificate t f) (validateCertificate t' f)"
  by (auto simp: validateCertificate_def agrees_def similarD)

lemma build_common_agrees: "agrees similar (build_common c key f) (build_common c' key f)"
  unfolding build_common_def
  by (intro agrees_same agrees_Inr) (simp add: similar_def blur_def)

lemma buildTarget_agrees:
  assumes "po_Offline opts'"
  shows "agrees similar (buildTarget c opts key f) (buildTarget c' opts' key f)"
proof -
  have "agrees similar
     (case fst key of KindProxy \<Rightarrow> buildProxy t c opts f | KindRedirect \<Rightarrow> buildRedirect t f
        | KindStream \<Rightarrow> buildStream t c opts f | KindDead \<Rightarrow> buildDead t f)
     (case fst key of KindProxy \<Rightarrow> buildProxy t' c' opts' f | KindRedirect \<Rightarrow> buildRedirect t' f
        | KindStream \<Rightarrow> buildStream t' c' opts' f | KindDead \<Rightarrow> buildDead t' f)" if "similar t t'" for t t'
    using buildProxy_agrees [OF that assms] buildRedirect_agrees [OF that] buildStream_agrees [OF that assms]
      buildDead_agrees [OF that] by (simp split: Kind.split)
  then show ?thesis
    unfolding buildTarget_def by (intro agrees_bind [OF build_common_agrees] agrees_bind validateCertificate_agrees)
qed

section \<open>Whole containers\<close>

text \<open>What a report says of a target, apart from its container.\<close>

definition announced :: "Target \<Rightarrow> Kind \<times> int \<times> string" where
  "announced t = (t_Kind t, t_Index t, t_Key t)"

text \<open>The results so far: both clean with the same announcements, or the online one has errors;
  and while the offline one is clean the online errors are about the upstream.\<close>

definition results_agree :: "LabelResult \<Rightarrow> LabelResult \<Rightarrow> bool" where
  "results_agree one off \<longleftrightarrow>
     (lr_Errors one = [] \<longrightarrow> lr_Errors off = [] \<and> map announced (lr_Targets off) = map announced (lr_Targets one))
     \<and> (lr_Errors off = [] \<longrightarrow> list_all about_upstream (lr_Errors one))"

definition checks :: "ParseOptions \<Rightarrow> ParseOptions \<Rightarrow> Container \<Rightarrow> Container \<Rightarrow> bool" where
  "checks opts opts' c c' \<longleftrightarrow> c_Labels c' = c_Labels c
     \<and> (po_SelfID opts = [] \<or> c_ID c \<noteq> po_SelfID opts) \<and> po_SelfID opts' = []"

definition same_rules :: "ParseOptions \<Rightarrow> ParseOptions \<Rightarrow> bool" where
  "same_rules opts opts' \<longleftrightarrow> po_Prefix opts' = po_Prefix opts \<and> po_Defaults opts' = po_Defaults opts
     \<and> po_ExposedByDefault opts' = po_ExposedByDefault opts \<and> po_StrictLabels opts' = po_StrictLabels opts
     \<and> po_Offline opts'"

lemma parse_entry_agrees:
  assumes "results_agree one off" "same_rules opts opts'"
  shows "results_agree (parse_entry c opts disabled x one) (parse_entry c' opts' disabled x off)"
proof -
  obtain key f where x: "x = (key, f)" by (cases x)
  have "agrees similar (buildTarget c opts key f) (buildTarget c' opts' key f)"
    using assms(2) by (simp add: buildTarget_agrees same_rules_def)
  moreover have "announced t = announced t'" if "similar t t'" for t t'
    using that by (simp add: announced_def similar_Key similarD)
  ultimately show ?thesis
    using assms by (auto simp: x parse_entry_def results_agree_def same_rules_def agrees_def split: sum.splits)
qed

lemma Parse_labels_agrees:
  assumes "same_rules opts opts'" "checks opts opts' c c'"
  shows "results_agree (Parse_labels c opts) (Parse_labels c' opts')"
proof -
  have m: "fst (Managed c' opts') = fst (Managed c opts)"
    using assms by (auto simp: Managed_def lookupEnable_def hasFieldLabel_def checks_def same_rules_def Let_def
        split: option.split sum.split)
  have g: "groupLabels c' opts' = groupLabels c opts"
    using assms by (simp add: groupLabels_def checks_def same_rules_def)
  have fold: "results_agree (fold (parse_entry c opts d) xs one) (fold (parse_entry c' opts' d) xs off)"
    if "results_agree one off" for d xs one off
    using that by (induction xs arbitrary: one off) (simp_all add: parse_entry_agrees [OF _ assms(1)])
  have start: "results_agree r r" if "list_all about_upstream (lr_Errors r) \<or> lr_Errors r \<noteq> []" for r
    using that by (auto simp: results_agree_def)
  show ?thesis
    unfolding Parse_labels_def m g Let_def by (auto intro!: fold start simp: no_result_def)
qed

lemma scan_errors: "sr_Errors (snd (ScanContainers cs opts)) = concat (map (\<lambda>c. container_errors c (Parse_labels c opts)) cs)"
proof -
  have "sr_Errors (snd (fold (scan_one opts) cs (s, r))) = sr_Errors r @ concat (map (\<lambda>c. container_errors c (Parse_labels c opts)) cs)" for s r
    by (induction cs arbitrary: s r) (simp_all add: scan_one_def Let_def)
  then show ?thesis by (simp add: ScanContainers_def split_def Let_def)
qed

lemma no_errors_iff: "sr_Errors (snd (ScanContainers cs opts)) = [] \<longleftrightarrow> (\<forall>c\<in>set cs. lr_Errors (Parse_labels c opts) = [])"
  by (simp add: scan_errors container_errors_def)

section \<open>Properties\<close>

definition ex_deployed :: Container where
  "ex_deployed = \<lparr> c_ID = ''4f2a'', c_Name = ''web-1'', c_Labels = [(''npm.404.domains'', ''app.example.com'')],
     c_Networks = [], c_Ports = [\<lparr> pb_Private = 5432, pb_Public = 0, pb_Type = ''tcp'' \<rparr>], c_State = ''running'' \<rparr>"

text \<open>The example's defaults answer every field with 0.\<close>

definition ex_rules :: ParseOptions where
  "ex_rules = \<lparr> po_Prefix = ''npm'', po_ResolveIP = False, po_PreferNetworks = [], po_StrictNetworks = False,
     po_Defaults = Some \<lparr> df_values = (\<lambda>_. Some ''0''), df_source = (\<lambda>_. None) \<rparr>,
     po_ExposedByDefault = True, po_StrictLabels = False, po_PortPreference = [], po_SelfID = [], po_Offline = False \<rparr>"



end
