(* ===== verification/Listener.thy ===== *)
theory Listener
  imports WellFormed RunLoop
begin

text \<open>
  The Docker side (\<open>internal/docker/listener.go\<close>): the conversion of the container list, the snapshot
  of a run, the networks and the identity of the daemon, and the event subscription with its
  reconnects as a labelled transition system. The Docker SDK is a parameter: the answers of its
  calls are arguments or labels; the record \<open>summary\<close> has the fields of its container summary that
  the code reads. Log lines are left out.
\<close>

section \<open>Containers\<close>

record endpoint =
  ep_IPAddress :: string
  ep_GlobalIPv6 :: string
  ep_Aliases :: "string list"

record summary =
  ds_ID :: string
  ds_Names :: "string list"
  ds_Labels :: "(string \<times> string) list"
  ds_State :: string
  ds_Networks :: "(string \<times> endpoint option) list option"
  ds_Ports :: "(nat \<times> nat \<times> string) list"

definition containerName :: "summary \<Rightarrow> string" where
  "containerName s =
     (case find (\<lambda>n. n \<noteq> []) (map (\<lambda>n. trim_prefix n ''/'') (ds_Names s)) of
        Some n \<Rightarrow> n
      | None \<Rightarrow> if length (ds_ID s) > 12 then take 12 (ds_ID s) else ds_ID s)"

definition networksOf :: "summary \<Rightarrow> Network list" where
  "networksOf s =
     (case ds_Networks s of
        None \<Rightarrow> []
      | Some nets \<Rightarrow> sort_key nw_Name (concat (map (\<lambda>(name, e). case e of
            None \<Rightarrow> []
          | Some ep \<Rightarrow> [\<lparr> nw_Name = name, nw_IPv4 = ep_IPAddress ep, nw_IPv6 = ep_GlobalIPv6 ep, nw_Aliases = ep_Aliases ep \<rparr>]) nets)))"

definition portsOf :: "summary \<Rightarrow> PortBinding list" where
  "portsOf s = sort_key pb_Private (map (\<lambda>(private, public, ty).
     \<lparr> pb_Private = int private, pb_Public = int public, pb_Type = ty \<rparr>) (ds_Ports s))"

definition container_of :: "summary \<Rightarrow> Container" where
  "container_of s = \<lparr> c_ID = ds_ID s, c_Name = containerName s, c_Labels = ds_Labels s, c_Networks = networksOf s,
     c_Ports = portsOf s, c_State = ds_State s \<rparr>"

definition Containers :: "string + summary list \<Rightarrow> string + Container list" where
  "Containers answer = rbind answer (\<lambda>summaries. Inr (map container_of summaries))"

section \<open>The listener\<close>

datatype watch_phase = Subscribing int | Streaming | Pausing int | Ended

record Event =
  ev_ContainerID :: string
  ev_Name :: string
  ev_Action :: string

record Listener =
  li_opts :: ParseOptions
  li_selfID :: string
  li_streamUp :: bool
  li_streamSince :: int
  li_streamErr :: string
  li_backoff :: int
  li_phase :: watch_phase
  li_sent :: "Event list"

definition reconnectMin :: int where "reconnectMin = 1 * second"
definition reconnectMax :: int where "reconnectMax = 30 * second"

text \<open>\<open>NewListener\<close>, about to call \<open>Watch\<close> at a time.\<close>

definition NewListener :: "ParseOptions \<Rightarrow> int \<Rightarrow> Listener" where
  "NewListener opts now = \<lparr> li_opts = (if po_Prefix opts = [] then opts\<lparr> po_Prefix := DefaultPrefix \<rparr> else opts),
     li_selfID = [], li_streamUp = False, li_streamSince = 0, li_streamErr = [],
     li_backoff = reconnectMin, li_phase = Subscribing now, li_sent = [] \<rparr>"

definition StreamStatus_of :: "Listener \<Rightarrow> StreamStatus" where
  "StreamStatus_of l = \<lparr> ss_Connected = li_streamUp l, ss_Since = li_streamSince l, ss_LastError = li_streamErr l \<rparr>"

definition setStreamStatus :: "bool \<Rightarrow> string \<Rightarrow> int \<Rightarrow> Listener \<Rightarrow> Listener" where
  "setStreamStatus up reason now l =
     l\<lparr> li_streamSince := (if li_streamUp l \<noteq> up \<or> li_streamSince l = 0 then now else li_streamSince l),
        li_streamUp := up, li_streamErr := (if \<not> up then reason else []) \<rparr>"

definition self_options :: "Listener \<Rightarrow> ParseOptions" where
  "self_options l = (li_opts l)\<lparr> po_SelfID := li_selfID l \<rparr>"

definition Snapshot_of :: "string + summary list \<Rightarrow> Listener \<Rightarrow> string + Snapshot" where
  "Snapshot_of answer l = rbind (Containers answer) (\<lambda>cs. Inr (fst (ScanContainers cs (self_options l))))"

definition Targets_of :: "string + summary list \<Rightarrow> Listener \<Rightarrow> string + Target list" where
  "Targets_of answer l = rbind (Snapshot_of answer l) (\<lambda>s. Inr (snap_Targets s))"

definition Summarize :: "string + summary list \<Rightarrow> Listener \<Rightarrow> string + Summary" where
  "Summarize answer l = rbind (Containers answer) (\<lambda>cs. Inr (Classify cs (self_options l)))"

text \<open>The host name is \<open>None\<close> when the system does not tell it.\<close>

definition DiscoverOwnNetworks :: "string option \<Rightarrow> string + summary list \<Rightarrow> Listener \<Rightarrow> string list \<times> Listener" where
  "DiscoverOwnNetworks hostname answer l =
     (case hostname of
        None \<Rightarrow> ([], l)
      | Some h \<Rightarrow>
          if length h < 8 then ([], l)
          else case Containers answer of
            Inl _ \<Rightarrow> ([], l)
          | Inr cs \<Rightarrow>
              (case find (\<lambda>c. has_prefix (c_ID c) h \<or> c_Name c = h) cs of
                 None \<Rightarrow> ([], l)
               | Some c \<Rightarrow> (NetworkNames c, l\<lparr> li_selfID := c_ID c \<rparr>)))"

definition NetworksOfContainer :: "string \<Rightarrow> string + summary list \<Rightarrow> string list" where
  "NetworksOfContainer name answer =
     (if trim_space name = [] then []
      else case Containers answer of
        Inl _ \<Rightarrow> []
      | Inr cs \<Rightarrow>
          (case find (\<lambda>c. c_Name c = name \<or> has_prefix (c_ID c) name) cs of
             None \<Rightarrow> []
           | Some c \<Rightarrow> NetworkNames c))"

text \<open>\<open>None\<close>: the client has no \<open>Info\<close>.\<close>

definition DaemonID :: "(string + string) option \<Rightarrow> string" where
  "DaemonID info = (case info of Some (Inr i) \<Rightarrow> i | _ \<Rightarrow> [])"

definition EventFilters :: "(string \<times> string) list" where
  "EventFilters = (''type'', ''container'')
     # map (Pair ''event'') [''start'', ''die'', ''stop'', ''destroy'', ''rename'', ''update'']"

section \<open>Watching\<close>

text \<open>The labels: \<open>Events\<close> returned; a message with container id, name attribute and action; one of
  the channels closed or the stream ended or failed, with the reason that is recorded; the pause
  is over; the context was cancelled. \<open>slack\<close> is how much later than due the timer fires and the
  SDK call returns.\<close>

datatype watch_label =
    Subscribed int
  | Message string string string
  | StreamLost string int
  | RetryNow int
  | CancelWatch

definition event_of :: "string \<Rightarrow> string \<Rightarrow> string \<Rightarrow> Event" where
  "event_of i name action = \<lparr> ev_ContainerID = i, ev_Name = trim_prefix name ''/'', ev_Action = action \<rparr>"

definition on_message :: "string \<Rightarrow> string \<Rightarrow> string \<Rightarrow> Listener \<Rightarrow> Listener" where
  "on_message i name action l =
     (let l = l\<lparr> li_backoff := reconnectMin \<rparr> in
      if li_selfID l \<noteq> [] \<and> i = li_selfID l then l
      else l\<lparr> li_sent := li_sent l @ [event_of i name action] \<rparr>)"

inductive watch_step :: "int \<Rightarrow> Listener \<Rightarrow> watch_label \<Rightarrow> Listener \<Rightarrow> bool" for slack where
  subscribed: "li_phase l = Subscribing due \<Longrightarrow> due \<le> t \<Longrightarrow> t \<le> due + slack
    \<Longrightarrow> watch_step slack l (Subscribed t) ((setStreamStatus True [] t l)\<lparr> li_phase := Streaming \<rparr>)"
| message: "li_phase l = Streaming \<Longrightarrow> watch_step slack l (Message i name action) (on_message i name action l)"
| lost: "li_phase l = Streaming
    \<Longrightarrow> watch_step slack l (StreamLost reason t) ((setStreamStatus False reason t l)\<lparr> li_phase := Pausing (t + li_backoff l) \<rparr>)"
| retry: "li_phase l = Pausing due
    \<Longrightarrow> watch_step slack l (RetryNow due) (l\<lparr> li_backoff := min (li_backoff l * 2) reconnectMax, li_phase := Subscribing due \<rparr>)"
| cancel: "li_phase l \<noteq> Ended \<Longrightarrow> watch_step slack l CancelWatch (l\<lparr> li_phase := Ended \<rparr>)"

inductive watches :: "int \<Rightarrow> Listener \<Rightarrow> watch_label list \<Rightarrow> Listener \<Rightarrow> bool" for slack l0 where
  start: "watches slack l0 [] l0"
| more: "watches slack l0 ls l \<Longrightarrow> watch_step slack l x l' \<Longrightarrow> watches slack l0 (ls @ [x]) l'"

section \<open>Invariants\<close>

definition backoff_ok :: "Listener \<Rightarrow> bool" where
  "backoff_ok l \<longleftrightarrow> reconnectMin \<le> li_backoff l \<and> li_backoff l \<le> reconnectMax"

text \<open>When the stream is down, the next attempt is due within the backoff.\<close>

definition stream_ok_at :: "Listener \<Rightarrow> bool" where
  "stream_ok_at l \<longleftrightarrow>
     (case li_phase l of
        Streaming \<Rightarrow> li_streamUp l
      | Pausing due \<Rightarrow> \<not> li_streamUp l \<and> due \<le> li_streamSince l + reconnectMax
      | Subscribing due \<Rightarrow> \<not> li_streamUp l \<and> (li_streamSince l = 0 \<or> due \<le> li_streamSince l + reconnectMax)
      | Ended \<Rightarrow> True)"

lemma setStreamStatus_simps [simp]:
  "li_streamUp (setStreamStatus up reason t l) = up"
  "li_backoff (setStreamStatus up reason t l) = li_backoff l"
  "li_selfID (setStreamStatus up reason t l) = li_selfID l"
  "li_sent (setStreamStatus up reason t l) = li_sent l"
  "li_phase (setStreamStatus up reason t l) = li_phase l"
  by (simp_all add: setStreamStatus_def)

lemma on_message_simps [simp]:
  "li_streamUp (on_message i n x l) = li_streamUp l" "li_streamSince (on_message i n x l) = li_streamSince l"
  "li_backoff (on_message i n x l) = reconnectMin" "li_phase (on_message i n x l) = li_phase l"
  "li_selfID (on_message i n x l) = li_selfID l"
  by (simp_all add: on_message_def Let_def)

lemma watch_keeps:
  assumes "watches slack (NewListener opts t0) ls l"
  shows "backoff_ok l \<and> stream_ok_at l"
  using assms
proof (induction rule: watches.induct)
  case start
  then show ?case by (simp add: NewListener_def backoff_ok_def stream_ok_at_def reconnectMin_def reconnectMax_def second_def)
next
  case (more ls l x l')
  have r: "0 < reconnectMin" "reconnectMin \<le> reconnectMax" by (simp_all add: reconnectMin_def reconnectMax_def second_def)
  from more(2) show ?case
  proof (cases rule: watch_step.cases)
    case (lost reason t)
    with more(3) show ?thesis by (auto simp: backoff_ok_def stream_ok_at_def setStreamStatus_def)
  next
    case (retry due)
    with more(3) r show ?thesis by (auto simp: backoff_ok_def stream_ok_at_def)
  qed (use more(3) r in \<open>auto simp: backoff_ok_def stream_ok_at_def\<close>)
qed

text \<open>The time is not past the return of the next attempt, when that is due by the given time.\<close>

definition next_attempt_by :: "Listener \<Rightarrow> int \<Rightarrow> bool" where
  "next_attempt_by l t \<longleftrightarrow>
     (case li_phase l of Pausing due \<Rightarrow> t \<le> due | Subscribing due \<Rightarrow> t \<le> due | Streaming \<Rightarrow> True | Ended \<Rightarrow> False)"

definition messages :: "watch_label list \<Rightarrow> (string \<times> string \<times> string) list" where
  "messages ls = concat (map (\<lambda>x. case x of Message i n a \<Rightarrow> [(i, n, a)] | _ \<Rightarrow> []) ls)"

lemma watch_self: "watches slack l0 ls l \<Longrightarrow> li_selfID l = li_selfID l0"
  by (induction rule: watches.induct) (auto elim!: watch_step.cases)

lemma watch_sent:
  assumes "watches slack l0 ls l"
  shows "li_sent l = li_sent l0 @ map (\<lambda>(i, n, a). event_of i n a)
     (filter (\<lambda>(i, n, a). \<not> (li_selfID l0 \<noteq> [] \<and> i = li_selfID l0)) (messages ls))"
  using assms
proof (induction rule: watches.induct)
  case start
  then show ?case by (simp add: messages_def)
next
  case (more ls l x l')
  have self: "li_selfID l = li_selfID l0" by (rule watch_self [OF more(1)])
  from more(2) show ?case
    by (cases rule: watch_step.cases) (use more(3) self in \<open>auto simp: messages_def on_message_def Let_def\<close>)
qed

lemma watch_backoff: "watches slack l0 ls l \<Longrightarrow> backoff_ok l0 \<Longrightarrow> backoff_ok l"
  by (induction rule: watches.induct)
    (auto elim!: watch_step.cases simp: backoff_ok_def reconnectMin_def reconnectMax_def second_def)

text \<open>An example: a subscription, two messages, a lost stream, a second subscription and its loss.\<close>

definition ex_watch :: "watch_label list" where
  "ex_watch = [Subscribed 5, Message ''abc'' ''/web'' ''start'', Message ''me'' ''/sync'' ''die'',
     StreamLost ''event stream closed'' 9, RetryNow (9 + second), Subscribed (9 + second), StreamLost ''refused'' (9 + second)]"

lemma ex_watches:
  assumes "li_phase l0 = Subscribing 5" "li_backoff l0 = reconnectMin"
  shows "\<exists>l. watches 0 l0 ex_watch l \<and> li_phase l = Pausing (9 + 3 * second)"
proof -
  let ?l1 = "(setStreamStatus True [] 5 l0)\<lparr> li_phase := Streaming \<rparr>"
  let ?l2 = "on_message ''me'' ''/sync'' ''die'' (on_message ''abc'' ''/web'' ''start'' ?l1)"
  let ?l3 = "(setStreamStatus False ''event stream closed'' 9 ?l2)\<lparr> li_phase := Pausing (9 + second) \<rparr>"
  let ?l4 = "?l3\<lparr> li_backoff := 2 * second, li_phase := Subscribing (9 + second) \<rparr>"
  let ?l5 = "(setStreamStatus True [] (9 + second) ?l4)\<lparr> li_phase := Streaming \<rparr>"
  let ?l6 = "(setStreamStatus False ''refused'' (9 + second) ?l5)\<lparr> li_phase := Pausing (9 + 3 * second) \<rparr>"
  note times = reconnectMin_def reconnectMax_def second_def
  have "watch_step 0 l0 (Subscribed 5) ?l1" by (rule watch_step.subscribed [OF assms(1)]) simp_all
  note watches.more [OF watches.start this]
  moreover have "watch_step 0 ?l1 (Message ''abc'' ''/web'' ''start'') (on_message ''abc'' ''/web'' ''start'' ?l1)"
    by (rule watch_step.message) simp
  ultimately have "watches 0 l0 ([] @ [Subscribed 5] @ [Message ''abc'' ''/web'' ''start'']) (on_message ''abc'' ''/web'' ''start'' ?l1)"
    using watches.more by fastforce
  moreover have "watch_step 0 (on_message ''abc'' ''/web'' ''start'' ?l1) (Message ''me'' ''/sync'' ''die'') ?l2"
    by (rule watch_step.message) simp
  ultimately have w2: "watches 0 l0 [Subscribed 5, Message ''abc'' ''/web'' ''start'', Message ''me'' ''/sync'' ''die''] ?l2"
    using watches.more by fastforce
  have "watch_step 0 ?l2 (StreamLost ''event stream closed'' 9) ?l3"
    using watch_step.lost [of ?l2 0 "''event stream closed''" 9] by (simp add: times)
  note watches.more [OF w2 this]
  moreover have "watch_step 0 ?l3 (RetryNow (9 + second)) ?l4"
    using watch_step.retry [of ?l3 "9 + second" 0] by (simp add: times)
  ultimately have w4: "watches 0 l0 (([Subscribed 5, Message ''abc'' ''/web'' ''start'', Message ''me'' ''/sync'' ''die'']
      @ [StreamLost ''event stream closed'' 9]) @ [RetryNow (9 + second)]) ?l4"
    by (rule watches.more)
  have "watch_step 0 ?l4 (Subscribed (9 + second)) ?l5"
    by (rule watch_step.subscribed [of _ "9 + second"]) simp_all
  note watches.more [OF w4 this]
  moreover have "watch_step 0 ?l5 (StreamLost ''refused'' (9 + second)) ?l6"
    using watch_step.lost [of ?l5 0 "''refused''" "9 + second"] by (simp add: times)
  ultimately have "watches 0 l0 ex_watch ?l6"
    unfolding ex_watch_def by (drule_tac watches.more) simp_all
  then show ?thesis by (intro exI [of _ ?l6]) simp
qed

section \<open>Properties\<close>

text \<open>C28: the watcher forwards exactly the events of other containers, in order, and never its own,
  whatever reconnects happen in between; the pause between two subscriptions stays between one and
  thirty seconds.\<close>

theorem watcher_forwards_foreign_events:
  assumes "watches slack (l0\<lparr> li_selfID := self \<rparr>) ls l" "l0 = NewListener opts t0"
  shows "li_sent l = map (\<lambda>(i, n, a). event_of i n a) (filter (\<lambda>(i, n, a). self = [] \<or> i \<noteq> self) (messages ls))
    \<and> reconnectMin \<le> li_backoff l \<and> li_backoff l \<le> reconnectMax"
proof -
  have "(\<lambda>(i, n, a). \<not> (self \<noteq> [] \<and> i = self)) = (\<lambda>(i, n :: string, a :: string). self = [] \<or> i \<noteq> self)" by auto
  moreover have "backoff_ok l"
    by (rule watch_backoff [OF assms(1)]) (simp add: assms(2) NewListener_def backoff_ok_def reconnectMin_def reconnectMax_def second_def)
  ultimately show ?thesis using watch_sent [OF assms(1)] assms(2) by (simp add: NewListener_def backoff_ok_def)
qed

text \<open>A run with one foreign event, one of its own, and a lost stream: what is sent, and the next pause.\<close>

theorem watcher_forwards_foreign_events_witness:
  "\<exists>l. watches 0 (li_selfID_update (\<lambda>_. ''me'') (NewListener ex_parse_options 5)) ex_watch l
    \<and> li_sent l = [\<lparr> ev_ContainerID = ''abc'', ev_Name = ''web'', ev_Action = ''start'' \<rparr>] \<and> li_backoff l \<le> 30 * second"
proof -
  obtain l where l: "watches 0 ((NewListener ex_parse_options 5)\<lparr> li_selfID := ''me'' \<rparr>) ex_watch l"
    using ex_watches [of "(NewListener ex_parse_options 5)\<lparr> li_selfID := ''me'' \<rparr>"] by (auto simp: NewListener_def)
  from watcher_forwards_foreign_events [OF l refl] have
    "li_sent l = [\<lparr> ev_ContainerID = ''abc'', ev_Name = ''web'', ev_Action = ''start'' \<rparr>]" "li_backoff l \<le> 30 * second"
    by (simp_all add: ex_watch_def messages_def event_of_def trim_prefix_def reconnectMax_def)
  with l show ?thesis by blast
qed

text \<open>A lost event stream does not show in the readiness probe. However long the
  subscriptions keep failing, every attempt marks the stream as up for a moment and restarts the
  clock; so at every time up to the return of the next attempt, the stream counts as down for at most
  the longest pause plus the delay of the attempt, and with delays up to 90 seconds the two minutes
  the probe grants are never exceeded: the probe answers as if there were no stream to watch.\<close>

theorem outage_does_not_show:
  assumes "watches slack (NewListener opts t0) ls l" "0 \<le> slack" "slack \<le> 90 * second"
    and "next_attempt_by l (now - slack)"
  shows "stream_Down (StreamStatus_of l) now \<le> reconnectMax + slack
    \<and> Ready (status_of (Some (StreamStatus_of l)) w) now = Ready (status_of None w) now"
proof -
  have down: "stream_Down (StreamStatus_of l) now \<le> reconnectMax + slack"
    using watch_keeps [OF assms(1)] assms(2,4)
    by (auto simp: next_attempt_by_def stream_ok_at_def stream_Down_def StreamStatus_of_def reconnectMax_def second_def split: watch_phase.splits)
  have "stream_Down no_stream now = 0" by (simp add: stream_Down_def no_stream_def)
  moreover have "reconnectMax + slack \<le> StreamDownGrace" using assms(3) by (simp add: reconnectMax_def StreamDownGrace_def second_def)
  ultimately show ?thesis using down by (simp add: Ready_def status_of_def StreamDownGrace_def second_def)
qed

text \<open>At the end of the second pause of the example the stream has been down for some time, and the
  probe does not say so.\<close>

theorem outage_does_not_show_witness:
  "\<exists>l. watches 0 (NewListener ex_parse_options 5) ex_watch l
    \<and> Ready (status_of (Some (StreamStatus_of l)) NewWorker) (9 + 3 * second) = Ready (status_of None NewWorker) (9 + 3 * second)"
proof -
  obtain l where l: "watches 0 (NewListener ex_parse_options 5) ex_watch l" "li_phase l = Pausing (9 + 3 * second)"
    using ex_watches [of "NewListener ex_parse_options 5"] by (auto simp: NewListener_def)
  from outage_does_not_show [OF l(1), of "9 + 3 * second" NewWorker] l show ?thesis
    by (auto simp: next_attempt_by_def second_def)
qed

end
