(* ===== verification/Daemon.thy ===== *)
theory Daemon
  imports RunLoop Debounce Listener
begin

text \<open>
  The daemon: the three goroutines that \<open>run\<close> of \<open>src/main.go\<close> starts, composed over their channels. The
  watcher of \<open>Listener\<close> sends into a buffered channel of events, the debouncer of \<open>Debounce\<close> turns them
  into batches, the worker of \<open>RunLoop\<close> runs for each batch and each tick. A signal cancels all of them. A
  step is a step of one part; a run of the worker is one step at the moment its snapshot is taken.
\<close>

section \<open>State and steps\<close>

definition eventBuffer :: nat where "eventBuffer = 256"

text \<open>\<open>dm_process\<close>: \<open>None\<close> before the initial run. The last three fields are history: the batches that were
  handled, how many events the watcher had sent at each snapshot, and how many at the signal.\<close>

record daemon =
  dm_listener :: Listener
  dm_events :: "Event list"
  dm_debouncer :: "Event debouncer"
  dm_batches :: "Event list list"
  dm_process :: "process option"
  dm_cancelled :: bool
  dm_handled :: "Event list list"
  dm_snapshots :: "nat list"
  dm_cut :: nat

definition start_daemon :: "Listener \<Rightarrow> daemon" where
  "start_daemon l = \<lparr> dm_listener = l, dm_events = [], dm_debouncer = db_init, dm_batches = [], dm_process = None,
     dm_cancelled = False, dm_handled = [], dm_snapshots = [], dm_cut = 0 \<rparr>"

text \<open>The state after the worker has taken a snapshot and finished its run.\<close>

definition after_run :: "process \<Rightarrow> daemon \<Rightarrow> daemon" where
  "after_run p d = d\<lparr> dm_process := Some p, dm_snapshots := dm_snapshots d @ [length (li_sent (dm_listener d))] \<rparr>"

datatype part =
    Watcher watch_label
  | Debouncer "Event label"
  | Boot "string + Snapshot"
  | Working trigger "string + Snapshot"
  | Signal

text \<open>Whether a trigger makes the worker take a snapshot: a certificate tick only does after a change.\<close>

definition takes_snapshot :: "Api \<Rightarrow> trigger \<Rightarrow> Worker \<Rightarrow> bool" where
  "takes_snapshot a trigger w \<longleftrightarrow> (trigger = CertificateTick \<longrightarrow> fst (PollCertificates a w))"

definition worked :: "Api \<Rightarrow> trigger \<Rightarrow> process \<Rightarrow> process \<Rightarrow> daemon \<Rightarrow> daemon" where
  "worked a trigger p p' d =
     (if takes_snapshot a trigger (ps_worker p) then after_run p' d else d\<lparr> dm_process := Some p' \<rparr>)"

inductive daemon_step ::
  "Api \<Rightarrow> Options \<Rightarrow> int \<Rightarrow> int \<Rightarrow> int \<Rightarrow> daemon \<Rightarrow> part \<Rightarrow> daemon \<Rightarrow> bool" for a opts interval maxWait slack where
  watch: "watch_step slack (dm_listener d) x l' \<Longrightarrow> x = CancelWatch \<longrightarrow> dm_cancelled d
    \<Longrightarrow> new = drop (length (li_sent (dm_listener d))) (li_sent l') \<Longrightarrow> length (dm_events d @ new) \<le> eventBuffer
    \<Longrightarrow> daemon_step a opts interval maxWait slack d (Watcher x) (d\<lparr> dm_listener := l', dm_events := dm_events d @ new \<rparr>)"
| receive: "dm_events d = e # rest \<Longrightarrow> db_step interval maxWait (dm_debouncer d) (Arrive e now) s'
    \<Longrightarrow> daemon_step a opts interval maxWait slack d (Debouncer (Arrive e now)) (d\<lparr> dm_events := rest, dm_debouncer := s' \<rparr>)"
| quiet: "db_step interval maxWait (dm_debouncer d) (Tick t) s'
    \<Longrightarrow> daemon_step a opts interval maxWait slack d (Debouncer (Tick t)) (d\<lparr> dm_debouncer := s' \<rparr>)"
| hand: "db_step interval maxWait (dm_debouncer d) Handover s' \<Longrightarrow> db_phase (dm_debouncer d) = Sending b final \<Longrightarrow> dm_batches d = []
    \<Longrightarrow> daemon_step a opts interval maxWait slack d (Debouncer Handover) (d\<lparr> dm_debouncer := s', dm_batches := [b] \<rparr>)"
| closed: "db_step interval maxWait (dm_debouncer d) Closed s' \<Longrightarrow> dm_events d = [] \<Longrightarrow> li_phase (dm_listener d) = Ended
    \<Longrightarrow> daemon_step a opts interval maxWait slack d (Debouncer Closed) (d\<lparr> dm_debouncer := s' \<rparr>)"
| stop: "db_step interval maxWait (dm_debouncer d) Cancel s' \<Longrightarrow> dm_cancelled d
    \<Longrightarrow> daemon_step a opts interval maxWait slack d (Debouncer Cancel) (d\<lparr> dm_debouncer := s' \<rparr>)"
| boot: "dm_process d = None
    \<Longrightarrow> daemon_step a opts interval maxWait slack d (Boot snap) (after_run (start_process a opts snap) d)"
| batch: "dm_process d = Some p \<Longrightarrow> run_step a opts p (Batch, snap) p' \<Longrightarrow> dm_batches d = b # bs
    \<Longrightarrow> daemon_step a opts interval maxWait slack d (Working Batch snap)
          (worked a Batch p p' (d\<lparr> dm_batches := bs, dm_handled := dm_handled d @ [b] \<rparr>))"
| ticker: "dm_process d = Some p \<Longrightarrow> run_step a opts p (trigger, snap) p' \<Longrightarrow> trigger \<in> {ResyncTick, CertificateTick}
    \<Longrightarrow> daemon_step a opts interval maxWait slack d (Working trigger snap) (worked a trigger p p' d)"
| shutdown: "dm_process d = Some p \<Longrightarrow> run_step a opts p (Shutdown, snap) p' \<Longrightarrow> dm_cancelled d
    \<Longrightarrow> daemon_step a opts interval maxWait slack d (Working Shutdown snap) (worked a Shutdown p p' d)"
| signal: "\<not> dm_cancelled d
    \<Longrightarrow> daemon_step a opts interval maxWait slack d Signal
          (d\<lparr> dm_cancelled := True, dm_cut := length (li_sent (dm_listener d)) \<rparr>)"

inductive daemon_run ::
  "Api \<Rightarrow> Options \<Rightarrow> int \<Rightarrow> int \<Rightarrow> int \<Rightarrow> daemon \<Rightarrow> part list \<Rightarrow> daemon \<Rightarrow> bool" for a opts interval maxWait slack d0 where
  begun: "daemon_run a opts interval maxWait slack d0 [] d0"
| more: "daemon_run a opts interval maxWait slack d0 ps d \<Longrightarrow> daemon_step a opts interval maxWait slack d x d'
    \<Longrightarrow> daemon_run a opts interval maxWait slack d0 (ps @ [x]) d'"

section \<open>The pipeline\<close>

text \<open>The events on their way from the watcher to the worker, oldest first.\<close>

definition in_transit :: "daemon \<Rightarrow> Event list" where
  "in_transit d = concat (dm_batches d) @ in_hand (db_phase (dm_debouncer d)) @ db_pending (dm_debouncer d) @ dm_events d"

definition sent :: "daemon \<Rightarrow> nat" where
  "sent d = length (li_sent (dm_listener d))"

text \<open>What holds of the debouncer's state by itself.\<close>

definition db_good :: "'e debouncer \<Rightarrow> bool" where
  "db_good s \<longleftrightarrow> (db_phase s = Waiting \<longrightarrow> (db_timer s = None) = (db_pending s = []))
     \<and> (\<forall>b final. db_phase s = Sending b final \<longrightarrow> b \<noteq> [] \<and> db_timer s = None \<and> db_pending s = [])"

lemma db_good_step: "db_good s \<Longrightarrow> db_step interval maxWait s l s' \<Longrightarrow> db_good s'"
  by (erule db_step.cases) (auto simp: db_good_def)

lemma watch_extends: "watch_step slack l x l' \<Longrightarrow> \<exists>new. li_sent l' = li_sent l @ new"
  by (erule watch_step.cases) (auto simp: on_message_def Let_def)

lemma after_run_simps [simp]:
  "dm_listener (after_run p d) = dm_listener d" "dm_events (after_run p d) = dm_events d"
  "dm_debouncer (after_run p d) = dm_debouncer d" "dm_batches (after_run p d) = dm_batches d"
  "dm_process (after_run p d) = Some p" "dm_cancelled (after_run p d) = dm_cancelled d"
  "dm_handled (after_run p d) = dm_handled d" "dm_snapshots (after_run p d) = dm_snapshots d @ [sent d]"
  "dm_cut (after_run p d) = dm_cut d"
  by (simp_all add: after_run_def sent_def)

lemma worked_simps [simp]:
  "dm_listener (worked a t p p' d) = dm_listener d" "dm_events (worked a t p p' d) = dm_events d"
  "dm_debouncer (worked a t p p' d) = dm_debouncer d" "dm_batches (worked a t p p' d) = dm_batches d"
  "dm_process (worked a t p p' d) = Some p'" "dm_cancelled (worked a t p p' d) = dm_cancelled d"
  "dm_handled (worked a t p p' d) = dm_handled d" "dm_cut (worked a t p p' d) = dm_cut d"
  "set (dm_snapshots (worked a t p p' d)) =
     set (dm_snapshots d) \<union> (if takes_snapshot a t (ps_worker p) then {sent d} else {})"
  by (simp_all add: worked_def)

lemma takes_simps [simp]: "takes_snapshot a Batch w" "takes_snapshot a Shutdown w" "takes_snapshot a ResyncTick w"
  by (simp_all add: takes_snapshot_def)

text \<open>The invariant of the daemon: the channels, and the runs.\<close>

definition flow_ok :: "daemon \<Rightarrow> bool" where
  "flow_ok d \<longleftrightarrow> db_good (dm_debouncer d) \<and> length (dm_batches d) \<le> 1 \<and> length (dm_events d) \<le> eventBuffer
     \<and> (db_phase (dm_debouncer d) \<noteq> Stopped \<longrightarrow> li_sent (dm_listener d) = concat (dm_handled d) @ in_transit d)
     \<and> (\<exists>rest. li_sent (dm_listener d) = concat (dm_handled d) @ concat (dm_batches d) @ rest)
     \<and> (\<not> dm_cancelled d \<longrightarrow> li_phase (dm_listener d) \<noteq> Ended \<and> db_phase (dm_debouncer d) \<noteq> Stopped
          \<and> (\<forall>b. db_phase (dm_debouncer d) \<noteq> Sending b True))"

definition runs_ok :: "daemon \<Rightarrow> bool" where
  "runs_ok d \<longleftrightarrow> (dm_handled d \<noteq> [] \<longrightarrow> (\<exists>n\<in>set (dm_snapshots d). length (concat (dm_handled d)) \<le> n))
     \<and> (\<forall>n\<in>set (dm_snapshots d). n \<le> sent d)
     \<and> (\<forall>p. dm_process d = Some p \<longrightarrow> ps_returned p \<noteq> None \<longrightarrow> dm_cancelled d \<and> (\<exists>n\<in>set (dm_snapshots d). dm_cut d \<le> n))
     \<and> (dm_cancelled d \<longrightarrow> dm_cut d \<le> sent d)"

lemma flow_step:
  assumes "daemon_step a opts interval maxWait slack d x d'" "flow_ok d"
  shows "flow_ok d'"
  using assms
proof (cases rule: daemon_step.cases)
  case (watch x l' new)
  from watch_extends [OF watch(3)] have s: "li_sent l' = li_sent (dm_listener d) @ new" by (auto simp: watch(5))
  have e: "x \<noteq> CancelWatch \<Longrightarrow> li_phase l' \<noteq> Ended"
    using watch(3) by (cases rule: watch_step.cases) simp_all
  show ?thesis using assms(2) watch(4,6) s e by (auto simp: watch(2) flow_ok_def in_transit_def)
next
  case (receive e rest now s')
  note g = db_good_step [OF _ receive(4)]
  show ?thesis using assms(2) receive(3,4) g by (auto simp: receive(2) flow_ok_def in_transit_def)
next
  case (quiet t s')
  note g = db_good_step [OF _ quiet(3)]
  show ?thesis using assms(2) quiet(3) g by (auto simp: quiet(2) flow_ok_def in_transit_def)
next
  case (hand s' b final)
  note g = db_good_step [OF _ hand(3)]
  show ?thesis using assms(2) hand(3-5) g by (auto simp: hand(2) flow_ok_def in_transit_def split: if_splits)
next
  case (closed s')
  note g = db_good_step [OF _ closed(3)]
  show ?thesis using assms(2) closed(3-5) g by (auto simp: closed(2) flow_ok_def in_transit_def split: if_splits)
next
  case (stop s')
  note g = db_good_step [OF _ stop(3)]
  show ?thesis using assms(2) stop(3,4) g by (auto simp: stop(2) flow_ok_def)
next
  case (boot snap)
  then show ?thesis using assms(2) by (simp add: flow_ok_def in_transit_def)
next
  case (batch p snap p' b bs)
  show ?thesis using assms(2) batch(5) by (auto simp: batch(2) flow_ok_def in_transit_def)
next
  case (ticker p trigger snap p')
  then show ?thesis using assms(2) by (simp add: flow_ok_def in_transit_def)
next
  case (shutdown p snap p')
  then show ?thesis using assms(2) by (simp add: flow_ok_def in_transit_def)
next
  case signal
  then show ?thesis using assms(2) by (auto simp: flow_ok_def in_transit_def)
qed

lemma batch_returns: "run_step a opts p (trigger, snap) p' \<Longrightarrow> trigger \<noteq> Shutdown \<Longrightarrow> ps_returned p' = None"
  by (cases trigger) (auto simp: run_step_simp split: prod.splits)

lemma runs_step:
  assumes "daemon_step a opts interval maxWait slack d x d'" "flow_ok d" "runs_ok d"
  shows "runs_ok d'"
  using assms(1)
proof (cases rule: daemon_step.cases)
  case (watch x l' new)
  from watch_extends [OF watch(3)] have "sent d \<le> length (li_sent l')" by (auto simp: sent_def)
  then show ?thesis using assms(3) by (fastforce simp: watch(2) runs_ok_def sent_def)
next
  case (batch p snap p' b bs)
  have "length (concat (dm_handled d @ [b])) \<le> sent d"
    using assms(2) batch(5) by (auto simp: flow_ok_def sent_def)
  then show ?thesis using assms(3) batch_returns [OF batch(4)] by (auto simp: batch(2) runs_ok_def sent_def)
next
  case (boot snap)
  then show ?thesis using assms(3) by (auto simp: runs_ok_def start_process_def sent_def)
next
  case (ticker p trigger snap p')
  then show ?thesis using assms(3) batch_returns [OF ticker(4)] by (auto simp: runs_ok_def sent_def)
next
  case (shutdown p snap p')
  then show ?thesis using assms(3) by (auto simp: runs_ok_def sent_def)
qed (use assms(3) in \<open>auto simp: runs_ok_def sent_def\<close>)

lemma daemon_invariant:
  assumes "daemon_run a opts interval maxWait slack (start_daemon l) ps d" "li_sent l = []" "li_phase l \<noteq> Ended"
  shows "flow_ok d \<and> runs_ok d"
  using assms(1)
proof (induction rule: daemon_run.induct)
  case begun
  then show ?case using assms(2,3)
    by (simp add: flow_ok_def runs_ok_def start_daemon_def db_init_def db_good_def in_transit_def eventBuffer_def)
next
  case (more ps d x d')
  then show ?case using flow_step runs_step by blast
qed

section \<open>The parts\<close>

text \<open>Each part of the daemon lives the life its own theory speaks of.\<close>

lemma step_parts:
  assumes "daemon_step a opts interval maxWait slack d x d'"
  shows "dm_listener d' = dm_listener d \<or> (\<exists>y. watch_step slack (dm_listener d) y (dm_listener d'))"
    and "dm_debouncer d' = dm_debouncer d \<or> (\<exists>y. db_step interval maxWait (dm_debouncer d) y (dm_debouncer d'))"
    and "dm_process d' = dm_process d \<or> (\<exists>snap. dm_process d' = Some (start_process a opts snap))
      \<or> (\<exists>p y p'. dm_process d = Some p \<and> run_step a opts p y p' \<and> dm_process d' = Some p')"
  by (rule daemon_step.cases [OF assms]; simp; metis)+

lemma daemon_watches:
  "daemon_run a opts interval maxWait slack (start_daemon l) ps d \<Longrightarrow> \<exists>ls. watches slack l ls (dm_listener d)"
proof (induction rule: daemon_run.induct)
  case (more ps d x d')
  then show ?case using step_parts(1) [OF more(2)] watches.more by metis
qed (auto simp: start_daemon_def intro: watches.start)

lemma daemon_debounces:
  "daemon_run a opts interval maxWait slack (start_daemon l) ps d \<Longrightarrow> \<exists>ls. db_run interval maxWait ls (dm_debouncer d)"
proof (induction rule: daemon_run.induct)
  case (more ps d x d')
  then show ?case using step_parts(2) [OF more(2)] db_run.more by metis
qed (auto simp: start_daemon_def intro: db_run.start)

lemma daemon_lives:
  "daemon_run a opts interval maxWait slack (start_daemon l) ps d \<Longrightarrow> dm_process d = Some p \<Longrightarrow> \<exists>snaps. lives a opts snaps p"
proof (induction arbitrary: p rule: daemon_run.induct)
  case (more ps d x d')
  from step_parts(3) [OF more(2)] more(3,4) show ?case
  proof (elim disjE exE conjE)
    fix q y p' assume "dm_process d = Some q" "run_step a opts q y p'" "dm_process d' = Some p'"
    with more(3) [of q] more(4) show ?thesis by (cases y) (auto intro: lives.step)
  qed (auto intro: lives.boot)
qed (simp add: start_daemon_def)

section \<open>Progress\<close>

text \<open>How many steps the events on their way may still need.\<close>

definition work :: "daemon \<Rightarrow> nat" where
  "work d = 4 * length (dm_events d) + (if db_pending (dm_debouncer d) = [] then 0 else 3)
     + (case db_phase (dm_debouncer d) of Sending _ _ \<Rightarrow> 2 | _ \<Rightarrow> 0) + length (dm_batches d)
     + (if dm_process d = None then 1 else 0)"

fun pipeline_part :: "part \<Rightarrow> bool" where
  "pipeline_part (Watcher _) = False"
| "pipeline_part Signal = False"
| "pipeline_part _ = True"

lemma progress:
  assumes "flow_ok d" "runs_ok d" "\<not> dm_cancelled d" "work d \<noteq> 0"
  obtains x d' where "daemon_step a opts interval maxWait slack d x d'" "pipeline_part x" "work d' < work d"
    "dm_listener d' = dm_listener d" "\<not> dm_cancelled d'"
proof (cases "dm_process d")
  case None
  from daemon_step.boot [OF None, of a opts interval maxWait slack "Inl []"] show thesis
    by (rule that) (use None assms(3) in \<open>simp_all add: work_def\<close>)
next
  case (Some p)
  show thesis
  proof (cases "dm_batches d")
    case (Cons b bs)
    have "ps_returned p = None" using assms(2,3) Some by (auto simp: runs_ok_def)
    then have "run_step a opts p (Batch, Inl []) (handle a opts Batch (Inl []) (ps_worker p))" by (rule run_step.handled) simp
    from daemon_step.batch [OF Some this Cons] show thesis
      by (rule that) (use assms(3) Some Cons in \<open>simp_all add: work_def\<close>)
  next
    case Nil
    let ?s = "dm_debouncer d"
    have ph: "db_phase ?s \<noteq> Stopped" "\<And>b. db_phase ?s \<noteq> Sending b True" using assms(1,3) by (auto simp: flow_ok_def)
    show thesis
    proof (cases "db_phase ?s")
      case (Sending b final)
      with ph have f: "db_phase ?s = Sending b False" by (cases final) auto
      from daemon_step.hand [OF db_step.handover [OF f] f Nil] show thesis
        by (rule that) (use assms(3) Nil f in \<open>simp_all add: work_def\<close>)
    next
      case Waiting
      show thesis
      proof (cases "dm_events d")
        case (Cons e rest)
        from daemon_step.receive [OF Cons db_step.arrive [OF Waiting, of interval maxWait e 0]] show thesis
          by (rule that) (use assms(3) Nil Waiting Cons in \<open>auto simp: work_def\<close>)
      next
        case empty: Nil
        then have "db_pending ?s \<noteq> []" using assms(4) Nil Waiting Some by (auto simp: work_def)
        then obtain due where due: "db_timer ?s = Some due" using assms(1) Waiting by (auto simp: flow_ok_def db_good_def)
        from daemon_step.quiet [OF db_step.tick [OF Waiting due order_refl]] show thesis
          by (rule that) (use assms(3) Nil Waiting empty \<open>db_pending ?s \<noteq> []\<close> in \<open>auto simp: work_def\<close>)
      qed
    qed (use ph in simp)
  qed
qed

lemma drained:
  assumes "daemon_run a opts interval maxWait slack (start_daemon l) ps d" "li_sent l = []" "li_phase l \<noteq> Ended"
    and "\<not> dm_cancelled d"
  shows "\<exists>qs d'. daemon_run a opts interval maxWait slack (start_daemon l) (ps @ qs) d' \<and> length qs \<le> work d
    \<and> list_all pipeline_part qs \<and> dm_listener d' = dm_listener d \<and> \<not> dm_cancelled d' \<and> work d' = 0"
  using assms(1,4)
proof (induction "work d" arbitrary: ps d rule: less_induct)
  case less
  note inv = daemon_invariant [OF less.prems(1) assms(2,3)]
  show ?case
  proof (cases "work d = 0")
    case True
    with less.prems show ?thesis by (intro exI [of _ "[]"] exI [of _ d]) simp
  next
    case False
    obtain x d1 where x: "daemon_step a opts interval maxWait slack d x d1" "pipeline_part x" "work d1 < work d"
      "dm_listener d1 = dm_listener d" "\<not> dm_cancelled d1"
      by (rule progress [OF _ _ less.prems(2) False]) (use inv in auto)
    from less.hyps [OF x(3) daemon_run.more [OF less.prems(1) x(1)] x(5)] obtain qs d' where
      "daemon_run a opts interval maxWait slack (start_daemon l) ((ps @ [x]) @ qs) d'" "length qs \<le> work d1"
      "list_all pipeline_part qs" "dm_listener d' = dm_listener d1" "\<not> dm_cancelled d'" "work d' = 0" by blast
    with x show ?thesis by (intro exI [of _ "x # qs"] exI [of _ d']) simp
  qed
qed

text \<open>\<open>run\<close> returns when all three goroutines have, with what the worker returned; after the signal that is
  always at most four steps away.\<close>

definition daemon_result :: "daemon \<Rightarrow> run_error list option" where
  "daemon_result d =
     (if li_phase (dm_listener d) = Ended \<and> db_phase (dm_debouncer d) = Stopped
      then Option.bind (dm_process d) ps_returned else None)"

lemma daemon_run_append:
  "daemon_run a opts interval maxWait slack d qs d' \<Longrightarrow> daemon_run a opts interval maxWait slack d0 ps d
    \<Longrightarrow> daemon_run a opts interval maxWait slack d0 (ps @ qs) d'"
  by (induction rule: daemon_run.induct) (auto simp flip: append_assoc intro: daemon_run.more)

lemma daemon_one: "daemon_step a opts interval maxWait slack d x d' \<Longrightarrow> daemon_run a opts interval maxWait slack d [x] d'"
  using daemon_run.more [OF daemon_run.begun] by fastforce

lemma daemon_can_return:
  assumes "dm_cancelled d" "length (dm_events d) \<le> eventBuffer"
  shows "\<exists>qs d'. daemon_run a opts interval maxWait slack d qs d' \<and> length qs \<le> 4 \<and> daemon_result d' \<noteq> None"
proof -
  let ?run = "daemon_run a opts interval maxWait slack"
  obtain qs1 d1 where 1: "?run d qs1 d1" "length qs1 \<le> 1" "dm_cancelled d1" "li_phase (dm_listener d1) = Ended"
  proof (cases "li_phase (dm_listener d) = Ended")
    case False
    from daemon_one [OF daemon_step.watch [OF watch_step.cancel [OF False] _ refl]] assms show thesis
      by (intro that [of "[Watcher CancelWatch]"]) (assumption | simp)+
  qed (use assms that [of "[]" d] in \<open>simp add: daemon_run.begun\<close>)
  obtain qs2 d2 where 2: "?run d1 qs2 d2" "length qs2 \<le> 1" "dm_cancelled d2" "li_phase (dm_listener d2) = Ended"
      "db_phase (dm_debouncer d2) = Stopped"
  proof (cases "db_phase (dm_debouncer d1) = Stopped")
    case False
    from daemon_one [OF daemon_step.stop [OF db_step.cancel [OF False] 1(3)]] 1 show thesis
      by (intro that [of "[Debouncer Cancel]"]) (assumption | simp)+
  qed (use 1 that [of "[]" d1] in \<open>simp add: daemon_run.begun\<close>)
  obtain qs3 d3 p where 3: "?run d2 qs3 d3" "length qs3 \<le> 1" "dm_cancelled d3" "li_phase (dm_listener d3) = Ended"
      "db_phase (dm_debouncer d3) = Stopped" "dm_process d3 = Some p"
  proof (cases "dm_process d2")
    case None
    from daemon_one [OF daemon_step.boot [OF None, where snap = "Inl []"]] 2 show thesis
      by (intro that [of "[Boot (Inl [])]"]) (assumption | simp)+
  qed (use 2 that [of "[]" d2] in \<open>simp add: daemon_run.begun\<close>)
  obtain qs4 d4 where 4: "?run d3 qs4 d4" "length qs4 \<le> 1" "daemon_result d4 \<noteq> None"
  proof (cases "ps_returned p")
    case None
    then have "run_step a opts p (Shutdown, Inl []) (handle a opts Shutdown (Inl []) (ps_worker p))" by (rule run_step.handled) simp
    from daemon_one [OF daemon_step.shutdown [OF 3(6) this 3(3)]] 3 show thesis
      by (intro that [of "[Working Shutdown (Inl [])]"]) (assumption | simp add: daemon_result_def split: prod.split)+
  qed (use 3 that [of "[]" d3] in \<open>simp add: daemon_run.begun daemon_result_def\<close>)
  have "?run d (((qs1 @ qs2) @ qs3) @ qs4) d4"
    by (rule daemon_run_append [OF 4(1) daemon_run_append [OF 3(1) daemon_run_append [OF 2(1) 1(1)]]])
  with 1(2) 2(2) 3(2) 4(2,3) show ?thesis by (intro exI conjI) (assumption | simp)+
qed

text \<open>An example: a subscription, then one event.\<close>

definition ex_listener :: Listener where
  "ex_listener = (NewListener ex_parse_options 5)\<lparr> li_selfID := ''me'' \<rparr>"

lemma ex_daemon:
  "\<exists>ps d. daemon_run (ex_api []) ex_options 10 15 0 (start_daemon ex_listener) ps d \<and> \<not> dm_cancelled d
     \<and> li_sent (dm_listener d) = [event_of ''abc'' ''/web'' ''start'']"
proof -
  let ?l1 = "(setStreamStatus True [] 5 ex_listener)\<lparr> li_phase := Streaming \<rparr>"
  let ?l2 = "on_message ''abc'' ''/web'' ''start'' ?l1"
  have l: "li_phase ex_listener = Subscribing 5" "li_sent ex_listener = []" "li_selfID ex_listener = ''me''"
    by (simp_all add: ex_listener_def NewListener_def)
  note r0 = daemon_run.begun [of "ex_api []" ex_options 10 15 0 "start_daemon ex_listener"]
  have "watch_step 0 (dm_listener (start_daemon ex_listener)) (Subscribed 5) ?l1"
    using watch_step.subscribed [of ex_listener 5 5 0] l by (simp add: start_daemon_def)
  note daemon_run.more [OF r0 daemon_step.watch [OF this _ refl]]
  then have r1: "daemon_run (ex_api []) ex_options 10 15 0 (start_daemon ex_listener) [Watcher (Subscribed 5)]
      ((start_daemon ex_listener)\<lparr> dm_listener := ?l1 \<rparr>)"
    by (simp add: start_daemon_def l eventBuffer_def)
  have "watch_step 0 (dm_listener ((start_daemon ex_listener)\<lparr> dm_listener := ?l1 \<rparr>)) (Message ''abc'' ''/web'' ''start'') ?l2"
    using watch_step.message [of ?l1 0] by simp
  from daemon_run.more [OF r1 daemon_step.watch [OF this _ refl]] show ?thesis
    by (intro exI conjI) (assumption | simp add: start_daemon_def l eventBuffer_def on_message_def)+
qed

section \<open>Properties\<close>

text \<open>C35: no event is lost between Docker and the worker. Until the signal, what the watcher sent is, in
  order, what the worker has handled followed by what is on its way, and the channels stay within their
  buffers; after it, what was handled is still a prefix. For every event handled there was a snapshot
  taken after it was sent, and once the worker has returned there was one after the signal. The worker
  itself lives a life of its own theory, so all that is shown of the process holds in the daemon.\<close>

theorem no_event_is_lost:
  assumes "daemon_run a opts interval maxWait slack (start_daemon ((NewListener lopts t0)\<lparr> li_selfID := self \<rparr>)) ps d"
  shows "(\<not> dm_cancelled d \<longrightarrow> li_sent (dm_listener d) = concat (dm_handled d) @ in_transit d)
    \<and> (\<exists>rest. li_sent (dm_listener d) = concat (dm_handled d) @ rest)
    \<and> length (dm_events d) \<le> eventBuffer \<and> length (dm_batches d) \<le> 1
    \<and> (dm_handled d \<noteq> [] \<longrightarrow> (\<exists>n\<in>set (dm_snapshots d). length (concat (dm_handled d)) \<le> n))
    \<and> (\<forall>p. dm_process d = Some p \<longrightarrow> (\<exists>snaps. lives a opts snaps p)
         \<and> (ps_returned p \<noteq> None \<longrightarrow> dm_cancelled d \<and> (\<exists>n\<in>set (dm_snapshots d). dm_cut d \<le> n)))"
proof -
  have "flow_ok d \<and> runs_ok d" by (rule daemon_invariant [OF assms]) (simp_all add: NewListener_def)
  then show ?thesis using daemon_lives [OF assms] by (auto simp: flow_ok_def runs_ok_def)
qed

theorem no_event_is_lost_witness:
  "\<exists>ps d. daemon_run (ex_api []) ex_options 10 15 0 (start_daemon ex_listener) ps d
     \<and> [event_of ''abc'' ''/web'' ''start''] = concat (dm_handled d) @ in_transit d"
proof -
  obtain ps d where d: "daemon_run (ex_api []) ex_options 10 15 0 (start_daemon ex_listener) ps d" "\<not> dm_cancelled d"
    "li_sent (dm_listener d) = [event_of ''abc'' ''/web'' ''start'']" using ex_daemon by blast
  from no_event_is_lost [OF d(1) [unfolded ex_listener_def]] d(2) have "li_sent (dm_listener d) = concat (dm_handled d) @ in_transit d" by blast
  with d show ?thesis by (intro exI [of _ ps] exI [of _ d]) simp
qed

text \<open>C36: every event is handled. As long as no signal came, the daemon can always finish what is on its
  way without any further event, in a bounded number of steps of the debouncer and the worker: it cannot
  get stuck. When it has, the worker has handled exactly what the watcher sent, and if that is anything,
  the worker took a snapshot after the last event.\<close>

theorem every_event_is_handled:
  assumes "daemon_run a opts interval maxWait slack (start_daemon ((NewListener lopts t0)\<lparr> li_selfID := self \<rparr>)) ps d"
    and "\<not> dm_cancelled d"
  shows "\<exists>qs d'. daemon_run a opts interval maxWait slack (start_daemon ((NewListener lopts t0)\<lparr> li_selfID := self \<rparr>)) (ps @ qs) d'
    \<and> length qs \<le> work d \<and> list_all pipeline_part qs
    \<and> concat (dm_handled d') = li_sent (dm_listener d)
    \<and> (li_sent (dm_listener d) \<noteq> [] \<longrightarrow> length (li_sent (dm_listener d)) \<in> set (dm_snapshots d'))"
proof -
  let ?l = "(NewListener lopts t0)\<lparr> li_selfID := self \<rparr>"
  have l: "li_sent ?l = []" "li_phase ?l \<noteq> Ended" by (simp_all add: NewListener_def)
  obtain qs d' where q: "daemon_run a opts interval maxWait slack (start_daemon ?l) (ps @ qs) d'" "length qs \<le> work d"
      "list_all pipeline_part qs" "dm_listener d' = dm_listener d" "\<not> dm_cancelled d'" "work d' = 0"
    using drained [OF assms(1) l assms(2)] by blast
  note inv = daemon_invariant [OF q(1) l]
  have "in_transit d' = []"
    using q(6) by (cases "db_phase (dm_debouncer d')") (auto simp: work_def in_transit_def split: if_splits)
  then have h: "concat (dm_handled d') = li_sent (dm_listener d)" using inv q(4,5) by (auto simp: flow_ok_def)
  have "length (li_sent (dm_listener d)) \<in> set (dm_snapshots d')" if "li_sent (dm_listener d) \<noteq> []"
  proof -
    have "dm_handled d' \<noteq> []" using that h by auto
    with inv h obtain n where "n \<in> set (dm_snapshots d')" "length (li_sent (dm_listener d)) \<le> n" "n \<le> length (li_sent (dm_listener d))"
      using q(4) by (auto simp: runs_ok_def sent_def)
    then show ?thesis by simp
  qed
  with q h show ?thesis by blast
qed

theorem every_event_is_handled_witness:
  "\<exists>ps d. daemon_run (ex_api []) ex_options 10 15 0 (start_daemon ex_listener) ps d
     \<and> concat (dm_handled d) = [event_of ''abc'' ''/web'' ''start''] \<and> 1 \<in> set (dm_snapshots d)"
proof -
  obtain ps d where d: "daemon_run (ex_api []) ex_options 10 15 0 (start_daemon ex_listener) ps d" "\<not> dm_cancelled d"
    "li_sent (dm_listener d) = [event_of ''abc'' ''/web'' ''start'']" using ex_daemon by blast
  from every_event_is_handled [OF d(1) [unfolded ex_listener_def] d(2)] obtain qs d' where
    "daemon_run (ex_api []) ex_options 10 15 0 (start_daemon ex_listener) (ps @ qs) d'"
    "concat (dm_handled d') = li_sent (dm_listener d)"
    "li_sent (dm_listener d) \<noteq> [] \<longrightarrow> length (li_sent (dm_listener d)) \<in> set (dm_snapshots d')"
    unfolding ex_listener_def by blast
  with d(3) show ?thesis by (intro exI [of _ "ps @ qs"] exI [of _ d']) simp
qed

end
