(* ===== verification/Client.thy ===== *)
theory Client
  imports Payloads GoTime
begin

text \<open>
  The API client (\<open>internal/npm/client.go\<close>, the detection of \<open>internal/npm/flavor.go\<close>): sessions,
  the request with its one replay, the re-detection of the dialect after a rejected body, the
  operations of the API and the redaction of logged bodies. The network with the server behind it is
  a parameter: a reply is a function of the requests sent so far and of the request, so the cookie
  jar needs no state of its own. The clock answers the readings of \<open>now\<close>. The decoding of responses
  into resource records is not repeated here: an operation returns the JSON document. A re-detection
  sends requests of its own, which may start another one: the nesting is bounded by fuel, and running
  out of it is \<open>None\<close>. Log lines are left out.
\<close>

section \<open>Requests, replies and errors\<close>

datatype http_method = GET | POST | PUT | DELETE

datatype req_body =
    NoBody
  | Credentials string string
  | HostBody payload
  | Profile string
  | NewPassword string string

record request =
  rq_Method :: http_method
  rq_Path :: string
  rq_Auth :: "string option"
  rq_Body :: req_body

text \<open>Cookies as value and \<open>MaxAge\<close>; the body as text and as the document the text holds, if any.\<close>

record response =
  rs_Status :: int
  rs_Cookies :: "(string \<times> int) list"
  rs_Text :: string
  rs_Json :: "json option"

record net =
  nt_Send :: "request list \<Rightarrow> request \<Rightarrow> string + response"
  nt_Clock :: "nat \<Rightarrow> int"

datatype client_error =
    TransportFailed http_method string string
  | ApiError int http_method string string
  | BadLoginResponse
  | NoSession
  | BadResponse http_method string
  | PayloadFailed payload_error

definition maxErrorBody :: nat where "maxErrorBody = 4096"
definition maxLoginBody :: nat where "maxLoginBody = 1048576"

definition envelope_message :: "json \<Rightarrow> string option" where
  "envelope_message v =
     Option.bind (members (Some v)) (\<lambda>fs.
     Option.bind (members (obj_get fs ''error'')) (\<lambda>e.
       if opt_int (obj_get e ''code'') = None then None
       else case obj_get e ''message'' of Some (JStr s) \<Rightarrow> Some s | Some JNull \<Rightarrow> Some [] | None \<Rightarrow> Some [] | Some _ \<Rightarrow> None))"

definition statusError :: "response \<Rightarrow> http_method \<Rightarrow> string \<Rightarrow> client_error" where
  "statusError r m p =
     (let body = trim_space (take maxErrorBody (rs_Text r));
          envelope = (if length (rs_Text r) > maxErrorBody then None else Option.bind (rs_Json r) envelope_message)
      in ApiError (rs_Status r) m p (case envelope of Some msg \<Rightarrow> if msg \<noteq> [] then msg else body | None \<Rightarrow> body))"

definition cl_IsNotFound :: "client_error \<Rightarrow> bool" where
  "cl_IsNotFound e \<longleftrightarrow> (case e of ApiError s _ _ _ \<Rightarrow> s = 404 | _ \<Rightarrow> False)"

definition schemaRejection :: "client_error \<Rightarrow> bool" where
  "schemaRejection e \<longleftrightarrow>
     (case e of ApiError s _ _ msg \<Rightarrow> s = 400 \<and> contains_str (to_lower msg) ''additional propert'' | _ \<Rightarrow> False)"

definition isAlreadyInState :: "client_error \<Rightarrow> bool" where
  "isAlreadyInState e \<longleftrightarrow>
     (case e of ApiError s _ _ msg \<Rightarrow>
        s = 400 \<and> (contains_str (to_lower msg) ''already enabled'' \<or> contains_str (to_lower msg) ''already disabled'')
      | _ \<Rightarrow> False)"

section \<open>The client\<close>

datatype AuthMode = AuthUnknown | AuthCookie | AuthBearer

record Client =
  cl_Identity :: string
  cl_Secret :: string
  cl_Mode :: AuthMode
  cl_Token :: string
  cl_Expires :: "int option"
  cl_Flavour :: Flavour
  cl_Pinned :: bool
  cl_ApiVersion :: "json option"
  cl_Version :: Version
  cl_Schema :: WriteSchema
  cl_MetaRetired :: bool
  cl_LastProbe :: "int option"
  cl_Sent :: "request list"
  cl_Ticks :: nat

definition probeCooldown :: int where "probeCooldown = 30 * second"
definition refreshWindow :: int where "refreshWindow = 5 * minute"

definition NewClient :: "string \<Rightarrow> string \<Rightarrow> Flavour \<Rightarrow> Client" where
  "NewClient identity secret f = \<lparr> cl_Identity = identity, cl_Secret = secret, cl_Mode = AuthUnknown, cl_Token = [],
     cl_Expires = None, cl_Flavour = f, cl_Pinned = (f \<noteq> FlavourAuto), cl_ApiVersion = None, cl_Version = zero_version,
     cl_Schema = Map.empty, cl_MetaRetired = False, cl_LastProbe = None, cl_Sent = [], cl_Ticks = 0 \<rparr>"

definition cl_now :: "net \<Rightarrow> Client \<Rightarrow> int \<times> Client" where
  "cl_now n c = (nt_Clock n (cl_Ticks c), c\<lparr> cl_Ticks := cl_Ticks c + 1 \<rparr>)"

definition send :: "net \<Rightarrow> request \<Rightarrow> Client \<Rightarrow> (string + response) \<times> Client" where
  "send n q c = (nt_Send n (cl_Sent c) q, c\<lparr> cl_Sent := cl_Sent c @ [q] \<rparr>)"

definition dialectLocked :: "Client \<Rightarrow> Dialect" where
  "dialectLocked c = \<lparr> d_Flavour = (if cl_Flavour c = FlavourAuto then FlavourNPMplus else cl_Flavour c),
     d_Version = cl_Version c, d_Schema = cl_Schema c, d_MetaRetired = cl_MetaRetired c \<rparr>"

section \<open>Sessions\<close>

text \<open>\<open>expires\<close>: \<open>None\<close> for a value that cannot be parsed, \<open>Some None\<close> for the zero time.\<close>

definition go_time :: "int \<Rightarrow> int option" where
  "go_time ns = (if ns = - 62135596800 * second then None else Some ns)"

definition from_unix_time :: "int \<Rightarrow> int option" where
  "from_unix_time n = go_time (fromUnix n * 1000000)"

definition flexTime :: "json \<Rightarrow> int option option" where
  "flexTime v =
     (case v of
        JNull \<Rightarrow> Some None
      | JStr s \<Rightarrow>
          if s = [] then Some None
          else (case first_some (\<lambda>parse. parse s) [parse_rfc3339, parse_datetime] of
                  Some t \<Rightarrow> Some (go_time t)
                | None \<Rightarrow> map_option from_unix_time (atoi s))
      | JNum lit \<Rightarrow> map_option from_unix_time (atoi lit)
      | _ \<Rightarrow> None)"

text \<open>The members of the token response in their order: a token of another type is an error that
  leaves the rest to be read, an expiry that cannot be parsed ends the reading.\<close>

fun token_members :: "(string \<times> json) list \<Rightarrow> bool \<times> string \<times> int option \<Rightarrow> bool \<times> string \<times> int option" where
  "token_members [] acc = acc"
| "token_members ((k, v) # fs) (bad, tok, ex) =
     (if k = ''token'' then
        (case v of
           JStr s \<Rightarrow> token_members fs (bad, s, ex)
         | JNull \<Rightarrow> token_members fs (bad, tok, ex)
         | _ \<Rightarrow> token_members fs (True, tok, ex))
      else if k = ''expires'' then
        (case flexTime v of
           Some t \<Rightarrow> token_members fs (bad, tok, t)
         | None \<Rightarrow> (True, tok, ex))
      else token_members fs (bad, tok, ex))"

definition tokenResponse :: "response \<Rightarrow> bool \<times> string \<times> int option" where
  "tokenResponse r =
     (if trim_space (rs_Text r) = [] then (False, [], None)
      else if length (rs_Text r) > maxLoginBody then (True, [], None)
      else case rs_Json r of
        Some (JObj fs) \<Rightarrow> token_members fs (False, [], None)
      | Some JNull \<Rightarrow> (False, [], None)
      | _ \<Rightarrow> (True, [], None))"

definition hasSessionCookie :: "response \<Rightarrow> bool" where
  "hasSessionCookie r \<longleftrightarrow> list_ex (\<lambda>(value, maxAge). value \<noteq> [] \<and> \<not> maxAge < 0) (rs_Cookies r)"

definition tokens_path :: string where "tokens_path = ''/api/tokens''"

definition login_request :: "Client \<Rightarrow> request" where
  "login_request c = \<lparr> rq_Method = POST, rq_Path = tokens_path, rq_Auth = None,
     rq_Body = Credentials (cl_Identity c) (cl_Secret c) \<rparr>"

definition is_success :: "response \<Rightarrow> bool" where
  "is_success r \<longleftrightarrow> 200 \<le> rs_Status r \<and> rs_Status r \<le> 299"

text \<open>What a login reply grants: the mode, the token and the expiry of the session.\<close>

definition granted :: "string + response \<Rightarrow> client_error + AuthMode \<times> string \<times> int option" where
  "granted reply =
     (case reply of
        Inl e \<Rightarrow> Inl (TransportFailed POST tokens_path e)
      | Inr r \<Rightarrow>
          if \<not> is_success r then Inl (statusError r POST tokens_path)
          else let (bad, tok, ex) = tokenResponse r in
            if bad \<and> \<not> hasSessionCookie r then Inl BadLoginResponse
            else if hasSessionCookie r then Inr (AuthCookie, trim_space tok, ex)
            else if trim_space tok \<noteq> [] then Inr (AuthBearer, trim_space tok, ex)
            else Inl NoSession)"

definition login :: "net \<Rightarrow> Client \<Rightarrow> client_error option \<times> Client" where
  "login n c =
     (let (reply, c) = send n (login_request c) c in
      case granted reply of
        Inl e \<Rightarrow> (Some e, c)
      | Inr (mode, tok, ex) \<Rightarrow> (None, c\<lparr> cl_Mode := mode, cl_Token := tok, cl_Expires := ex \<rparr>))"

definition session_valid :: "net \<Rightarrow> Client \<Rightarrow> bool \<times> Client" where
  "session_valid n c =
     (if cl_Mode c = AuthUnknown then (False, c)
      else case cl_Expires c of
        None \<Rightarrow> (True, c)
      | Some e \<Rightarrow> let (now, c) = cl_now n c in (now + refreshWindow < e, c))"

text \<open>The second check is the one under the login lock.\<close>

definition ensureAuth :: "net \<Rightarrow> Client \<Rightarrow> client_error option \<times> Client" where
  "ensureAuth n c =
     (let (valid, c) = session_valid n c in
      if valid then (None, c)
      else let (valid, c) = session_valid n c in
        if valid then (None, c) else login n c)"

definition invalidate :: "Client \<Rightarrow> Client" where
  "invalidate c = c\<lparr> cl_Mode := AuthUnknown, cl_Token := [], cl_Expires := None \<rparr>"

section \<open>One request\<close>

definition applyAuth :: "Client \<Rightarrow> string option" where
  "applyAuth c = (if cl_Mode c = AuthBearer \<and> cl_Token c \<noteq> [] then Some (''Bearer '' @ cl_Token c) else None)"

definition api_request :: "http_method \<Rightarrow> string \<Rightarrow> req_body \<Rightarrow> Client \<Rightarrow> request" where
  "api_request m p b c = \<lparr> rq_Method = m, rq_Path = p, rq_Auth = applyAuth c, rq_Body = b \<rparr>"

definition unauthorized :: "string + response \<Rightarrow> bool" where
  "unauthorized reply \<longleftrightarrow> (case reply of Inr r \<Rightarrow> rs_Status r = 401 \<or> rs_Status r = 403 | Inl _ \<Rightarrow> False)"

text \<open>\<open>attempt\<close>: \<open>want\<close> says whether the caller decodes the body.\<close>

definition attempt ::
  "net \<Rightarrow> http_method \<Rightarrow> string \<Rightarrow> req_body \<Rightarrow> bool \<Rightarrow> Client \<Rightarrow> (bool \<times> (client_error + json option)) \<times> Client" where
  "attempt n m p b want c =
     (let (reply, c) = send n (api_request m p b c) c in
      ((unauthorized reply,
        case reply of
          Inl e \<Rightarrow> Inl (TransportFailed m p e)
        | Inr r \<Rightarrow>
            if unauthorized reply then Inl (ApiError (rs_Status r) m p ''unauthorized'')
            else if \<not> is_success r then Inl (statusError r m p)
            else if \<not> want then Inr None
            else case rs_Json r of None \<Rightarrow> Inl (BadResponse m p) | Some v \<Rightarrow> Inr (Some v)), c))"

text \<open>\<open>do\<close> up to the re-detection: the session, the request, and after a stale session one login
  and one replay. The first component of the result says whether the server rejected the body.\<close>

definition exchange ::
  "net \<Rightarrow> http_method \<Rightarrow> string \<Rightarrow> req_body \<Rightarrow> bool \<Rightarrow> Client \<Rightarrow> (bool \<times> (client_error + json option)) \<times> Client" where
  "exchange n m p b want c =
     (case ensureAuth n c of
        (Some e, c) \<Rightarrow> ((False, Inl e), c)
      | (None, c) \<Rightarrow>
          (case attempt n m p b want c of
             ((False, r), c) \<Rightarrow> ((case r of Inl e \<Rightarrow> schemaRejection e | Inr _ \<Rightarrow> False, r), c)
           | ((True, _), c) \<Rightarrow>
               (case login n (invalidate c) of
                  (Some e, c) \<Rightarrow> ((False, Inl e), c)
                | (None, c) \<Rightarrow>
                    (case attempt n m p b want c of
                       ((stale, r), c) \<Rightarrow>
                         ((if stale then False else case r of Inl e \<Rightarrow> schemaRejection e | Inr _ \<Rightarrow> False, r), c)))))"

section \<open>Detection\<close>

text \<open>A caller sends one GET whose body it decodes; \<open>None\<close>: out of fuel.\<close>

type_synonym caller = "string \<Rightarrow> Client \<Rightarrow> ((client_error + json option) \<times> Client) option"

text \<open>A listing as \<open>[]map[string]json.RawMessage\<close>: whether it has that type, and the hosts that were
  decoded; \<open>None\<close> is the nil slice.\<close>

definition decode_hosts :: "json \<Rightarrow> bool \<times> (string \<times> json) list list option" where
  "decode_hosts v =
     (case v of
        JArr xs \<Rightarrow> (list_all (\<lambda>x. members (Some x) \<noteq> None) xs,
                    Some (map (\<lambda>x. case members (Some x) of Some fs \<Rightarrow> fs | None \<Rightarrow> []) xs))
      | JNull \<Rightarrow> (True, None)
      | _ \<Rightarrow> (False, None))"

text \<open>\<open>health\<close>: \<open>None\<close> for a document of another type, otherwise the raw version.\<close>

definition decode_health :: "json \<Rightarrow> json option option" where
  "decode_health v =
     Option.bind (members (Some v)) (\<lambda>fs.
       case obj_get fs ''status'' of
         None \<Rightarrow> Some (obj_get fs ''version'')
       | Some JNull \<Rightarrow> Some (obj_get fs ''version'')
       | Some (JStr _) \<Rightarrow> Some (obj_get fs ''version'')
       | Some _ \<Rightarrow> None)"

definition health :: "caller \<Rightarrow> Client \<Rightarrow> ((client_error + json option) \<times> Client) option" where
  "health call c =
     map_option (\<lambda>(r, c).
       (rbind r (\<lambda>body. case body of
          None \<Rightarrow> Inl (BadResponse GET ''/api/'')
        | Some v \<Rightarrow> (case decode_health v of None \<Rightarrow> Inl (BadResponse GET ''/api/'') | Some version \<Rightarrow> Inr version)), c))
       (call ''/api/'' c)"

definition flavour_of :: "caller \<Rightarrow> (string \<times> json) list list \<Rightarrow> Client \<Rightarrow> (Flavour \<times> Client) option" where
  "flavour_of call hosts c =
     (if snd (flavourOf hosts None) \<noteq> FromDefault then Some (fst (flavourOf hosts None), c)
      else map_option (\<lambda>(r, c). (fst (flavourOf hosts (case r of Inr version \<Rightarrow> version | Inl _ \<Rightarrow> None)), c)) (health call c))"

definition listing_of :: "client_error + json option \<Rightarrow> client_error + (string \<times> json) list list option" where
  "listing_of r =
     (case r of
        Inl e \<Rightarrow> if cl_IsNotFound e then Inr None else Inl e
      | Inr None \<Rightarrow> Inl (BadResponse GET (kind_Path KindProxy))
      | Inr (Some v) \<Rightarrow> if fst (decode_hosts v) then Inr (snd (decode_hosts v)) else Inl (BadResponse GET (kind_Path KindProxy)))"

definition probeFlavour ::
  "caller \<Rightarrow> Client \<Rightarrow> ((client_error + Flavour \<times> (string \<times> json) list list option) \<times> Client) option" where
  "probeFlavour call c =
     Option.bind (call (kind_Path KindProxy) c) (\<lambda>(r, c).
       case listing_of r of
         Inl e \<Rightarrow> Some (Inl e, c)
       | Inr hosts \<Rightarrow>
           map_option (\<lambda>(f, c). (Inr (f, hosts), c)) (flavour_of call (case hosts of Some hs \<Rightarrow> hs | None \<Rightarrow> []) c))"

definition fetchWriteSchema :: "caller \<Rightarrow> Client \<Rightarrow> ((schema_error + WriteSchema) \<times> Client) option" where
  "fetchWriteSchema call c =
     map_option (\<lambda>(r, c). (case r of Inr (Some v) \<Rightarrow> parseWriteSchema v | _ \<Rightarrow> Inl NotJsonObject, c)) (call ''/api/schema'' c)"

definition listed_hosts ::
  "caller \<Rightarrow> (string \<times> json) list list option \<Rightarrow> Client \<Rightarrow> ((string \<times> json) list list \<times> Client) option" where
  "listed_hosts call hosts c =
     (case hosts of
        Some hs \<Rightarrow> Some (hs, c)
      | None \<Rightarrow>
          map_option (\<lambda>(r, c).
            (case r of
               Inr (Some v) \<Rightarrow> (case snd (decode_hosts v) of Some hs \<Rightarrow> hs | None \<Rightarrow> [])
             | _ \<Rightarrow> [], c)) (call (kind_Path KindProxy) c))"

definition store_dialect :: "Dialect \<Rightarrow> Client \<Rightarrow> Client" where
  "store_dialect d c = c\<lparr> cl_Schema := d_Schema d, cl_MetaRetired := d_MetaRetired d \<rparr>"

definition learn :: "caller \<Rightarrow> (string \<times> json) list list option \<Rightarrow> Client \<Rightarrow> Client option" where
  "learn call hosts c =
     Option.bind (fetchWriteSchema call c) (\<lambda>(schema, c).
       case schema of
         Inr _ \<Rightarrow> Some (store_dialect (readCapabilities (dialectLocked c) schema []) c)
       | Inl _ \<Rightarrow>
           map_option (\<lambda>(hs, c). store_dialect (readCapabilities (dialectLocked c) schema hs) c) (listed_hosts call hosts c))"

text \<open>\<open>reprobeFlavour\<close> after the cooldown check has passed.\<close>

definition reprobe :: "caller \<Rightarrow> Client \<Rightarrow> Client option" where
  "reprobe call c =
     (if cl_Pinned c then learn call None c
      else Option.bind (probeFlavour call c) (\<lambda>(r, c).
        case r of
          Inl _ \<Rightarrow> Some c
        | Inr (f, hosts) \<Rightarrow> learn call hosts (c\<lparr> cl_Flavour := f \<rparr>)))"

definition cooling :: "net \<Rightarrow> Client \<Rightarrow> bool \<times> Client" where
  "cooling n c =
     (let (now, c) = cl_now n c in
      (case cl_LastProbe c of Some t \<Rightarrow> now - t < probeCooldown | None \<Rightarrow> False, c))"

definition note_probe :: "net \<Rightarrow> Client \<Rightarrow> Client" where
  "note_probe n c = (let (now, c) = cl_now n c in c\<lparr> cl_LastProbe := Some now \<rparr>)"

definition after_rejection :: "net \<Rightarrow> (Client \<Rightarrow> Client option) \<Rightarrow> Client \<Rightarrow> Client option" where
  "after_rejection n probe c =
     (let (cool, c) = cooling n c in if cool then Some c else probe (note_probe n c))"

text \<open>\<open>do\<close>: the fuel bounds how deep re-detections nest.\<close>

fun do_call ::
  "nat \<Rightarrow> net \<Rightarrow> http_method \<Rightarrow> string \<Rightarrow> req_body \<Rightarrow> bool \<Rightarrow> Client \<Rightarrow> ((client_error + json option) \<times> Client) option" where
  "do_call fuel n m p b want c =
     (case exchange n m p b want c of
        ((rejected, r), c) \<Rightarrow>
          if \<not> rejected then Some (r, c)
          else map_option (Pair r) (after_rejection n (case fuel of
                 0 \<Rightarrow> (\<lambda>_. None)
               | Suc f \<Rightarrow> reprobe (\<lambda>p c. do_call f n GET p NoBody True c)) c))"

declare do_call.simps [simp del]

definition deeper :: "nat \<Rightarrow> net \<Rightarrow> Client \<Rightarrow> Client option" where
  "deeper fuel n = (case fuel of 0 \<Rightarrow> (\<lambda>_. None) | Suc f \<Rightarrow> reprobe (\<lambda>p c. do_call f n GET p NoBody True c))"

lemma do_call_eq:
  "do_call fuel n m p b want c =
     (case exchange n m p b want c of
        ((rejected, r), c) \<Rightarrow>
          if \<not> rejected then Some (r, c) else map_option (Pair r) (after_rejection n (deeper fuel n) c))"
  unfolding deeper_def by (rule do_call.simps)

lemma do_call_cases:
  assumes "do_call fuel n m p b want c = Some (r, c')"
  obtains (plain) "exchange n m p b want c = ((False, r), c')"
  | (rejected) c1 where "exchange n m p b want c = ((True, r), c1)" "after_rejection n (deeper fuel n) c1 = Some c'"
  using assms by (auto simp: do_call_eq split: prod.splits if_splits)

section \<open>Operations\<close>

text \<open>Each operation returns what the code returns, before the typed decoding, and the client after it.\<close>

type_synonym outcome = "((client_error + json option) \<times> Client) option"

definition payloadFor :: "Client \<Rightarrow> Resource \<Rightarrow> client_error + payload" where
  "payloadFor c r = map_err PayloadFailed (Payload (dialectLocked c) r)"

definition item_path :: "Kind \<Rightarrow> int \<Rightarrow> string" where
  "item_path kind i = kind_Path kind @ ''/'' @ itoa i"

definition ListCollection :: "nat \<Rightarrow> net \<Rightarrow> Kind \<Rightarrow> Client \<Rightarrow> outcome" where
  "ListCollection fuel n kind c = do_call fuel n GET (kind_Path kind) NoBody True c"

definition Create :: "nat \<Rightarrow> net \<Rightarrow> Resource \<Rightarrow> Client \<Rightarrow> outcome" where
  "Create fuel n r c =
     (case payloadFor c r of
        Inl e \<Rightarrow> Some (Inl e, c)
      | Inr p \<Rightarrow> do_call fuel n POST (kind_Path (r_Kind r)) (HostBody p) True c)"

definition Update :: "nat \<Rightarrow> net \<Rightarrow> int \<Rightarrow> Resource \<Rightarrow> Client \<Rightarrow> outcome" where
  "Update fuel n i r c =
     (case payloadFor c r of
        Inl e \<Rightarrow> Some (Inl e, c)
      | Inr p \<Rightarrow> do_call fuel n PUT (item_path (r_Kind r) i) (HostBody p) True c)"

definition cl_SetEnabled :: "nat \<Rightarrow> net \<Rightarrow> Kind \<Rightarrow> int \<Rightarrow> bool \<Rightarrow> Client \<Rightarrow> outcome" where
  "cl_SetEnabled fuel n kind i enabled c =
     map_option (\<lambda>(r, c). (case r of Inl e \<Rightarrow> if isAlreadyInState e then Inr None else Inl e | Inr v \<Rightarrow> Inr v, c))
       (do_call fuel n POST (item_path kind i @ ''/'' @ (if enabled then ''enable'' else ''disable'')) NoBody False c)"

definition Delete :: "nat \<Rightarrow> net \<Rightarrow> Kind \<Rightarrow> int \<Rightarrow> Client \<Rightarrow> outcome" where
  "Delete fuel n kind i c = do_call fuel n DELETE (item_path kind i) NoBody False c"

definition ListCertificates :: "nat \<Rightarrow> net \<Rightarrow> Client \<Rightarrow> outcome" where
  "ListCertificates fuel n c = do_call fuel n GET ''/api/nginx/certificates'' NoBody True c"

definition ListAccessLists :: "nat \<Rightarrow> net \<Rightarrow> Client \<Rightarrow> outcome" where
  "ListAccessLists fuel n c = do_call fuel n GET ''/api/nginx/access-lists'' NoBody True c"

definition Ping :: "nat \<Rightarrow> net \<Rightarrow> Client \<Rightarrow> outcome" where
  "Ping fuel n c = do_call fuel n GET ''/api/'' NoBody False c"

definition UpdateOwnCredentials :: "nat \<Rightarrow> net \<Rightarrow> string \<Rightarrow> string \<Rightarrow> string \<Rightarrow> Client \<Rightarrow> outcome" where
  "UpdateOwnCredentials fuel n email current new c =
     Option.bind (do_call fuel n PUT ''/api/users/me'' (Profile email) False c) (\<lambda>(r, c).
       case r of
         Inl e \<Rightarrow> Some (Inl e, c)
       | Inr _ \<Rightarrow>
           map_option (\<lambda>(r, c).
             (r, case r of Inl _ \<Rightarrow> c | Inr _ \<Rightarrow> (invalidate c)\<lparr> cl_Identity := email, cl_Secret := new \<rparr>))
             (do_call fuel n PUT ''/api/users/me/auth'' (NewPassword current new) False c))"

text \<open>The caller of the detection outside of a request.\<close>

definition get_call :: "nat \<Rightarrow> net \<Rightarrow> caller" where
  "get_call fuel n p c = do_call fuel n GET p NoBody True c"

definition store_version :: "json option \<Rightarrow> Client \<Rightarrow> Client" where
  "store_version v c = c\<lparr> cl_ApiVersion := v, cl_Version := parseVersion v \<rparr>"

definition readVersion :: "nat \<Rightarrow> net \<Rightarrow> Client \<Rightarrow> Client option" where
  "readVersion fuel n c =
     map_option (\<lambda>(r, c). case r of Inl _ \<Rightarrow> c | Inr v \<Rightarrow> store_version v c) (health (get_call fuel n) c)"

definition reprobeFlavour :: "nat \<Rightarrow> net \<Rightarrow> Client \<Rightarrow> Client option" where
  "reprobeFlavour fuel n c = after_rejection n (reprobe (get_call fuel n)) c"

definition Recheck :: "nat \<Rightarrow> net \<Rightarrow> Client \<Rightarrow> (client_error option \<times> Client) option" where
  "Recheck fuel n c =
     Option.bind (health (get_call fuel n) c) (\<lambda>(r, c).
       case r of
         Inl e \<Rightarrow> Some (Some e, c)
       | Inr v \<Rightarrow>
           let previous = cl_ApiVersion c; c = store_version v c in
           if previous = None \<or> previous = v then Some (None, c)
           else map_option (Pair None) (reprobeFlavour fuel n c))"

definition DetectFlavour :: "nat \<Rightarrow> net \<Rightarrow> Client \<Rightarrow> ((client_error + Flavour) \<times> Client) option" where
  "DetectFlavour fuel n c =
     Option.bind (readVersion fuel n c) (\<lambda>c.
       if cl_Flavour c \<noteq> FlavourAuto
       then map_option (Pair (Inr (cl_Flavour c))) (learn (get_call fuel n) None c)
       else Option.bind (probeFlavour (get_call fuel n) c) (\<lambda>(r, c).
         case r of
           Inl e \<Rightarrow> Some (Inl e, c)
         | Inr (f, hosts) \<Rightarrow> map_option (Pair (Inr f)) (learn (get_call fuel n) hosts (c\<lparr> cl_Flavour := f \<rparr>))))"

text \<open>The operations of the client, and a sequence of them.\<close>

datatype client_op =
    OpLogin
  | OpList Kind
  | OpCreate Resource
  | OpUpdate int Resource
  | OpDelete Kind int
  | OpSetEnabled Kind int bool
  | OpCertificates
  | OpAccessLists
  | OpPing
  | OpRecheck
  | OpDetect
  | OpCredentials string string string

fun perform :: "nat \<Rightarrow> net \<Rightarrow> client_op \<Rightarrow> Client \<Rightarrow> Client option" where
  "perform fuel n OpLogin c = Some (snd (login n c))"
| "perform fuel n (OpList kind) c = map_option snd (ListCollection fuel n kind c)"
| "perform fuel n (OpCreate r) c = map_option snd (Create fuel n r c)"
| "perform fuel n (OpUpdate i r) c = map_option snd (Update fuel n i r c)"
| "perform fuel n (OpDelete kind i) c = map_option snd (Delete fuel n kind i c)"
| "perform fuel n (OpSetEnabled kind i e) c = map_option snd (cl_SetEnabled fuel n kind i e c)"
| "perform fuel n OpCertificates c = map_option snd (ListCertificates fuel n c)"
| "perform fuel n OpAccessLists c = map_option snd (ListAccessLists fuel n c)"
| "perform fuel n OpPing c = map_option snd (Ping fuel n c)"
| "perform fuel n OpRecheck c = map_option snd (Recheck fuel n c)"
| "perform fuel n OpDetect c = map_option snd (DetectFlavour fuel n c)"
| "perform fuel n (OpCredentials email current new) c = map_option snd (UpdateOwnCredentials fuel n email current new c)"

fun performs :: "nat \<Rightarrow> net \<Rightarrow> client_op list \<Rightarrow> Client \<Rightarrow> Client option" where
  "performs fuel n [] c = Some c"
| "performs fuel n (op # ops) c = Option.bind (perform fuel n op c) (performs fuel n ops)"

section \<open>What reaches the log\<close>

definition secretish :: "string \<Rightarrow> bool" where
  "secretish key \<longleftrightarrow> list_ex (contains_str (to_lower key))
     [''credential'', ''secret'', ''password'', ''token'', ''api_key'', ''apikey'']"

fun redactValue :: "json \<Rightarrow> json" where
  "redactValue (JObj fs) = JObj (map (\<lambda>(k, v). (k, if secretish k then JStr ''***'' else redactValue v)) fs)"
| "redactValue (JArr xs) = JArr (map redactValue xs)"
| "redactValue JNull = JNull"
| "redactValue (JBool b) = JBool b"
| "redactValue (JNum n) = JNum n"
| "redactValue (JStr t) = JStr t"

text \<open>\<open>None\<close> is a body that is no JSON.\<close>

definition redactPayload :: "json option \<Rightarrow> json" where
  "redactPayload payload = (case payload of None \<Rightarrow> JStr ''<unparseable>'' | Some v \<Rightarrow> redactValue v)"

definition payloadKeys :: "json option \<Rightarrow> string list" where
  "payloadKeys payload = (case payload of Some (JObj fs) \<Rightarrow> sort (remdups (map fst fs)) | _ \<Rightarrow> [])"

text \<open>The body of \<open>UpdateOwnCredentials\<close> for the password.\<close>

definition password_json :: "string \<Rightarrow> string \<Rightarrow> json" where
  "password_json current new = JObj [(''type'', JStr ''password''), (''current'', JStr current), (''secret'', JStr new)]"

end
