(* ===== verification/ClientInvariants.thy ===== *)
theory ClientInvariants
  imports Client
begin

text \<open>
  Invariants of the API client. The locale \<open>client_invariant\<close> names what a property of the client
  state has to survive - one login, one exchange, the stores of the detection - and proves once that
  it then survives every operation, however deep re-detections nest. It is interpreted twice: on the
  log of requests with the session it implies, and on the pinned dialect.
\<close>

section \<open>Fields a step leaves alone\<close>

lemma cl_now_simps [simp]:
  "cl_Pinned (snd (cl_now n c)) = cl_Pinned c" "cl_Flavour (snd (cl_now n c)) = cl_Flavour c"
  "cl_Sent (snd (cl_now n c)) = cl_Sent c" "cl_Mode (snd (cl_now n c)) = cl_Mode c"
  "cl_Token (snd (cl_now n c)) = cl_Token c" "cl_Expires (snd (cl_now n c)) = cl_Expires c"
  "cl_LastProbe (snd (cl_now n c)) = cl_LastProbe c" "cl_Ticks (snd (cl_now n c)) = Suc (cl_Ticks c)"
  "fst (cl_now n c) = nt_Clock n (cl_Ticks c)"
  by (simp_all add: cl_now_def)

lemma invalidate_simps [simp]:
  "cl_Pinned (invalidate c) = cl_Pinned c" "cl_Flavour (invalidate c) = cl_Flavour c"
  "cl_Sent (invalidate c) = cl_Sent c" "cl_Mode (invalidate c) = AuthUnknown"
  "cl_LastProbe (invalidate c) = cl_LastProbe c" "cl_Ticks (invalidate c) = cl_Ticks c"
  by (simp_all add: invalidate_def)

lemma store_simps [simp]:
  "cl_Pinned (store_dialect d c) = cl_Pinned c" "cl_Flavour (store_dialect d c) = cl_Flavour c"
  "cl_Pinned (store_version v c) = cl_Pinned c" "cl_Flavour (store_version v c) = cl_Flavour c"
  "cl_Sent (store_dialect d c) = cl_Sent c" "cl_Sent (store_version v c) = cl_Sent c"
  "cl_LastProbe (store_dialect d c) = cl_LastProbe c" "cl_Ticks (store_dialect d c) = cl_Ticks c"
  "cl_Mode (store_dialect d c) = cl_Mode c" "cl_Mode (store_version v c) = cl_Mode c"
  "cl_Token (store_dialect d c) = cl_Token c" "cl_Token (store_version v c) = cl_Token c"
  "cl_Expires (store_dialect d c) = cl_Expires c" "cl_Expires (store_version v c) = cl_Expires c"
  by (simp_all add: store_dialect_def store_version_def)

lemma login_simps [simp]:
  "cl_Pinned (snd (login n c)) = cl_Pinned c" "cl_Flavour (snd (login n c)) = cl_Flavour c"
  "cl_Sent (snd (login n c)) = cl_Sent c @ [login_request c]" "cl_Ticks (snd (login n c)) = cl_Ticks c"
  "cl_LastProbe (snd (login n c)) = cl_LastProbe c"
  by (simp_all add: login_def send_def Let_def split: sum.splits)

lemma session_valid_simps [simp]:
  "cl_Pinned (snd (session_valid n c)) = cl_Pinned c" "cl_Flavour (snd (session_valid n c)) = cl_Flavour c"
  "cl_Sent (snd (session_valid n c)) = cl_Sent c" "cl_Mode (snd (session_valid n c)) = cl_Mode c"
  "cl_Token (snd (session_valid n c)) = cl_Token c" "cl_Expires (snd (session_valid n c)) = cl_Expires c"
  "cl_LastProbe (snd (session_valid n c)) = cl_LastProbe c"
  by (simp_all add: session_valid_def cl_now_def split: option.splits)

lemma session_valid_ticks: "cl_Ticks c \<le> cl_Ticks (snd (session_valid n c)) \<and> cl_Ticks (snd (session_valid n c)) \<le> cl_Ticks c + 1"
  by (simp add: session_valid_def cl_now_def split: option.splits)

lemma session_valid_mode: "fst (session_valid n c) \<Longrightarrow> cl_Mode c \<noteq> AuthUnknown"
  by (auto simp: session_valid_def split: if_splits)

lemma attempt_simps [simp]:
  "snd (attempt n m p b want c) = c\<lparr> cl_Sent := cl_Sent c @ [api_request m p b c] \<rparr>"
  "fst (fst (attempt n m p b want c)) = unauthorized (nt_Send n (cl_Sent c) (api_request m p b c))"
  by (simp_all add: attempt_def send_def)

text \<open>The two ways through \<open>ensureAuth\<close>: a valid session, or a login.\<close>

lemma ensureAuth_cases:
  assumes "ensureAuth n c = (e, c')"
  obtains (valid) "e = None" "cl_Mode c \<noteq> AuthUnknown" "c' = c\<lparr> cl_Ticks := cl_Ticks c' \<rparr>"
      "cl_Ticks c \<le> cl_Ticks c'" "cl_Ticks c' \<le> cl_Ticks c + 2"
  | (login) c0 where "c0 = c\<lparr> cl_Ticks := cl_Ticks c0 \<rparr>" "cl_Ticks c \<le> cl_Ticks c0" "cl_Ticks c0 \<le> cl_Ticks c + 2"
      "login n c0 = (e, c')"
proof -
  have upd: "\<exists>t. snd (session_valid n x) = x\<lparr> cl_Ticks := t \<rparr>" for x
    by (cases x) (simp add: session_valid_def cl_now_def split: option.splits)
  define c1 where "c1 = snd (session_valid n c)"
  define c2 where "c2 = snd (session_valid n c1)"
  obtain i where i: "c1 = c\<lparr> cl_Ticks := i \<rparr>" using upd [of c] by (auto simp: c1_def)
  obtain j where j: "c2 = c1\<lparr> cl_Ticks := j \<rparr>" using upd [of c1] by (auto simp: c2_def)
  have c1: "c1 = c\<lparr> cl_Ticks := cl_Ticks c1 \<rparr>" and c2: "c2 = c\<lparr> cl_Ticks := cl_Ticks c2 \<rparr>" by (simp_all add: i j)
  have t: "cl_Ticks c \<le> cl_Ticks c1" "cl_Ticks c1 \<le> cl_Ticks c + 1" "cl_Ticks c1 \<le> cl_Ticks c2" "cl_Ticks c2 \<le> cl_Ticks c1 + 1"
    using session_valid_ticks unfolding c1_def c2_def by blast+
  have m: "cl_Mode c1 = cl_Mode c" by (simp add: c1_def)
  have "(e, c') = (if fst (session_valid n c) then (None, c1) else if fst (session_valid n c1) then (None, c2) else login n c2)"
    using assms unfolding ensureAuth_def c1_def c2_def by (auto simp: split_def Let_def)
  then consider "fst (session_valid n c)" "e = None" "c' = c1" | "fst (session_valid n c1)" "e = None" "c' = c2" | "login n c2 = (e, c')"
    by (auto split: if_splits)
  then show thesis
  proof cases
    case 1
    with c1 t session_valid_mode show ?thesis by (intro valid) auto
  next
    case 2
    have "cl_Mode c \<noteq> AuthUnknown" using session_valid_mode [OF 2(1)] m by simp
    with 2 c2 t show ?thesis by (intro valid) auto
  next
    case 3
    with c2 t show ?thesis by (intro login) auto
  qed
qed

text \<open>The four ways through an exchange.\<close>

definition sending :: "request \<Rightarrow> Client \<Rightarrow> Client" where
  "sending q c = c\<lparr> cl_Sent := cl_Sent c @ [q] \<rparr>"

lemma sending_simps [simp]:
  "cl_Pinned (sending q c) = cl_Pinned c" "cl_Flavour (sending q c) = cl_Flavour c" "cl_Mode (sending q c) = cl_Mode c"
  "cl_Sent (sending q c) = cl_Sent c @ [q]" "cl_Token (sending q c) = cl_Token c" "cl_Expires (sending q c) = cl_Expires c"
  "cl_Ticks (sending q c) = cl_Ticks c" "cl_LastProbe (sending q c) = cl_LastProbe c"
  by (simp_all add: sending_def)

lemma exchange_cases:
  assumes "exchange n m p b want c = ((rejected, r), c')"
  obtains (refused) e where "ensureAuth n c = (Some e, c')" "\<not> rejected" "r = Inl e"
  | (once) c1 where "ensureAuth n c = (None, c1)" "c' = sending (api_request m p b c1) c1"
      "\<not> unauthorized (nt_Send n (cl_Sent c1) (api_request m p b c1))"
  | (lost) c1 e where "ensureAuth n c = (None, c1)"
      "unauthorized (nt_Send n (cl_Sent c1) (api_request m p b c1))"
      "login n (invalidate (sending (api_request m p b c1) c1)) = (Some e, c')" "\<not> rejected"
  | (twice) c1 c2 where "ensureAuth n c = (None, c1)"
      "unauthorized (nt_Send n (cl_Sent c1) (api_request m p b c1))"
      "login n (invalidate (sending (api_request m p b c1) c1)) = (None, c2)" "c' = sending (api_request m p b c2) c2"
proof -
  obtain e c1 where a: "ensureAuth n c = (e, c1)" by fastforce
  show thesis
  proof (cases e)
    case (Some e')
    with assms a show ?thesis by (intro refused) (auto simp: exchange_def)
  next
    case None
    define q where "q = api_request m p b c1"
    obtain r1 where t: "attempt n m p b want c1 = ((unauthorized (nt_Send n (cl_Sent c1) q), r1), sending q c1)"
      by (cases "attempt n m p b want c1") (use attempt_simps [of n m p b want c1] in \<open>auto simp: q_def sending_def\<close>)
    obtain e2 c2 where l: "login n (invalidate (sending q c1)) = (e2, c2)" by fastforce
    obtain s2 r2 where t2: "attempt n m p b want c2 = ((s2, r2), sending (api_request m p b c2) c2)"
      by (cases "attempt n m p b want c2") (use attempt_simps [of n m p b want c2] in \<open>auto simp: sending_def\<close>)
    show ?thesis
    proof (cases "unauthorized (nt_Send n (cl_Sent c1) q)")
      case False
      with assms a None t show ?thesis by (intro once [of c1]) (auto simp: exchange_def q_def)
    next
      case u: True
      show ?thesis
      proof (cases e2)
        case (Some e')
        with assms a None t u l show ?thesis by (intro lost [of c1 e']) (auto simp: exchange_def q_def)
      next
        case n2: None
        with assms a None t u l t2 show ?thesis by (intro twice [of c1 c2]) (auto simp: exchange_def q_def)
      qed
    qed
  qed
qed

section \<open>The operations keep an invariant\<close>

text \<open>A request the client makes outside of a login.\<close>

definition callable :: "string \<Rightarrow> req_body \<Rightarrow> bool" where
  "callable p b \<longleftrightarrow> p \<noteq> tokens_path \<and> (case b of Credentials _ _ \<Rightarrow> False | _ \<Rightarrow> True)"

lemma kind_Path_callable [simp]: "kind_Path kind \<noteq> tokens_path" "item_path kind i \<noteq> tokens_path"
    "item_path kind i @ s \<noteq> tokens_path"
  by (cases kind; simp add: tokens_path_def item_path_def)+

text \<open>What the detection has to keep: the exchanges a caller makes (\<open>G\<close>: with which methods) and the
  stores in between.\<close>

locale client_detection =
  fixes n :: net and P :: "Client \<Rightarrow> bool" and G :: "http_method \<Rightarrow> bool"
  assumes on_exchange: "P c \<Longrightarrow> callable p b \<Longrightarrow> G m \<Longrightarrow> P (snd (exchange n m p b want c))"
    and reads: "G GET"
    and on_clock: "P c \<Longrightarrow> P (snd (cl_now n c))"
    and on_probe: "P c \<Longrightarrow> P (c\<lparr> cl_LastProbe := t \<rparr>)"
    and on_dialect: "P c \<Longrightarrow> P (store_dialect d c)"
    and on_flavour: "P c \<Longrightarrow> \<not> cl_Pinned c \<Longrightarrow> P (c\<lparr> cl_Flavour := f \<rparr>)"
begin

text \<open>Pinning never changes on the way.\<close>

definition Q :: "bool \<Rightarrow> Client \<Rightarrow> bool" where
  "Q pin c \<longleftrightarrow> P c \<and> cl_Pinned c = pin"

definition keeps :: "caller \<Rightarrow> bool" where
  "keeps call \<longleftrightarrow> (\<forall>pin p c r c'. Q pin c \<longrightarrow> p \<noteq> tokens_path \<longrightarrow> call p c = Some (r, c') \<longrightarrow> Q pin c')"

lemma keepsD: "keeps call \<Longrightarrow> Q pin c \<Longrightarrow> p \<noteq> tokens_path \<Longrightarrow> call p c = Some (r, c') \<Longrightarrow> Q pin c'"
  unfolding keeps_def by blast

lemma exchange_Pinned: "cl_Pinned (snd (exchange n m p b want c)) = cl_Pinned c"
proof -
  obtain rej r c' where e: "exchange n m p b want c = ((rej, r), c')" by (metis surj_pair)
  have a: "cl_Pinned x' = cl_Pinned x" if "ensureAuth n x = (y, x')" for x y x'
    using that
  proof (cases rule: ensureAuth_cases)
    case valid
    show ?thesis by (subst valid(3)) simp
  next
    case (login c0)
    have "cl_Pinned x' = cl_Pinned c0" using login(4) login_simps(1) [of n c0] by simp
    also have "\<dots> = cl_Pinned x" by (subst login(1)) simp
    finally show ?thesis .
  qed
  have l: "cl_Pinned x' = cl_Pinned x" if "login n x = (y, x')" for x y x'
    using that login_simps(1) [of n x] by simp
  from e show ?thesis
    by (cases rule: exchange_cases) (auto simp: e dest!: a l)
qed

lemma Q_exchange: "Q pin c \<Longrightarrow> callable p b \<Longrightarrow> G m \<Longrightarrow> exchange n m p b want c = (x, c') \<Longrightarrow> Q pin c'"
  using on_exchange [of c p b m want] exchange_Pinned [of m p b want c] by (simp add: Q_def)

lemma Q_store [simp, intro]: "Q pin c \<Longrightarrow> Q pin (store_dialect d c)"
  by (simp add: Q_def on_dialect)

lemma Q_flavour: "Q False c \<Longrightarrow> Q False (c\<lparr> cl_Flavour := f \<rparr>)"
  by (simp add: Q_def on_flavour)

lemma Q_probe: "Q pin c \<Longrightarrow> Q pin (note_probe n c)" "Q pin c \<Longrightarrow> Q pin (snd (cooling n c))"
  using on_probe on_clock by (simp_all add: Q_def note_probe_def cooling_def split_def Let_def)

lemma tokens_path_other [simp]: "''/api/'' \<noteq> tokens_path" "''/api/schema'' \<noteq> tokens_path"
  by (simp_all add: tokens_path_def)

lemma Q_health: "keeps call \<Longrightarrow> Q pin c \<Longrightarrow> health call c = Some (r, c') \<Longrightarrow> Q pin c'"
  by (auto simp: health_def dest: keepsD [where p = "''/api/''"])

lemma Q_flavour_of: "keeps call \<Longrightarrow> Q pin c \<Longrightarrow> flavour_of call hosts c = Some (f, c') \<Longrightarrow> Q pin c'"
  by (auto simp: flavour_of_def split: if_splits dest: Q_health)

lemma Q_probeFlavour:
  assumes "keeps call" "Q pin c" "probeFlavour call c = Some (r, c')"
  shows "Q pin c'"
proof -
  obtain l c1 where l: "call (kind_Path KindProxy) c = Some (l, c1)" using assms(3) by (auto simp: probeFlavour_def bind_eq_Some_conv)
  have "Q pin c1" by (rule keepsD [OF assms(1,2) kind_Path_callable(1) l])
  then show ?thesis using assms(3) Q_flavour_of [OF assms(1)] by (auto simp: probeFlavour_def l simp del: kind_Path.simps split: sum.splits)
qed

lemma Q_learn:
  assumes "keeps call" "Q pin c" "learn call hosts c = Some c'"
  shows "Q pin c'"
proof -
  obtain schema c1 where f: "fetchWriteSchema call c = Some (schema, c1)" using assms(3) by (auto simp: learn_def bind_eq_Some_conv)
  then have c1: "Q pin c1" using keepsD [OF assms(1,2) tokens_path_other(2)] by (auto simp: fetchWriteSchema_def)
  have "Q pin c2" if "listed_hosts call hosts c1 = Some (hs, c2)" for hs c2
    using that c1 keepsD [OF assms(1) c1 kind_Path_callable(1) [of KindProxy]] by (auto simp: listed_hosts_def split: option.splits)
  with assms(3) f c1 show ?thesis by (auto simp: learn_def split: sum.splits)
qed

lemma Q_reprobe:
  assumes "keeps call" "Q pin c" "reprobe call c = Some c'"
  shows "Q pin c'"
proof (cases "cl_Pinned c")
  case True
  with assms show ?thesis by (auto simp: reprobe_def dest: Q_learn)
next
  case False
  with assms(2) have q: "Q False c" and pin: "\<not> pin" by (simp_all add: Q_def)
  from False assms(3) obtain r c1 where p: "probeFlavour call c = Some (r, c1)"
      and e: "(case r of Inl _ \<Rightarrow> Some c1 | Inr (f, hosts) \<Rightarrow> learn call hosts (c1\<lparr> cl_Flavour := f \<rparr>)) = Some c'"
    by (auto simp: reprobe_def bind_eq_Some_conv)
  have "Q False c1" by (rule Q_probeFlavour [OF assms(1) q p])
  then have "Q False c'"
    using e Q_learn [OF assms(1) Q_flavour] by (auto split: sum.splits)
  with pin show ?thesis by simp
qed

lemma Q_after_rejection:
  assumes "\<And>c c'. Q pin c \<Longrightarrow> probe c = Some c' \<Longrightarrow> Q pin c'" "Q pin c" "after_rejection n probe c = Some c'"
  shows "Q pin c'"
  using assms Q_probe [OF assms(2)] Q_probe(1) by (auto simp: after_rejection_def split_def Let_def split: if_splits)

lemma Q_do_call: "Q pin c \<Longrightarrow> callable p b \<Longrightarrow> G m \<Longrightarrow> do_call fuel n m p b want c = Some (r, c') \<Longrightarrow> Q pin c'"
proof (induction fuel arbitrary: pin m p b want c r c')
  case 0
  from 0(4) show ?case
  proof (cases rule: do_call_cases)
    case (rejected c1)
    show ?thesis by (rule Q_after_rejection [OF _ Q_exchange [OF 0(1-3) rejected(1)] rejected(2)]) (simp add: deeper_def)
  qed (rule Q_exchange [OF 0(1-3)])
next
  case (Suc f)
  have k: "keeps (\<lambda>p c. do_call f n GET p NoBody True c)"
    unfolding keeps_def using Suc.IH [of _ _ _ NoBody GET] by (auto simp: callable_def reads)
  from Suc.prems(4) show ?case
  proof (cases rule: do_call_cases)
    case (rejected c1)
    show ?thesis
      by (rule Q_after_rejection [OF _ Q_exchange [OF Suc.prems(1-3) rejected(1)] rejected(2)]) (simp add: deeper_def Q_reprobe [OF k])
  qed (rule Q_exchange [OF Suc.prems(1-3)])
qed

lemma keeps_get_call: "keeps (get_call fuel n)"
  unfolding keeps_def get_call_def using Q_do_call [of _ _ _ NoBody GET] by (auto simp: callable_def reads)

lemma Q_reprobeFlavour: "Q pin c \<Longrightarrow> reprobeFlavour fuel n c = Some c' \<Longrightarrow> Q pin c'"
  unfolding reprobeFlavour_def by (rule Q_after_rejection [OF Q_reprobe [OF keeps_get_call]])

end

text \<open>What an invariant has to survive to survive every operation.\<close>

locale client_invariant = client_detection n P "\<lambda>_. True" for n P +
  assumes on_login: "P c \<Longrightarrow> P (snd (login n c))"
    and on_version: "P c \<Longrightarrow> P (store_version v c)"
    and pinned: "P c \<Longrightarrow> cl_Pinned c \<Longrightarrow> cl_Flavour c \<noteq> FlavourAuto"
    and on_rotation: "P c \<Longrightarrow> P ((invalidate c)\<lparr> cl_Identity := i, cl_Secret := s \<rparr>)"
begin

lemma Q_version [simp, intro]: "Q pin c \<Longrightarrow> Q pin (store_version v c)"
  by (simp add: Q_def on_version)

lemma Q_write:
  assumes "Q pin c" "callable p b" "map_option snd (do_call fuel n m p b want c) = Some c'"
  shows "Q pin c'"
  using assms Q_do_call by fastforce

lemma Q_readVersion:
  assumes "Q pin c" "readVersion fuel n c = Some c'"
  shows "Q pin c'"
proof -
  obtain r c1 where h: "health (get_call fuel n) c = Some (r, c1)" using assms(2) by (auto simp: readVersion_def)
  have "Q pin c1" by (rule Q_health [OF keeps_get_call assms(1) h])
  then show ?thesis using assms(2) by (cases r) (auto simp: readVersion_def h)
qed

lemma Q_Recheck:
  assumes "Q pin c" "Recheck fuel n c = Some (e, c')"
  shows "Q pin c'"
proof -
  obtain r c1 where h: "health (get_call fuel n) c = Some (r, c1)" using assms(2) by (auto simp: Recheck_def bind_eq_Some_conv)
  have c1: "Q pin c1" by (rule Q_health [OF keeps_get_call assms(1) h])
  show ?thesis using assms(2) c1 by (auto simp: Recheck_def h Let_def split: sum.splits if_splits dest: Q_reprobeFlavour [OF Q_version])
qed

lemma Q_DetectFlavour:
  assumes "Q pin c" "DetectFlavour fuel n c = Some (r, c')"
  shows "Q pin c'"
proof -
  obtain c1 where v: "readVersion fuel n c = Some c1" using assms(2) by (auto simp: DetectFlavour_def bind_eq_Some_conv)
  have c1: "Q pin c1" by (rule Q_readVersion [OF assms(1) v])
  show ?thesis
  proof (cases "cl_Flavour c1 = FlavourAuto")
    case False
    then show ?thesis using assms(2) c1 by (auto simp: DetectFlavour_def v dest: Q_learn [OF keeps_get_call])
  next
    case True
    with c1 pinned [of c1] have u: "\<not> pin" by (auto simp: Q_def)
    then have q: "Q False c1" using c1 by simp
    obtain x c2 where p: "probeFlavour (get_call fuel n) c1 = Some (x, c2)"
        and e: "(case x of Inl e \<Rightarrow> Some (Inl e, c2)
          | Inr (f, hosts) \<Rightarrow> map_option (Pair (Inr f)) (learn (get_call fuel n) hosts (c2\<lparr> cl_Flavour := f \<rparr>))) = Some (r, c')"
      using assms(2) True by (auto simp: DetectFlavour_def v bind_eq_Some_conv)
    have "Q False c2" by (rule Q_probeFlavour [OF keeps_get_call q p])
    then have "Q False c'" using e Q_learn [OF keeps_get_call Q_flavour] by (auto split: sum.splits)
    with u show ?thesis by simp
  qed
qed

lemma callable_simps [simp]:
  "p \<noteq> tokens_path \<Longrightarrow> callable p NoBody" "p \<noteq> tokens_path \<Longrightarrow> callable p (HostBody x)"
  "callable ''/api/users/me'' (Profile email)" "callable ''/api/users/me/auth'' (NewPassword old new)"
  "callable ''/api/nginx/certificates'' NoBody" "callable ''/api/nginx/access-lists'' NoBody"
  by (simp_all add: callable_def tokens_path_def)

lemma Q_UpdateOwnCredentials:
  assumes "Q pin c" "UpdateOwnCredentials fuel n email current new c = Some (r, c')"
  shows "Q pin c'"
proof -
  obtain r1 c1 where p: "do_call fuel n PUT ''/api/users/me'' (Profile email) False c = Some (r1, c1)"
    using assms(2) by (auto simp: UpdateOwnCredentials_def bind_eq_Some_conv)
  have c1: "Q pin c1" by (rule Q_do_call [OF assms(1) _ _ p]) simp_all
  have rot: "Q pin x \<Longrightarrow> Q pin ((invalidate x)\<lparr> cl_Identity := i, cl_Secret := s \<rparr>)" for x i s
    using on_rotation by (simp add: Q_def)
  show ?thesis
  proof (cases r1)
    case (Inl e)
    with assms(2) c1 show ?thesis by (simp add: UpdateOwnCredentials_def p)
  next
    case (Inr v)
    then obtain c2 where d: "do_call fuel n PUT ''/api/users/me/auth'' (NewPassword current new) False c1 = Some (r, c2)"
        and c': "c' = (case r of Inl _ \<Rightarrow> c2 | Inr _ \<Rightarrow> (invalidate c2)\<lparr> cl_Identity := email, cl_Secret := new \<rparr>)"
      using assms(2) by (auto simp: UpdateOwnCredentials_def p)
    have "Q pin c2" by (rule Q_do_call [OF c1 callable_simps(4) _ d]) simp
    with rot show ?thesis unfolding c' by (cases r) auto
  qed
qed

lemma Q_perform: "Q pin c \<Longrightarrow> perform fuel n op c = Some c' \<Longrightarrow> Q pin c'"
proof (cases op)
  case OpLogin
  assume "Q pin c" "perform fuel n op c = Some c'"
  with OpLogin show ?thesis using on_login by (auto simp: Q_def)
qed (auto simp: ListCollection_def Create_def Update_def Delete_def cl_SetEnabled_def ListCertificates_def ListAccessLists_def
    Ping_def simp del: kind_Path.simps split: sum.splits
    elim: Q_do_call [rotated 3] Q_Recheck Q_DetectFlavour Q_UpdateOwnCredentials)

lemma performs_keep: "P c \<Longrightarrow> performs fuel n ops c = Some c' \<Longrightarrow> P c'"
proof -
  have "Q pin c \<Longrightarrow> performs fuel n ops c = Some c' \<Longrightarrow> Q pin c'" for pin
    by (induction ops arbitrary: c) (auto simp: bind_eq_Some_conv dest: Q_perform)
  then show "P c \<Longrightarrow> performs fuel n ops c = Some c' \<Longrightarrow> P c'" unfolding Q_def by blast
qed

end

section \<open>Detection with a budget\<close>

text \<open>A detection makes at most four calls. When each of them returns, as long as the budget lasts, so
  does the detection.\<close>

locale budgeted_caller =
  fixes call :: caller and S :: "nat \<Rightarrow> Client \<Rightarrow> bool"
  assumes returns: "S k c \<Longrightarrow> k < 4 \<Longrightarrow> p \<noteq> tokens_path \<Longrightarrow> \<exists>r c'. call p c = Some (r, c') \<and> S (Suc k) c'"
    and more: "S k c \<Longrightarrow> S (Suc k) c"
    and stores: "S k c \<Longrightarrow> S k (store_dialect d c)" "S k c \<Longrightarrow> S k (c\<lparr> cl_Flavour := f \<rparr>)"
begin

lemma health_returns: "S k c \<Longrightarrow> k < 4 \<Longrightarrow> \<exists>r c'. health call c = Some (r, c') \<and> S (Suc k) c'"
  using returns [of k c "''/api/''"] by (auto simp: health_def tokens_path_def)

lemma flavour_of_returns: "S k c \<Longrightarrow> k < 4 \<Longrightarrow> \<exists>f c'. flavour_of call hosts c = Some (f, c') \<and> S (Suc k) c'"
  using health_returns [of k c] more [of k c] by (auto simp: flavour_of_def)

lemma probeFlavour_returns:
  assumes "S k c" "k < 3"
  shows "\<exists>r c'. probeFlavour call c = Some (r, c') \<and> S (Suc (Suc k)) c'"
proof -
  obtain r c1 where c1: "call (kind_Path KindProxy) c = Some (r, c1)" "S (Suc k) c1"
    using returns [OF assms(1) _ kind_Path_callable(1)] assms(2) by fastforce
  show ?thesis
  proof (cases "listing_of r")
    case (Inl e)
    with c1 more show ?thesis by (simp add: probeFlavour_def del: kind_Path.simps)
  next
    case (Inr hosts)
    obtain f c2 where "flavour_of call (case hosts of Some hs \<Rightarrow> hs | None \<Rightarrow> []) c1 = Some (f, c2)" "S (Suc (Suc k)) c2"
      using flavour_of_returns [OF c1(2)] assms(2) by fastforce
    with Inr c1 show ?thesis by (simp add: probeFlavour_def del: kind_Path.simps)
  qed
qed

lemma listed_hosts_returns:
  assumes "S k c" "k < 4"
  shows "\<exists>hs c'. listed_hosts call hosts c = Some (hs, c') \<and> S (Suc k) c'"
proof (cases hosts)
  case None
  from returns [OF assms kind_Path_callable(1) [of KindProxy]] show ?thesis
    by (auto simp: listed_hosts_def None simp del: kind_Path.simps)
next
  case (Some hs)
  with more assms(1) show ?thesis by (simp add: listed_hosts_def)
qed

lemma learn_returns:
  assumes "S k c" "k < 3"
  shows "\<exists>c'. learn call hosts c = Some c' \<and> S (Suc (Suc k)) c'"
proof -
  have k: "k < 4" using assms(2) by simp
  have "''/api/schema'' \<noteq> tokens_path" by (simp add: tokens_path_def)
  from returns [OF assms(1) k this]
  obtain r c1 where r: "call ''/api/schema'' c = Some (r, c1)" and c1: "S (Suc k) c1" by blast
  obtain schema where f: "fetchWriteSchema call c = Some (schema, c1)" by (auto simp: fetchWriteSchema_def r)
  show ?thesis
  proof (cases schema)
    case (Inr s)
    with f c1 more stores show ?thesis by (simp add: learn_def)
  next
    case (Inl e)
    obtain hs c2 where "listed_hosts call hosts c1 = Some (hs, c2)" "S (Suc (Suc k)) c2"
      using listed_hosts_returns [OF c1] assms(2) by fastforce
    with Inl f stores show ?thesis by (simp add: learn_def)
  qed
qed

lemma reprobe_returns:
  assumes "S 0 c"
  shows "\<exists>c'. reprobe call c = Some c' \<and> S 4 c'"
proof (cases "cl_Pinned c")
  case True
  have "\<exists>c'. learn call None c = Some c' \<and> S 4 c'"
    using learn_returns [OF assms, of None] more by (fastforce simp: eval_nat_numeral)
  with True show ?thesis by (simp add: reprobe_def)
next
  case False
  obtain r c1 where p: "probeFlavour call c = Some (r, c1)" "S 2 c1"
    using probeFlavour_returns [OF assms] by (auto simp: eval_nat_numeral)
  show ?thesis
  proof (cases r)
    case (Inl e)
    have "S 4 c1" using more [OF more [OF p(2)]] by (simp add: eval_nat_numeral)
    with False p Inl show ?thesis by (simp add: reprobe_def)
  next
    case (Inr x)
    obtain f hosts where x: "x = (f, hosts)" by fastforce
    have "\<exists>c'. learn call hosts (c1\<lparr> cl_Flavour := f \<rparr>) = Some c' \<and> S 4 c'"
      using learn_returns [OF stores(2) [OF p(2)]] by (fastforce simp: eval_nat_numeral)
    with False p Inr x show ?thesis by (simp add: reprobe_def)
  qed
qed

end

end
