(* ===== verification/ClientSafety.thy ===== *)
theory ClientSafety
  imports ClientInvariants
begin

text \<open>
  What the API client guarantees to the server and to the operator: every request goes out in the
  session of the last successful login, a pinned flavour stays, a write is only repeated after the
  server refused it as unauthorized, a call returns after a bounded number of requests, and logged
  bodies do not depend on secrets.
\<close>

section \<open>The session, read off the requests\<close>

text \<open>A condition on each request of a list and on what was sent before it.\<close>

fun each_request :: "(request list \<Rightarrow> request \<Rightarrow> bool) \<Rightarrow> request list \<Rightarrow> request list \<Rightarrow> bool" where
  "each_request ok h [] \<longleftrightarrow> True"
| "each_request ok h (q # qs) \<longleftrightarrow> ok h q \<and> each_request ok (h @ [q]) qs"

lemma each_request_append [simp]: "each_request ok h (xs @ ys) \<longleftrightarrow> each_request ok h xs \<and> each_request ok (h @ xs) ys"
  by (induction xs arbitrary: h) auto

text \<open>The last session a login granted.\<close>

fun session_from ::
  "net \<Rightarrow> (AuthMode \<times> string \<times> int option) option \<Rightarrow> request list \<Rightarrow> request list \<Rightarrow> (AuthMode \<times> string \<times> int option) option" where
  "session_from n s h [] = s"
| "session_from n s h (q # qs) =
     session_from n (if rq_Path q = tokens_path then (case granted (nt_Send n h q) of Inr g \<Rightarrow> Some g | Inl _ \<Rightarrow> s) else s)
       (h @ [q]) qs"

definition session_after :: "net \<Rightarrow> request list \<Rightarrow> (AuthMode \<times> string \<times> int option) option" where
  "session_after n qs = session_from n None [] qs"

lemma session_from_append: "session_from n s h (xs @ ys) = session_from n (session_from n s h xs) (h @ xs) ys"
  by (induction xs arbitrary: s h) auto

lemma session_after_snoc:
  "session_after n (qs @ [q]) =
     (if rq_Path q = tokens_path then (case granted (nt_Send n qs q) of Inr g \<Rightarrow> Some g | Inl _ \<Rightarrow> session_after n qs)
      else session_after n qs)"
  by (simp add: session_after_def session_from_append split: sum.splits)

text \<open>A login carries the credentials and no session; any other request carries no credentials and
  the session of the last successful login: its token, or nothing when the cookie jar holds it.\<close>

definition authentic :: "net \<Rightarrow> request list \<Rightarrow> request \<Rightarrow> bool" where
  "authentic n h q \<longleftrightarrow>
     (if rq_Path q = tokens_path
      then rq_Method q = POST \<and> rq_Auth q = None \<and> (case rq_Body q of Credentials _ _ \<Rightarrow> True | _ \<Rightarrow> False)
      else (case rq_Body q of Credentials _ _ \<Rightarrow> False | _ \<Rightarrow> True)
        \<and> (case session_after n h of
             None \<Rightarrow> False
           | Some (mode, tok, _) \<Rightarrow> rq_Auth q = (if mode = AuthBearer then Some (''Bearer '' @ tok) else None)))"

definition session_inv :: "net \<Rightarrow> Client \<Rightarrow> bool" where
  "session_inv n c \<longleftrightarrow> cl_Mode c = AuthUnknown
     \<or> (session_after n (cl_Sent c) = Some (cl_Mode c, cl_Token c, cl_Expires c) \<and> (cl_Mode c = AuthBearer \<longrightarrow> cl_Token c \<noteq> []))"

definition authentic_log :: "net \<Rightarrow> Client \<Rightarrow> bool" where
  "authentic_log n c \<longleftrightarrow> each_request (authentic n) [] (cl_Sent c) \<and> session_inv n c \<and> (cl_Pinned c \<longrightarrow> cl_Flavour c \<noteq> FlavourAuto)"

lemma authentic_log_cong:
  assumes "cl_Sent c' = cl_Sent c" "cl_Mode c' = cl_Mode c" "cl_Token c' = cl_Token c" "cl_Expires c' = cl_Expires c"
    and "cl_Pinned c' = cl_Pinned c" "cl_Flavour c' = cl_Flavour c" "authentic_log n c"
  shows "authentic_log n c'"
  using assms by (simp add: authentic_log_def session_inv_def)

lemma granted_bearer: "granted reply = Inr (AuthBearer, tok, ex) \<Longrightarrow> tok \<noteq> []"
  and granted_known: "granted reply = Inr (mode, tok, ex) \<Longrightarrow> mode \<noteq> AuthUnknown"
  by (auto simp: granted_def Let_def split: sum.splits prod.splits if_splits)

lemma authentic_login:
  assumes "authentic_log n c"
  shows "authentic_log n (snd (login n c))"
proof -
  have "authentic n (cl_Sent c) (login_request c)" by (simp add: authentic_def login_request_def)
  moreover have p: "rq_Path (login_request c) = tokens_path" by (simp add: login_request_def)
  have "session_inv n (snd (login n c))"
  proof (cases "granted (nt_Send n (cl_Sent c) (login_request c))")
    case (Inl e)
    with assms show ?thesis by (simp add: authentic_log_def session_inv_def login_def send_def session_after_snoc p)
  next
    case (Inr g)
    obtain mode tok ex where g: "g = (mode, tok, ex)" by (cases g)
    with Inr granted_bearer show ?thesis by (auto simp: session_inv_def login_def send_def session_after_snoc p)
  qed
  ultimately show ?thesis using assms by (simp add: authentic_log_def)
qed

lemma login_mode: "login n c = (None, c') \<Longrightarrow> cl_Mode c' \<noteq> AuthUnknown"
  using granted_known by (auto simp: login_def send_def split: sum.splits)

lemma authentic_send:
  assumes "authentic_log n c" "cl_Mode c \<noteq> AuthUnknown" "callable p b"
  shows "authentic_log n (sending (api_request m p b c) c)"
proof -
  have "session_after n (cl_Sent c) = Some (cl_Mode c, cl_Token c, cl_Expires c)" "cl_Mode c = AuthBearer \<longrightarrow> cl_Token c \<noteq> []"
    using assms(1,2) by (auto simp: authentic_log_def session_inv_def)
  moreover from this have "authentic n (cl_Sent c) (api_request m p b c)"
    using assms(3) by (auto simp: authentic_def api_request_def callable_def applyAuth_def split: req_body.splits)
  ultimately show ?thesis using assms(1,3)
    by (auto simp: authentic_log_def session_inv_def session_after_snoc api_request_def callable_def)
qed

lemma authentic_invalidate: "authentic_log n c \<Longrightarrow> authentic_log n (invalidate c)"
  by (simp add: authentic_log_def session_inv_def)

lemma authentic_ensureAuth:
  assumes "authentic_log n c" "ensureAuth n c = (e, c')"
  shows "authentic_log n c' \<and> (e = None \<longrightarrow> cl_Mode c' \<noteq> AuthUnknown)"
  using assms(2)
proof (cases rule: ensureAuth_cases)
  case valid
  have "authentic_log n c'" by (subst valid(3)) (rule authentic_log_cong [OF _ _ _ _ _ _ assms(1)], simp_all)
  moreover have "cl_Mode c' = cl_Mode c" by (subst valid(3)) simp
  ultimately show ?thesis using valid(2) by simp
next
  case (login c0)
  have "authentic_log n c0" by (subst login(1)) (rule authentic_log_cong [OF _ _ _ _ _ _ assms(1)], simp_all)
  from authentic_login [OF this] login(4) login_mode show ?thesis by auto
qed

lemma authentic_exchange:
  assumes "authentic_log n c" "callable p b"
  shows "authentic_log n (snd (exchange n m p b want c))"
proof -
  obtain rej r c' where e: "exchange n m p b want c = ((rej, r), c')" by (metis surj_pair)
  note ensure = authentic_ensureAuth [OF assms(1)]
  have first: "authentic_log n (sending (api_request m p b c1) c1)" if "ensureAuth n c = (None, c1)" for c1
    using authentic_send [OF _ _ assms(2)] ensure [OF that] by blast
  have again: "authentic_log n c3 \<and> (x = None \<longrightarrow> cl_Mode c3 \<noteq> AuthUnknown)"
    if "ensureAuth n c = (None, c1)" "login n (invalidate (sending (api_request m p b c1) c1)) = (x, c3)" for c1 c3 x
    using authentic_login [OF authentic_invalidate [OF first [OF that(1)]]] that(2) login_mode by fastforce
  from e have "authentic_log n c'"
  proof (cases rule: exchange_cases)
    case (twice c1 c2)
    then show ?thesis using again authentic_send [OF _ _ assms(2)] by blast
  qed (use ensure first again in blast)+
  then show ?thesis by (simp add: e)
qed

interpretation authenticated: client_invariant n "authentic_log n" for n
proof
  show "authentic_log n c \<Longrightarrow> authentic_log n (snd (login n c))" for c by (rule authentic_login)
  show "authentic_log n c \<Longrightarrow> callable p b \<Longrightarrow> authentic_log n (snd (exchange n m p b want c))" for c p b m want
    by (rule authentic_exchange)
  show "authentic_log n c \<Longrightarrow> cl_Pinned c \<Longrightarrow> cl_Flavour c \<noteq> FlavourAuto" for c by (simp add: authentic_log_def)
  show "authentic_log n c \<Longrightarrow> authentic_log n ((invalidate c)\<lparr> cl_Identity := i, cl_Secret := s \<rparr>)" for c i s
    by (simp add: authentic_log_def session_inv_def)
  show "authentic_log n c \<Longrightarrow> \<not> cl_Pinned c \<Longrightarrow> authentic_log n (c\<lparr> cl_Flavour := f \<rparr>)" for c f
    by (simp add: authentic_log_def session_inv_def)
qed (auto elim!: authentic_log_cong [rotated -1])

text \<open>The dialect of a pinned client: the flavour it was created with.\<close>

definition keeps_flavour :: "Flavour \<Rightarrow> Client \<Rightarrow> bool" where
  "keeps_flavour f c \<longleftrightarrow> cl_Pinned c \<and> cl_Flavour c = f \<and> f \<noteq> FlavourAuto"

lemma ensureAuth_Flavour:
  "ensureAuth n c = (e, c') \<Longrightarrow> cl_Flavour c' = cl_Flavour c \<and> cl_Pinned c' = cl_Pinned c"
proof (erule ensureAuth_cases, goal_cases)
  case 1
  then show ?case by (metis Client.select_convs(6,7) Client.surjective Client.update_convs(14))
next
  case (2 c0)
  have "cl_Flavour c0 = cl_Flavour c \<and> cl_Pinned c0 = cl_Pinned c" by (subst (1 2) 2(1)) simp
  with 2(4) login_simps(1,2) [of n c0] show ?case by simp
qed

lemma exchange_Flavour:
  "exchange n m p b want c = ((rej, r), c') \<Longrightarrow> cl_Flavour c' = cl_Flavour c \<and> cl_Pinned c' = cl_Pinned c"
proof (erule exchange_cases, goal_cases)
  case (1 e)
  then show ?case using ensureAuth_Flavour by blast
next
  case (2 c1)
  then show ?case using ensureAuth_Flavour [OF 2(1)] by simp
next
  case (3 c1 e)
  then show ?case using ensureAuth_Flavour [OF 3(1)] login_simps(1,2) [of n "invalidate (sending (api_request m p b c1) c1)"] by simp
next
  case (4 c1 c2)
  then show ?case using ensureAuth_Flavour [OF 4(1)] login_simps(1,2) [of n "invalidate (sending (api_request m p b c1) c1)"] by simp
qed

interpretation pinned: client_invariant n "keeps_flavour f" for n f
proof
  show "keeps_flavour f c \<Longrightarrow> keeps_flavour f (snd (exchange n m p b want c))" for c m p b want
    using exchange_Flavour [of n m p b want c] by (cases "exchange n m p b want c") (auto simp: keeps_flavour_def)
qed (auto simp: keeps_flavour_def)

section \<open>Replays\<close>

text \<open>A request that can change the server, and a log in which such a request is followed by another
  one only where the server refused it as unauthorized.\<close>

definition is_change :: "request \<Rightarrow> bool" where
  "is_change q \<longleftrightarrow> rq_Method q \<noteq> GET \<and> rq_Path q \<noteq> tokens_path"

fun spaced :: "net \<Rightarrow> request list \<Rightarrow> request list \<Rightarrow> bool" where
  "spaced n h [] \<longleftrightarrow> True"
| "spaced n h (q # qs) \<longleftrightarrow>
     (is_change q \<longrightarrow> list_ex is_change qs \<longrightarrow> unauthorized (nt_Send n h q)) \<and> spaced n (h @ [q]) qs"

lemma quiet_spaced: "\<not> list_ex is_change qs \<Longrightarrow> spaced n h qs"
  by (induction qs arbitrary: h) auto

lemma spaced_append_quiet: "\<not> list_ex is_change ys \<Longrightarrow> spaced n h (xs @ ys) \<longleftrightarrow> spaced n h xs"
  by (induction xs arbitrary: h) (auto simp: quiet_spaced)

lemma login_quiet [simp]: "\<not> is_change (login_request c)"
  by (simp add: is_change_def login_request_def)

lemma api_request_simps [simp]:
  "rq_Method (api_request m p b c) = m" "rq_Path (api_request m p b c) = p" "rq_Body (api_request m p b c) = b"
  by (simp_all add: api_request_def)

lemma api_request_change [simp]: "is_change (api_request m p b c) \<longleftrightarrow> m \<noteq> GET \<and> p \<noteq> tokens_path"
  by (simp add: is_change_def)

lemma ensureAuth_trace:
  assumes "ensureAuth n c = (e, c')"
  shows "\<exists>ls. cl_Sent c' = cl_Sent c @ ls \<and> length ls \<le> 1 \<and> \<not> list_ex is_change ls"
    and "cl_LastProbe c' = cl_LastProbe c" "cl_Ticks c \<le> cl_Ticks c'" "cl_Ticks c' \<le> cl_Ticks c + 2"
proof -
  from assms have "(\<exists>ls. cl_Sent c' = cl_Sent c @ ls \<and> length ls \<le> 1 \<and> \<not> list_ex is_change ls)
    \<and> cl_LastProbe c' = cl_LastProbe c \<and> cl_Ticks c \<le> cl_Ticks c' \<and> cl_Ticks c' \<le> cl_Ticks c + 2"
  proof (cases rule: ensureAuth_cases)
    case valid
    have "cl_Sent c' = cl_Sent c" "cl_LastProbe c' = cl_LastProbe c" by (subst valid(3), simp)+
    with valid show ?thesis by simp
  next
    case (login c0)
    have s: "cl_Sent c0 = cl_Sent c" "cl_LastProbe c0 = cl_LastProbe c" by (subst login(1), simp)+
    have "cl_Sent c' = cl_Sent c @ [login_request c0]" "cl_LastProbe c' = cl_LastProbe c" "cl_Ticks c' = cl_Ticks c0"
      using login(4) login_simps [of n c0] s by simp_all
    with login show ?thesis by simp
  qed
  then show "\<exists>ls. cl_Sent c' = cl_Sent c @ ls \<and> length ls \<le> 1 \<and> \<not> list_ex is_change ls"
    "cl_LastProbe c' = cl_LastProbe c" "cl_Ticks c \<le> cl_Ticks c'" "cl_Ticks c' \<le> cl_Ticks c + 2" by blast+
qed

text \<open>What one exchange adds to the log.\<close>

definition same_request :: "http_method \<Rightarrow> string \<Rightarrow> req_body \<Rightarrow> request \<Rightarrow> bool" where
  "same_request m p b q \<longleftrightarrow> rq_Method q = m \<and> rq_Path q = p \<and> rq_Body q = b"

definition exchanged :: "net \<Rightarrow> http_method \<Rightarrow> string \<Rightarrow> req_body \<Rightarrow> request list \<Rightarrow> request list \<Rightarrow> bool" where
  "exchanged n m p b h qs \<longleftrightarrow> length qs \<le> 4 \<and> length (filter is_change qs) \<le> 2
     \<and> list_all (same_request m p b) (filter is_change qs) \<and> spaced n h qs"

lemma exchange_trace:
  assumes "exchange n m p b want c = ((rej, r), c')"
  shows "\<exists>qs. cl_Sent c' = cl_Sent c @ qs \<and> exchanged n m p b (cl_Sent c) qs"
    and "cl_LastProbe c' = cl_LastProbe c" "cl_Ticks c \<le> cl_Ticks c'" "cl_Ticks c' \<le> cl_Ticks c + 2"
proof -
  have pre: "exchanged n m p b h (ls @ [q])" "unauthorized (nt_Send n (h @ ls) q) \<Longrightarrow> exchanged n m p b h (ls @ [q, login_request c0])"
    "unauthorized (nt_Send n (h @ ls) q) \<Longrightarrow> exchanged n m p b h (ls @ [q, login_request c0, q'])"
    if "length ls \<le> 1" "\<not> list_ex is_change ls" "same_request m p b q" "same_request m p b q'" for h ls q q' c0
  proof -
    have l: "filter is_change ls = []" using that(2) by (auto simp: list_ex_iff filter_empty_conv)
    have sp: "spaced n h (ls @ rs) \<longleftrightarrow> spaced n (h @ ls) rs" for rs
      using that(2) by (induction ls arbitrary: h) auto
    show "exchanged n m p b h (ls @ [q])" using that l by (simp add: exchanged_def sp)
    show "exchanged n m p b h (ls @ [q, login_request c0])" if "unauthorized (nt_Send n (h @ ls) q)"
      using \<open>length ls \<le> 1\<close> \<open>same_request m p b q\<close> l that by (simp add: exchanged_def sp)
    show "exchanged n m p b h (ls @ [q, login_request c0, q'])" if "unauthorized (nt_Send n (h @ ls) q)"
      using \<open>length ls \<le> 1\<close> \<open>same_request m p b q\<close> \<open>same_request m p b q'\<close> l that by (simp add: exchanged_def sp)
  qed
  have sr: "same_request m p b (api_request m p b x)" for x by (simp add: same_request_def)
  from assms have "(\<exists>qs. cl_Sent c' = cl_Sent c @ qs \<and> exchanged n m p b (cl_Sent c) qs)
    \<and> cl_LastProbe c' = cl_LastProbe c \<and> cl_Ticks c \<le> cl_Ticks c' \<and> cl_Ticks c' \<le> cl_Ticks c + 2"
  proof (cases rule: exchange_cases)
    case (refused e)
    obtain ls where "cl_Sent c' = cl_Sent c @ ls" "length ls \<le> 1" "\<not> list_ex is_change ls" using ensureAuth_trace(1) [OF refused(1)] by blast
    moreover from this have "exchanged n m p b (cl_Sent c) ls"
      by (auto simp: exchanged_def quiet_spaced list_ex_iff filter_empty_conv list_all_iff)
    ultimately show ?thesis using ensureAuth_trace(2-4) [OF refused(1)] by blast
  next
    case (once c1)
    obtain ls where "cl_Sent c1 = cl_Sent c @ ls" "length ls \<le> 1" "\<not> list_ex is_change ls" using ensureAuth_trace(1) [OF once(1)] by blast
    with pre(1) [OF _ _ sr sr] once(2) ensureAuth_trace(2-4) [OF once(1)] show ?thesis by simp
  next
    case (lost c1 e)
    obtain ls where ls: "cl_Sent c1 = cl_Sent c @ ls" "length ls \<le> 1" "\<not> list_ex is_change ls" using ensureAuth_trace(1) [OF lost(1)] by blast
    have "cl_Sent c' = cl_Sent c @ ls @ [api_request m p b c1, login_request (invalidate (sending (api_request m p b c1) c1))]"
      "cl_LastProbe c' = cl_LastProbe c1" "cl_Ticks c' = cl_Ticks c1"
      using lost(3) login_simps [of n "invalidate (sending (api_request m p b c1) c1)"] ls by simp_all
    with pre(2) [OF ls(2,3) sr sr] lost(2) ls(1) ensureAuth_trace(2-4) [OF lost(1)] show ?thesis by simp
  next
    case (twice c1 c2)
    obtain ls where ls: "cl_Sent c1 = cl_Sent c @ ls" "length ls \<le> 1" "\<not> list_ex is_change ls" using ensureAuth_trace(1) [OF twice(1)] by blast
    have "cl_Sent c' = cl_Sent c @ ls @ [api_request m p b c1, login_request (invalidate (sending (api_request m p b c1) c1)), api_request m p b c2]"
      "cl_LastProbe c' = cl_LastProbe c1" "cl_Ticks c' = cl_Ticks c1"
      using twice(3,4) login_simps [of n "invalidate (sending (api_request m p b c1) c1)"] ls by simp_all
    with pre(3) [OF ls(2,3) sr sr] twice(2) ls(1) ensureAuth_trace(2-4) [OF twice(1)] show ?thesis by simp
  qed
  then show "\<exists>qs. cl_Sent c' = cl_Sent c @ qs \<and> exchanged n m p b (cl_Sent c) qs"
    "cl_LastProbe c' = cl_LastProbe c" "cl_Ticks c \<le> cl_Ticks c'" "cl_Ticks c' \<le> cl_Ticks c + 2" by blast+
qed

text \<open>The reads of a detection only add quiet requests.\<close>

definition quiet_since :: "request list \<Rightarrow> Client \<Rightarrow> bool" where
  "quiet_since h c \<longleftrightarrow> (\<exists>qs. cl_Sent c = h @ qs \<and> \<not> list_ex is_change qs)"

interpretation reads_only: client_detection n "quiet_since h" "\<lambda>m. m = GET" for n h
proof
  show "quiet_since h (snd (exchange n m p b want c))" if "quiet_since h c" "callable p b" "m = GET" for c p b m want
  proof -
    obtain rej r c' where e: "exchange n m p b want c = ((rej, r), c')" by (metis surj_pair)
    obtain qs where "cl_Sent c' = cl_Sent c @ qs" "exchanged n m p b (cl_Sent c) qs" using exchange_trace(1) [OF e] by blast
    moreover from this have "\<not> list_ex is_change qs"
      using that(3) by (auto simp: exchanged_def list_all_iff list_ex_iff same_request_def is_change_def)
    ultimately show ?thesis using that(1) by (auto simp: e quiet_since_def)
  qed
qed (auto simp: quiet_since_def)

text \<open>What a whole call adds: the exchange, then quiet requests.\<close>

lemma do_call_trace:
  assumes "do_call fuel n m p b want c = Some (r, c')"
  shows "\<exists>qs rs. cl_Sent c' = cl_Sent c @ qs @ rs \<and> exchanged n m p b (cl_Sent c) qs \<and> \<not> list_ex is_change rs"
  using assms
proof (cases rule: do_call_cases)
  case plain
  from exchange_trace(1) [OF plain] obtain qs where "cl_Sent c' = cl_Sent c @ qs" "exchanged n m p b (cl_Sent c) qs" by blast
  then show ?thesis by (intro exI [of _ qs] exI [of _ "[]"]) simp
next
  case (rejected c1)
  from exchange_trace(1) [OF rejected(1)] obtain qs where qs: "cl_Sent c1 = cl_Sent c @ qs" "exchanged n m p b (cl_Sent c) qs" by blast
  have "reads_only.Q (cl_Sent c1) (cl_Pinned c1) c1" by (simp add: reads_only.Q_def quiet_since_def)
  then have "reads_only.Q (cl_Sent c1) (cl_Pinned c1) c'"
  proof (rule reads_only.Q_after_rejection [OF _ _ rejected(2), rotated])
    show "reads_only.Q (cl_Sent c1) pin y'" if "reads_only.Q (cl_Sent c1) pin y" "deeper fuel n y = Some y'" for pin y y'
    proof (cases fuel)
      case 0
      with that show ?thesis by (simp add: deeper_def)
    next
      case (Suc f)
      have "reads_only.keeps (cl_Sent c1) (\<lambda>p c. do_call f n GET p NoBody True c)"
        using reads_only.keeps_get_call [where h = "cl_Sent c1" and n = n and fuel = f] by (simp add: get_call_def [abs_def])
      with that Suc show ?thesis by (auto simp: deeper_def intro: reads_only.Q_reprobe)
    qed
  qed
  then obtain rs where "cl_Sent c' = cl_Sent c1 @ rs" "\<not> list_ex is_change rs" by (auto simp: reads_only.Q_def quiet_since_def)
  with qs show ?thesis by auto
qed

section \<open>Calls return\<close>

text \<open>Of some consecutive clock readings no later one is thirty seconds after an earlier one.\<close>

definition calm :: "net \<Rightarrow> nat \<Rightarrow> nat \<Rightarrow> bool" where
  "calm n k m \<longleftrightarrow> (\<forall>i j. k \<le> i \<longrightarrow> i < j \<longrightarrow> j < k + m \<longrightarrow> nt_Clock n j - nt_Clock n i < probeCooldown)"

text \<open>After a re-detection began at \<open>t\<close>: \<open>k\<close> calls took at most four requests and three readings each.\<close>

definition in_budget :: "net \<Rightarrow> int \<Rightarrow> nat \<Rightarrow> nat \<Rightarrow> nat \<Rightarrow> Client \<Rightarrow> bool" where
  "in_budget n t T L k c \<longleftrightarrow> (\<forall>j. T \<le> j \<longrightarrow> j < T + 12 \<longrightarrow> nt_Clock n j - t < probeCooldown)
     \<and> cl_LastProbe c = Some t \<and> T \<le> cl_Ticks c \<and> cl_Ticks c \<le> T + 3 * k \<and> length (cl_Sent c) \<le> L + 4 * k"

lemma in_budget_call:
  assumes "in_budget n t T L k c" "k < 4"
  shows "\<exists>r c'. do_call f n m p b want c = Some (r, c') \<and> in_budget n t T L (Suc k) c'"
proof -
  obtain rej r c1 where e: "exchange n m p b want c = ((rej, r), c1)" by (metis surj_pair)
  obtain qs where qs: "cl_Sent c1 = cl_Sent c @ qs" "length qs \<le> 4" using exchange_trace(1) [OF e] by (auto simp: exchanged_def)
  note tr = exchange_trace(2-4) [OF e]
  have c1: "T \<le> cl_Ticks c1" "cl_Ticks c1 < T + 12" "cl_Ticks c1 \<le> T + 3 * k + 2" "cl_LastProbe c1 = Some t"
    "length (cl_Sent c1) \<le> L + 4 * Suc k"
    using assms tr qs by (auto simp: in_budget_def)
  then have "nt_Clock n (cl_Ticks c1) - t < probeCooldown" using assms(1) by (simp add: in_budget_def)
  with c1(4) have "after_rejection n d c1 = Some (snd (cl_now n c1))" for d
    by (simp add: after_rejection_def cooling_def cl_now_def)
  moreover have "in_budget n t T L (Suc k) c1" "in_budget n t T L (Suc k) (snd (cl_now n c1))"
    using assms(1) c1 by (simp_all add: in_budget_def)
  ultimately show ?thesis by (auto simp: do_call_eq e)
qed

interpretation cooled: budgeted_caller "\<lambda>p c. do_call f n GET p NoBody True c" "in_budget n t T L" for f n t T L
proof
  show "\<exists>r c'. do_call f n GET p NoBody True c = Some (r, c') \<and> in_budget n t T L (Suc k) c'" if "in_budget n t T L k c" "k < 4" for k c p
    by (rule in_budget_call [OF that])
qed (auto simp: in_budget_def)

section \<open>Redaction\<close>

text \<open>Two documents that differ at most in the values of secret-looking keys.\<close>

fun same_public :: "json \<Rightarrow> json \<Rightarrow> bool" where
  "same_public (JObj fs) (JObj gs) \<longleftrightarrow>
     list_all2 (\<lambda>f g. fst f = fst g \<and> (secretish (fst f) \<or> same_public (snd f) (snd g))) fs gs"
| "same_public (JArr xs) (JArr ys) \<longleftrightarrow> list_all2 same_public xs ys"
| "same_public v w \<longleftrightarrow> v = w"

lemma list_all2_map_eq:
  "(\<And>x y. x \<in> set xs \<Longrightarrow> y \<in> set ys \<Longrightarrow> f x = f y \<longleftrightarrow> R x y) \<Longrightarrow> map f xs = map f ys \<longleftrightarrow> list_all2 R xs ys"
proof (induction xs arbitrary: ys)
  case (Cons x xs)
  then show ?case by (cases ys) auto
qed simp

lemma redactValue_atom [simp]:
  "redactValue v = JNull \<longleftrightarrow> v = JNull" "redactValue v = JBool b \<longleftrightarrow> v = JBool b"
  "redactValue v = JNum t \<longleftrightarrow> v = JNum t" "redactValue v = JStr t \<longleftrightarrow> v = JStr t"
  "JNull = redactValue v \<longleftrightarrow> v = JNull" "JBool b = redactValue v \<longleftrightarrow> v = JBool b"
  "JNum t = redactValue v \<longleftrightarrow> v = JNum t" "JStr t = redactValue v \<longleftrightarrow> v = JStr t"
  by (cases v; auto)+

lemma redactValue_eq: "redactValue v = redactValue w \<longleftrightarrow> same_public v w"
proof (induction v w rule: same_public.induct)
  case (1 fs gs)
  have "(fst f, if secretish (fst f) then JStr ''***'' else redactValue (snd f))
      = (fst g, if secretish (fst g) then JStr ''***'' else redactValue (snd g))
    \<longleftrightarrow> fst f = fst g \<and> (secretish (fst f) \<or> same_public (snd f) (snd g))" if "f \<in> set fs" "g \<in> set gs" for f g
    using 1 [OF that] by auto
  then show ?case by (simp add: split_def list_all2_map_eq)
next
  case (2 xs ys)
  then show ?case by (simp add: list_all2_map_eq)
qed auto

section \<open>An example\<close>

text \<open>A server with bearer tokens that has forgotten the first session when the first write arrives.\<close>

definition ex_answer :: "int \<Rightarrow> json \<Rightarrow> string + response" where
  "ex_answer status v = Inr \<lparr> rs_Status = status, rs_Cookies = [], rs_Text = ''x'', rs_Json = Some v \<rparr>"

definition ex_net :: net where
  "ex_net = \<lparr> nt_Send = (\<lambda>h q.
       if rq_Path q = tokens_path then ex_answer 200 (JObj [(''token'', JStr ''tok'')])
       else if rq_Method q = POST \<and> length h \<le> 1 then ex_answer 401 JNull
       else ex_answer 200 (JArr [])), nt_Clock = (\<lambda>_. 7) \<rparr>"

definition ex_client :: Client where
  "ex_client = NewClient ''me'' ''pw'' FlavourNPM"

definition ex_ops :: "client_op list" where
  "ex_ops = [OpSetEnabled KindDead 3 True, OpPing]"

lemma ex_exchange:
  assumes "p \<noteq> tokens_path" "cl_Mode c = AuthUnknown" "cl_Sent c = []"
  shows "\<exists>c1. exchange ex_net POST p b False c = ((False, Inr None), c1) \<and> length (cl_Sent c1) = 4
    \<and> cl_Mode c1 = AuthBearer \<and> cl_Expires c1 = None"
  using assms
  by (simp add: exchange_def ensureAuth_def session_valid_def login_def send_def login_request_def ex_net_def ex_answer_def
      granted_def is_success_def tokenResponse_def hasSessionCookie_def trim_space_def trim_left_def trim_right_def is_space_def maxLoginBody_def
      attempt_def api_request_def unauthorized_def invalidate_def)

lemma ex_ping:
  assumes "cl_Mode c = AuthBearer" "cl_Expires c = None"
  shows "\<exists>c1. exchange ex_net GET ''/api/'' NoBody False c = ((False, Inr None), c1) \<and> length (cl_Sent c1) = Suc (length (cl_Sent c))"
  using assms
  by (simp add: exchange_def ensureAuth_def session_valid_def send_def ex_net_def ex_answer_def tokens_path_def
      is_success_def attempt_def api_request_def unauthorized_def)

lemma ex_run: "\<exists>c. performs 1 ex_net ex_ops ex_client = Some c \<and> length (cl_Sent c) = 5"
proof -
  have "cl_Mode ex_client = AuthUnknown" "cl_Sent ex_client = []" by (simp_all add: ex_client_def NewClient_def)
  from ex_exchange [OF kind_Path_callable(3) this] obtain c1
    where c1: "exchange ex_net POST (item_path KindDead 3 @ ''/enable'') NoBody False ex_client = ((False, Inr None), c1)"
      "length (cl_Sent c1) = 4" "cl_Mode c1 = AuthBearer" "cl_Expires c1 = None" by blast
  obtain c2 where c2: "exchange ex_net GET ''/api/'' NoBody False c1 = ((False, Inr None), c2)" "length (cl_Sent c2) = 5"
    using ex_ping [OF c1(3,4)] c1(2) by auto
  show ?thesis using c1 c2 by (simp add: ex_ops_def cl_SetEnabled_def Ping_def do_call_eq)
qed

section \<open>Properties\<close>

text \<open>C30: Every request the client ever sends is authentic. Logins carry the credentials and no session,
  nothing else carries credentials, and any other request goes out in the session of the last login
  the server granted before it, with exactly its token in bearer mode. This holds for every sequence
  of operations, whatever the server answers.\<close>

theorem requests_are_authentic:
  assumes "performs fuel n ops (NewClient identity secret f) = Some c"
  shows "each_request (authentic n) [] (cl_Sent c)"
proof -
  have "authentic_log n (NewClient identity secret f)" by (simp add: authentic_log_def session_inv_def NewClient_def)
  from authenticated.performs_keep [OF this assms] show ?thesis by (simp add: authentic_log_def)
qed

theorem requests_are_authentic_witness:
  "\<exists>c. performs 1 ex_net ex_ops ex_client = Some c \<and> length (cl_Sent c) = 5 \<and> each_request (authentic ex_net) [] (cl_Sent c)"
  using ex_run requests_are_authentic [of 1 ex_net ex_ops "''me''" "''pw''" FlavourNPM] unfolding ex_client_def by blast

text \<open>A pinned flavour stays. Whatever the server answers, rejects or reports as its version, a
  client created with a flavour builds every body for it.\<close>

theorem pinned_flavour_stays:
  assumes "f \<noteq> FlavourAuto" "performs fuel n ops (NewClient identity secret f) = Some c"
  shows "d_Flavour (dialectLocked c) = f"
proof -
  have "keeps_flavour f (NewClient identity secret f)" using assms(1) by (simp add: keeps_flavour_def NewClient_def)
  from pinned.performs_keep [OF this assms(2)] show ?thesis by (simp add: keeps_flavour_def dialectLocked_def)
qed

theorem pinned_flavour_stays_witness:
  "\<exists>c. performs 1 ex_net ex_ops ex_client = Some c \<and> d_Flavour (dialectLocked c) = FlavourNPM"
  using ex_run pinned_flavour_stays [of FlavourNPM 1 ex_net ex_ops "''me''" "''pw''"] unfolding ex_client_def by blast



text \<open>C31: A call returns. A rejected body makes the client detect the dialect again, by calls that may be
  rejected themselves; as long as no 30 seconds pass within the call, the nesting ends at the first
  level, and the call sends at most twenty requests.\<close>

theorem calls_return:
  assumes "calm n (cl_Ticks c) 16" "0 < fuel"
  shows "\<exists>r c'. do_call fuel n m p b want c = Some (r, c') \<and> length (cl_Sent c') \<le> length (cl_Sent c) + 20"
proof -
  obtain rej r c1 where e: "exchange n m p b want c = ((rej, r), c1)" by (metis surj_pair)
  obtain qs where qs: "cl_Sent c1 = cl_Sent c @ qs" "length qs \<le> 4" using exchange_trace(1) [OF e] by (auto simp: exchanged_def)
  note tr = exchange_trace(3,4) [OF e]
  obtain f where f: "fuel = Suc f" using assms(2) by (cases fuel) auto
  define c2 where "c2 = note_probe n (snd (cooling n c1))"
  have c2: "cl_Ticks c2 = cl_Ticks c1 + 2" "cl_LastProbe c2 = Some (nt_Clock n (cl_Ticks c1 + 1))" "cl_Sent c2 = cl_Sent c1"
    by (simp_all add: c2_def note_probe_def cooling_def cl_now_def)
  have "in_budget n (nt_Clock n (cl_Ticks c1 + 1)) (cl_Ticks c2) (length (cl_Sent c) + 4) 0 c2"
    using assms(1) tr qs c2 by (auto simp: in_budget_def calm_def)
  from cooled.reprobe_returns [OF this, of f] obtain c3 where c3: "deeper fuel n c2 = Some c3" "length (cl_Sent c3) \<le> length (cl_Sent c) + 20"
    by (auto simp: deeper_def f in_budget_def)
  have "after_rejection n (deeper fuel n) c1 = (if fst (cooling n c1) then Some (snd (cooling n c1)) else Some c3)"
    by (simp add: after_rejection_def split_def c3 c2_def [symmetric])
  moreover have "cl_Sent (snd (cooling n c1)) = cl_Sent c1" by (simp add: cooling_def cl_now_def)
  ultimately show ?thesis using qs c3(2) by (cases rej; cases "fst (cooling n c1)") (auto simp: do_call_eq e)
qed

theorem calls_return_witness:
  "\<exists>r c'. do_call 1 ex_net GET ''/api/schema'' NoBody True ex_client = Some (r, c') \<and> length (cl_Sent c') \<le> 20"
proof -
  have "calm ex_net (cl_Ticks ex_client) 16" by (simp add: calm_def ex_net_def probeCooldown_def second_def)
  from calls_return [OF this, of 1 GET "''/api/schema''" NoBody True] show ?thesis by (simp add: ex_client_def NewClient_def)
qed


text \<open>The key of the old password does not look like one.\<close>

lemma old_password_is_logged:
  "redactPayload (Some (password_json current new)) = redactPayload (Some (password_json current' new')) \<longleftrightarrow> current = current'"
proof -
  have "secretish ''secret''" "\<not> secretish ''current''" "\<not> secretish ''type''" by code_simp+
  then show ?thesis by (auto simp: redactPayload_def password_json_def)
qed

end
