(* ===== verification/Codec.thy ===== *)
theory Codec
  imports GoFloat Resources
begin

text \<open>
  What \<open>encoding/json\<close> does with the structs of \<open>internal/npm\<close>: the struct tags of \<open>models.go\<close> and
  \<open>resources.go\<close> as lists of members, encoding and decoding over such a list, and the round trip. A struct
  is decoded into a given value: members a document does not have keep what they had. Strings are bytes;
  a text that is not UTF-8, which \<open>encoding/json\<close> would repair, is not considered.

  The models keep one empty slice and one empty map, Go has two (\<open>nil\<close> and empty), which only the encoder
  can tell apart: \<open>nils\<close> says of which members the empty value is \<open>nil\<close>. \<open>num\<close> is the text of a
  \<open>float64\<close>.
\<close>

section \<open>Values\<close>

text \<open>Decoding gets the value that is there, since \<open>null\<close> leaves strings and numbers alone.\<close>

record 'v vcodec =
  vc_Encode :: "'v \<Rightarrow> json"
  vc_Decode :: "json \<Rightarrow> 'v \<Rightarrow> 'v option"
  vc_Empty :: "'v \<Rightarrow> bool"

definition from_sum :: "'e + 'a \<Rightarrow> 'a option" where
  "from_sum r = (case r of Inl _ \<Rightarrow> None | Inr x \<Rightarrow> Some x)"

definition string_codec :: "string vcodec" where
  "string_codec = \<lparr> vc_Encode = JStr,
     vc_Decode = (\<lambda>j old. case j of JNull \<Rightarrow> Some old | JStr s \<Rightarrow> Some s | _ \<Rightarrow> None), vc_Empty = (\<lambda>s. s = []) \<rparr>"

definition int_codec :: "int vcodec" where
  "int_codec = \<lparr> vc_Encode = (\<lambda>n. JNum (itoa n)),
     vc_Decode = (\<lambda>j old. case j of JNull \<Rightarrow> Some old | _ \<Rightarrow> from_sum (json_int j)), vc_Empty = (\<lambda>n. n = 0) \<rparr>"

definition flag_codec :: "Flag vcodec" where
  "flag_codec = \<lparr> vc_Encode = marshal_flag, vc_Decode = (\<lambda>j _. from_sum (unmarshal_flag j)), vc_Empty = Not \<rparr>"

definition cid_codec :: "CertificateID vcodec" where
  "cid_codec = \<lparr> vc_Encode = marshal_cid, vc_Decode = (\<lambda>j _. from_sum (unmarshal_cid j)), vc_Empty = (\<lambda>_. False) \<rparr>"

definition level_codec :: "ProxyProtocolLevel vcodec" where
  "level_codec = \<lparr> vc_Encode = marshal_level, vc_Decode = (\<lambda>j _. from_sum (unmarshal_level j)), vc_Empty = (\<lambda>p. p = 0) \<rparr>"

definition port_codec :: "Port vcodec" where
  "port_codec = \<lparr> vc_Encode = marshal_port, vc_Decode = (\<lambda>j _. from_sum (unmarshal_port j)), vc_Empty = (\<lambda>_. False) \<rparr>"

text \<open>A \<open>*bool\<close>.\<close>

definition bool_ptr_codec :: "bool option vcodec" where
  "bool_ptr_codec = \<lparr> vc_Encode = (\<lambda>b. case b of None \<Rightarrow> JNull | Some x \<Rightarrow> JBool x),
     vc_Decode = (\<lambda>j _. case j of JNull \<Rightarrow> Some None | JBool x \<Rightarrow> Some (Some x) | _ \<Rightarrow> None), vc_Empty = Option.is_none \<rparr>"

definition slice_codec :: "bool \<Rightarrow> 'v vcodec \<Rightarrow> 'v \<Rightarrow> 'v list vcodec" where
  "slice_codec isnil c zero = \<lparr> vc_Encode = (\<lambda>xs. if xs = [] \<and> isnil then JNull else JArr (map (vc_Encode c) xs)),
     vc_Decode = (\<lambda>j _. case j of JNull \<Rightarrow> Some [] | JArr vs \<Rightarrow> those (map (\<lambda>v. vc_Decode c v zero) vs) | _ \<Rightarrow> None),
     vc_Empty = (\<lambda>xs. xs = []) \<rparr>"

text \<open>A member of the meta object is decoded into \<open>any\<close>: numbers become \<open>float64\<close>, out of range ones are
  an error wherever they stand; the members of a nested value keep their texts.\<close>

fun numbers_ok :: "json \<Rightarrow> bool" where
  "numbers_ok (JNum lit) \<longleftrightarrow> (case ParseFloat lit of Some (Fin _) \<Rightarrow> True | _ \<Rightarrow> False)"
| "numbers_ok (JArr vs) \<longleftrightarrow> list_all numbers_ok vs"
| "numbers_ok (JObj fs) \<longleftrightarrow> list_all (\<lambda>(_, v). numbers_ok v) fs"
| "numbers_ok _ \<longleftrightarrow> True"

fun any_of_json :: "json \<Rightarrow> meta_val option" where
  "any_of_json (JStr s) = Some (MStr s)"
| "any_of_json (JBool b) = Some (MBool b)"
| "any_of_json (JNum lit) = (case ParseFloat lit of Some (Fin q) \<Rightarrow> Some (MFloat q) | _ \<Rightarrow> None)"
| "any_of_json v = (if numbers_ok v then Some (MOther v) else None)"

fun json_of_any :: "(rat \<Rightarrow> string) \<Rightarrow> meta_val \<Rightarrow> json" where
  "json_of_any num (MStr s) = JStr s"
| "json_of_any num (MInt n) = JNum (itoa n)"
| "json_of_any num (MFloat q) = JNum (num q)"
| "json_of_any num (MBool b) = JBool b"
| "json_of_any num (MOther v) = v"

text \<open>A map is written with sorted keys, and decoded into the entries it has.\<close>

fun decode_map :: "(string \<times> json) list \<Rightarrow> Meta \<Rightarrow> Meta option" where
  "decode_map [] m = Some m"
| "decode_map ((k, v) # fs) m = (case any_of_json v of None \<Rightarrow> None | Some x \<Rightarrow> decode_map fs (m(k \<mapsto> x)))"

definition meta_members :: "(rat \<Rightarrow> string) \<Rightarrow> Meta \<Rightarrow> (string \<times> json) list" where
  "meta_members num m = map (\<lambda>k. (k, json_of_any num (the (m k)))) (sorted_list_of_set (dom m))"

definition meta_codec :: "bool \<Rightarrow> (rat \<Rightarrow> string) \<Rightarrow> Meta vcodec" where
  "meta_codec isnil num = \<lparr> vc_Encode = (\<lambda>m. let fs = meta_members num m in if fs = [] \<and> isnil then JNull else JObj fs),
     vc_Decode = (\<lambda>j old. case j of JNull \<Rightarrow> Some Map.empty | JObj fs \<Rightarrow> decode_map fs old | _ \<Rightarrow> None),
     vc_Empty = (\<lambda>m. meta_members num m = []) \<rparr>"

section \<open>Structs\<close>

text \<open>A member of a struct is left out (\<open>None\<close>) when it is empty and tagged \<open>omitempty\<close>. A key of a document
  belongs to the member of that name, or else to the first one whose name differs only in case.\<close>

record 's member =
  mb_Name :: string
  mb_Encode :: "'s \<Rightarrow> json option"
  mb_Decode :: "json \<Rightarrow> 's \<Rightarrow> 's option"

definition member :: "string \<Rightarrow> bool \<Rightarrow> 'v vcodec \<Rightarrow> ('s \<Rightarrow> 'v) \<Rightarrow> (('v \<Rightarrow> 'v) \<Rightarrow> 's \<Rightarrow> 's) \<Rightarrow> 's member" where
  "member name omitempty c get upd = \<lparr> mb_Name = name,
     mb_Encode = (\<lambda>s. if omitempty \<and> vc_Empty c (get s) then None else Some (vc_Encode c (get s))),
     mb_Decode = (\<lambda>j s. map_option (\<lambda>v. upd (\<lambda>_. v) s) (vc_Decode c j (get s))) \<rparr>"

definition member_for :: "'s member list \<Rightarrow> string \<Rightarrow> 's member option" where
  "member_for ms k = (case find (\<lambda>m. mb_Name m = k) ms of
     Some m \<Rightarrow> Some m
   | None \<Rightarrow> find (\<lambda>m. equal_fold (mb_Name m) k) ms)"

definition encode_members :: "'s member list \<Rightarrow> 's \<Rightarrow> (string \<times> json) list" where
  "encode_members ms s = concat (map (\<lambda>m. case mb_Encode m s of None \<Rightarrow> [] | Some j \<Rightarrow> [(mb_Name m, j)]) ms)"

fun decode_members :: "'s member list \<Rightarrow> (string \<times> json) list \<Rightarrow> 's \<Rightarrow> 's option" where
  "decode_members ms [] s = Some s"
| "decode_members ms ((k, j) # fs) s =
     (case member_for ms k of
        None \<Rightarrow> decode_members ms fs s
      | Some m \<Rightarrow> (case mb_Decode m j s of None \<Rightarrow> None | Some t \<Rightarrow> decode_members ms fs t))"

definition struct_codec :: "'s member list \<Rightarrow> 's vcodec" where
  "struct_codec ms = \<lparr> vc_Encode = (\<lambda>s. JObj (encode_members ms s)),
     vc_Decode = (\<lambda>j s. case j of JNull \<Rightarrow> Some s | JObj fs \<Rightarrow> decode_members ms fs s | _ \<Rightarrow> None),
     vc_Empty = (\<lambda>_. False) \<rparr>"

section \<open>The structs of the API\<close>

text \<open>An entry of the relation \<open>access_lists\<close> has an id only, which stands for it.\<close>

definition ref_members :: "int member list" where
  "ref_members = [member ''id'' False int_codec id (\<lambda>f. f)]"

definition location_members :: "Location member list" where
  "location_members = [
     member ''path'' False string_codec loc_Path loc_Path_update,
     member ''location_type'' False string_codec loc_LocationType loc_LocationType_update,
     member ''advanced_config'' False string_codec loc_AdvancedConfig loc_AdvancedConfig_update,
     member ''npmplus_location_config'' True string_codec loc_LocationConfig loc_LocationConfig_update,
     member ''forward_scheme'' False string_codec loc_ForwardScheme loc_ForwardScheme_update,
     member ''forward_host'' False string_codec loc_ForwardHost loc_ForwardHost_update,
     member ''forward_port'' False int_codec loc_ForwardPort loc_ForwardPort_update,
     member ''npmplus_access_list_ids'' True (slice_codec True int_codec 0) loc_AccessListIDs loc_AccessListIDs_update,
     member ''npmplus_access_list_type'' True string_codec loc_AccessListType loc_AccessListType_update,
     member ''access_lists'' True (slice_codec True (struct_codec ref_members) 0) loc_AccessLists loc_AccessLists_update,
     member ''npmplus_enabled'' True bool_ptr_codec loc_Enabled loc_Enabled_update,
     member ''npmplus_noindex'' False flag_codec loc_NoIndex loc_NoIndex_update,
     member ''npmplus_crowdsec_appsec'' False flag_codec loc_DisableCrowdsecAppsec loc_DisableCrowdsecAppsec_update,
     member ''npmplus_proxy_request_buffering'' False flag_codec loc_DisableRequestBuffering loc_DisableRequestBuffering_update,
     member ''npmplus_proxy_response_buffering'' False flag_codec loc_DisableResponseBuffering loc_DisableResponseBuffering_update,
     member ''npmplus_upstream_compression'' False flag_codec loc_UpstreamCompression loc_UpstreamCompression_update,
     member ''npmplus_fancyindex'' False flag_codec loc_FancyIndex loc_FancyIndex_update,
     member ''npmplus_x_frame_options'' True string_codec loc_XFrameOptions loc_XFrameOptions_update,
     member ''npmplus_auth_request'' True string_codec loc_AuthRequest loc_AuthRequest_update,
     member ''npmplus_auth_request_upstream'' True string_codec loc_AuthRequestUpstream loc_AuthRequestUpstream_update]"

definition ph_members :: "(string \<Rightarrow> bool) \<Rightarrow> (rat \<Rightarrow> string) \<Rightarrow> ProxyHost member list" where
  "ph_members nils num = [
     member ''id'' True int_codec ph_ID ph_ID_update,
     member ''created_on'' True string_codec ph_CreatedOn ph_CreatedOn_update,
     member ''modified_on'' True string_codec ph_ModifiedOn ph_ModifiedOn_update,
     member ''owner_user_id'' True int_codec ph_OwnerUserID ph_OwnerUserID_update,
     member ''domain_names'' False (slice_codec (nils ''domain_names'') string_codec []) ph_DomainNames ph_DomainNames_update,
     member ''forward_host'' False string_codec ph_ForwardHost ph_ForwardHost_update,
     member ''forward_port'' False int_codec ph_ForwardPort ph_ForwardPort_update,
     member ''forward_scheme'' False string_codec ph_ForwardScheme ph_ForwardScheme_update,
     member ''certificate_id'' False cid_codec ph_CertificateID ph_CertificateID_update,
     member ''ssl_forced'' False flag_codec ph_SSLForced ph_SSLForced_update,
     member ''hsts_enabled'' False flag_codec ph_HSTSEnabled ph_HSTSEnabled_update,
     member ''hsts_subdomains'' False flag_codec ph_HSTSSubdomains ph_HSTSSubdomains_update,
     member ''trust_forwarded_proto'' False flag_codec ph_TrustForwardedProto ph_TrustForwardedProto_update,
     member ''http2_support'' False flag_codec ph_HTTP2Support ph_HTTP2Support_update,
     member ''block_exploits'' False flag_codec ph_BlockExploits ph_BlockExploits_update,
     member ''caching_enabled'' False flag_codec ph_CachingEnabled ph_CachingEnabled_update,
     member ''allow_websocket_upgrade'' False flag_codec ph_AllowWebsocketUpgrade ph_AllowWebsocketUpgrade_update,
     member ''advanced_config'' False string_codec ph_AdvancedConfig ph_AdvancedConfig_update,
     member ''enabled'' False flag_codec ph_Enabled ph_Enabled_update,
     member ''locations'' False (slice_codec (nils ''locations'') (struct_codec location_members) empty_location) ph_Locations ph_Locations_update,
     member ''meta'' False (meta_codec (nils ''meta'') num) ph_Meta ph_Meta_update,
     member ''npmplus_directory'' True string_codec ph_Directory ph_Directory_update,
     member ''ownership_marker'' True flag_codec ph_OwnerMarker ph_OwnerMarker_update,
     member ''npmplus_http3_support'' False flag_codec ph_HTTP3Support ph_HTTP3Support_update,
     member ''npmplus_noindex'' False flag_codec ph_NoIndex ph_NoIndex_update,
     member ''npmplus_crowdsec_appsec'' False flag_codec ph_DisableCrowdsecAppsec ph_DisableCrowdsecAppsec_update,
     member ''npmplus_proxy_request_buffering'' False flag_codec ph_DisableRequestBuffering ph_DisableRequestBuffering_update,
     member ''npmplus_proxy_response_buffering'' False flag_codec ph_DisableResponseBuffering ph_DisableResponseBuffering_update,
     member ''npmplus_upstream_compression'' False flag_codec ph_UpstreamCompression ph_UpstreamCompression_update,
     member ''npmplus_fancyindex'' False flag_codec ph_FancyIndex ph_FancyIndex_update,
     member ''npmplus_x_frame_options'' False string_codec ph_XFrameOptions ph_XFrameOptions_update,
     member ''npmplus_auth_request'' False string_codec ph_AuthRequest ph_AuthRequest_update,
     member ''npmplus_auth_request_upstream'' False string_codec ph_AuthRequestUpstream ph_AuthRequestUpstream_update,
     member ''npmplus_location_config'' False string_codec ph_LocationConfig ph_LocationConfig_update,
     member ''access_list_id'' False int_codec ph_AccessListID ph_AccessListID_update,
     member ''npmplus_access_list_ids'' False (slice_codec (nils ''npmplus_access_list_ids'') int_codec 0) ph_AccessListIDs ph_AccessListIDs_update,
     member ''npmplus_access_list_type'' False string_codec ph_AccessListType ph_AccessListType_update,
     member ''access_lists'' True (slice_codec (nils ''access_lists'') (struct_codec ref_members) 0) ph_AccessLists ph_AccessLists_update]"

definition rh_members :: "(string \<Rightarrow> bool) \<Rightarrow> (rat \<Rightarrow> string) \<Rightarrow> RedirectionHost member list" where
  "rh_members nils num = [
     member ''id'' True int_codec rh_ID rh_ID_update,
     member ''created_on'' True string_codec rh_CreatedOn rh_CreatedOn_update,
     member ''modified_on'' True string_codec rh_ModifiedOn rh_ModifiedOn_update,
     member ''owner_user_id'' True int_codec rh_OwnerUserID rh_OwnerUserID_update,
     member ''domain_names'' False (slice_codec (nils ''domain_names'') string_codec []) rh_DomainNames rh_DomainNames_update,
     member ''forward_scheme'' False string_codec rh_ForwardScheme rh_ForwardScheme_update,
     member ''forward_domain_name'' False string_codec rh_ForwardDomainName rh_ForwardDomainName_update,
     member ''forward_http_code'' False int_codec rh_ForwardHTTPCode rh_ForwardHTTPCode_update,
     member ''preserve_path'' False flag_codec rh_PreservePath rh_PreservePath_update,
     member ''certificate_id'' False cid_codec rh_CertificateID rh_CertificateID_update,
     member ''ssl_forced'' False flag_codec rh_SSLForced rh_SSLForced_update,
     member ''hsts_enabled'' False flag_codec rh_HSTSEnabled rh_HSTSEnabled_update,
     member ''hsts_subdomains'' False flag_codec rh_HSTSSubdomains rh_HSTSSubdomains_update,
     member ''http2_support'' False flag_codec rh_HTTP2Support rh_HTTP2Support_update,
     member ''npmplus_http3_support'' False flag_codec rh_HTTP3Support rh_HTTP3Support_update,
     member ''block_exploits'' False flag_codec rh_BlockExploits rh_BlockExploits_update,
     member ''advanced_config'' False string_codec rh_AdvancedConfig rh_AdvancedConfig_update,
     member ''enabled'' False flag_codec rh_Enabled rh_Enabled_update,
     member ''meta'' False (meta_codec (nils ''meta'') num) rh_Meta rh_Meta_update,
     member ''npmplus_directory'' True string_codec rh_Directory rh_Directory_update,
     member ''ownership_marker'' True flag_codec rh_OwnerMarker rh_OwnerMarker_update]"

definition st_members :: "(string \<Rightarrow> bool) \<Rightarrow> (rat \<Rightarrow> string) \<Rightarrow> StreamHost member list" where
  "st_members nils num = [
     member ''id'' True int_codec st_ID st_ID_update,
     member ''created_on'' True string_codec st_CreatedOn st_CreatedOn_update,
     member ''modified_on'' True string_codec st_ModifiedOn st_ModifiedOn_update,
     member ''owner_user_id'' True int_codec st_OwnerUserID st_OwnerUserID_update,
     member ''incoming_port'' False port_codec st_IncomingPort st_IncomingPort_update,
     member ''forwarding_host'' False string_codec st_ForwardingHost st_ForwardingHost_update,
     member ''forwarding_port'' False port_codec st_ForwardingPort st_ForwardingPort_update,
     member ''tcp_forwarding'' False flag_codec st_TCPForwarding st_TCPForwarding_update,
     member ''udp_forwarding'' False flag_codec st_UDPForwarding st_UDPForwarding_update,
     member ''certificate_id'' False cid_codec st_CertificateID st_CertificateID_update,
     member ''enabled'' False flag_codec st_Enabled st_Enabled_update,
     member ''meta'' False (meta_codec (nils ''meta'') num) st_Meta st_Meta_update,
     member ''npmplus_proxy_protocol_forwarding'' False level_codec st_ProxyProtocol st_ProxyProtocol_update,
     member ''npmplus_proxy_tls'' False flag_codec st_ProxyTLS st_ProxyTLS_update,
     member ''npmplus_advanced_config'' False string_codec st_AdvancedConfig st_AdvancedConfig_update,
     member ''npmplus_description'' False string_codec st_Description st_Description_update,
     member ''npmplus_directory'' True string_codec st_Directory st_Directory_update,
     member ''ownership_marker'' True flag_codec st_OwnerMarker st_OwnerMarker_update]"

definition dh_members :: "(string \<Rightarrow> bool) \<Rightarrow> (rat \<Rightarrow> string) \<Rightarrow> DeadHost member list" where
  "dh_members nils num = [
     member ''id'' True int_codec dh_ID dh_ID_update,
     member ''created_on'' True string_codec dh_CreatedOn dh_CreatedOn_update,
     member ''modified_on'' True string_codec dh_ModifiedOn dh_ModifiedOn_update,
     member ''owner_user_id'' True int_codec dh_OwnerUserID dh_OwnerUserID_update,
     member ''domain_names'' False (slice_codec (nils ''domain_names'') string_codec []) dh_DomainNames dh_DomainNames_update,
     member ''certificate_id'' False cid_codec dh_CertificateID dh_CertificateID_update,
     member ''ssl_forced'' False flag_codec dh_SSLForced dh_SSLForced_update,
     member ''hsts_enabled'' False flag_codec dh_HSTSEnabled dh_HSTSEnabled_update,
     member ''hsts_subdomains'' False flag_codec dh_HSTSSubdomains dh_HSTSSubdomains_update,
     member ''http2_support'' False flag_codec dh_HTTP2Support dh_HTTP2Support_update,
     member ''npmplus_http3_support'' False flag_codec dh_HTTP3Support dh_HTTP3Support_update,
     member ''advanced_config'' False string_codec dh_AdvancedConfig dh_AdvancedConfig_update,
     member ''enabled'' False flag_codec dh_Enabled dh_Enabled_update,
     member ''meta'' False (meta_codec (nils ''meta'') num) dh_Meta dh_Meta_update,
     member ''npmplus_directory'' True string_codec dh_Directory dh_Directory_update,
     member ''ownership_marker'' True flag_codec dh_OwnerMarker dh_OwnerMarker_update]"

definition certificate_members :: "(string \<Rightarrow> bool) \<Rightarrow> Certificate member list" where
  "certificate_members nils = [
     member ''id'' False int_codec crt_ID crt_ID_update,
     member ''provider'' False string_codec crt_Provider crt_Provider_update,
     member ''nice_name'' False string_codec crt_NiceName crt_NiceName_update,
     member ''domain_names'' False (slice_codec (nils ''domain_names'') string_codec []) crt_DomainNames crt_DomainNames_update,
     member ''expires_on'' False string_codec crt_ExpiresOn crt_ExpiresOn_update,
     member ''is_deleted'' False flag_codec crt_IsDeleted crt_IsDeleted_update]"

definition access_list_members :: "AccessList member list" where
  "access_list_members = [
     member ''id'' False int_codec acl_ID acl_ID_update,
     member ''name'' False string_codec acl_Name acl_Name_update]"

section \<open>Encoding and decoding a struct\<close>

definition codes :: "'v vcodec \<Rightarrow> 'v \<Rightarrow> 'v \<Rightarrow> bool" where
  "codes c v w \<longleftrightarrow> (\<forall>old. vc_Decode c (vc_Encode c v) old = Some w)"

definition settle :: "'s \<Rightarrow> 's member \<Rightarrow> 's \<Rightarrow> 's" where
  "settle s m t = (case mb_Encode m s of None \<Rightarrow> t | Some j \<Rightarrow> (case mb_Decode m j t of None \<Rightarrow> t | Some u \<Rightarrow> u))"

definition sound_member :: "'s \<Rightarrow> 's member \<Rightarrow> bool" where
  "sound_member s m \<longleftrightarrow> (\<forall>j t. mb_Encode m s = Some j \<longrightarrow> mb_Decode m j t \<noteq> None)"

lemma find_name:
  assumes "m \<in> set ms" "distinct (map mb_Name ms)"
  shows "find (\<lambda>x. mb_Name x = mb_Name m) ms = Some m"
  using assms by (induction ms) (auto simp: image_iff)

lemma decode_encode_members:
  assumes "distinct (map mb_Name ms)" "set ks \<subseteq> set ms" "list_all (sound_member s) ks"
  shows "decode_members ms (encode_members ks s) t = Some (fold (settle s) ks t)"
  using assms(2,3)
proof (induction ks arbitrary: t)
  case (Cons m ks)
  have find: "member_for ms (mb_Name m) = Some m"
    using find_name [OF _ assms(1), of m] Cons.prems(1) by (simp add: member_for_def)
  show ?case
  proof (cases "mb_Encode m s")
    case None
    then show ?thesis using Cons by (simp add: encode_members_def settle_def)
  next
    case (Some j)
    moreover from this have "mb_Decode m j t \<noteq> None"
      using Cons.prems(2) by (auto simp: sound_member_def)
    ultimately show ?thesis
      using Cons find by (auto simp: encode_members_def settle_def)
  qed
qed (simp add: encode_members_def)

text \<open>Member by member: what is decoded replaces what was there, and an omitted member leaves it.\<close>

lemma sound_member: "codes c (get s) w \<Longrightarrow> sound_member s (member name omitempty c get upd)"
  by (simp add: sound_member_def member_def codes_def)

lemma settle_kept: "codes c (get s) w \<Longrightarrow> settle s (member name False c get upd) t = upd (\<lambda>_. w) t"
  by (simp add: settle_def member_def codes_def)

lemma settle_omitempty:
  assumes "codes c (get s) w" "\<And>u. upd (\<lambda>x. x) u = u"
  shows "settle s (member name True c get upd) t = upd (\<lambda>x. if vc_Empty c (get s) then x else w) t"
  using assms by (simp add: settle_def member_def codes_def)

section \<open>Which values survive\<close>

lemma codes_simple:
  "codes string_codec s s" "codes flag_codec b b" "codes bool_ptr_codec p p"
  by (simp_all add: codes_def string_codec_def flag_codec_def bool_ptr_codec_def marshal_flag_def from_sum_def split: option.split)

lemma codes_int: "in_int64 n \<Longrightarrow> codes int_codec n n"
  by (simp add: codes_def int_codec_def from_sum_def atoi_itoa)

lemma codes_level: "in_int64 n \<Longrightarrow> codes level_codec n n"
  by (simp add: codes_def level_codec_def marshal_level_def from_sum_def atoi_itoa)

definition cid_ok :: "CertificateID \<Rightarrow> bool" where
  "cid_ok c \<longleftrightarrow> in_int64 (cid_ID c) \<and> (cid_New c \<longrightarrow> cid_ID c = 0)"

lemma codes_cid: "cid_ok c \<Longrightarrow> codes cid_codec c c"
  using cid_roundtrip [of c] by (simp add: codes_def cid_codec_def from_sum_def cid_ok_def)

definition port_ok :: "Port \<Rightarrow> bool" where
  "port_ok p \<longleftrightarrow> (if port_Int p > 0 then port_raw p = itoa (port_Int p) else trim_space (port_raw p) = port_raw p)"

lemma codes_port: "port_ok p \<Longrightarrow> codes port_codec p p"
  by (cases p) (auto simp: codes_def port_codec_def marshal_port_def from_sum_def port_ok_def Let_def split: if_splits)

lemma those_map: "list_all2 (\<lambda>x y. f x = Some y) xs ys \<Longrightarrow> those (map f xs) = Some ys"
  by (induction rule: list_all2_induct) simp_all

lemma codes_slice:
  assumes "list_all2 (\<lambda>x y. vc_Decode c (vc_Encode c x) zero = Some y) xs ys"
  shows "codes (slice_codec isnil c zero) xs ys"
proof -
  have "those (map (\<lambda>x. vc_Decode c (vc_Encode c x) zero) xs) = Some ys"
    by (rule those_map) (rule assms)
  then show ?thesis using assms by (auto simp: codes_def slice_codec_def comp_def)
qed

lemma codes_slice_same:
  assumes "\<And>x. x \<in> set xs \<Longrightarrow> vc_Decode c (vc_Encode c x) zero = Some x"
  shows "codes (slice_codec isnil c zero) xs xs"
  by (rule codes_slice) (auto simp: list_all2_same assms)

lemma codes_strings: "codes (slice_codec isnil string_codec zero) xs xs"
  by (rule codes_slice_same) (simp add: codes_simple(1) [unfolded codes_def])

lemma codes_ints: "list_all in_int64 xs \<Longrightarrow> codes (slice_codec isnil int_codec zero) xs xs"
  by (rule codes_slice_same) (simp add: list_all_iff codes_int [unfolded codes_def])

lemma codes_refs: "list_all in_int64 xs \<Longrightarrow> codes (slice_codec isnil (struct_codec ref_members) 0) xs xs"
  by (rule codes_slice_same) (simp add: list_all_iff struct_codec_def ref_members_def encode_members_def member_def
      member_for_def int_codec_def from_sum_def atoi_itoa)

lemmas codes_values = codes_simple codes_int codes_level codes_cid codes_port codes_strings codes_ints codes_refs

lemmas sound_values = codes_values [THEN sound_member]
lemmas settle_values = codes_values [THEN settle_kept] codes_values [THEN settle_omitempty]

section \<open>Locations\<close>

definition location_codable :: "Location \<Rightarrow> bool" where
  "location_codable l \<longleftrightarrow> in_int64 (loc_ForwardPort l) \<and> list_all in_int64 (loc_AccessListIDs l) \<and>
     list_all in_int64 (loc_AccessLists l) \<and> loc_AccessListNames l = []"

lemma update_same:
  "loc_LocationConfig_update (\<lambda>x. x) l = l" "loc_AccessListIDs_update (\<lambda>x. x) l = l"
  "loc_AccessListType_update (\<lambda>x. x) l = l" "loc_AccessLists_update (\<lambda>x. x) l = l" "loc_Enabled_update (\<lambda>x. x) l = l"
  "loc_XFrameOptions_update (\<lambda>x. x) l = l" "loc_AuthRequest_update (\<lambda>x. x) l = l"
  "loc_AuthRequestUpstream_update (\<lambda>x. x) l = l"
  by (cases l; simp)+

lemma empty_values:
  "vc_Empty string_codec s = (s = [])" "vc_Empty int_codec n = (n = 0)" "vc_Empty flag_codec b = (\<not> b)"
  "vc_Empty bool_ptr_codec p = Option.is_none p" "vc_Empty (slice_codec isnil c zero) xs = (xs = [])"
  by (simp_all add: string_codec_def int_codec_def flag_codec_def bool_ptr_codec_def slice_codec_def)

lemma location_names: "distinct (map mb_Name location_members)"
  by code_simp

lemma location_sound: "location_codable l \<Longrightarrow> list_all (sound_member l) location_members"
  by (simp add: location_members_def location_codable_def sound_values)

lemma location_settled: "location_codable l \<Longrightarrow> fold (settle l) location_members empty_location = l"
  by (cases l) (simp add: location_members_def location_codable_def settle_values update_same empty_location_def empty_values
      Option.is_none_def)

lemma location_roundtrip:
  assumes "location_codable l"
  shows "vc_Decode (struct_codec location_members) (vc_Encode (struct_codec location_members) l) empty_location = Some l"
  using decode_encode_members [OF location_names order_refl location_sound [OF assms], of empty_location]
  by (simp add: struct_codec_def location_settled [OF assms])

lemma codes_locations:
  "list_all location_codable ls \<Longrightarrow> codes (slice_codec isnil (struct_codec location_members) empty_location) ls ls"
  by (rule codes_slice_same) (simp add: list_all_iff location_roundtrip)

section \<open>The meta object\<close>

text \<open>A count in the meta object comes back as a \<open>float64\<close>, exactly when it is below \<open>2 ^ 53\<close>.\<close>

lemma mantissa_digits:
  assumes "\<forall>c\<in>set s. is_digit c" "digits_val a s = Some n"
  shows "mantissa 10 False (a, 0, saw) s = ((n, 0, saw \<or> s \<noteq> []), [])"
  using assms
proof (induction s arbitrary: a saw)
  case (Cons c s)
  then have c: "is_digit c" "c \<noteq> CHR ''_''" "c \<noteq> CHR ''.''" by (auto simp: is_digit_def)
  with Cons show ?case by (simp add: digit_in_def mult.commute)
qed simp

lemma lower_digit: "is_digit c \<Longrightarrow> lower_char c = c"
  by (auto simp: is_digit_def lower_char_def less_eq_char_def)

lemma digits_not_special:
  assumes "\<forall>c\<in>set s. is_digit c" "s \<noteq> []"
  shows "to_lower s \<notin> {''inf'', ''infinity'', ''nan''}" "\<not> base_prefix ''x'' s" "CHR ''_'' \<notin> set s"
proof -
  obtain c cs where s: "s = c # cs" using assms(2) by (cases s) auto
  with assms(1) have "is_digit c" by simp
  then have "lower_char c \<noteq> CHR ''i'' \<and> lower_char c \<noteq> CHR ''n''"
    by (auto simp: lower_digit is_digit_def)
  then show "to_lower s \<notin> {''inf'', ''infinity'', ''nan''}" by (auto simp: s to_lower_def)
  have "lower_char d \<noteq> CHR ''x''" if "is_digit d" for d
    using that by (auto simp: lower_digit is_digit_def)
  then show "\<not> base_prefix ''x'' s"
    using assms(1) by (auto simp: base_prefix_def s split: list.splits)
  show "CHR ''_'' \<notin> set s" using assms(1) by (auto simp: is_digit_def)
qed

lemma ParseFloat_digits:
  assumes "\<bar>n\<bar> < 2 ^ 53"
  shows "ParseFloat (itoa n) = Some (Fin (of_int n))"
proof -
  define k where "k = nat \<bar>n\<bar>"
  have k: "k < 2 ^ 53" using assms by (simp add: k_def nat_less_iff)
  have digits: "\<forall>c\<in>set (nat_str k). is_digit c" by (auto dest: nat_str_digits)
  note plain = digits_not_special [OF digits nat_str_not_Nil]
  have itoa: "itoa n = (if n < 0 then CHR ''-'' # nat_str k else nat_str k)"
    by (simp add: itoa_def k_def)
  then have sign: "parse_sign (itoa n) = (n < 0, nat_str k)"
    using parse_sign_digits [OF digits] by (simp add: parse_sign_def)
  have "lower_char CHR ''-'' \<noteq> CHR ''n''" by code_simp
  then have "to_lower (itoa n) \<noteq> ''nan''" using plain(1) by (simp add: itoa)
  then have "special_float (itoa n) = None"
    using plain(1) by (simp add: special_float_def sign)
  moreover have "mantissa 10 False (0, 0, False) (nat_str k) = ((k, 0, True), [])"
    by (rule mantissa_digits [OF digits digits_val_nat_str, THEN trans]) simp
  moreover have "CHR ''_'' \<notin> set (itoa n)" using plain(3) by (simp add: itoa)
  moreover have "float64 (of_nat k) = of_nat k"
    using float64_nat [OF _ k] by (cases "k = 0") (simp_all add: float64_def)
  moreover have "\<not> (k \<noteq> 0 \<and> 1024 \<le> expo (of_nat k :: rat))"
  proof
    assume big: "k \<noteq> 0 \<and> 1024 \<le> expo (of_nat k :: rat)"
    then have "pow2 (expo (of_nat k)) \<le> of_nat k" by (intro expo_bounds) simp
    also have "\<dots> < 2 ^ 53" using k by (metis of_nat_less_iff of_nat_numeral of_nat_power)
    also have "\<dots> = pow2 53" by (simp add: pow2_def)
    finally have "expo (of_nat k :: rat) < 53" by (rule pow2_less)
    with big show False by simp
  qed
  moreover have "(if n < 0 then - of_nat k else of_nat k) = (of_int n :: rat)" by (simp add: k_def)
  ultimately show ?thesis
    using plain(2) by (auto simp: ParseFloat_def sign exponent_def Let_def)
qed

definition any_ok :: "(rat \<Rightarrow> string) \<Rightarrow> meta_val \<Rightarrow> bool" where
  "any_ok num v = (case v of
     MInt n \<Rightarrow> \<bar>n\<bar> < 2 ^ 53
   | MFloat q \<Rightarrow> ParseFloat (num q) = Some (Fin q)
   | MOther j \<Rightarrow> numbers_ok j \<and> (case j of JStr _ \<Rightarrow> False | JBool _ \<Rightarrow> False | JNum _ \<Rightarrow> False | _ \<Rightarrow> True)
   | _ \<Rightarrow> True)"

fun as_any :: "meta_val \<Rightarrow> meta_val" where
  "as_any (MInt n) = MFloat (of_int n)"
| "as_any v = v"

lemma any_roundtrip: "any_ok num v \<Longrightarrow> any_of_json (json_of_any num v) = Some (as_any v)"
  by (cases v) (auto simp: any_ok_def ParseFloat_digits split: json.splits)

definition meta_ok :: "(rat \<Rightarrow> string) \<Rightarrow> Meta \<Rightarrow> bool" where
  "meta_ok num m \<longleftrightarrow> finite (dom m) \<and> (\<forall>v\<in>ran m. any_ok num v)"

definition meta_as_any :: "Meta \<Rightarrow> Meta" where "meta_as_any m = (\<lambda>k. map_option as_any (m k))"

lemma decode_map_keys:
  assumes "set ks \<subseteq> dom m" "\<forall>v\<in>ran m. any_ok num v"
  shows "decode_map (map (\<lambda>k. (k, json_of_any num (the (m k)))) ks) old =
    Some (\<lambda>k. if k \<in> set ks then meta_as_any m k else old k)"
  using assms(1)
proof (induction ks arbitrary: old)
  case (Cons k ks)
  then obtain v where "m k = Some v" by auto
  moreover from this have "any_ok num v" using assms(2) by (auto simp: ran_def)
  ultimately show ?case
    using Cons by (auto simp: any_roundtrip meta_as_any_def fun_eq_iff)
qed simp

lemma decode_meta_members:
  assumes "meta_ok num m"
  shows "decode_map (meta_members num m) old = Some (\<lambda>k. if k \<in> dom m then meta_as_any m k else old k)"
  using assms decode_map_keys [of "sorted_list_of_set (dom m)" m num old] by (simp add: meta_ok_def meta_members_def)

lemma meta_decodes: "meta_ok num m \<Longrightarrow> vc_Decode (meta_codec isnil num) (vc_Encode (meta_codec isnil num) m) old \<noteq> None"
  by (simp add: meta_codec_def Let_def decode_meta_members)

lemma meta_codec_roundtrip:
  assumes "meta_ok num m"
  shows "vc_Decode (meta_codec isnil num) (vc_Encode (meta_codec isnil num) m) Map.empty = Some (meta_as_any m)"
proof -
  have "(\<lambda>k. if k \<in> dom m then meta_as_any m k else None) = meta_as_any m"
    by (auto simp: meta_as_any_def fun_eq_iff domIff)
  moreover have "meta_as_any m = Map.empty" if "meta_members num m = []"
    using that assms by (simp add: meta_members_def meta_ok_def meta_as_any_def)
  ultimately show ?thesis using assms by (auto simp: meta_codec_def Let_def decode_meta_members)
qed

lemma sound_meta: "meta_ok num (get s) \<Longrightarrow> sound_member s (member name om (meta_codec isnil num) get upd)"
  using meta_decodes by (simp add: sound_member_def member_def)

lemma settle_meta:
  "meta_ok num (get s) \<Longrightarrow> get t = Map.empty \<Longrightarrow>
   settle s (member name False (meta_codec isnil num) get upd) t = upd (\<lambda>_. meta_as_any (get s)) t"
  by (simp add: settle_def member_def meta_codec_roundtrip)

section \<open>Hosts\<close>

definition ph_ok :: "(rat \<Rightarrow> string) \<Rightarrow> ProxyHost \<Rightarrow> bool" where
  "ph_ok num h \<longleftrightarrow> list_all in_int64 ([ph_ID h, ph_OwnerUserID h, ph_ForwardPort h, ph_AccessListID h] @
       ph_AccessListIDs h @ ph_AccessLists h) \<and>
     cid_ok (ph_CertificateID h) \<and> list_all location_codable (ph_Locations h) \<and> meta_ok num (ph_Meta h) \<and> ph_AccessListNames h = []"

definition rh_ok :: "(rat \<Rightarrow> string) \<Rightarrow> RedirectionHost \<Rightarrow> bool" where
  "rh_ok num h \<longleftrightarrow> list_all in_int64 [rh_ID h, rh_OwnerUserID h, rh_ForwardHTTPCode h] \<and> cid_ok (rh_CertificateID h) \<and>
     meta_ok num (rh_Meta h)"

definition st_ok :: "(rat \<Rightarrow> string) \<Rightarrow> StreamHost \<Rightarrow> bool" where
  "st_ok num s \<longleftrightarrow> list_all in_int64 [st_ID s, st_OwnerUserID s, st_ProxyProtocol s] \<and> cid_ok (st_CertificateID s) \<and>
     port_ok (st_IncomingPort s) \<and> port_ok (st_ForwardingPort s) \<and> meta_ok num (st_Meta s)"

definition dh_ok :: "(rat \<Rightarrow> string) \<Rightarrow> DeadHost \<Rightarrow> bool" where
  "dh_ok num h \<longleftrightarrow> list_all in_int64 [dh_ID h, dh_OwnerUserID h] \<and> cid_ok (dh_CertificateID h) \<and> meta_ok num (dh_Meta h)"

lemma distinct_names:
  "distinct (map mb_Name (ph_members nils num))" "distinct (map mb_Name (rh_members nils num))"
  "distinct (map mb_Name (st_members nils num))" "distinct (map mb_Name (dh_members nils num))"
  by (simp_all add: ph_members_def rh_members_def st_members_def dh_members_def member_def)

lemma host_sound:
  "ph_ok num h \<Longrightarrow> list_all (sound_member h) (ph_members nils num)"
  "rh_ok num g \<Longrightarrow> list_all (sound_member g) (rh_members nils num)"
  "st_ok num s \<Longrightarrow> list_all (sound_member s) (st_members nils num)"
  "dh_ok num d \<Longrightarrow> list_all (sound_member d) (dh_members nils num)"
  by (simp_all add: ph_members_def rh_members_def st_members_def dh_members_def ph_ok_def rh_ok_def st_ok_def dh_ok_def
      sound_values codes_locations [THEN sound_member] sound_meta)

definition ph_norm :: "ProxyHost \<Rightarrow> ProxyHost" where "ph_norm h = h\<lparr> ph_Meta := meta_as_any (ph_Meta h) \<rparr>"
definition rh_norm :: "RedirectionHost \<Rightarrow> RedirectionHost" where "rh_norm h = h\<lparr> rh_Meta := meta_as_any (rh_Meta h) \<rparr>"
definition st_norm :: "StreamHost \<Rightarrow> StreamHost" where "st_norm s = s\<lparr> st_Meta := meta_as_any (st_Meta s) \<rparr>"
definition dh_norm :: "DeadHost \<Rightarrow> DeadHost" where "dh_norm h = h\<lparr> dh_Meta := meta_as_any (dh_Meta h) \<rparr>"

lemma host_update_same:
  "ph_ID_update (\<lambda>x. x) h = h" "ph_CreatedOn_update (\<lambda>x. x) h = h" "ph_ModifiedOn_update (\<lambda>x. x) h = h"
  "ph_OwnerUserID_update (\<lambda>x. x) h = h" "ph_Directory_update (\<lambda>x. x) h = h" "ph_OwnerMarker_update (\<lambda>x. x) h = h"
  "ph_AccessLists_update (\<lambda>x. x) h = h"
  "rh_ID_update (\<lambda>x. x) g = g" "rh_CreatedOn_update (\<lambda>x. x) g = g" "rh_ModifiedOn_update (\<lambda>x. x) g = g"
  "rh_OwnerUserID_update (\<lambda>x. x) g = g" "rh_Directory_update (\<lambda>x. x) g = g" "rh_OwnerMarker_update (\<lambda>x. x) g = g"
  "st_ID_update (\<lambda>x. x) s = s" "st_CreatedOn_update (\<lambda>x. x) s = s" "st_ModifiedOn_update (\<lambda>x. x) s = s"
  "st_OwnerUserID_update (\<lambda>x. x) s = s" "st_Directory_update (\<lambda>x. x) s = s" "st_OwnerMarker_update (\<lambda>x. x) s = s"
  "dh_ID_update (\<lambda>x. x) d = d" "dh_CreatedOn_update (\<lambda>x. x) d = d" "dh_ModifiedOn_update (\<lambda>x. x) d = d"
  "dh_OwnerUserID_update (\<lambda>x. x) d = d" "dh_Directory_update (\<lambda>x. x) d = d" "dh_OwnerMarker_update (\<lambda>x. x) d = d"
  by (cases h; cases g; cases s; cases d; simp)+

lemmas settle_host = settle_values codes_locations [THEN settle_kept] settle_meta host_update_same empty_values

lemma ph_settled: "ph_ok num h \<Longrightarrow> fold (settle h) (ph_members nils num) zero_proxy = ph_norm h"
  by (cases h) (simp add: ph_members_def ph_ok_def zero_proxy_def ph_norm_def settle_host)

lemma rh_settled: "rh_ok num h \<Longrightarrow> fold (settle h) (rh_members nils num) zero_redirect = rh_norm h"
  by (cases h) (simp add: rh_members_def rh_ok_def zero_redirect_def rh_norm_def settle_host)

lemma st_settled: "st_ok num s \<Longrightarrow> fold (settle s) (st_members nils num) zero_stream = st_norm s"
  by (cases s) (simp add: st_members_def st_ok_def zero_stream_def st_norm_def settle_host)

lemma dh_settled: "dh_ok num h \<Longrightarrow> fold (settle h) (dh_members nils num) zero_dead = dh_norm h"
  by (cases h) (simp add: dh_members_def dh_ok_def zero_dead_def dh_norm_def settle_host)

section \<open>Resources\<close>

text \<open>The members of a resource, as \<open>json.Marshal\<close> writes them, and the plain decoding into a resource, without
  what \<open>UnmarshalJSON\<close> does on top (\<open>r_decode\<close>).\<close>

fun resource_members :: "(string \<Rightarrow> bool) \<Rightarrow> (rat \<Rightarrow> string) \<Rightarrow> Resource \<Rightarrow> (string \<times> json) list" where
  "resource_members nils num (Proxy h) = encode_members (ph_members nils num) h"
| "resource_members nils num (Redirect h) = encode_members (rh_members nils num) h"
| "resource_members nils num (Strm s) = encode_members (st_members nils num) s"
| "resource_members nils num (Dead h) = encode_members (dh_members nils num) h"

text \<open>Decoding does not ask for \<open>nils\<close> and \<open>num\<close>.\<close>

abbreviation "no_nils \<equiv> (\<lambda>_::string. True)"
abbreviation "no_num \<equiv> (\<lambda>_::rat. [] :: string)"

fun decode_plain :: "Resource \<Rightarrow> json \<Rightarrow> Resource option" where
  "decode_plain (Proxy h) j = map_option Proxy (vc_Decode (struct_codec (ph_members no_nils no_num)) j h)"
| "decode_plain (Redirect h) j = map_option Redirect (vc_Decode (struct_codec (rh_members no_nils no_num)) j h)"
| "decode_plain (Strm s) j = map_option Strm (vc_Decode (struct_codec (st_members no_nils no_num)) j s)"
| "decode_plain (Dead h) j = map_option Dead (vc_Decode (struct_codec (dh_members no_nils no_num)) j h)"

definition newResource :: "Kind \<Rightarrow> Resource" where
  "newResource kind =
     (case kind of
        KindProxy \<Rightarrow> Proxy zero_proxy
      | KindRedirect \<Rightarrow> Redirect zero_redirect
      | KindStream \<Rightarrow> Strm zero_stream
      | KindDead \<Rightarrow> Dead zero_dead)"

lemma newResource_Kind [simp]: "r_Kind (newResource kind) = kind"
  by (cases kind) (simp_all add: newResource_def)

lemma decode_plain_Kind: "decode_plain r j = Some r' \<Longrightarrow> r_Kind r' = r_Kind r"
  by (cases r) auto

fun resource_ok :: "(rat \<Rightarrow> string) \<Rightarrow> Resource \<Rightarrow> bool" where
  "resource_ok num (Proxy h) = ph_ok num h"
| "resource_ok num (Redirect h) = rh_ok num h"
| "resource_ok num (Strm s) = st_ok num s"
| "resource_ok num (Dead h) = dh_ok num h"

fun r_norm :: "Resource \<Rightarrow> Resource" where
  "r_norm (Proxy h) = Proxy (ph_norm h)"
| "r_norm (Redirect h) = Redirect (rh_norm h)"
| "r_norm (Strm s) = Strm (st_norm s)"
| "r_norm (Dead h) = Dead (dh_norm h)"

lemma member_for_cong:
  assumes "list_all2 (\<lambda>m n. mb_Name m = mb_Name n \<and> mb_Decode m = mb_Decode n) ms ns"
  shows "rel_option (\<lambda>m n. mb_Decode m = mb_Decode n) (member_for ms k) (member_for ns k)"
proof -
  have "rel_option (\<lambda>m n. mb_Decode m = mb_Decode n) (find (\<lambda>m. P (mb_Name m)) ms) (find (\<lambda>m. P (mb_Name m)) ns)" for P
    using assms by (induction rule: list_all2_induct) auto
  from this [of "\<lambda>n. n = k"] this [of "\<lambda>n. equal_fold n k"]
  show ?thesis by (auto simp: member_for_def option_rel_Some1 option_rel_Some2 split: option.splits)
qed

lemma decode_members_cong:
  assumes "list_all2 (\<lambda>m n. mb_Name m = mb_Name n \<and> mb_Decode m = mb_Decode n) ms ns"
  shows "decode_members ms fs s = decode_members ns fs s"
proof (induction fs arbitrary: s)
  case (Cons f fs)
  show ?case
    using member_for_cong [OF assms, of "fst f"] Cons.IH
    by (cases f) (auto elim!: option.rel_cases split: option.split)
qed simp

lemma same_decoders:
  "decode_members (ph_members nils num) fs h = decode_members (ph_members no_nils no_num) fs h"
  "decode_members (rh_members nils num) fs g = decode_members (rh_members no_nils no_num) fs g"
  "decode_members (st_members nils num) fs s = decode_members (st_members no_nils no_num) fs s"
  "decode_members (dh_members nils num) fs d = decode_members (dh_members no_nils no_num) fs d"
  by (rule decode_members_cong;
      simp add: ph_members_def rh_members_def st_members_def dh_members_def member_def slice_codec_def meta_codec_def)+

text \<open>What is written is what is read.\<close>

lemma resource_roundtrip:
  assumes "resource_ok num r"
  shows "decode_plain (newResource (r_Kind r)) (JObj (resource_members nils num r)) = Some (r_norm r)"
proof (cases r)
  case (Proxy h)
  with assms show ?thesis
    using decode_encode_members [OF distinct_names(1) order_refl host_sound(1), of num h nils zero_proxy]
    by (simp add: newResource_def struct_codec_def same_decoders(1) [of nils num] ph_settled)
next
  case (Redirect h)
  with assms show ?thesis
    using decode_encode_members [OF distinct_names(2) order_refl host_sound(2), of num h nils zero_redirect]
    by (simp add: newResource_def struct_codec_def same_decoders(2) [of nils num] rh_settled)
next
  case (Strm h)
  with assms show ?thesis
    using decode_encode_members [OF distinct_names(3) order_refl host_sound(3), of num h nils zero_stream]
    by (simp add: newResource_def struct_codec_def same_decoders(3) [of nils num] st_settled)
next
  case (Dead h)
  with assms show ?thesis
    using decode_encode_members [OF distinct_names(4) order_refl host_sound(4), of num h nils zero_dead]
    by (simp add: newResource_def struct_codec_def same_decoders(4) [of nils num] dh_settled)
qed

text \<open>The fingerprint reads the index of the marker as a number of either type.\<close>

lemma as_string_as_any: "as_string (map_option as_any v) = as_string v"
  by (cases v rule: as_string.cases) auto

lemma meta_index_as_any: "meta_index (map_option as_any v) = meta_index v"
  by (cases v rule: meta_index.cases) (auto simp: trunc_rat_def)

lemma meta_as_any_reads:
  "meta_Directory (meta_as_any m) = meta_Directory m" "ownership (meta_as_any m) = ownership m"
  by (simp_all add: meta_as_any_def meta_Directory_def ownership_def meta_text_def as_string_as_any meta_index_as_any)

lemma ph_meta_irrelevant:
  "ph_accessLists (h\<lparr> ph_Meta := m \<rparr>) = ph_accessLists h" "ph_forwardOptions (h\<lparr> ph_Meta := m \<rparr>) = ph_forwardOptions h"
  by (simp_all add: ph_accessLists_def ph_forwardOptions_def cong: if_cong)

lemma Fingerprint_r_norm: "Fingerprint (r_norm r) = Fingerprint r"
  by (cases r)
     (simp_all add: ph_norm_def rh_norm_def st_norm_def dh_norm_def ph_shape_def rh_shape_def st_shape_def dh_shape_def
       ph_meta_irrelevant meta_as_any_reads Let_def split: prod.split)

section \<open>Bookkeeping\<close>

text \<open>A resource without the values the server assigns; the fingerprint ignores these.\<close>

fun strip_server :: "Resource \<Rightarrow> Resource" where
  "strip_server (Proxy h) = Proxy (h\<lparr> ph_ID := 0, ph_CreatedOn := [], ph_ModifiedOn := [], ph_OwnerUserID := 0, ph_Enabled := False \<rparr>)"
| "strip_server (Redirect h) = Redirect (h\<lparr> rh_ID := 0, rh_CreatedOn := [], rh_ModifiedOn := [], rh_OwnerUserID := 0, rh_Enabled := False \<rparr>)"
| "strip_server (Strm s) = Strm (s\<lparr> st_ID := 0, st_CreatedOn := [], st_ModifiedOn := [], st_OwnerUserID := 0, st_Enabled := False \<rparr>)"
| "strip_server (Dead h) = Dead (h\<lparr> dh_ID := 0, dh_CreatedOn := [], dh_ModifiedOn := [], dh_OwnerUserID := 0, dh_Enabled := False \<rparr>)"

lemma strip_irrelevant:
  "ph_accessLists (h\<lparr> ph_ID := i, ph_CreatedOn := c, ph_ModifiedOn := m, ph_OwnerUserID := w, ph_Enabled := e \<rparr>) = ph_accessLists h"
  "ph_forwardOptions (h\<lparr> ph_ID := i, ph_CreatedOn := c, ph_ModifiedOn := m, ph_OwnerUserID := w, ph_Enabled := e \<rparr>) = ph_forwardOptions h"
  by (simp_all add: ph_accessLists_def ph_forwardOptions_def cong: if_cong)

lemma Fingerprint_strip_server: "Fingerprint (strip_server r) = Fingerprint r"
  by (cases r)
     (simp_all add: ph_shape_def rh_shape_def st_shape_def dh_shape_def strip_irrelevant Let_def split: prod.split)

lemma resource_ok_strip_server: "resource_ok num r \<Longrightarrow> resource_ok num (strip_server r)"
  by (cases r) (simp_all add: ph_ok_def rh_ok_def st_ok_def dh_ok_def in_int64_def int_min_def int_max_def)

lemma strip_server_Kind [simp]: "r_Kind (strip_server r) = r_Kind r"
  by (cases r) simp_all

end
