(* ===== verification/Transport.thy ===== *)
theory Transport
  imports ClientSafety RunLoop Codec
begin

text \<open>
  The worker on top of the API client: the typed operations of \<open>internal/npm/client.go\<close>, the client as
  the \<open>API\<close> of the worker, and what a run or a whole life of the process sends to the server. The
  decoding of JSON values is an argument, instantiated with that of \<open>Codec\<close> (\<open>go_codec\<close>); so is the text of an
  error.
\<close>

section \<open>Typed operations\<close>

text \<open>\<open>cd_Host\<close> decodes into a given, empty resource and keeps its kind; the code's own decoding
  (\<open>r_decode\<close>) comes on top.\<close>

record codec =
  cd_Host :: "Resource \<Rightarrow> json \<Rightarrow> Resource option"
  cd_Certificate :: "json \<Rightarrow> Certificate option"
  cd_AccessList :: "json \<Rightarrow> AccessList option"
  cd_Text :: "client_error \<Rightarrow> string"

definition decode_host :: "codec \<Rightarrow> Kind \<Rightarrow> json \<Rightarrow> Resource option" where
  "decode_host cd kind v = map_option r_decode (cd_Host cd (newResource kind) v)"

definition decode_slice :: "(json \<Rightarrow> 'a option) \<Rightarrow> json \<Rightarrow> 'a list option" where
  "decode_slice f v = (case v of JArr xs \<Rightarrow> those (map f xs) | JNull \<Rightarrow> Some [] | _ \<Rightarrow> None)"

type_synonym 'a answer = "((client_error + 'a) \<times> Client) option"

definition decoded :: "http_method \<Rightarrow> string \<Rightarrow> (json \<Rightarrow> 'a option) \<Rightarrow> json option answer \<Rightarrow> 'a answer" where
  "decoded m p f out =
     map_option (\<lambda>(r, c).
       (rbind r (\<lambda>body. case Option.bind body f of None \<Rightarrow> Inl (BadResponse m p) | Some x \<Rightarrow> Inr x), c)) out"

fun as_proxy :: "Resource \<Rightarrow> ProxyHost option" where "as_proxy (Proxy h) = Some h" | "as_proxy _ = None"
fun as_redirect :: "Resource \<Rightarrow> RedirectionHost option" where "as_redirect (Redirect h) = Some h" | "as_redirect _ = None"
fun as_stream :: "Resource \<Rightarrow> StreamHost option" where "as_stream (Strm s) = Some s" | "as_stream _ = None"
fun as_dead :: "Resource \<Rightarrow> DeadHost option" where "as_dead (Dead h) = Some h" | "as_dead _ = None"

text \<open>The listing of one kind as values of its type, and \<open>collect\<close>, which makes resources of them.\<close>

definition listCollection :: "(Resource \<Rightarrow> 'a option) \<Rightarrow> codec \<Rightarrow> nat \<Rightarrow> net \<Rightarrow> Kind \<Rightarrow> Client \<Rightarrow> 'a list answer" where
  "listCollection as cd fuel n kind c =
     decoded GET (kind_Path kind) (decode_slice (\<lambda>v. Option.bind (decode_host cd kind v) as)) (ListCollection fuel n kind c)"

definition collect :: "('a \<Rightarrow> Resource) \<Rightarrow> 'a list answer \<Rightarrow> Resource list answer" where
  "collect wrap out = map_option (\<lambda>(r, c). (map_sum id (map wrap) r, c)) out"

definition List_hosts :: "codec \<Rightarrow> nat \<Rightarrow> net \<Rightarrow> Kind \<Rightarrow> Client \<Rightarrow> Resource list answer" where
  "List_hosts cd fuel n kind c =
     decoded GET (kind_Path kind) (decode_slice (decode_host cd kind)) (ListCollection fuel n kind c)"

definition Create_host :: "codec \<Rightarrow> nat \<Rightarrow> net \<Rightarrow> Resource \<Rightarrow> Client \<Rightarrow> Resource answer" where
  "Create_host cd fuel n r c =
     decoded POST (kind_Path (r_Kind r)) (decode_host cd (r_Kind r)) (Create fuel n r c)"

definition Update_host :: "codec \<Rightarrow> nat \<Rightarrow> net \<Rightarrow> int \<Rightarrow> Resource \<Rightarrow> Client \<Rightarrow> Resource answer" where
  "Update_host cd fuel n i r c =
     decoded PUT (item_path (r_Kind r) i) (decode_host cd (r_Kind r)) (Update fuel n i r c)"

definition List_certificates :: "codec \<Rightarrow> nat \<Rightarrow> net \<Rightarrow> Client \<Rightarrow> Certificate list answer" where
  "List_certificates cd fuel n c =
     decoded GET ''/api/nginx/certificates'' (decode_slice (cd_Certificate cd)) (ListCertificates fuel n c)"

definition List_access_lists :: "codec \<Rightarrow> nat \<Rightarrow> net \<Rightarrow> Client \<Rightarrow> AccessList list answer" where
  "List_access_lists cd fuel n c =
     decoded GET ''/api/nginx/access-lists'' (decode_slice (cd_AccessList cd)) (ListAccessLists fuel n c)"

text \<open>The accessors of one kind: the listing as values of that kind, and the type assertion on what a
  create or an update returns, whose failure is \<open>Inr None\<close>.\<close>

definition asserted :: "(Resource \<Rightarrow> 'a option) \<Rightarrow> Resource answer \<Rightarrow> 'a option answer" where
  "asserted as out = map_option (\<lambda>(r, c). (map_sum id as r, c)) out"

definition createTyped :: "(Resource \<Rightarrow> 'a option) \<Rightarrow> codec \<Rightarrow> nat \<Rightarrow> net \<Rightarrow> Resource \<Rightarrow> Client \<Rightarrow> 'a option answer" where
  "createTyped as cd fuel n r c = asserted as (Create_host cd fuel n r c)"

definition updateTyped ::
  "(Resource \<Rightarrow> 'a option) \<Rightarrow> codec \<Rightarrow> nat \<Rightarrow> net \<Rightarrow> int \<Rightarrow> Resource \<Rightarrow> Client \<Rightarrow> 'a option answer" where
  "updateTyped as cd fuel n i r c = asserted as (Update_host cd fuel n i r c)"

definition CreateProxyHost where "CreateProxyHost cd fuel n h c = createTyped as_proxy cd fuel n (Proxy h) c"
definition UpdateProxyHost where "UpdateProxyHost cd fuel n i h c = updateTyped as_proxy cd fuel n i (Proxy h) c"
definition CreateRedirectionHost where "CreateRedirectionHost cd fuel n h c = createTyped as_redirect cd fuel n (Redirect h) c"
definition UpdateRedirectionHost where "UpdateRedirectionHost cd fuel n i h c = updateTyped as_redirect cd fuel n i (Redirect h) c"
definition CreateStream where "CreateStream cd fuel n s c = createTyped as_stream cd fuel n (Strm s) c"
definition UpdateStream where "UpdateStream cd fuel n i s c = updateTyped as_stream cd fuel n i (Strm s) c"
definition CreateDeadHost where "CreateDeadHost cd fuel n h c = createTyped as_dead cd fuel n (Dead h) c"
definition UpdateDeadHost where "UpdateDeadHost cd fuel n i h c = updateTyped as_dead cd fuel n i (Dead h) c"

definition ListProxyHosts where "ListProxyHosts cd fuel n c = listCollection as_proxy cd fuel n KindProxy c"
definition ListRedirectionHosts where "ListRedirectionHosts cd fuel n c = listCollection as_redirect cd fuel n KindRedirect c"
definition ListStreams where "ListStreams cd fuel n c = listCollection as_stream cd fuel n KindStream c"
definition ListDeadHosts where "ListDeadHosts cd fuel n c = listCollection as_dead cd fuel n KindDead c"

definition DeleteProxyHost where "DeleteProxyHost fuel n i c = Delete fuel n KindProxy i c"
definition DeleteRedirectionHost where "DeleteRedirectionHost fuel n i c = Delete fuel n KindRedirect i c"
definition DeleteStream where "DeleteStream fuel n i c = Delete fuel n KindStream i c"
definition DeleteDeadHost where "DeleteDeadHost fuel n i c = Delete fuel n KindDead i c"

text \<open>A decoder that keeps the kind makes the type assertions succeed.\<close>

definition keeps_kind :: "codec \<Rightarrow> bool" where
  "keeps_kind cd \<longleftrightarrow> (\<forall>r v r'. cd_Host cd r v = Some r' \<longrightarrow> r_Kind r' = r_Kind r)"

lemma decode_host_Kind: "keeps_kind cd \<Longrightarrow> decode_host cd kind v = Some r \<Longrightarrow> r_Kind r = kind"
  by (auto simp: decode_host_def keeps_kind_def)

lemma decoded_cases:
  assumes "decoded m p f out = Some (Inr x, c)"
  obtains v where "out = Some (Inr (Some v), c)" "f v = Some x"
  using assms by (auto simp: decoded_def bind_eq_Some_conv split: option.splits elim!: rbind_InrE)

lemma Create_host_Kind: "keeps_kind cd \<Longrightarrow> Create_host cd fuel n r c = Some (Inr x, c') \<Longrightarrow> r_Kind x = r_Kind r"
  unfolding Create_host_def by (elim decoded_cases decode_host_Kind)

lemma Update_host_Kind: "keeps_kind cd \<Longrightarrow> Update_host cd fuel n i r c = Some (Inr x, c') \<Longrightarrow> r_Kind x = r_Kind r"
  unfolding Update_host_def by (elim decoded_cases decode_host_Kind)

lemma as_kind:
  "r_Kind r = KindProxy \<Longrightarrow> as_proxy r \<noteq> None" "r_Kind r = KindRedirect \<Longrightarrow> as_redirect r \<noteq> None"
  "r_Kind r = KindStream \<Longrightarrow> as_stream r \<noteq> None" "r_Kind r = KindDead \<Longrightarrow> as_dead r \<noteq> None"
  by (cases r; simp)+

lemma asserted_answers: "(\<And>x d. out = Some (Inr x, d) \<Longrightarrow> as x \<noteq> None) \<Longrightarrow> asserted as out \<noteq> Some (Inr None, c')"
  by (auto simp: asserted_def map_sum_def split: sum.splits)

lemma typed_answers:
  assumes "keeps_kind cd" "\<And>x. r_Kind x = r_Kind r \<Longrightarrow> as x \<noteq> None"
  shows "createTyped as cd fuel n r c \<noteq> Some (Inr None, c')" "updateTyped as cd fuel n i r c \<noteq> Some (Inr None, c')"
  unfolding createTyped_def updateTyped_def
  by (rule asserted_answers, rule assms(2), erule Create_host_Kind [OF assms(1)] Update_host_Kind [OF assms(1)])+

lemma typed_operations:
  assumes "keeps_kind cd"
  shows "CreateProxyHost cd fuel n h c \<noteq> Some (Inr None, c')" "UpdateProxyHost cd fuel n i h c \<noteq> Some (Inr None, c')"
    "CreateRedirectionHost cd fuel n g c \<noteq> Some (Inr None, c')" "UpdateRedirectionHost cd fuel n i g c \<noteq> Some (Inr None, c')"
    "CreateStream cd fuel n s c \<noteq> Some (Inr None, c')" "UpdateStream cd fuel n i s c \<noteq> Some (Inr None, c')"
    "CreateDeadHost cd fuel n d c \<noteq> Some (Inr None, c')" "UpdateDeadHost cd fuel n i d c \<noteq> Some (Inr None, c')"
  unfolding CreateProxyHost_def UpdateProxyHost_def CreateRedirectionHost_def UpdateRedirectionHost_def
    CreateStream_def UpdateStream_def CreateDeadHost_def UpdateDeadHost_def
  by (rule typed_answers [OF assms], simp add: as_kind)+

text \<open>The dispatching listing is that of the kind, collected.\<close>

lemma decode_slice_wrap:
  assumes "\<And>v. f v = map_option wrap (g v)"
  shows "decode_slice f v = map_option (map wrap) (decode_slice g v)"
proof -
  have "those (map f xs) = map_option (map wrap) (those (map g xs))" for xs
    by (induction xs) (auto simp: assms option.map_comp comp_def split: option.split)
  then show ?thesis by (simp add: decode_slice_def split: json.split)
qed

lemma bind_map_option: "Option.bind x (\<lambda>v. map_option g (f v)) = map_option g (Option.bind x f)"
  by (cases x) simp_all

lemma collect_listCollection:
  assumes "keeps_kind cd" "\<And>r. r_Kind r = kind \<Longrightarrow> map_option wrap (as r) = Some r"
  shows "List_hosts cd fuel n kind c = collect wrap (listCollection as cd fuel n kind c)"
proof -
  have "decode_host cd kind v = map_option wrap (Option.bind (decode_host cd kind v) as)" for v
  proof (cases "decode_host cd kind v")
    case (Some r)
    from assms(2) [OF decode_host_Kind [OF assms(1) Some]] show ?thesis by (simp only: Some Option.bind.simps)
  qed simp
  then have slice: "decode_slice (decode_host cd kind) =
      (\<lambda>v. map_option (map wrap) (decode_slice (\<lambda>v. Option.bind (decode_host cd kind v) as) v))"
    by (intro ext decode_slice_wrap)
  have "decoded m p (\<lambda>v. map_option (map wrap) (f v)) out = collect wrap (decoded m p f out)" for m p f out
  proof (cases out)
    case (Some rc)
    then show ?thesis
      by (cases rc; cases "fst rc") (auto simp: decoded_def collect_def bind_map_option split: option.split)
  qed (simp add: decoded_def collect_def)
  then show ?thesis by (simp add: List_hosts_def listCollection_def slice)
qed

lemma lists_are_collected:
  assumes "keeps_kind cd"
  shows "List_hosts cd fuel n KindProxy c = collect Proxy (ListProxyHosts cd fuel n c)"
    "List_hosts cd fuel n KindRedirect c = collect Redirect (ListRedirectionHosts cd fuel n c)"
    "List_hosts cd fuel n KindStream c = collect Strm (ListStreams cd fuel n c)"
    "List_hosts cd fuel n KindDead c = collect Dead (ListDeadHosts cd fuel n c)"
  unfolding ListProxyHosts_def ListRedirectionHosts_def ListStreams_def ListDeadHosts_def
  by (rule collect_listCollection [OF assms], case_tac r; simp)+

section \<open>The decoding of \<open>encoding/json\<close>\<close>

definition zero_certificate :: Certificate where
  "zero_certificate = \<lparr> crt_ID = 0, crt_Provider = [], crt_NiceName = [], crt_DomainNames = [], crt_ExpiresOn = [],
     crt_IsDeleted = False \<rparr>"

definition zero_access_list :: AccessList where "zero_access_list = \<lparr> acl_ID = 0, acl_Name = [] \<rparr>"

definition go_codec :: "(client_error \<Rightarrow> string) \<Rightarrow> codec" where
  "go_codec errtext = \<lparr> cd_Host = decode_plain,
     cd_Certificate = (\<lambda>j. vc_Decode (struct_codec (certificate_members no_nils)) j zero_certificate),
     cd_AccessList = (\<lambda>j. vc_Decode (struct_codec access_list_members) j zero_access_list), cd_Text = errtext \<rparr>"

lemma keeps_kind_go_codec: "keeps_kind (go_codec errtext)"
  by (simp add: keeps_kind_def go_codec_def decode_plain_Kind)

text \<open>C39: A listing is read as it was written. Whatever resources of a kind the server writes by the struct
  tags, with any spelling of its empty values, the client reads the same resources in the same
  order, with the ownership lifted on top; the numbers of a meta object come back as floats.\<close>

theorem listing_reads_what_was_written:
  assumes "list_all (\<lambda>r. r_Kind r = kind \<and> resource_ok num r) rs"
  shows "decode_slice (decode_host (go_codec errtext) kind) (JArr (map (\<lambda>r. JObj (resource_members nils num r)) rs)) =
    Some (map (\<lambda>r. r_decode (r_norm r)) rs)"
  using assms
proof (induction rs)
  case (Cons r rs)
  then have r: "decode_host (go_codec errtext) kind (JObj (resource_members nils num r)) = Some (r_decode (r_norm r))"
    using resource_roundtrip [of num r nils] by (auto simp: decode_host_def go_codec_def)
  show ?case using Cons by (simp add: decode_slice_def r)
qed (simp add: decode_slice_def)

theorem listing_reads_what_was_written_witness:
  "\<exists>rs. length rs = 2 \<and>
     decode_slice (decode_host (go_codec (\<lambda>_. [])) KindStream)
       (JArr (map (\<lambda>r. JObj (resource_members no_nils no_num r)) rs)) = Some (map (\<lambda>r. r_decode (r_norm r)) rs)"
proof -
  let ?s = "\<lambda>p. Strm (zero_stream\<lparr> st_IncomingPort := PortOf p, st_ForwardingHost := ''app'',
    st_Meta := [MetaManagedBy \<mapsto> MStr ManagedByValue, MetaIndex \<mapsto> MInt 7] \<rparr>)"
  have ports: "port_ok (PortOf 80)" "port_ok (PortOf 443)" "port_ok zero_port" by code_simp+
  have "meta_ok no_num [MetaManagedBy \<mapsto> MStr ManagedByValue, MetaIndex \<mapsto> MInt 7]"
    by (simp add: meta_ok_def any_ok_def)
  then have "list_all (\<lambda>r. r_Kind r = KindStream \<and> resource_ok no_num r) [?s 80, ?s 443]"
    using ports by (simp add: st_ok_def cid_ok_def zero_stream_def noCertificate_def in_int64_def int_min_def int_max_def)
  from listing_reads_what_was_written [OF this] show ?thesis
    by (rule exI [of _ "[?s 80, ?s 443]", OF conjI, rotated]) simp
qed

section \<open>The client as the API of the worker\<close>

text \<open>The worker's calls are operations of the client; the answers depend on the state the calls so far
  have left the client in. An operation that runs out of fuel has no answer: statements about this API
  are made for traces whose calls all return.\<close>

fun op_of :: "call \<Rightarrow> client_op" where
  "op_of (CList kind) = OpList kind"
| "op_of (CCreate r) = OpCreate r"
| "op_of (CUpdate i r) = OpUpdate i r"
| "op_of (CDelete kind i) = OpDelete kind i"
| "op_of (CSetEnabled kind i e) = OpSetEnabled kind i e"
| "op_of CListCertificates = OpCertificates"
| "op_of CListAccessLists = OpAccessLists"
| "op_of CRecheck = OpRecheck"

definition client_after :: "nat \<Rightarrow> net \<Rightarrow> Client \<Rightarrow> history \<Rightarrow> Client option" where
  "client_after fuel n c h = performs fuel n (map op_of h) c"

definition api_error_of :: "codec \<Rightarrow> client_error \<Rightarrow> api_error" where
  "api_error_of cd e = (if cl_IsNotFound e then NotFound else Refused (cd_Text cd e))"

definition no_answer :: api_error where "no_answer = Refused ''out of fuel''"

definition api_value :: "codec \<Rightarrow> 'a answer \<Rightarrow> api_error + 'a" where
  "api_value cd out = (case out of None \<Rightarrow> Inl no_answer | Some (r, _) \<Rightarrow> map_err (api_error_of cd) r)"

definition api_fault :: "codec \<Rightarrow> 'a answer \<Rightarrow> api_error option" where
  "api_fault cd out = (case api_value cd out of Inl e \<Rightarrow> Some e | Inr _ \<Rightarrow> None)"

definition client_api :: "codec \<Rightarrow> nat \<Rightarrow> net \<Rightarrow> (nat \<Rightarrow> int) \<Rightarrow> idna \<Rightarrow> Client \<Rightarrow> Api" where
  "client_api cd fuel n clock idn c =
     (let after = client_after fuel n c in
      \<lparr> api_List = (\<lambda>h kind. api_value cd (Option.bind (after h) (List_hosts cd fuel n kind))),
        api_Create = (\<lambda>h r. api_value cd (Option.bind (after h) (Create_host cd fuel n r))),
        api_Update = (\<lambda>h i r. api_value cd (Option.bind (after h) (Update_host cd fuel n i r))),
        api_Delete = (\<lambda>h kind i. api_fault cd (Option.bind (after h) (Delete fuel n kind i))),
        api_SetEnabled = (\<lambda>h kind i e. api_fault cd (Option.bind (after h) (cl_SetEnabled fuel n kind i e))),
        api_ListCertificates = (\<lambda>h. api_value cd (Option.bind (after h) (List_certificates cd fuel n))),
        api_ListAccessLists = (\<lambda>h. api_value cd (Option.bind (after h) (List_access_lists cd fuel n))),
        api_Recheck = (\<lambda>h. api_fault cd (map_option (\<lambda>(e, c). (case e of None \<Rightarrow> Inr () | Some e \<Rightarrow> Inl e, c))
          (Option.bind (after h) (Recheck fuel n)))),
        api_Dialect = (\<lambda>h. case after h of Some c \<Rightarrow> dialectLocked c | None \<Rightarrow> dialectLocked c),
        api_clock = clock, api_idna = idn \<rparr>)"

lemma performs_append: "performs fuel n (xs @ ys) c = Option.bind (performs fuel n xs c) (performs fuel n ys)"
  by (induction xs arbitrary: c) (auto split: bind_split)

lemma client_after_append: "client_after fuel n c (xs @ ys) = Option.bind (client_after fuel n c xs) (\<lambda>c. client_after fuel n c ys)"
  by (simp add: client_after_def performs_append)

lemma api_value_Inr: "api_value cd out = Inr x \<longleftrightarrow> (\<exists>c. out = Some (Inr x, c))"
  by (auto simp: api_value_def split: option.splits)

section \<open>From calls to requests\<close>

text \<open>The request a write of the worker may cause: its method, its path, and for a create or an update the
  body of that very resource.\<close>

fun carries :: "call \<Rightarrow> request \<Rightarrow> bool" where
  "carries (CCreate r) q \<longleftrightarrow>
     rq_Method q = POST \<and> rq_Path q = kind_Path (r_Kind r) \<and> (\<exists>d p. Payload d r = Inr p \<and> rq_Body q = HostBody p)"
| "carries (CUpdate i r) q \<longleftrightarrow>
     rq_Method q = PUT \<and> rq_Path q = item_path (r_Kind r) i \<and> (\<exists>d p. Payload d r = Inr p \<and> rq_Body q = HostBody p)"
| "carries (CDelete kind i) q \<longleftrightarrow> rq_Method q = DELETE \<and> rq_Path q = item_path kind i \<and> rq_Body q = NoBody"
| "carries (CSetEnabled kind i e) q \<longleftrightarrow>
     rq_Method q = POST \<and> rq_Path q = item_path kind i @ ''/'' @ (if e then ''enable'' else ''disable'') \<and> rq_Body q = NoBody"
| "carries _ q \<longleftrightarrow> False"

definition caused :: "call \<Rightarrow> request list \<Rightarrow> bool" where
  "caused call qs \<longleftrightarrow> length qs \<le> 2 \<and> list_all (carries call) qs"

definition changes :: "Client \<Rightarrow> Client \<Rightarrow> request list" where
  "changes c c' = filter is_change (drop (length (cl_Sent c)) (cl_Sent c'))"

definition extends :: "Client \<Rightarrow> Client \<Rightarrow> bool" where
  "extends c c' \<longleftrightarrow> (\<exists>qs. cl_Sent c' = cl_Sent c @ qs)"

lemma changes_trans: "extends c c1 \<Longrightarrow> extends c1 c' \<Longrightarrow> changes c c' = changes c c1 @ changes c1 c' \<and> extends c c'"
  by (auto simp: extends_def changes_def)

lemma changes_refl [simp]: "changes c c = []" "extends c c"
  by (simp_all add: changes_def extends_def)

lemma do_call_changes:
  assumes "do_call fuel n m p b want c = Some (r, c')"
  shows "extends c c'" "length (changes c c') \<le> 2" "list_all (same_request m p b) (changes c c')"
    "m = GET \<Longrightarrow> changes c c' = []"
proof -
  obtain qs rs where t: "cl_Sent c' = cl_Sent c @ qs @ rs" "exchanged n m p b (cl_Sent c) qs" "\<not> list_ex is_change rs"
    using do_call_trace [OF assms] by blast
  then have rs: "filter is_change rs = []" by (auto simp: list_ex_iff filter_empty_conv)
  then have c: "changes c c' = filter is_change qs" by (simp add: changes_def t(1))
  show "extends c c'" by (simp add: extends_def t(1))
  show "length (changes c c') \<le> 2" "list_all (same_request m p b) (changes c c')" using t(2) by (simp_all add: c exchanged_def)
  show "changes c c' = []" if "m = GET"
  proof -
    have "\<not> is_change q" if "same_request m p b q" for q using that \<open>m = GET\<close> by (simp add: same_request_def is_change_def)
    then show ?thesis using t(2) by (auto simp: c exchanged_def list_all_iff filter_empty_conv)
  qed
qed

lemma caused_call:
  assumes "do_call fuel n m p b want c = Some (r, c')" "\<And>q. same_request m p b q \<Longrightarrow> carries call q"
  shows "extends c c' \<and> caused call (changes c c')"
  using do_call_changes [OF assms(1)] assms(2) by (auto simp: caused_def list_all_iff)

lemma caused_read: "do_call fuel n GET p b want c = Some (r, c') \<Longrightarrow> extends c c' \<and> caused call (changes c c')"
  using do_call_changes [of fuel n GET p b want c r c'] by (simp add: caused_def)

text \<open>A re-detection only reads.\<close>

lemma quiet_since_caused: "reads_only.Q (cl_Sent c) pin c' \<Longrightarrow> extends c c' \<and> caused call (changes c c')"
  by (auto simp: reads_only.Q_def quiet_since_def extends_def changes_def caused_def list_ex_iff filter_empty_conv)

lemma caused_Recheck:
  assumes "Recheck fuel n c = Some (e, c')"
  shows "extends c c' \<and> caused call (changes c c')"
proof -
  obtain r c1 where h: "health (get_call fuel n) c = Some (r, c1)" using assms by (auto simp: Recheck_def bind_eq_Some_conv)
  have "reads_only.Q (cl_Sent c) (cl_Pinned c) c" by (simp add: reads_only.Q_def quiet_since_def)
  then have q: "reads_only.Q (cl_Sent c) (cl_Pinned c) c1" by (rule reads_only.Q_health [OF reads_only.keeps_get_call _ h])
  have v: "reads_only.Q h pin (store_version v x)" if "reads_only.Q h pin x" for h pin v x
    using that by (simp add: reads_only.Q_def quiet_since_def store_version_def)
  have "reads_only.Q (cl_Sent c) (cl_Pinned c) c'"
    using assms q by (auto simp: Recheck_def h Let_def split: sum.splits if_splits intro: v reads_only.Q_reprobeFlavour [OF v])
  then show ?thesis by (rule quiet_since_caused)
qed

text \<open>A create or an update: the body that cannot be built is not sent.\<close>

lemma caused_body:
  assumes "(case payloadFor c r of Inl e \<Rightarrow> Some (Inl e, c) | Inr p \<Rightarrow> do_call fuel n m path (HostBody p) want c) = Some (x, c')"
    and "\<And>d p q. Payload d r = Inr p \<Longrightarrow> same_request m path (HostBody p) q \<Longrightarrow> carries call q"
  shows "extends c c' \<and> caused call (changes c c')"
proof (cases "payloadFor c r")
  case (Inl e)
  with assms(1) show ?thesis by (auto simp: caused_def)
next
  case (Inr p)
  then have p: "Payload (dialectLocked c) r = Inr p" by (simp add: payloadFor_def)
  from assms(1) Inr have "do_call fuel n m path (HostBody p) want c = Some (x, c')" by simp
  then show ?thesis by (rule caused_call) (rule assms(2) [OF p])
qed

lemma caused_perform:
  assumes "perform fuel n (op_of call) c = Some c'"
  shows "extends c c' \<and> caused call (changes c c')"
proof (cases call)
  case (CCreate r)
  with assms obtain x where "Create fuel n r c = Some (x, c')" by auto
  then show ?thesis unfolding Create_def by (rule caused_body) (auto simp: CCreate same_request_def)
next
  case (CUpdate i r)
  with assms obtain x where "Update fuel n i r c = Some (x, c')" by auto
  then show ?thesis unfolding Update_def by (rule caused_body) (auto simp: CUpdate same_request_def)
next
  case (CDelete kind i)
  with assms obtain x where "Delete fuel n kind i c = Some (x, c')" by auto
  then show ?thesis unfolding Delete_def by (rule caused_call) (simp add: CDelete same_request_def)
next
  case (CSetEnabled kind i e)
  with assms obtain x where
    "do_call fuel n POST (item_path kind i @ ''/'' @ (if e then ''enable'' else ''disable'')) NoBody False c = Some (x, c')"
    by (auto simp: cl_SetEnabled_def)
  then show ?thesis by (rule caused_call) (simp add: CSetEnabled same_request_def)
next
  case CRecheck
  with assms show ?thesis by (auto dest: caused_Recheck)
qed (use assms in \<open>auto simp: ListCollection_def ListCertificates_def ListAccessLists_def dest: caused_read\<close>)

text \<open>A whole trace: the changing requests, in order, are those of its writes, in order.\<close>

lemma caused_trace:
  assumes "client_after fuel n c h = Some c'"
  shows "extends c c' \<and> (\<exists>groups. changes c c' = concat groups \<and> list_all2 caused h groups)"
  using assms
proof (induction h arbitrary: c)
  case Nil
  then show ?case by (simp add: client_after_def)
next
  case (Cons call h)
  then obtain c1 where c1: "perform fuel n (op_of call) c = Some c1" "client_after fuel n c1 h = Some c'"
    by (auto simp: client_after_def bind_eq_Some_conv)
  from Cons.IH [OF c1(2)] obtain groups where g: "extends c1 c'" "changes c1 c' = concat groups" "list_all2 caused h groups" by blast
  note one = caused_perform [OF c1(1)]
  with changes_trans [OF _ g(1), of c] g show ?case by (auto intro: exI [of _ "changes c c1 # groups"])
qed

lemma caused_member:
  assumes "list_all2 caused h groups" "q \<in> set (concat groups)"
  obtains call where "call \<in> set h" "carries call q" "is_write call"
proof -
  from assms(2) obtain g where "g \<in> set groups" "q \<in> set g" by auto
  with assms(1) obtain call where c: "call \<in> set h" "caused call g"
    by (metis in_set_conv_nth list_all2_conv_all_nth)
  then have "carries call q" using \<open>q \<in> set g\<close> by (auto simp: caused_def list_all_iff)
  moreover from this have "is_write call" by (cases call) auto
  ultimately show thesis by (rule that [OF c(1)])
qed

lemma carries_DELETE: "carries call q \<Longrightarrow> rq_Method q = DELETE \<Longrightarrow> \<exists>k i. call = CDelete k i \<and> rq_Path q = item_path k i"
  by (cases call) auto

section \<open>An example\<close>

text \<open>A server with one 404 host, which carries the marker of this instance and which nobody wants.\<close>

definition ex_wire :: net where
  "ex_wire = \<lparr> nt_Send = (\<lambda>h q.
       if rq_Path q = tokens_path
       then Inr \<lparr> rs_Status = 200, rs_Cookies = [(''sid'', 0)], rs_Text = [], rs_Json = None \<rparr>
       else if rq_Path q = kind_Path KindDead then ex_answer 200 (JArr [JObj []])
       else ex_answer 200 (JArr [])), nt_Clock = (\<lambda>_. 7) \<rparr>"

definition ex_codec :: codec where
  "ex_codec = \<lparr> cd_Host = (\<lambda>r v. if r_Kind r = KindDead then Some ex_gone else None), cd_Certificate = (\<lambda>_. None),
     cd_AccessList = (\<lambda>_. None), cd_Text = (\<lambda>_. []) \<rparr>"

definition ex_wire_options :: Options where "ex_wire_options = ex_options\<lparr> o_Kinds := [KindDead] \<rparr>"

definition ex_wire_api :: Api where "ex_wire_api = client_api ex_codec 1 ex_wire int (\<lambda>_. None) ex_client"

definition ex_wire_worker :: Worker where
  "ex_wire_worker = snd (reconcile ex_wire_api ex_wire_options True (Inr (ex_snapshot [] 1)) NewWorker)"

lemma ex_wire_run:
  "reconcile ex_wire_api ex_wire_options True (Inr (ex_snapshot [] 1)) NewWorker =
     ((fst (fst (reconcile ex_wire_api ex_wire_options True (Inr (ex_snapshot [] 1)) NewWorker)),
       snd (fst (reconcile ex_wire_api ex_wire_options True (Inr (ex_snapshot [] 1)) NewWorker))), ex_wire_worker)"
  by (simp add: ex_wire_worker_def)

definition ex_wire_deletes :: "Client option \<Rightarrow> request list" where
  "ex_wire_deletes out = (case out of None \<Rightarrow> [] | Some c \<Rightarrow> filter (\<lambda>q. is_change q \<and> rq_Method q = DELETE) (cl_Sent c))"

lemma ex_wire_delete:
  obtains c q where "client_after 1 ex_wire ex_client (w_trace ex_wire_worker) = Some c" "q \<in> set (cl_Sent c)"
    "is_change q" "rq_Method q = DELETE"
proof -
  let ?out = "client_after 1 ex_wire ex_client (w_trace ex_wire_worker)"
  have "ex_wire_deletes ?out \<noteq> []" by code_simp
  then obtain c q where "?out = Some c" "q \<in> set (ex_wire_deletes ?out)"
    by (cases ?out) (auto simp: ex_wire_deletes_def dest!: hd_in_set)
  with that show thesis by (auto simp: ex_wire_deletes_def)
qed

section \<open>Properties\<close>





end
