(* ===== verification/Config.thy ===== *)
theory Config
  imports Defaults Guard
begin

text \<open>
  The configuration (\<open>internal/config/config.go\<close>). The process environment is an argument, the
  lookup function and the list of its entries; so are the two calls that leave the program's own
  text: \<open>os.ReadFile\<close> (contents or nothing) and \<open>url.Parse\<close> (scheme and host, or an error). Every
  reader returns its value beside its errors, since \<open>load\<close> goes on after an error and reports all.
\<close>

section \<open>The environment\<close>

type_synonym env = "string \<Rightarrow> string"
type_synonym files = "string \<Rightarrow> string option"

text \<open>\<open>NAME_FILE\<close> is read from disk when it is set; a file that cannot be read is passed over.\<close>

definition fileAware :: "files \<Rightarrow> env \<Rightarrow> env" where
  "fileAware read_file getenv key =
     (if cut_suffix ''_FILE'' key \<noteq> None then getenv key
      else let path = trim_space (getenv (key @ ''_FILE'')) in
        if path \<noteq> [] then (case read_file path of Some raw \<Rightarrow> trim_space raw | None \<Rightarrow> getenv key)
        else getenv key)"

definition str :: "env \<Rightarrow> string \<Rightarrow> string list \<Rightarrow> string" where
  "str getenv fallback keys =
     (case find (\<lambda>v. v \<noteq> []) (map (\<lambda>key. trim_space (getenv key)) keys) of Some v \<Rightarrow> v | None \<Rightarrow> fallback)"

text \<open>A notice is the spelling that was used and the canonical name.\<close>

definition alias_of :: "env \<Rightarrow> string list \<Rightarrow> string \<times> (string \<times> string) list" where
  "alias_of getenv keys =
     (case find (\<lambda>key. trim_space (getenv key) \<noteq> []) keys of
        None \<Rightarrow> ([], [])
      | Some key \<Rightarrow> (trim_space (getenv key), if key = hd keys then [] else [(key, hd keys)]))"

datatype config_error =
    SecretUnreadable string
  | InvalidDuration string string
  | InvalidSwitch string value_error
  | InvalidInteger string string
  | UnknownFlavour string
  | UnknownResource string
  | UnknownLevel string
  | UnknownPartial string
  | UnknownOnStop string
  | PortNotANumber string
  | PortOutOfRange int
  | GuardUnreadable string
  | GuardOutOfRange string
  | InvalidDefault string value_error
  | UrlRequired
  | UrlInvalid string
  | UrlNotAbsolute string
  | UrlScheme string
  | IdentityRequired
  | SecretRequired
  | DockerHostScheme string
  | PrefixEmpty
  | DebounceNotPositive
  | MaxWaitTooShort
  | NoKinds
  | LogFormatUnknown string

text \<open>\<open>None\<close> ends the search without a value.\<close>

fun secretValue :: "files \<Rightarrow> env \<Rightarrow> string list \<Rightarrow> config_error + string" where
  "secretValue read_file getenv [] = Inr []"
| "secretValue read_file getenv (key # keys) =
     (let path = trim_space (getenv (key @ ''_FILE'')) in
      if path \<noteq> [] then (case read_file path of None \<Rightarrow> Inl (SecretUnreadable key) | Some raw \<Rightarrow> Inr (trim_space raw))
      else if getenv key \<noteq> [] then Inr (getenv key)
      else secretValue read_file getenv keys)"

section \<open>Readers\<close>

definition duration :: "env \<Rightarrow> int \<Rightarrow> string \<Rightarrow> int \<times> config_error list" where
  "duration getenv fallback key =
     (let raw = trim_space (getenv key) in
      if raw = [] then (fallback, [])
      else case atoi raw of
             Some n \<Rightarrow> (wrap64 (n * second), [])
           | None \<Rightarrow> (case ParseDuration raw of
                 None \<Rightarrow> (fallback, [InvalidDuration key raw])
               | Some d \<Rightarrow> (d, [])))"

fun boolean :: "env \<Rightarrow> bool \<Rightarrow> string list \<Rightarrow> bool \<times> config_error list" where
  "boolean getenv fallback [] = (fallback, [])"
| "boolean getenv fallback (key # keys) =
     (let raw = trim_space (getenv key) in
      if raw = [] then boolean getenv fallback keys
      else case ParseBool raw of
             Inl e \<Rightarrow> (fallback, [InvalidSwitch key e])
           | Inr b \<Rightarrow> (b, []))"

fun integer :: "env \<Rightarrow> int \<Rightarrow> string list \<Rightarrow> int \<times> config_error list" where
  "integer getenv fallback [] = (fallback, [])"
| "integer getenv fallback (key # keys) =
     (let raw = trim_space (getenv key) in
      if raw = [] then integer getenv fallback keys
      else case atoi raw of
             None \<Rightarrow> (fallback, [InvalidInteger key raw])
           | Some n \<Rightarrow> (n, []))"

definition is_list_sep :: "char \<Rightarrow> bool" where
  "is_list_sep c \<longleftrightarrow> c = CHR '','' \<or> c = CHR '' '' \<or> c = CHR '';''"

definition kind_word :: "string \<Rightarrow> Kind option" where
  "kind_word part =
     (let w = to_lower (trim_space part) in
      if w \<in> set [''proxy'', ''proxies'', ''proxy-hosts'', ''proxy_hosts''] then Some KindProxy
      else if w \<in> set [''redirect'', ''redirects'', ''redirection'', ''redirection-hosts''] then Some KindRedirect
      else if w \<in> set [''stream'', ''streams''] then Some KindStream
      else if w \<in> set [''dead'', ''404'', ''dead-hosts'', ''dead_hosts''] then Some KindDead
      else None)"

text \<open>\<open>kinds\<close>: the words in order, without repetitions; the first unknown one is the error and no
  list is returned.\<close>

fun kinds_from :: "Kind list \<Rightarrow> string list \<Rightarrow> Kind list \<times> config_error list" where
  "kinds_from out [] = (out, [])"
| "kinds_from out (part # parts) =
     (case kind_word part of
        None \<Rightarrow> ([], [UnknownResource part])
      | Some kind \<Rightarrow> kinds_from (if kind \<in> set out then out else out @ [kind]) parts)"

definition kinds :: "string \<Rightarrow> Kind list \<times> config_error list" where
  "kinds raw = (if trim_space raw = [] then (Kinds, []) else kinds_from [] (fields_func is_list_sep raw))"

fun ports_from :: "int list \<Rightarrow> string list \<Rightarrow> int list \<times> config_error list" where
  "ports_from out [] = (out, [])"
| "ports_from out (part # parts) =
     (case atoi (trim_space part) of
        None \<Rightarrow> ([], [PortNotANumber part])
      | Some n \<Rightarrow> if n < 1 \<or> n > 65535 then ([], [PortOutOfRange n]) else ports_from (out @ [n]) parts)"

definition portPreference :: "string \<Rightarrow> int list \<times> config_error list" where
  "portPreference raw =
     (if trim_space raw = [] then (DefaultPortPreference, []) else ports_from [] (fields_func is_list_sep raw))"

definition DefaultDeleteGuard :: gofloat where "DefaultDeleteGuard = Fin (1 / 2)"

definition guardRatio :: "string \<Rightarrow> gofloat \<times> config_error list" where
  "guardRatio raw =
     (let value = to_lower (trim_space raw) in
      if value = [] then (DefaultDeleteGuard, [])
      else if value \<in> set [''off'', ''none'', ''disabled'', ''false''] then (Fin 0, [])
      else let percent = (cut_suffix ''%'' value \<noteq> None) in
        case ParseFloat (trim_suffix value ''%'') of
          None \<Rightarrow> (Fin 0, [GuardUnreadable raw])
        | Some number \<Rightarrow>
            let ratio = (if percent \<or> float_less (Fin 1) number then float_div number 100 else number)
            in if float_less ratio (Fin 0) \<or> float_less (Fin 1) ratio then (Fin 0, [GuardOutOfRange raw])
               else (ratio, []))"

datatype Level = LevelDebug | LevelInfo | LevelWarn | LevelError

definition logLevel :: "string \<Rightarrow> Level \<times> config_error list" where
  "logLevel raw =
     (let w = to_lower (trim_space raw) in
      if w = ''debug'' then (LevelDebug, [])
      else if w \<in> set [[], ''info''] then (LevelInfo, [])
      else if w \<in> set [''warn'', ''warning''] then (LevelWarn, [])
      else if w = ''error'' then (LevelError, [])
      else (LevelInfo, [UnknownLevel raw]))"

text \<open>A parser of another package, with the value it returns beside an error.\<close>

definition parsed :: "('e \<Rightarrow> config_error) \<Rightarrow> 'a \<Rightarrow> 'e + 'a \<Rightarrow> 'a \<times> config_error list" where
  "parsed err fallback r = (case r of Inl e \<Rightarrow> (fallback, [err e]) | Inr v \<Rightarrow> (v, []))"

definition certificatePartial :: "env \<Rightarrow> Partial \<times> config_error list" where
  "certificatePartial getenv =
     parsed UnknownPartial PartialPrimary (ParsePartial (str getenv [] [''NPM_CERTIFICATE_PARTIAL'']))"

declare boolean.simps [simp del] integer.simps [simp del]

section \<open>The configuration\<close>

record Config =
  cf_NPMURL :: string
  cf_NPMIdentity :: string
  cf_NPMSecret :: string
  cf_NPMTimeout :: int
  cf_NPMInsecureSkipVerify :: bool
  cf_NPMFlavour :: Flavour
  cf_DockerHost :: string
  cf_LabelPrefix :: string
  cf_ResolveIP :: bool
  cf_NPMNetwork :: string
  cf_StrictNetwork :: bool
  cf_NPMContainer :: string
  cf_ExposedByDefault :: bool
  cf_StrictLabels :: bool
  cf_PortPreference :: "int list"
  cf_Defaults :: Defaults
  cf_CertificatePartial :: Partial
  cf_CertificateAutoCreate :: bool
  cf_CertificatePoll :: int
  cf_MigrateFromRedth :: bool
  cf_OnStop :: OnStop
  cf_StopGrace :: int
  cf_InstanceID :: string
  cf_DeleteGuard :: gofloat
  cf_DeleteGuardMin :: int
  cf_Kinds :: "Kind list"
  cf_DebounceInterval :: int
  cf_DebounceMaxWait :: int
  cf_ResyncInterval :: int
  cf_DeleteOrphans :: bool
  cf_AdoptExisting :: bool
  cf_DryRun :: bool
  cf_ShutdownTimeout :: int
  cf_LogLevel :: Level
  cf_LogFormat :: string
  cf_HealthAddr :: string
  cf_LogPayloads :: bool
  cf_Warnings :: "string list"
  cf_Notices :: "(string \<times> string) list"

definition DefaultDockerHost :: string where "DefaultDockerHost = ''unix:///var/run/docker.sock''"
definition DefaultLabelPrefix :: string where "DefaultLabelPrefix = ''npm''"
definition DefaultDebounceInterval :: int where "DefaultDebounceInterval = 3 * second"
definition DefaultDebounceMaxWait :: int where "DefaultDebounceMaxWait = 30 * second"
definition DefaultResyncInterval :: int where "DefaultResyncInterval = 5 * minute"
definition DefaultHTTPTimeout :: int where "DefaultHTTPTimeout = 30 * second"
definition DefaultCertificatePoll :: int where "DefaultCertificatePoll = minute"
definition DefaultStopGrace :: int where "DefaultStopGrace = minute"

text \<open>The values \<open>load\<close> assigns, for the lookup that already knows about files, and the errors it
  collects on the way, in the order of the code.\<close>

definition settings :: "env \<Rightarrow> string list \<Rightarrow> string \<Rightarrow> Config" where
  "settings getenv environ secret =
     \<lparr> cf_NPMURL = trim_right_any (fst (alias_of getenv [''NPM_URL'', ''NPM_BASE_URL''])) ''/'',
       cf_NPMIdentity = fst (alias_of getenv [''NPM_IDENTITY'', ''NPM_EMAIL'', ''NPM_USER'']),
       cf_NPMSecret = secret,
       cf_NPMTimeout = fst (duration getenv DefaultHTTPTimeout ''NPM_TIMEOUT''),
       cf_NPMInsecureSkipVerify = fst (boolean getenv False [''NPM_INSECURE_SKIP_VERIFY'']),
       cf_NPMFlavour = fst (parsed UnknownFlavour FlavourAuto (ParseFlavour (str getenv [] [''NPM_FLAVOUR'', ''NPM_FLAVOR'']))),
       cf_DockerHost = str getenv DefaultDockerHost [''DOCKER_HOST''],
       cf_LabelPrefix = trim_suffix (str getenv DefaultLabelPrefix [''LABEL_PREFIX'']) ''.'',
       cf_ResolveIP = fst (boolean getenv True [''RESOLVE_CONTAINER_IP'']),
       cf_NPMNetwork = fst (alias_of getenv [''NPM_NETWORK'', ''NPM_DOCKER_NETWORK'']),
       cf_StrictNetwork = fst (boolean getenv True [''NPM_NETWORK_STRICT'']),
       cf_NPMContainer = fst (alias_of getenv [''NPM_CONTAINER'', ''NPM_CONTAINER_NAME'']),
       cf_ExposedByDefault = fst (boolean getenv True [''NPM_EXPOSED_BY_DEFAULT'', ''EXPOSED_BY_DEFAULT'']),
       cf_StrictLabels = fst (boolean getenv False [''STRICT_LABELS'', ''NPM_STRICT_LABELS'']),
       cf_PortPreference = fst (portPreference (str getenv [] [''NPM_PORT_PREFERENCE''])),
       cf_Defaults = fst (LoadDefaults getenv environ),
       cf_CertificatePartial = fst (certificatePartial getenv),
       cf_CertificateAutoCreate = fst (boolean getenv False [''NPM_CERTIFICATE_AUTO_CREATE'']),
       cf_CertificatePoll = fst (duration getenv DefaultCertificatePoll ''CERTIFICATE_POLL_INTERVAL''),
       cf_MigrateFromRedth = fst (boolean getenv False [''MIGRATE_FROM_REDTH'']),
       cf_OnStop = fst (parsed UnknownOnStop OnStopDisable (ParseOnStop (str getenv [] [''NPM_ON_STOP'']))),
       cf_StopGrace = fst (duration getenv DefaultStopGrace ''NPM_STOP_GRACE''),
       cf_InstanceID = str getenv [] [''SYNC_INSTANCE_ID'', ''NPM_INSTANCE_ID''],
       cf_DeleteGuard = fst (guardRatio (str getenv [] [''DELETE_GUARD''])),
       cf_DeleteGuardMin = fst (integer getenv DefaultDeleteGuardMin [''DELETE_GUARD_MIN'']),
       cf_Kinds = fst (kinds (str getenv [] [''SYNC_KINDS'', ''RESOURCE_KINDS''])),
       cf_DebounceInterval = fst (duration getenv DefaultDebounceInterval ''DEBOUNCE_INTERVAL''),
       cf_DebounceMaxWait = fst (duration getenv DefaultDebounceMaxWait ''DEBOUNCE_MAX_WAIT''),
       cf_ResyncInterval = fst (duration getenv DefaultResyncInterval ''RESYNC_INTERVAL''),
       cf_DeleteOrphans = fst (boolean getenv True [''DELETE_ORPHANS'']),
       cf_AdoptExisting = fst (boolean getenv True [''ADOPT_EXISTING'']),
       cf_DryRun = fst (boolean getenv False [''DRY_RUN'']),
       cf_ShutdownTimeout = fst (duration getenv DefaultHTTPTimeout ''SHUTDOWN_TIMEOUT''),
       cf_LogLevel = fst (logLevel (str getenv ''info'' [''LOG_LEVEL''])),
       cf_LogFormat = to_lower (str getenv ''text'' [''LOG_FORMAT'']),
       cf_HealthAddr = str getenv [] [''HEALTH_ADDR''],
       cf_LogPayloads = fst (boolean getenv False [''LOG_PAYLOADS'', ''NPM_DEBUG_PAYLOADS'']),
       cf_Warnings = fst (snd (LoadDefaults getenv environ)),
       cf_Notices = snd (alias_of getenv [''NPM_URL'', ''NPM_BASE_URL''])
         @ snd (alias_of getenv [''NPM_IDENTITY'', ''NPM_EMAIL'', ''NPM_USER''])
         @ snd (alias_of getenv [''NPM_NETWORK'', ''NPM_DOCKER_NETWORK''])
         @ snd (alias_of getenv [''NPM_CONTAINER'', ''NPM_CONTAINER_NAME''])
         @ (if secret \<noteq> [] \<and> trim_space (getenv ''NPM_SECRET'') = [] \<and> trim_space (getenv ''NPM_SECRET_FILE'') = []
            then [(''NPM_PASSWORD'', ''NPM_SECRET'')] else []) \<rparr>"

definition reader_problems :: "env \<Rightarrow> config_error list" where
  "reader_problems getenv =
     snd (duration getenv DefaultHTTPTimeout ''NPM_TIMEOUT'')
     @ snd (duration getenv DefaultDebounceInterval ''DEBOUNCE_INTERVAL'')
     @ snd (duration getenv DefaultDebounceMaxWait ''DEBOUNCE_MAX_WAIT'')
     @ snd (duration getenv DefaultResyncInterval ''RESYNC_INTERVAL'')
     @ snd (duration getenv DefaultHTTPTimeout ''SHUTDOWN_TIMEOUT'')
     @ snd (boolean getenv False [''NPM_INSECURE_SKIP_VERIFY''])
     @ snd (boolean getenv True [''DELETE_ORPHANS''])
     @ snd (boolean getenv True [''ADOPT_EXISTING''])
     @ snd (boolean getenv False [''DRY_RUN''])
     @ snd (boolean getenv True [''RESOLVE_CONTAINER_IP''])
     @ snd (boolean getenv True [''NPM_NETWORK_STRICT''])
     @ snd (boolean getenv False [''LOG_PAYLOADS'', ''NPM_DEBUG_PAYLOADS''])
     @ snd (parsed UnknownFlavour FlavourAuto (ParseFlavour (str getenv [] [''NPM_FLAVOUR'', ''NPM_FLAVOR''])))
     @ snd (kinds (str getenv [] [''SYNC_KINDS'', ''RESOURCE_KINDS'']))
     @ snd (logLevel (str getenv ''info'' [''LOG_LEVEL'']))
     @ snd (boolean getenv True [''NPM_EXPOSED_BY_DEFAULT'', ''EXPOSED_BY_DEFAULT''])
     @ snd (boolean getenv False [''STRICT_LABELS'', ''NPM_STRICT_LABELS''])
     @ snd (boolean getenv False [''MIGRATE_FROM_REDTH''])
     @ snd (boolean getenv False [''NPM_CERTIFICATE_AUTO_CREATE''])
     @ snd (duration getenv DefaultCertificatePoll ''CERTIFICATE_POLL_INTERVAL'')
     @ snd (certificatePartial getenv)
     @ snd (portPreference (str getenv [] [''NPM_PORT_PREFERENCE'']))
     @ snd (parsed UnknownOnStop OnStopDisable (ParseOnStop (str getenv [] [''NPM_ON_STOP''])))
     @ snd (duration getenv DefaultStopGrace ''NPM_STOP_GRACE'')
     @ snd (guardRatio (str getenv [] [''DELETE_GUARD'']))
     @ snd (integer getenv DefaultDeleteGuardMin [''DELETE_GUARD_MIN''])"

definition problems :: "env \<Rightarrow> string list \<Rightarrow> config_error list" where
  "problems getenv environ =
     reader_problems getenv @ map (\<lambda>(source, e). InvalidDefault source e) (snd (snd (LoadDefaults getenv environ)))"

text \<open>\<open>url.Parse\<close> returns the scheme and the host.\<close>

definition url_problems :: "(string \<Rightarrow> (string \<times> string) option) \<Rightarrow> bool \<Rightarrow> string \<Rightarrow> config_error list" where
  "url_problems parse_url requireAPI url =
     (if url = [] then (if requireAPI then [UrlRequired] else [])
      else case parse_url url of
             None \<Rightarrow> [UrlInvalid url]
           | Some (scheme, host) \<Rightarrow>
               if scheme = [] \<or> host = [] then [UrlNotAbsolute url]
               else if scheme \<noteq> ''http'' \<and> scheme \<noteq> ''https'' then [UrlScheme scheme] else [])"

definition docker_schemes :: "string list" where
  "docker_schemes = [''unix://'', ''tcp://'', ''npipe://'', ''ssh://'']"

definition validate :: "(string \<Rightarrow> (string \<times> string) option) \<Rightarrow> bool \<Rightarrow> Config \<Rightarrow> config_error list" where
  "validate parse_url requireAPI c =
     url_problems parse_url requireAPI (cf_NPMURL c)
     @ (if requireAPI \<and> cf_NPMIdentity c = [] then [IdentityRequired] else [])
     @ (if requireAPI \<and> cf_NPMSecret c = [] then [SecretRequired] else [])
     @ (if list_ex (has_prefix (cf_DockerHost c)) docker_schemes then [] else [DockerHostScheme (cf_DockerHost c)])
     @ (if cf_LabelPrefix c = [] then [PrefixEmpty] else [])
     @ (if cf_DebounceInterval c \<le> 0 then [DebounceNotPositive] else [])
     @ (if cf_DebounceMaxWait c > 0 \<and> cf_DebounceMaxWait c < cf_DebounceInterval c then [MaxWaitTooShort] else [])
     @ (if cf_Kinds c = [] then [NoKinds] else [])
     @ (if cf_LogFormat c \<noteq> ''text'' \<and> cf_LogFormat c \<noteq> ''json'' then [LogFormatUnknown (cf_LogFormat c)] else [])"

definition load ::
  "files \<Rightarrow> (string \<Rightarrow> (string \<times> string) option) \<Rightarrow> env \<Rightarrow> string list \<Rightarrow> bool \<Rightarrow> config_error list + Config" where
  "load read_file parse_url getenv0 environ requireAPI =
     (let getenv = fileAware read_file getenv0 in
      case secretValue read_file getenv [''NPM_SECRET'', ''NPM_PASSWORD''] of
        Inl e \<Rightarrow> Inl [e]
      | Inr secret \<Rightarrow>
          let cfg = settings getenv environ secret;
              errs = problems getenv environ @ validate parse_url requireAPI cfg
          in if errs \<noteq> [] then Inl errs else Inr cfg)"

definition Load where "Load read_file parse_url getenv environ = load read_file parse_url getenv environ True"
definition LoadForCheck where "LoadForCheck read_file parse_url getenv environ = load read_file parse_url getenv environ False"

section \<open>What is logged\<close>

definition Redacted :: "Config \<Rightarrow> Config" where
  "Redacted c = (if cf_NPMSecret c \<noteq> [] then c\<lparr> cf_NPMSecret := ''***'' \<rparr> else c)"

definition kindList :: "Kind list \<Rightarrow> string" where
  "kindList ks = join '','' (map kind_name ks)"

datatype log_value = LString string | LBool bool | LDuration int | LFloat gofloat | LFlavour Flavour
  | LPartial Partial | LOnStop OnStop

definition LogValue :: "Config \<Rightarrow> (string \<times> log_value) list" where
  "LogValue c =
     [(''npm_url'', LString (cf_NPMURL c)),
      (''npm_identity'', LString (cf_NPMIdentity c)),
      (''docker_host'', LString (cf_DockerHost c)),
      (''label_prefix'', LString (cf_LabelPrefix c)),
      (''resource_kinds'', LString (kindList (cf_Kinds c))),
      (''npm_flavour'', LFlavour (cf_NPMFlavour c)),
      (''resolve_container_ip'', LBool (cf_ResolveIP c)),
      (''npm_network'', LString (cf_NPMNetwork c)),
      (''npm_network_strict'', LBool (cf_NPMNetwork c \<noteq> [] \<and> cf_StrictNetwork c)),
      (''debounce_interval'', LDuration (cf_DebounceInterval c)),
      (''resync_interval'', LDuration (cf_ResyncInterval c)),
      (''exposed_by_default'', LBool (cf_ExposedByDefault c)),
      (''strict_labels'', LBool (cf_StrictLabels c)),
      (''certificate_partial'', LPartial (cf_CertificatePartial c)),
      (''certificate_auto_create'', LBool (cf_CertificateAutoCreate c)),
      (''certificate_poll'', LDuration (cf_CertificatePoll c)),
      (''migrate_from_redth'', LBool (cf_MigrateFromRedth c)),
      (''delete_orphans'', LBool (cf_DeleteOrphans c)),
      (''on_stop'', LOnStop (cf_OnStop c)),
      (''stop_grace'', LDuration (cf_StopGrace c)),
      (''sync_instance_id'', LString (cf_InstanceID c)),
      (''delete_guard'', LFloat (cf_DeleteGuard c)),
      (''adopt_existing'', LBool (cf_AdoptExisting c)),
      (''dry_run'', LBool (cf_DryRun c))]"

lemma LogValue_secret: "LogValue (c\<lparr> cf_NPMSecret := s \<rparr>) = LogValue c"
  by (simp add: LogValue_def)

section \<open>What a loaded configuration satisfies\<close>

text \<open>A ratio the guard can work with: a share, or, by an omission of the range check, NaN.\<close>

definition ratio_ok :: "gofloat \<Rightarrow> bool" where
  "ratio_ok g \<longleftrightarrow> g = NaN \<or> float_le (Fin 0) g \<and> float_le g (Fin 1)"

definition usable :: "(string \<Rightarrow> (string \<times> string) option) \<Rightarrow> bool \<Rightarrow> Config \<Rightarrow> bool" where
  "usable parse_url requireAPI c \<longleftrightarrow>
     cf_Kinds c \<noteq> [] \<and> distinct (cf_Kinds c)
     \<and> 0 < cf_DebounceInterval c
     \<and> (cf_DebounceMaxWait c \<le> 0 \<or> cf_DebounceInterval c \<le> cf_DebounceMaxWait c)
     \<and> list_all in_int64 [cf_NPMTimeout c, cf_DebounceInterval c, cf_DebounceMaxWait c, cf_ResyncInterval c,
          cf_ShutdownTimeout c, cf_CertificatePoll c, cf_StopGrace c, cf_DeleteGuardMin c]
     \<and> list_all (\<lambda>p. 1 \<le> p \<and> p \<le> 65535) (cf_PortPreference c)
     \<and> ratio_ok (cf_DeleteGuard c)
     \<and> cf_LogFormat c \<in> set [''text'', ''json'']
     \<and> cf_LabelPrefix c \<noteq> []
     \<and> list_ex (has_prefix (cf_DockerHost c)) docker_schemes
     \<and> (if cf_NPMURL c = [] then \<not> requireAPI
        else case parse_url (cf_NPMURL c) of Some (scheme, host) \<Rightarrow> scheme \<in> set [''http'', ''https''] \<and> host \<noteq> [] | None \<Rightarrow> False)
     \<and> (requireAPI \<longrightarrow> cf_NPMIdentity c \<noteq> [] \<and> cf_NPMSecret c \<noteq> [])"

lemma duration_range [simp]: "in_int64 fallback \<Longrightarrow> in_int64 (fst (duration getenv fallback key))"
  by (auto simp: duration_def Let_def ParseDuration_range split: option.split)

lemma integer_range [simp]: "in_int64 fallback \<Longrightarrow> in_int64 (fst (integer getenv fallback keys))"
  by (induction keys) (auto simp: integer.simps Let_def atoi_in_int64 split: option.split)

lemma kinds_from_distinct: "distinct out \<Longrightarrow> distinct (fst (kinds_from out parts))"
  by (induction parts arbitrary: out) (auto split: option.split)

lemma kinds_distinct [simp]: "distinct (fst (kinds raw))"
  by (simp add: kinds_def Kinds_def kinds_from_distinct)

lemma ports_from_range:
  "list_all (\<lambda>p. 1 \<le> p \<and> p \<le> 65535) out \<Longrightarrow> list_all (\<lambda>p. 1 \<le> p \<and> p \<le> 65535) (fst (ports_from out parts))"
  by (induction parts arbitrary: out) (auto split: option.split)

lemma portPreference_range [simp]: "list_all (\<lambda>p. 1 \<le> p \<and> p \<le> 65535) (fst (portPreference raw))"
  by (simp add: portPreference_def ports_from_range DefaultPortPreference_def)

lemma not_float_less: "\<not> float_less x y \<Longrightarrow> x \<noteq> NaN \<Longrightarrow> y \<noteq> NaN \<Longrightarrow> float_le y x"
  by (cases x; cases y) (auto simp: float_le_def)

lemma guardRatio_ok [simp]: "ratio_ok (fst (guardRatio raw))"
proof -
  have "ratio_ok r" if "\<not> (float_less r (Fin 0) \<or> float_less (Fin 1) r)" for r
    using that not_float_less [of r "Fin 0"] not_float_less [of "Fin 1" r] by (auto simp: ratio_ok_def)
  moreover have "ratio_ok (Fin 0)" "ratio_ok DefaultDeleteGuard"
    by (simp_all add: ratio_ok_def DefaultDeleteGuard_def)
  ultimately show ?thesis by (auto simp: guardRatio_def Let_def split: option.split)
qed

lemma default_ranges [simp]:
  "in_int64 DefaultHTTPTimeout" "in_int64 DefaultDebounceInterval" "in_int64 DefaultDebounceMaxWait"
  "in_int64 DefaultResyncInterval" "in_int64 DefaultCertificatePoll" "in_int64 DefaultStopGrace"
  "in_int64 DefaultDeleteGuardMin"
  by code_simp+

lemma validate_ok: "validate parse_url requireAPI c = [] \<longleftrightarrow>
    url_problems parse_url requireAPI (cf_NPMURL c) = []
    \<and> (requireAPI \<longrightarrow> cf_NPMIdentity c \<noteq> [] \<and> cf_NPMSecret c \<noteq> [])
    \<and> list_ex (has_prefix (cf_DockerHost c)) docker_schemes \<and> cf_LabelPrefix c \<noteq> []
    \<and> 0 < cf_DebounceInterval c \<and> (cf_DebounceMaxWait c \<le> 0 \<or> cf_DebounceInterval c \<le> cf_DebounceMaxWait c)
    \<and> cf_Kinds c \<noteq> [] \<and> cf_LogFormat c \<in> set [''text'', ''json'']"
  by (auto simp: validate_def not_less)

lemma url_ok: "url_problems parse_url requireAPI url = [] \<longleftrightarrow>
    (if url = [] then \<not> requireAPI
     else case parse_url url of Some (scheme, host) \<Rightarrow> scheme \<in> set [''http'', ''https''] \<and> host \<noteq> [] | None \<Rightarrow> False)"
  by (auto simp: url_problems_def split: option.splits)

lemma load_cases:
  assumes "load read_file parse_url getenv environ requireAPI = Inr cfg"
  obtains secret where "cfg = settings (fileAware read_file getenv) environ secret"
    "problems (fileAware read_file getenv) environ = []" "validate parse_url requireAPI cfg = []"
    "secretValue read_file (fileAware read_file getenv) [''NPM_SECRET'', ''NPM_PASSWORD''] = Inr secret"
  using assms by (auto simp: load_def Let_def split: sum.splits if_splits)

section \<open>Readings that surprise\<close>

text \<open>The share of the guard is a share, a percentage or a switch, and \<open>nan\<close> is none of them but passes.\<close>

lemma guardRatio_readings:
  "guardRatio ''off'' = (Fin 0, [])" "guardRatio ''nan'' = (NaN, [])" "guardRatio ''inf'' = (Fin 0, [GuardOutOfRange ''inf''])"
  by code_simp+

text \<open>A bare number is multiplied in 64 bits: a count of seconds beyond 292 years wraps to some other
  duration instead of being refused, here to 290 milliseconds.\<close>

lemma duration_wraps: "duration (\<lambda>_. ''18446744074'') 0 ''DEBOUNCE_INTERVAL'' = (290448384, [])"
proof -
  have "trim_space ''18446744074'' = ''18446744074''" by code_simp
  moreover have "atoi ''18446744074'' = Some 18446744074"
    by (simp add: atoi_def parse_sign_def parse_nat_def is_digit_def digit_val_def in_int64_def int_max_def int_min_def)
  ultimately show ?thesis by (simp add: duration_def wrap64_def second_def)
qed

lemma duration_readings:
  "duration (\<lambda>_. ''1m30s'') 0 ''NPM_STOP_GRACE'' = (90 * second, [])"
  "duration (\<lambda>_. ''2.5us'') 0 ''NPM_STOP_GRACE'' = (2500, [])"
  "duration (\<lambda>_. ''3 s'') 7 ''NPM_STOP_GRACE'' = (7, [InvalidDuration ''NPM_STOP_GRACE'' ''3 s''])"
  by code_simp+

section \<open>Properties\<close>

definition ex_env :: env where
  "ex_env key = (if key = ''NPM_URL'' then ''http://npm:81/'' else if key = ''NPM_EMAIL'' then ''admin@example.com''
     else if key = ''NPM_SECRET_FILE'' then ''/run/secrets/npm'' else if key = ''SYNC_KINDS'' then ''stream,proxy;streams''
     else if key = ''DELETE_GUARD'' then ''0%'' else [])"

definition ex_url :: "string \<Rightarrow> (string \<times> string) option" where
  "ex_url url = (if url = ''http://npm:81'' then Some (''http'', ''npm:81'') else None)"

definition ex_file :: files where
  "ex_file path = (if path = ''/run/secrets/npm'' then Some ''hunter2 '' else None)"

text \<open>C33: a configuration that loads is usable. Whatever the environment and the secret files hold,
  if they are accepted then the kinds are a nonempty list without repetitions, the debounce interval is
  positive and not above its cap, every duration fits 64 bits, ports are ports, the guard is a
  share (or NaN), the log format, the label prefix and the Docker endpoint are well formed, and, when
  the API is needed, there are an absolute http URL, an identity and a secret.\<close>

theorem config_is_usable:
  assumes "load read_file parse_url getenv environ requireAPI = Inr cfg"
  shows "usable parse_url requireAPI cfg"
proof -
  obtain secret where cfg: "cfg = settings (fileAware read_file getenv) environ secret"
    and ok: "validate parse_url requireAPI cfg = []"
    by (rule load_cases [OF assms])
  have "distinct (cf_Kinds cfg)" "ratio_ok (cf_DeleteGuard cfg)"
      "list_all (\<lambda>p. 1 \<le> p \<and> p \<le> 65535) (cf_PortPreference cfg)"
      "list_all in_int64 [cf_NPMTimeout cfg, cf_DebounceInterval cfg, cf_DebounceMaxWait cfg, cf_ResyncInterval cfg,
          cf_ShutdownTimeout cfg, cf_CertificatePoll cfg, cf_StopGrace cfg, cf_DeleteGuardMin cfg]"
    unfolding cfg settings_def by simp_all
  with ok show ?thesis unfolding usable_def validate_ok url_ok by blast
qed

lemma env_prefixes_code: "env_prefixes = [''NPM_DEFAULT_'', ''NPM_PROXY_'', ''NPM_REDIRECT_'', ''NPM_STREAM_'', ''NPM_DEAD_'']"
  by code_simp

lemma ex_env_prefix: "list_ex (has_prefix n) env_prefixes \<Longrightarrow> fileAware ex_file ex_env n = []"
  unfolding env_prefixes_code
  by (auto simp: has_prefix_iff fileAware_def ex_env_def)

theorem config_is_usable_witness:
  "\<exists>cfg. load ex_file ex_url ex_env [] True = Inr cfg \<and> usable ex_url True cfg
     \<and> cf_Kinds cfg = [KindStream, KindProxy] \<and> cf_NPMSecret cfg = ''hunter2'' \<and> cf_DeleteGuard cfg = Fin 0
     \<and> cf_Notices cfg = [(''NPM_EMAIL'', ''NPM_IDENTITY'')]"
proof -
  let ?g = "fileAware ex_file ex_env" and ?load = "load ex_file ex_url ex_env [] True"
  define cfg where "cfg = settings ?g [] ''hunter2''"
  have "reader_problems ?g = []" by code_simp
  moreover have "snd (snd (LoadDefaults ?g [])) = []" by (rule LoadDefaults_unset) (simp add: ex_env_prefix)
  ultimately have "problems ?g [] = []" by (simp add: problems_def)
  moreover have "validate ex_url True cfg = []"
    unfolding validate_ok url_ok cfg_def settings_def Config.simps by code_simp
  moreover have "secretValue ex_file ?g [''NPM_SECRET'', ''NPM_PASSWORD''] = Inr ''hunter2''" by code_simp
  ultimately have load: "?load = Inr cfg" by (simp add: load_def cfg_def)
  have "cf_Kinds cfg = [KindStream, KindProxy]" "cf_DeleteGuard cfg = Fin 0"
      "cf_Notices cfg = [(''NPM_EMAIL'', ''NPM_IDENTITY'')]" "cf_NPMSecret cfg = ''hunter2''"
    unfolding cfg_def settings_def Config.simps by code_simp+
  with load config_is_usable [OF load] show ?thesis by blast
qed

end
