(* ===== verification/Startup.thy ===== *)
theory Startup
  imports Config Validate Listener Client
begin

text \<open>
  The process around the components (\<open>src/main.go\<close>): the command line, the start sequence \<open>run\<close>
  from the configuration to the worker, and the login retry. The outside is an argument: the answers
  of Docker in the record \<open>docker_world\<close>, one field per request of the start, the net of the API client,
  the API of the single reconcile. Log lines and the goroutines of the daemon are left out: what
  they run is \<open>RunLoop\<close>, \<open>Debounce\<close> and \<open>Listener\<close>.
\<close>

section \<open>The command line\<close>

datatype runMode = ModeDaemon | ModeOnce | ModeValidate

datatype command = PrintVersion | PrintUsage | Probe | UnknownCommand string | UnknownArgument string | Run runMode string

text \<open>The arguments after the program name. \<open>Run\<close> carries the file \<open>validate\<close> was pointed at.\<close>

definition command_of :: "string list \<Rightarrow> command" where
  "command_of args =
     (case args of
        [] \<Rightarrow> Run ModeDaemon []
      | a # rest \<Rightarrow>
          if a \<in> set [''version'', ''-v'', ''--version''] then PrintVersion
          else if a \<in> set [''-h'', ''--help'', ''help''] then PrintUsage
          else if a = ''healthcheck'' then Probe
          else if a = ''validate'' then Run ModeValidate (case rest of [] \<Rightarrow> [] | file # _ \<Rightarrow> file)
          else if a \<in> set [''sync'', ''once'', ''--once''] then
            (case rest of
               [] \<Rightarrow> Run ModeOnce []
             | b # _ \<Rightarrow> if b \<noteq> ''--once'' then UnknownArgument b else Run ModeOnce [])
          else UnknownCommand a)"

section \<open>Logging in\<close>

definition maxAttempts :: nat where "maxAttempts = 10"

datatype login_outcome = LoggedIn | LoginCancelled | LoginFailed nat client_error

text \<open>\<open>cancelled\<close> is the context after the given attempt, \<open>interrupted\<close> whether it ends during the wait
  that follows. The result lists the waits.\<close>

function login_attempts ::
  "net \<Rightarrow> (nat \<Rightarrow> bool) \<Rightarrow> (nat \<Rightarrow> bool) \<Rightarrow> nat \<Rightarrow> int \<Rightarrow> Client \<Rightarrow> login_outcome \<times> int list \<times> Client" where
  "login_attempts n cancelled interrupted k backoff c =
     (let (err, c) = login n c in
      case err of
        None \<Rightarrow> (LoggedIn, [], c)
      | Some e \<Rightarrow>
          if cancelled k then (LoginCancelled, [], c)
          else if k \<ge> maxAttempts then (LoginFailed k e, [], c)
          else if interrupted k then (LoginCancelled, [backoff], c)
          else let doubled = backoff * 2;
                   (out, waits, c) = login_attempts n cancelled interrupted (k + 1)
                     (if doubled > 30 * second then 30 * second else doubled) c
               in (out, backoff # waits, c))"
  by pat_completeness auto
termination by (relation "measure (\<lambda>(n, ca, i, k, b, c). maxAttempts - k)") (auto simp: maxAttempts_def)

declare login_attempts.simps [simp del]

definition loginWithRetry ::
  "net \<Rightarrow> (nat \<Rightarrow> bool) \<Rightarrow> (nat \<Rightarrow> bool) \<Rightarrow> int \<Rightarrow> Client \<Rightarrow> login_outcome \<times> int list \<times> Client" where
  "loginWithRetry n cancelled interrupted backoff c =
     login_attempts n cancelled interrupted 1 (if backoff \<le> 0 then second else backoff) c"

section \<open>The start sequence\<close>

record docker_world =
  dw_Client :: "string option"
  dw_Ping :: "string option"
  dw_Hostname :: "string option"
  dw_Own :: "string + summary list"
  dw_Npm :: "string + summary list"
  dw_Summary :: "string + summary list"
  dw_List :: "string + summary list"
  dw_Info :: "(string + string) option"
  dw_Now :: int

definition file_options :: "Config \<Rightarrow> ParseOptions" where
  "file_options cfg = \<lparr> po_Prefix = cf_LabelPrefix cfg, po_ResolveIP = False, po_PreferNetworks = [],
     po_StrictNetworks = False, po_Defaults = Some (cf_Defaults cfg), po_ExposedByDefault = cf_ExposedByDefault cfg,
     po_StrictLabels = cf_StrictLabels cfg, po_PortPreference = cf_PortPreference cfg, po_SelfID = [], po_Offline = False \<rparr>"

definition parse_options :: "Config \<Rightarrow> ParseOptions" where
  "parse_options cfg = (file_options cfg)\<lparr> po_ResolveIP := cf_ResolveIP cfg \<rparr>"

text \<open>Where upstream addresses may come from: the named network, the networks of the NPM container,
  or those of this container.\<close>

definition network_options :: "Config \<Rightarrow> string list \<Rightarrow> string list \<Rightarrow> ParseOptions \<Rightarrow> ParseOptions" where
  "network_options cfg own npm opts =
     (if cf_NPMNetwork cfg \<noteq> [] then
        opts\<lparr> po_PreferNetworks := [cf_NPMNetwork cfg], po_StrictNetworks := cf_StrictNetwork cfg \<rparr>
      else if cf_NPMContainer cfg \<noteq> [] then
        opts\<lparr> po_PreferNetworks := DedupeNetworks (npm @ own), po_StrictNetworks := (npm \<noteq> [] \<and> cf_StrictNetwork cfg) \<rparr>
      else opts\<lparr> po_PreferNetworks := DedupeNetworks own \<rparr>)"

datatype main_error =
    BadConfig "config_error list"
  | BadFile validate_error
  | NoDockerClient string
  | NoDocker string
  | NoContainerList string
  | BadLabels validate_error
  | BadBaseURL
  | NoLogin login_outcome
  | NoDialect client_error
  | RunFailed "run_error list"

text \<open>The listener the process works with: built once to learn who and where it is, then again with the
  networks it found.\<close>

definition connect_docker :: "docker_world \<Rightarrow> Config \<Rightarrow> main_error + Listener" where
  "connect_docker dw cfg =
     (case dw_Client dw of
        Some e \<Rightarrow> Inl (NoDockerClient e)
      | None \<Rightarrow>
          (case dw_Ping dw of
             Some e \<Rightarrow> Inl (NoDocker e)
           | None \<Rightarrow>
               let (own, l) = DiscoverOwnNetworks (dw_Hostname dw) (dw_Own dw) (NewListener (parse_options cfg) (dw_Now dw));
                   npm = NetworksOfContainer (cf_NPMContainer cfg) (dw_Npm dw);
                   l' = NewListener (network_options cfg own npm (parse_options cfg)) (dw_Now dw)
               in Inr (l'\<lparr> li_selfID := li_selfID l \<rparr>)))"

definition instance_of :: "docker_world \<Rightarrow> Config \<Rightarrow> string" where
  "instance_of dw cfg = (if cf_InstanceID cfg = [] then DaemonID (dw_Info dw) else cf_InstanceID cfg)"

definition worker_options :: "Config \<Rightarrow> string \<Rightarrow> Options" where
  "worker_options cfg instanceID = newOptions
     \<lparr> o_DeleteOrphans = cf_DeleteOrphans cfg, o_AdoptExisting = cf_AdoptExisting cfg, o_DryRun = cf_DryRun cfg,
       o_ResyncInterval = cf_ResyncInterval cfg, o_ShutdownTimeout = cf_ShutdownTimeout cfg, o_Kinds = cf_Kinds cfg,
       o_CertificatePartial = cf_CertificatePartial cfg, o_CertificateAutoCreate = cf_CertificateAutoCreate cfg,
       o_MigrateFromRedth = cf_MigrateFromRedth cfg, o_CertificatePoll = cf_CertificatePoll cfg, o_OnStop = cf_OnStop cfg,
       o_StopGrace = cf_StopGrace cfg, o_InstanceID = instanceID, o_LabelPrefix = cf_LabelPrefix cfg,
       o_DeleteGuard = cf_DeleteGuard cfg, o_DeleteGuardMin = cf_DeleteGuardMin cfg \<rparr>"

text \<open>\<open>npm.New\<close>: the URL once more.\<close>

definition npm_New :: "(string \<Rightarrow> (string \<times> string) option) \<Rightarrow> Config \<Rightarrow> main_error + Client" where
  "npm_New parse_url cfg =
     (if trim_space (cf_NPMURL cfg) = [] then Inl BadBaseURL
      else case parse_url (trim_right_any (cf_NPMURL cfg) ''/'') of
        None \<Rightarrow> Inl BadBaseURL
      | Some (scheme, host) \<Rightarrow>
          if scheme = [] \<or> host = [] then Inl BadBaseURL
          else Inr (NewClient (cf_NPMIdentity cfg) (cf_NPMSecret cfg) (cf_NPMFlavour cfg)))"

text \<open>The surroundings of a start: files, parsers, Docker, the net, the context at the login, and the API of
  the single reconcile.\<close>

record world =
  wd_Files :: files
  wd_URL :: "string \<Rightarrow> (string \<times> string) option"
  wd_JSON :: "string \<Rightarrow> json option"
  wd_Num :: "string \<Rightarrow> string"
  wd_Env :: env
  wd_Environ :: "string list"
  wd_Docker :: docker_world
  wd_Net :: net
  wd_Cancelled :: "nat \<Rightarrow> bool"
  wd_Interrupted :: "nat \<Rightarrow> bool"
  wd_Api :: Api

text \<open>What a start comes to: a report, one reconcile, or the three loops with their first states.\<close>

datatype finished =
    Checked report
  | SyncedOnce Result
  | Watching Options Listener Client

definition checked :: "report \<times> validate_error option \<Rightarrow> (validate_error \<Rightarrow> main_error) \<Rightarrow> main_error + finished" where
  "checked r err = (case snd r of Some e \<Rightarrow> Inl (err e) | None \<Rightarrow> Inr (Checked (fst r)))"

text \<open>The API client ready for work; \<open>None\<close> only if a request never returns for want of fuel.\<close>

definition connect_npm :: "nat \<Rightarrow> world \<Rightarrow> Config \<Rightarrow> (main_error + Client) option" where
  "connect_npm fuel w cfg =
     (case npm_New (wd_URL w) cfg of
        Inl e \<Rightarrow> Some (Inl e)
      | Inr c \<Rightarrow>
          let (out, _, c) = loginWithRetry (wd_Net w) (wd_Cancelled w) (wd_Interrupted w) second c in
          if out \<noteq> LoggedIn then Some (Inl (NoLogin out))
          else map_option (\<lambda>(r, c). case r of Inl e \<Rightarrow> Inl (NoDialect e) | Inr _ \<Rightarrow> Inr c) (DetectFlavour fuel (wd_Net w) c))"

definition run :: "nat \<Rightarrow> world \<Rightarrow> runMode \<Rightarrow> string \<Rightarrow> (main_error + finished) option" where
  "run fuel w mode file =
     (case (if mode = ModeValidate then LoadForCheck else Load) (wd_Files w) (wd_URL w) (wd_Env w) (wd_Environ w) of
        Inl errs \<Rightarrow> Some (Inl (BadConfig errs))
      | Inr cfg \<Rightarrow>
          if mode = ModeValidate \<and> file \<noteq> [] then
            Some (rbind (map_err BadFile (validateFile (wd_Files w) (wd_JSON w) (wd_Num w) file (file_options cfg)))
              (\<lambda>r. checked r BadFile))
          else case connect_docker (wd_Docker w) cfg of
            Inl e \<Rightarrow> Some (Inl e)
          | Inr l \<Rightarrow>
              if mode = ModeValidate then
                Some (case Containers (dw_List (wd_Docker w)) of
                        Inl e \<Rightarrow> Inl (NoContainerList e)
                      | Inr cs \<Rightarrow> checked (reportTo (ScanContainers cs (li_opts l))) BadLabels)
              else map_option (\<lambda>r. rbind r (\<lambda>c.
                     let opts = worker_options cfg (instance_of (wd_Docker w) cfg) in
                     if mode = ModeOnce then
                       let ((res, errs), _) = reconcile_recorded (wd_Api w) opts
                             (Snapshot_of (dw_List (wd_Docker w)) l) NewWorker
                       in if errs \<noteq> [] then Inl (RunFailed errs) else Inr (SyncedOnce res)
                     else Inr (Watching opts l c))) (connect_npm fuel w cfg))"

text \<open>The exit status of a command other than the probe.\<close>

definition exit_status :: "nat \<Rightarrow> world \<Rightarrow> command \<Rightarrow> int option" where
  "exit_status fuel w cmd =
     (case cmd of
        UnknownCommand _ \<Rightarrow> Some 2
      | UnknownArgument _ \<Rightarrow> Some 2
      | Run mode file \<Rightarrow> map_option (\<lambda>r. case r of Inl _ \<Rightarrow> 1 | Inr _ \<Rightarrow> 0) (run fuel w mode file)
      | _ \<Rightarrow> Some 0)"

section \<open>What the retry does\<close>

text \<open>Whether the server grants a session at the given attempt, counted from 0, when those before failed.\<close>

definition grants :: "net \<Rightarrow> Client \<Rightarrow> nat \<Rightarrow> bool" where
  "grants n c i = (case granted (nt_Send n (cl_Sent c @ replicate i (login_request c)) (login_request c)) of
     Inr _ \<Rightarrow> True | Inl _ \<Rightarrow> False)"

primrec delays :: "int \<Rightarrow> nat \<Rightarrow> int list" where
  "delays b 0 = []"
| "delays b (Suc i) = b # delays (if b * 2 > 30 * second then 30 * second else b * 2) i"

lemma take_delays: "take i (delays b m) = delays b (min i m)"
  by (induction m arbitrary: b i) (auto simp: take_Cons' min_def gr0_conv_Suc)

lemma length_delays [simp]: "length (delays b m) = m"
  by (induction m arbitrary: b) simp_all

lemma delays_code: "delays second 9 = map (\<lambda>s. s * second) [1, 2, 4, 8, 16, 30, 30, 30, 30]"
  by (simp add: eval_nat_numeral second_def)

lemma login_first:
  "login n c = (None, c') \<Longrightarrow> grants n c 0 \<and> cl_Sent c' = cl_Sent c @ [login_request c]"
  "login n c = (Some e, c') \<Longrightarrow> \<not> grants n c 0 \<and> c' = c\<lparr> cl_Sent := cl_Sent c @ [login_request c] \<rparr>"
  by (auto simp: login_def grants_def send_def split: sum.splits)

lemma grants_later: "c' = c\<lparr> cl_Sent := cl_Sent c @ [login_request c] \<rparr> \<Longrightarrow> grants n c' i = grants n c (Suc i)"
  by (simp add: grants_def login_request_def)

text \<open>From attempt \<open>k\<close> on: \<open>m\<close> attempts are made, all but the last refused.\<close>

lemma login_attempts_spec:
  assumes "login_attempts n cancelled interrupted k b c = (out, waits, c')" "k \<le> maxAttempts"
  shows "\<exists>m\<ge>1. k + m \<le> Suc maxAttempts \<and> cl_Sent c' = cl_Sent c @ replicate m (login_request c)
    \<and> waits = delays b (length waits) \<and> length waits \<le> m \<and> length waits + k \<le> maxAttempts \<and> (\<forall>i<m - 1. \<not> grants n c i)
    \<and> (case out of LoggedIn \<Rightarrow> grants n c (m - 1) \<and> length waits = m - 1
       | LoginCancelled \<Rightarrow> \<not> grants n c (m - 1) \<and> (cancelled (k + m - 1) \<or> interrupted (k + m - 1))
       | LoginFailed i e \<Rightarrow> \<not> grants n c (m - 1) \<and> i = maxAttempts \<and> k + m = Suc maxAttempts)"
  using assms
proof (induction n cancelled interrupted k b c arbitrary: out waits c' rule: login_attempts.induct)
  case (1 n cancelled interrupted k b c)
  obtain err d where l: "login n c = (err, d)" by fastforce
  note run = "1.prems"(1) [unfolded login_attempts.simps [of n cancelled interrupted k b c] l Let_def prod.case]
  show ?case
  proof (cases err)
    case None
    with run have "out = LoggedIn" "waits = []" "c' = d" by simp_all
    with login_first(1) [of n c d] l None "1.prems"(2) show ?thesis by (intro exI [of _ 1]) simp
  next
    case (Some e)
    with login_first(2) [of n c e d] l have g: "\<not> grants n c 0" and d: "d = c\<lparr> cl_Sent := cl_Sent c @ [login_request c] \<rparr>"
      by simp_all
    then have q: "login_request d = login_request c" and s: "cl_Sent d = cl_Sent c @ [login_request c]"
      by (simp_all add: login_request_def)
    consider (stop) "cancelled k \<or> k \<ge> maxAttempts" | (wait) "\<not> cancelled k" "k < maxAttempts" "interrupted k"
      | (again) "\<not> cancelled k" "k < maxAttempts" "\<not> interrupted k" by linarith
    then show ?thesis
    proof cases
      case stop
      with run Some g s "1.prems"(2) show ?thesis by (intro exI [of _ 1]) (auto split: if_splits)
    next
      case wait
      with run Some g s show ?thesis by (intro exI [of _ 1]) auto
    next
      case again
      let ?b = "if b * 2 > 30 * second then 30 * second else b * 2"
      obtain out' waits' where r: "login_attempts n cancelled interrupted (k + 1) ?b d = (out', waits', c')"
          "out = out'" "waits = b # waits'"
        using run Some again by (auto split: prod.splits)
      from "1.IH" [OF l [symmetric] refl Some _ _ _ refl r(1)] again
      obtain m where m: "m \<ge> 1" "k + 1 + m \<le> Suc maxAttempts" "cl_Sent c' = cl_Sent d @ replicate m (login_request d)"
          "waits' = delays ?b (length waits')" "length waits' \<le> m" "length waits' + (k + 1) \<le> maxAttempts"
          "\<forall>i<m - 1. \<not> grants n d i"
          "case out' of LoggedIn \<Rightarrow> grants n d (m - 1) \<and> length waits' = m - 1
           | LoginCancelled \<Rightarrow> \<not> grants n d (m - 1) \<and> (cancelled (k + 1 + m - 1) \<or> interrupted (k + 1 + m - 1))
           | LoginFailed i e \<Rightarrow> \<not> grants n d (m - 1) \<and> i = maxAttempts \<and> k + 1 + m = Suc maxAttempts"
        by auto
      have gd: "grants n d i = grants n c (Suc i)" for i by (rule grants_later [OF d])
      have "\<not> grants n c i" if "i < m" for i
        using that g m(7) by (cases i) (auto simp: gd)
      moreover have "waits = delays b (length waits)" using m(4) r(3) by simp
      moreover have "grants n d (m - 1) = grants n c m" using m(1) by (simp add: gd)
      ultimately show ?thesis
        using m(1,2,3,5,6,8) r(2,3) s q by (intro exI [of _ "Suc m"]) (auto split: login_outcome.splits)
    qed
  qed
qed

section \<open>Properties\<close>

text \<open>Two refusals, then a token.\<close>

definition ex_late_net :: net where
  "ex_late_net = \<lparr> nt_Send = (\<lambda>h q. if length h < 2 then Inl ''connection refused'' else
     Inr \<lparr> rs_Status = 200, rs_Cookies = [], rs_Text = ''x'', rs_Json = Some (JObj [(''token'', JStr ''tok'')]) \<rparr>),
     nt_Clock = (\<lambda>_. 7) \<rparr>"

text \<open>C37: the start waits for NPM and gives up. Whatever the server answers, logging in ends after at most
  ten identical requests; the waits between them are 1, 2, 4, 8, 16 and then 30 seconds, 151
  seconds in all; it succeeds exactly when the server grants the last of them, having refused all
  before; and it stops without success only after the tenth, or when the process is told to end.\<close>

theorem login_retry_is_bounded:
  assumes "loginWithRetry n cancelled interrupted second c = (out, waits, c')"
  shows "\<exists>m. 1 \<le> m \<and> m \<le> 10 \<and> cl_Sent c' = cl_Sent c @ replicate m (login_request c)
    \<and> waits = take (length waits) (map (\<lambda>s. s * second) [1, 2, 4, 8, 16, 30, 30, 30, 30])
    \<and> sum_list waits \<le> 151 * second
    \<and> (\<forall>i<m - 1. \<not> grants n c i) \<and> (out = LoggedIn \<longleftrightarrow> grants n c (m - 1))
    \<and> (out \<noteq> LoggedIn \<longrightarrow> m = 10 \<or> cancelled m \<or> interrupted m)"
proof -
  have run: "login_attempts n cancelled interrupted 1 second c = (out, waits, c')"
    using assms by (simp add: loginWithRetry_def second_def)
  from login_attempts_spec [OF run] obtain m where m: "1 \<le> m" "1 + m \<le> Suc maxAttempts"
      "cl_Sent c' = cl_Sent c @ replicate m (login_request c)" "waits = delays second (length waits)"
      "length waits + 1 \<le> maxAttempts" "\<forall>i<m - 1. \<not> grants n c i"
      "case out of LoggedIn \<Rightarrow> grants n c (m - 1) \<and> length waits = m - 1
       | LoginCancelled \<Rightarrow> \<not> grants n c (m - 1) \<and> (cancelled (1 + m - 1) \<or> interrupted (1 + m - 1))
       | LoginFailed i e \<Rightarrow> \<not> grants n c (m - 1) \<and> i = maxAttempts \<and> 1 + m = Suc maxAttempts"
    by (auto simp: maxAttempts_def)
  let ?d = "map (\<lambda>s. s * second) [1, 2, 4, 8, 16, 30, 30, 30, 30]"
  have w: "waits = take (length waits) ?d"
    using m(4,5) take_delays [of "length waits" second 9] by (simp add: delays_code maxAttempts_def)
  have "sum_list ?d = sum_list (take (length waits) ?d) + sum_list (drop (length waits) ?d)"
    by (metis append_take_drop_id sum_list.append)
  moreover have "0 \<le> sum_list (drop (length waits) ?d)"
    by (rule sum_list_nonneg) (auto simp: second_def dest!: in_set_dropD)
  moreover have "sum_list ?d = 151 * second" by (simp add: second_def)
  ultimately have "sum_list waits \<le> 151 * second" using w by (metis le_add_same_cancel1)
  moreover have "out = LoggedIn \<longleftrightarrow> grants n c (m - 1)" using m(7) by (cases out) auto
  moreover have "out \<noteq> LoggedIn \<longrightarrow> m = 10 \<or> cancelled m \<or> interrupted m"
    using m(7) by (cases out) (simp_all add: maxAttempts_def)
  moreover have "m \<le> 10" using m(2) by (simp add: maxAttempts_def)
  ultimately show ?thesis using m(1,3,6) w by blast
qed

theorem login_retry_is_bounded_witness:
  "\<exists>out waits c'. loginWithRetry ex_late_net (\<lambda>_. False) (\<lambda>_. False) second (NewClient ''me'' ''pw'' FlavourNPM) = (out, waits, c')
     \<and> length (cl_Sent c') \<le> 10 \<and> out = LoggedIn"
proof -
  let ?c = "NewClient ''me'' ''pw'' FlavourNPM"
  obtain out waits c' where r: "loginWithRetry ex_late_net (\<lambda>_. False) (\<lambda>_. False) second ?c = (out, waits, c')"
    by (metis prod_cases3)
  have "granted (Inr \<lparr> rs_Status = 200, rs_Cookies = [], rs_Text = ''x'', rs_Json = Some (JObj [(''token'', JStr ''tok'')]) \<rparr>)
      = Inr (AuthBearer, ''tok'', None)"
    by (simp add: granted_def is_success_def tokenResponse_def hasSessionCookie_def trim_space_def trim_left_def
        trim_right_def is_space_def maxLoginBody_def)
  then have g: "grants ex_late_net ?c 2" by (simp add: grants_def ex_late_net_def)
  from login_retry_is_bounded [OF r] obtain m where m: "1 \<le> m" "m \<le> 10"
      "cl_Sent c' = cl_Sent ?c @ replicate m (login_request ?c)" "\<forall>i<m - 1. \<not> grants ex_late_net ?c i"
      "out \<noteq> LoggedIn \<longrightarrow> m = 10 \<or> False \<or> False"
    by (elim exE conjE) (rule that, assumption+)
  have "m \<noteq> 10"
  proof
    assume "m = 10"
    then have "2 < m - 1" by simp
    with m(4) g show False by blast
  qed
  with m(5) have "out = LoggedIn" by blast
  moreover have "length (cl_Sent c') \<le> 10" using m(2) unfolding m(3) by (simp add: NewClient_def)
  ultimately show ?thesis using r by blast
qed

fun only_checks :: "(main_error + finished) option \<Rightarrow> bool" where
  "only_checks (Some (Inr (Checked r))) = True"
| "only_checks (Some (Inl e)) = True"
| "only_checks _ = False"

text \<open>Checking never touches NPM. In validate mode the outcome does not depend on the API, the net or
  the fuel at all, so nothing is sent there; pointed at a file it does not depend on Docker either;
  it always returns, and never with a reconcile or a running daemon.\<close>

theorem validate_is_offline:
  "run fuel w ModeValidate (c # cs) = run 0 (w\<lparr> wd_Docker := dw, wd_Net := n, wd_Api := a \<rparr>) ModeValidate (c # cs)
   \<and> run fuel w ModeValidate [] = run 0 (w\<lparr> wd_Net := n, wd_Api := a \<rparr>) ModeValidate []
   \<and> only_checks (run fuel w ModeValidate file)"
proof -
  have c: "only_checks (Some (checked r err))" for r err by (simp add: checked_def split: option.split)
  then have "only_checks (Some (rbind x (\<lambda>r. checked r err)))" for x err by (cases x) simp_all
  with c show ?thesis by (auto simp: run_def split: sum.split)
qed

end
