(* ===== verification/Health.thy ===== *)
theory Health
  imports RunLoop GoFloat
begin

text \<open>
  What the process tells about itself (\<open>src/main.go\<close>): the readiness handler, the status document, the
  metrics exposition and the \<open>healthcheck\<close> probe. \<open>%g\<close> formatting and the time layout are arguments,
  as is the HTTP request of the probe.
\<close>

section \<open>The handlers\<close>

datatype readiness =
    NoRunYet
  | Unreachable "run_error list"
  | StreamLostFor int string
  | RunningFine nat int int "guard_reason option"

definition readyz :: "Status \<Rightarrow> int \<Rightarrow> int \<times> readiness" where
  "readyz st now =
     (let down = stream_Down (st_Stream st) now in
      if st_LastRun st = 0 then (503, NoRunYet)
      else if st_Err st \<noteq> [] then (503, Unreachable (st_Err st))
      else if down > StreamDownGrace then (503, StreamLostFor down (ss_LastError (st_Stream st)))
      else (200, RunningFine (st_Managed st) (st_Failed st) (st_LastRun st) (st_Blocked st)))"

record streamReport =
  sp_Connected :: bool
  sp_Since :: "int option"
  sp_LastError :: string

record statusReport =
  so_Version :: string
  so_Instance :: string
  so_DryRun :: bool
  so_LastRun :: "int option"
  so_Managed :: nat
  so_Failed :: int
  so_Error :: "run_error list"
  so_Blocked :: "guard_reason option"
  so_Stream :: streamReport
  so_Resources :: "ResourceStatus list"

text \<open>\<open>None\<close> is a field left out of the document.\<close>

definition time_field :: "int \<Rightarrow> int option" where
  "time_field t = (if t = 0 then None else Some t)"

definition statusDocument :: "string \<Rightarrow> bool \<Rightarrow> string \<Rightarrow> StreamStatus option \<Rightarrow> Worker \<Rightarrow> statusReport" where
  "statusDocument version dryRun instanceID stream w =
     (let st = status_of stream w in
      \<lparr> so_Version = version, so_Instance = instanceID, so_DryRun = dryRun, so_LastRun = time_field (st_LastRun st),
        so_Managed = st_Managed st, so_Failed = st_Failed st, so_Error = st_Err st, so_Blocked = st_Blocked st,
        so_Stream = \<lparr> sp_Connected = ss_Connected (st_Stream st), sp_Since = time_field (ss_Since (st_Stream st)),
          sp_LastError = ss_LastError (st_Stream st) \<rparr>,
        so_Resources = Resources_of w \<rparr>)"

section \<open>The metrics\<close>

definition newline :: string where "newline = [CHR 0x0A]"

definition quoted :: "string \<Rightarrow> string" where
  "quoted s = CHR 0x22 # s @ [CHR 0x22]"

definition metric_head :: "string \<Rightarrow> string \<Rightarrow> string \<Rightarrow> string" where
  "metric_head name help ty = ''# HELP '' @ name @ '' '' @ help @ newline @ ''# TYPE '' @ name @ '' '' @ ty @ newline"

definition counter_text :: "string \<Rightarrow> string \<Rightarrow> 64 word \<Rightarrow> string" where
  "counter_text name help value = metric_head name help ''counter'' @ name @ '' '' @ nat_str (unat value) @ newline"

definition gauge_text :: "(rat \<Rightarrow> string) \<Rightarrow> string \<Rightarrow> string \<Rightarrow> rat \<Rightarrow> string" where
  "gauge_text fmt name help value = metric_head name help ''gauge'' @ name @ '' '' @ fmt value @ newline"

definition boolGauge :: "bool \<Rightarrow> rat" where
  "boolGauge b = (if b then 1 else 0)"

text \<open>\<open>Duration.Seconds\<close>: the division truncates.\<close>

definition duration_seconds :: "int \<Rightarrow> rat" where
  "duration_seconds d =
     (let whole = sgn d * (\<bar>d\<bar> div second); rest = d - whole * second
      in float64 (float64 (of_int whole) + float64 (float64 (of_int rest) / 1000000000)))"

definition kind_count :: "Metrics \<Rightarrow> Kind \<Rightarrow> nat" where
  "kind_count m kind = (case map_of (mx_ManagedByKind m) kind of Some n \<Rightarrow> n | None \<Rightarrow> 0)"

text \<open>\<open>classes\<close> are the keys of the class counters, in the order of the map iteration.\<close>

definition renderMetrics :: "(rat \<Rightarrow> string) \<Rightarrow> string list \<Rightarrow> Metrics \<Rightarrow> Status \<Rightarrow> string" where
  "renderMetrics fmt classes m st =
     (let c = mx_counters m in
      counter_text ''npmsync_reconcile_runs_total'' ''Reconcile runs performed.'' (mt_runs c)
      @ counter_text ''npmsync_reconcile_errors_total'' ''Reconcile runs that reported an error.'' (mt_runErrors c)
      @ counter_text ''npmsync_resources_created_total'' ''Resources created in NPM.'' (mt_created c)
      @ counter_text ''npmsync_resources_updated_total'' ''Resources updated in NPM.'' (mt_updated c)
      @ counter_text ''npmsync_resources_deleted_total'' ''Resources deleted from NPM.'' (mt_deleted c)
      @ counter_text ''npmsync_resources_failed_total'' ''Resource operations the API rejected.'' (mt_failed c)
      @ counter_text ''npmsync_resources_skipped_total'' ''Resources skipped (not ours, in backoff, protected).'' (mt_skipped c)
      @ counter_text ''npmsync_deletions_blocked_total'' ''Deletions the safety guard refused.'' (mt_deletionsBlocked c)
      @ gauge_text fmt ''npmsync_managed_resources'' ''Resources currently under management.'' (float64 (of_nat (mx_Managed m)))
      @ gauge_text fmt ''npmsync_event_stream_connected'' ''1 when the Docker event stream is subscribed.''
          (boolGauge (ss_Connected (st_Stream st)))
      @ gauge_text fmt ''npmsync_last_run_duration_seconds'' ''Duration of the most recent reconcile run.''
          (duration_seconds (mt_lastDuration c))
      @ (if mx_LastRun m \<noteq> 0
         then gauge_text fmt ''npmsync_last_run_timestamp_seconds'' ''Unix time of the most recent reconcile run.''
                (float64 (of_int (mx_LastRun m div second)))
         else [])
      @ metric_head ''npmsync_managed_resources_by_kind'' ''Resources under management per collection.'' ''gauge''
      @ concat (map (\<lambda>kind. ''npmsync_managed_resources_by_kind{kind='' @ quoted (kind_name kind) @ ''} ''
          @ nat_str (kind_count m kind) @ newline) Kinds)
      @ metric_head ''npmsync_certificate_selections_total'' ''Certificates chosen, by match class.'' ''counter''
      @ concat (map (\<lambda>class. ''npmsync_certificate_selections_total{match='' @ quoted class @ ''} ''
          @ nat_str (unat (case mt_certificateClass c class of Some n \<Rightarrow> n | None \<Rightarrow> 0)) @ newline) (sort classes)))"

section \<open>The probe\<close>

text \<open>\<open>net.SplitHostPort\<close>: the port follows the last colon, a host with colons stands in brackets.\<close>

definition split_last :: "char \<Rightarrow> string \<Rightarrow> (string \<times> string) option" where
  "split_last c s = (case cut c (rev s) of None \<Rightarrow> None | Some (a, b) \<Rightarrow> Some (rev b, rev a))"

definition SplitHostPort :: "string \<Rightarrow> (string \<times> string) option" where
  "SplitHostPort hostport =
     (case split_last CHR '':'' hostport of
        None \<Rightarrow> None
      | Some (before, port) \<Rightarrow>
          if hostport \<noteq> [] \<and> hd hostport = CHR ''['' then
            (case cut CHR '']'' hostport of
               None \<Rightarrow> None
             | Some (bracketed, after) \<Rightarrow>
                 if after \<noteq> CHR '':'' # port then None
                 else if CHR ''['' \<in> set (tl hostport) \<or> CHR '']'' \<in> set after then None
                 else Some (tl bracketed, port))
          else if CHR '':'' \<in> set before then None
          else if CHR ''['' \<in> set hostport \<or> CHR '']'' \<in> set hostport then None
          else Some (before, port))"

definition JoinHostPort :: "string \<Rightarrow> string \<Rightarrow> string" where
  "JoinHostPort host port =
     (if CHR '':'' \<in> set host then CHR ''['' # host @ '']:'' @ port else host @ '':'' @ port)"

definition loopback :: "string \<Rightarrow> string" where
  "loopback host = (if host \<in> set [[], ''0.0.0.0'', ''::''] then ''127.0.0.1'' else host)"

text \<open>\<open>get\<close> is the status of the response, or nothing when the request fails.\<close>

definition healthcheck :: "(string \<Rightarrow> int option) \<Rightarrow> string \<Rightarrow> int" where
  "healthcheck get addr =
     (if addr = [] then 0
      else case SplitHostPort addr of
        None \<Rightarrow> 1
      | Some (host, port) \<Rightarrow>
          (case get (''http://'' @ JoinHostPort (loopback host) port @ ''/readyz'') of
             None \<Rightarrow> 1
           | Some status \<Rightarrow> if status \<noteq> 200 then 1 else 0))"

section \<open>Lemmas\<close>

lemma split_last_append: "c \<notin> set b \<Longrightarrow> split_last c (a @ c # b) = Some (a, b)"
  using cut_append [of c "rev b" "rev a"] by (simp add: split_last_def)

lemma SplitHostPort_Join:
  assumes "CHR ''['' \<notin> set host" "CHR '']'' \<notin> set host" "set port \<inter> {CHR '':'', CHR ''['', CHR '']''} = {}"
  shows "SplitHostPort (JoinHostPort host port) = Some (host, port)"
proof (cases "CHR '':'' \<in> set host")
  case True
  have s: "split_last CHR '':'' (JoinHostPort host port) = Some (CHR ''['' # host @ '']'', port)"
    using split_last_append [of "CHR '':''" port "CHR ''['' # host @ '']''"] assms(3) True by (simp add: JoinHostPort_def)
  have c: "cut CHR '']'' (JoinHostPort host port) = Some (CHR ''['' # host, CHR '':'' # port)"
    using cut_append [of "CHR '']''" "CHR ''['' # host" "CHR '':'' # port"] assms(2) True by (simp add: JoinHostPort_def)
  show ?thesis using assms True s c by (auto simp: SplitHostPort_def JoinHostPort_def)
next
  case False
  have s: "split_last CHR '':'' (JoinHostPort host port) = Some (host, port)"
    using split_last_append [of "CHR '':''" port host] assms(3) False by (simp add: JoinHostPort_def)
  have h: "\<not> (host @ '':'' @ port \<noteq> [] \<and> hd (host @ '':'' @ port) = CHR ''['')"
    using assms(1) by (cases host) auto
  show ?thesis using assms False s h by (auto simp: SplitHostPort_def JoinHostPort_def)
qed

section \<open>Properties\<close>

text \<open>The two definitions of readiness agree, and the probe asks the right server. The handler answers 200
  exactly when the worker's status is ready, and for every listen address of a host and a port the
  probe succeeds exactly when /readyz on that port, on the loopback address for a wildcard host,
  answers 200.\<close>

theorem probe_sees_readiness:
  assumes "set host \<inter> {CHR ''['', CHR '']''} = {}" "set port \<inter> {CHR '':'', CHR ''['', CHR '']''} = {}"
  shows "(fst (readyz st now) = 200 \<longleftrightarrow> Ready st now)
    \<and> (healthcheck get (JoinHostPort host port) = 0 \<longleftrightarrow>
         get (''http://'' @ JoinHostPort (loopback host) port @ ''/readyz'') = Some 200)"
proof -
  have "JoinHostPort host port \<noteq> []" by (simp add: JoinHostPort_def)
  moreover have "SplitHostPort (JoinHostPort host port) = Some (host, port)"
    using assms by (intro SplitHostPort_Join) auto
  ultimately have "healthcheck get (JoinHostPort host port) = 0 \<longleftrightarrow>
       get (''http://'' @ JoinHostPort (loopback host) port @ ''/readyz'') = Some 200"
    by (auto simp: healthcheck_def split: option.split)
  then show ?thesis by (simp add: readyz_def Ready_def Let_def)
qed

theorem probe_sees_readiness_witness:
  "healthcheck (\<lambda>url. if url = ''http://127.0.0.1:8080/readyz'' then Some 200 else None) '':8080'' = 0
   \<and> healthcheck (\<lambda>url. if url = ''http://[fe80::1]:80/readyz'' then Some 503 else None) ''[fe80::1]:80'' \<noteq> 0"
proof -
  have j: "JoinHostPort [] ''8080'' = '':8080''" "JoinHostPort (loopback []) ''8080'' = ''127.0.0.1:8080''"
    "JoinHostPort ''fe80::1'' ''80'' = ''[fe80::1]:80''" "JoinHostPort (loopback ''fe80::1'') ''80'' = ''[fe80::1]:80''"
    by code_simp+
  show ?thesis
    using probe_sees_readiness [of "[]" "''8080''" undefined undefined
        "\<lambda>url. if url = ''http://127.0.0.1:8080/readyz'' then Some 200 else None"]
      probe_sees_readiness [of "''fe80::1''" "''80''" undefined undefined
        "\<lambda>url. if url = ''http://[fe80::1]:80/readyz'' then Some 503 else None"]
    by (simp add: j)
qed

end
