(* ===== verification/Diff.thy ===== *)
theory Diff
  imports Codec
begin

text \<open>
  The difference the log shows between a live and a desired resource (\<open>internal/npm/diff.go\<close>), and what it
  leaves out. A resource comes with \<open>nils\<close>, which of its empty slices and maps are \<open>nil\<close>; \<open>num\<close> is the text of
  a \<open>float64\<close> and \<open>enc\<close> that of a value decoded and encoded again.
\<close>

definition serverOwned :: "string list" where
  "serverOwned = [''id'', ''created_on'', ''modified_on'', ''owner_user_id'', ''enabled'']"

definition render_limit :: nat where "render_limit = 120"

definition ellipsis :: string where "ellipsis = [CHR 0xE2, CHR 0x80, CHR 0xA6]"
definition arrow :: string where "arrow = [CHR '' '', CHR 0xE2, CHR 0x86, CHR 0x92, CHR '' '']"

definition resourceMap ::
  "(rat \<Rightarrow> string) \<Rightarrow> ((string \<Rightarrow> bool) \<times> Resource) option \<Rightarrow> (string \<times> json) list option" where
  "resourceMap num r = map_option (\<lambda>(nils, res). resource_members nils num res) r"

definition render :: "(json \<Rightarrow> string) \<Rightarrow> json option \<Rightarrow> string" where
  "render enc value =
     (case value of
        None \<Rightarrow> ''unset''
      | Some v \<Rightarrow> let out = enc v in if length out > render_limit then take render_limit out @ ellipsis else out)"

definition diff_keys :: "(string \<times> json) list \<Rightarrow> (string \<times> json) list \<Rightarrow> string list" where
  "diff_keys a b = sort (dedup (filter (\<lambda>k. k \<notin> set serverOwned) (map fst a @ map fst b)))"

definition diff_part :: "(json \<Rightarrow> string) \<Rightarrow> (string \<times> json) list \<Rightarrow> (string \<times> json) list \<Rightarrow> string \<Rightarrow> string list" where
  "diff_part enc a b key =
     (let before = render enc (map_of a key); after = render enc (map_of b key)
      in if before = after then [] else [key @ '': '' @ before @ arrow @ after])"

definition Diff :: "(json \<Rightarrow> string) \<Rightarrow> (rat \<Rightarrow> string) \<Rightarrow> ((string \<Rightarrow> bool) \<times> Resource) option \<Rightarrow>
    ((string \<Rightarrow> bool) \<times> Resource) option \<Rightarrow> string" where
  "Diff enc num current desired =
     (case (resourceMap num current, resourceMap num desired) of
        (Some a, Some b) \<Rightarrow> join '', '' (concat (map (diff_part enc a b) (diff_keys a b)))
      | _ \<Rightarrow> [])"

section \<open>When nothing is named\<close>

lemma join_Nil: "join sep xs = [] \<Longrightarrow> [] \<notin> set xs \<Longrightarrow> xs = []"
  by (cases xs; cases "tl xs") auto

lemma diff_empty_iff:
  "join '', '' (concat (map (diff_part enc a b) (diff_keys a b))) = [] \<longleftrightarrow>
     (\<forall>k. k \<notin> set serverOwned \<longrightarrow> render enc (map_of a k) = render enc (map_of b k))" (is "?l \<longleftrightarrow> ?r")
proof -
  have "[] \<notin> set (concat (map (diff_part enc a b) (diff_keys a b)))"
    by (auto simp: diff_part_def Let_def split: if_splits)
  then have "?l \<longleftrightarrow> concat (map (diff_part enc a b) (diff_keys a b)) = []"
    by (metis join.simps(1) join_Nil)
  also have "\<dots> \<longleftrightarrow> (\<forall>k\<in>set (diff_keys a b). render enc (map_of a k) = render enc (map_of b k))"
    by (auto simp: concat_eq_Nil_conv diff_part_def Let_def split: if_splits)
  also have "\<dots> \<longleftrightarrow> ?r"
  proof -
    have "render enc (map_of a k) = render enc (map_of b k)" if "k \<notin> fst ` set a" "k \<notin> fst ` set b" for k
      using that by (simp add: map_of_eq_None_iff [THEN iffD2])
    then show ?thesis by (auto simp: diff_keys_def set_dedup)
  qed
  finally show ?thesis .
qed

text \<open>Texts that tell values apart, and are not cut off.\<close>

definition telling :: "(json \<Rightarrow> string) \<Rightarrow> json list \<Rightarrow> bool" where
  "telling enc vs \<longleftrightarrow> list_all (\<lambda>v. length (enc v) \<le> render_limit \<and> enc v \<noteq> ''unset'' \<and>
     list_all (\<lambda>w. enc v = enc w \<longrightarrow> v = w) vs) vs"

lemma telling_render:
  assumes "telling enc (map snd a @ map snd b)" "render enc (map_of a k) = render enc (map_of b k)"
  shows "map_of a k = map_of b k"
proof -
  have vs: "v \<in> set (map snd a @ map snd b)" if "map_of a k = Some v \<or> map_of b k = Some v" for v
  proof -
    from that have "(k, v) \<in> set a \<or> (k, v) \<in> set b" by (auto dest: map_of_SomeD)
    then show ?thesis by force
  qed
  let ?vs = "map snd a @ map snd b"
  have T: "\<forall>v\<in>set ?vs. length (enc v) \<le> render_limit \<and> enc v \<noteq> ''unset'' \<and> (\<forall>w\<in>set ?vs. enc v = enc w \<longrightarrow> v = w)"
    using assms(1) by (simp only: telling_def list_all_iff)
  have short: "render enc (Some v) = enc v" "enc v \<noteq> ''unset''" if "v \<in> set ?vs" for v
    using T [rule_format, OF that] by (simp_all add: render_def Let_def)
  have same: "v = w" if "enc v = enc w" "v \<in> set ?vs" "w \<in> set ?vs" for v w
    using T that by blast
  show ?thesis
  proof (cases "map_of a k"; cases "map_of b k")
    fix v w assume vw: "map_of a k = Some v" "map_of b k = Some w"
    have in_vs: "v \<in> set ?vs" "w \<in> set ?vs" by (rule vs, simp add: vw)+
    have "enc v = enc w" using assms(2) by (simp only: vw short(1) [OF in_vs(1)] short(1) [OF in_vs(2)])
    from same [OF this in_vs] have "v = w" .
    then show ?thesis by (simp only: vw)
  next
    fix v assume v: "map_of a k = Some v" "map_of b k = None"
    have "v \<in> set ?vs" by (rule vs, simp add: v)
    from short [OF this] show ?thesis using assms(2) by (simp add: v render_def)
  next
    fix v assume v: "map_of a k = None" "map_of b k = Some v"
    have "v \<in> set ?vs" by (rule vs, simp add: v)
    from short [OF this] show ?thesis using assms(2) by (simp add: v render_def)
  qed simp
qed

section \<open>Members the server owns\<close>

definition strips :: "('s \<Rightarrow> 's) \<Rightarrow> 's member \<Rightarrow> 's member \<Rightarrow> bool" where
  "strips S m n \<longleftrightarrow> mb_Name m = mb_Name n \<and>
     (if mb_Name m \<in> set serverOwned then \<forall>s t. mb_Encode m (S s) = mb_Encode n (S t)
      else \<forall>s. mb_Encode m (S s) = mb_Encode m s \<and> mb_Encode n (S s) = mb_Encode n s)"

lemma map_of_encode_members:
  assumes "m \<in> set ms" "distinct (map mb_Name ms)"
  shows "map_of (encode_members ms s) (mb_Name m) = mb_Encode m s"
  using assms
proof (induction ms)
  case (Cons x ms)
  have "mb_Name m \<notin> fst ` set (encode_members ms s)" if "mb_Name m \<notin> mb_Name ` set ms"
    using that by (auto simp: encode_members_def split: option.splits)
  with Cons show ?case
    by (auto simp: encode_members_def map_of_eq_None_iff image_iff split: option.splits)
qed simp

lemma encode_members_strips:
  assumes "list_all2 (strips S) ms ns" "distinct (map mb_Name ms)" "distinct (map mb_Name ns)"
    "\<And>k. k \<notin> set serverOwned \<Longrightarrow> map_of (encode_members ms s) k = map_of (encode_members ns t) k"
  shows "encode_members ms (S s) = encode_members ns (S t)"
proof -
  have "mb_Name m = mb_Name n \<and> mb_Encode m (S s) = mb_Encode n (S t)"
    if mn: "m \<in> set ms" "n \<in> set ns" "strips S m n" for m n
  proof (cases "mb_Name m \<in> set serverOwned")
    case True
    then show ?thesis using mn(3) by (simp add: strips_def)
  next
    case False
    from mn(3) have names: "mb_Name m = mb_Name n" by (simp add: strips_def)
    have "mb_Encode m s = mb_Encode n t"
      using assms(4) [OF False] map_of_encode_members [OF mn(1) assms(2)] map_of_encode_members [OF mn(2) assms(3)]
      by (simp add: names)
    then show ?thesis using mn(3) False by (simp add: strips_def)
  qed
  then have "list_all2 (\<lambda>m n. mb_Name m = mb_Name n \<and> mb_Encode m (S s) = mb_Encode n (S t)) ms ns"
    by (rule list.rel_mono_strong [OF assms(1)])
  then show ?thesis
    unfolding encode_members_def
    by (induction rule: list_all2_induct) (auto split: option.split)
qed

lemma strips_plain:
  "list_all (\<lambda>k. name \<noteq> k) serverOwned \<Longrightarrow> (\<And>s. get (S s) = get s) \<Longrightarrow>
   strips S (member name om c get upd) (member name om c' get upd)"
  by (auto simp: strips_def member_def list_all_iff)

lemma strips_owned:
  "list_ex (\<lambda>k. name = k) serverOwned \<Longrightarrow> (\<And>s t. get (S s) = get (S t)) \<Longrightarrow>
   strips S (member name om c get upd) (member name om c get upd)"
  by (auto simp: strips_def member_def list_ex_iff) (metis)+

lemma host_strips:
  "list_all2 (strips (\<lambda>h. h\<lparr> ph_ID := 0, ph_CreatedOn := [], ph_ModifiedOn := [], ph_OwnerUserID := 0, ph_Enabled := False \<rparr>))
     (ph_members nils num) (ph_members nils' num)"
  "list_all2 (strips (\<lambda>h. h\<lparr> rh_ID := 0, rh_CreatedOn := [], rh_ModifiedOn := [], rh_OwnerUserID := 0, rh_Enabled := False \<rparr>))
     (rh_members nils num) (rh_members nils' num)"
  "list_all2 (strips (\<lambda>s. s\<lparr> st_ID := 0, st_CreatedOn := [], st_ModifiedOn := [], st_OwnerUserID := 0, st_Enabled := False \<rparr>))
     (st_members nils num) (st_members nils' num)"
  "list_all2 (strips (\<lambda>h. h\<lparr> dh_ID := 0, dh_CreatedOn := [], dh_ModifiedOn := [], dh_OwnerUserID := 0, dh_Enabled := False \<rparr>))
     (dh_members nils num) (dh_members nils' num)"
  by (simp_all add: ph_members_def rh_members_def st_members_def dh_members_def strips_plain strips_owned serverOwned_def)

lemma same_stripped:
  assumes "r_Kind r = r_Kind s"
    "\<And>k. k \<notin> set serverOwned \<Longrightarrow> map_of (resource_members nils num r) k = map_of (resource_members nils' num s) k"
  shows "resource_members nils num (strip_server r) = resource_members nils' num (strip_server s)"
proof (cases r)
  case (Proxy h)
  with assms(1) obtain g where s: "s = Proxy g" by (cases s) auto
  show ?thesis
    unfolding Proxy s strip_server.simps resource_members.simps
    by (rule encode_members_strips [OF host_strips(1) distinct_names(1) distinct_names(1)])
      (use assms(2) in \<open>simp add: Proxy s\<close>)
next
  case (Redirect h)
  with assms(1) obtain g where s: "s = Redirect g" by (cases s) auto
  show ?thesis
    unfolding Redirect s strip_server.simps resource_members.simps
    by (rule encode_members_strips [OF host_strips(2) distinct_names(2) distinct_names(2)])
      (use assms(2) in \<open>simp add: Redirect s\<close>)
next
  case (Strm h)
  with assms(1) obtain g where s: "s = Strm g" by (cases s) auto
  show ?thesis
    unfolding Strm s strip_server.simps resource_members.simps
    by (rule encode_members_strips [OF host_strips(3) distinct_names(3) distinct_names(3)])
      (use assms(2) in \<open>simp add: Strm s\<close>)
next
  case (Dead h)
  with assms(1) obtain g where s: "s = Dead g" by (cases s) auto
  show ?thesis
    unfolding Dead s strip_server.simps resource_members.simps
    by (rule encode_members_strips [OF host_strips(4) distinct_names(4) distinct_names(4)])
      (use assms(2) in \<open>simp add: Dead s\<close>)
qed

lemma change_is_named:
  assumes "r_Kind current = r_Kind desired" "resource_ok num current" "resource_ok num desired"
    "telling enc (map snd (resource_members nils num current) @ map snd (resource_members nils' num desired))"
    "Fingerprint current \<noteq> Fingerprint desired"
  shows "Diff enc num (Some (nils, current)) (Some (nils', desired)) \<noteq> []"
proof
  assume "Diff enc num (Some (nils, current)) (Some (nils', desired)) = []"
  then have "map_of (resource_members nils num current) k = map_of (resource_members nils' num desired) k"
    if "k \<notin> set serverOwned" for k
    using that telling_render [OF assms(4)] by (simp add: Diff_def resourceMap_def diff_empty_iff)
  then have same: "resource_members nils num (strip_server current) = resource_members nils' num (strip_server desired)"
    by (rule same_stripped [OF assms(1)])
  have "r_norm (strip_server current) = r_norm (strip_server desired)"
    using resource_roundtrip [OF resource_ok_strip_server [OF assms(2)], of nils]
      resource_roundtrip [OF resource_ok_strip_server [OF assms(3)], of nils'] assms(1)
    by (simp add: same)
  then have "Fingerprint current = Fingerprint desired"
    by (metis Fingerprint_r_norm Fingerprint_strip_server)
  with assms(5) show False by simp
qed


definition ex_diff_stream :: "string \<Rightarrow> Resource" where
  "ex_diff_stream host = Strm (zero_stream\<lparr> st_ForwardingHost := host \<rparr>)"

lemma ex_diff_stream_members:
  "resource_members no_nils no_num (ex_diff_stream host) =
     [(''incoming_port'', JStr []), (''forwarding_host'', JStr host), (''forwarding_port'', JStr []),
      (''tcp_forwarding'', JBool False), (''udp_forwarding'', JBool False), (''certificate_id'', JNum (itoa 0)),
      (''enabled'', JBool False), (''meta'', JNull), (''npmplus_proxy_protocol_forwarding'', JNum (itoa 0)),
      (''npmplus_proxy_tls'', JBool False), (''npmplus_advanced_config'', JStr []), (''npmplus_description'', JStr [])]"
proof -
  have "marshal_port zero_port = JStr []" by code_simp
  then show ?thesis
    by (simp add: ex_diff_stream_def st_members_def encode_members_def member_def zero_stream_def empty_values meta_codec_def
        meta_members_def port_codec_def string_codec_def flag_codec_def cid_codec_def level_codec_def marshal_flag_def
        marshal_level_def marshal_cid_def noCertificate_def)
qed


text \<open>The other way round it does not hold: the diff compares the fields as they are spelled, the fingerprint what
  they mean. A listing of access lists that is empty in the answer of the server and \<open>nil\<close> in the
  resource built from the labels is named as a change on every update, though nothing differs.\<close>

lemma spelling_counts_as_change:
  "Diff json_text no_num (Some ((\<lambda>k. k \<noteq> ''npmplus_access_list_ids''), Proxy zero_proxy)) (Some (no_nils, Proxy zero_proxy)) \<noteq> []"
proof -
  let ?a = "resource_members (\<lambda>k. k \<noteq> ''npmplus_access_list_ids'') no_num (Proxy zero_proxy)"
  let ?b = "resource_members no_nils no_num (Proxy zero_proxy)"
  have "map_of ?a ''npmplus_access_list_ids'' = Some (JArr [])" "map_of ?b ''npmplus_access_list_ids'' = Some JNull"
    by (simp_all add: ph_members_def encode_members_def member_def zero_proxy_def empty_values slice_codec_def)
  then have "render json_text (map_of ?a ''npmplus_access_list_ids'') \<noteq> render json_text (map_of ?b ''npmplus_access_list_ids'')"
    by (simp add: render_def render_limit_def)
  moreover have "''npmplus_access_list_ids'' \<notin> set serverOwned" by (simp add: serverOwned_def)
  ultimately show ?thesis by (auto simp: Diff_def resourceMap_def diff_empty_iff)
qed

text \<open>The comparison is of the shortened texts: a change behind the first 120 bytes is not named.\<close>

lemma long_values_hide_changes:
  assumes "enc v = p @ s" "enc v' = p @ s'" "length p = render_limit" "s \<noteq> []" "s' \<noteq> []"
  shows "render enc (Some v) = render enc (Some v')"
  using assms by (simp add: render_def Let_def)

end
