(* ===== verification/Markdown.thy ===== *)
theory Markdown
  imports Defaults
begin

text \<open>
  The reference page of the fields (\<open>internal/fields/markdown.go\<close>), which is printed from the table the label
  parser reads, and the documentation column of that table (the \<open>Doc\<close> entries of \<open>fields.go\<close>), one list for
  each block of fields. Texts are bytes; a dash outside ASCII is spelled in UTF-8.
\<close>

section \<open>The documentation column\<close>

definition certificateDoc :: "string list" where
  "certificateDoc = [
     ''auto, a certificate id, a domain, `name:<nice name>`, `new` or `none`'']"

definition sslDocs :: "string list" where
  "sslDocs = certificateDoc @ [
     ''redirect http to https; auto means \"on as soon as a certificate is attached\"'',
     ''HTTP/2 support (always on in NPMplus releases without the meta object)'',
     ''HTTP/3 (QUIC) support'',
     ''send Strict-Transport-Security (hard to undo, opt-in)'',
     ''extend HSTS to all subdomains'']"

definition letsencryptDocs :: "string list" where
  "letsencryptDocs = [
     ''contact address (upstream NPM only; NPMplus uses its own ACME_EMAIL)'',
     ''accept the Let's Encrypt terms (upstream NPM only)'',
     ''use a DNS-01 challenge instead of HTTP-01 (npmplus_dns_challenge on NPMplus without the meta object)'',
     ''certbot DNS plugin name (npmplus_dns_provider on NPMplus without the meta object)'',
     ''credentials file content for the DNS plugin (npmplus_dns_provider_credentials on NPMplus without the meta object)'',
     ''how long to wait for the DNS record to propagate (npmplus_propagation_seconds on NPMplus without the meta object)'']"

definition enabledDoc :: "string list" where
  "enabledDoc = [
     ''switch this resource off in NPM without deleting it (create/update still runs)'']"

definition groupDoc :: "string list" where
  "groupDoc = [
     ''NPMplus UI group this resource is listed under (meta.directory on releases before the column); none clears it'']"

definition domainsDoc :: "string list" where
  "domainsDoc = [
     ''domain names served by this resource (required)'']"

definition proxyDocs :: "string list" where
  "proxyDocs = domainsDoc @ [
     ''upstream address; defaults to the container itself'',
     ''upstream port; auto reads it from the container's exposed ports'',
     ''use the container IP instead of its name as upstream; defaults to RESOLVE_CONTAINER_IP'',
     ''how to talk to the upstream'',
     ''allow websocket upgrades (always on in NPMplus releases without the meta object)'',
     ''cache static assets (can break dynamic content; not offered in NPMplus releases without the meta object)'',
     ''block common exploit patterns (not offered in NPMplus releases without the meta object)'',
     ''trust X-Forwarded-Proto (only behind another proxy; always on in NPMplus releases without the meta object)'',
     ''access list ids or names, comma separated'',
     ''public or custom; derived from access_list when unset'',
     ''forward authentication integration'',
     ''address of the auth service; needs auth_request'',
     ''nginx snippet inserted into location /'',
     ''nginx snippet inserted into the server block, below the ownership marker line'',
     ''send X-Robots-Tag: noindex and block scrapers'',
     ''run requests through the CrowdSec AppSec component'',
     ''buffer the request body before passing it upstream; http/https only, and only off while crowdsec_appsec is off'',
     ''buffer the upstream response; http/https only'',
     ''let the upstream compress instead of nginx; not for scheme path'',
     ''pretty directory listings; scheme path only'',
     ''X-Frame-Options header; unset keeps the NPMplus default''] @ enabledDoc @ groupDoc @ sslDocs @ letsencryptDocs"

definition redirectDocs :: "string list" where
  "redirectDocs = domainsDoc @ [
     ''domain to redirect to (required)'',
     ''scheme of the redirect target'',
     ''redirect status code (300-308)'',
     ''append the original path to the target'',
     ''block common exploit patterns (not offered in NPMplus releases without the meta object)'',
     ''nginx snippet inserted into the server block, below the ownership marker line''] @ enabledDoc @ groupDoc @ sslDocs @ letsencryptDocs"

definition streamDocs :: "string list" where
  "streamDocs = [
     ''port NPM listens on (required)'',
     ''upstream address; defaults to the container itself'',
     ''upstream port; defaults to the incoming port'',
     ''use the container IP as upstream; defaults to RESOLVE_CONTAINER_IP'',
     ''forward TCP'',
     ''forward UDP'',
     ''shorthand for the tcp and udp switches: tcp, udp or both'',
     ''send a PROXY protocol header upstream; only v2 together with udp'',
     ''terminate TLS towards the upstream; TCP only, not together with udp'',
     ''nginx snippet inserted into the stream block, below the ownership marker line'',
     ''free text shown in the UI; defaults to the container name'',
     ''auto, a certificate id, a domain or `name:<nice name>`''] @ enabledDoc @ groupDoc"

definition deadDocs :: "string list" where
  "deadDocs = domainsDoc @ [
     ''nginx snippet inserted into the server block, below the ownership marker line''] @ enabledDoc @ groupDoc @ sslDocs @ letsencryptDocs"

definition locationDocs :: "string list" where
  "locationDocs = [
     ''location path, e.g. /api (required)'',
     ''nginx location modifier: prefix, exact (`= `), regex (`~ `), iregex (`~* `), prefer (`^~ `) or named (`@`)'',
     ''upstream address for this path; inherited from the host'',
     ''upstream port for this path; inherited from the host'',
     ''how to talk to the upstream of this path; inherited from the host'',
     ''nginx snippet inserted for this location'',
     ''nginx snippet inserted inside the location block'',
     ''access list ids or names for this path only'',
     ''global inherits the host's lists, public drops them, custom uses this block's'',
     ''switch off this one location without removing its labels'',
     ''send X-Robots-Tag: noindex for this path; inherited from the host'',
     ''run this path through CrowdSec AppSec; inherited from the host'',
     ''buffer the request body for this path; inherited from the host'',
     ''buffer the upstream response for this path; inherited from the host'',
     ''let the upstream compress this path; inherited from the host'',
     ''pretty directory listings for this path; inherited from the host'',
     ''X-Frame-Options header for this path; inherited from the host'',
     ''forward authentication for this path; inherited from the host'',
     ''address of the auth service; inherited from the host'']"

fun Docs :: "Kind \<Rightarrow> string list" where
  "Docs KindProxy = proxyDocs"
| "Docs KindRedirect = redirectDocs"
| "Docs KindStream = streamDocs"
| "Docs KindDead = deadDocs"

text \<open>The entry that stands beside a field.\<close>

definition doc_in :: "Field list \<Rightarrow> string list \<Rightarrow> Field \<Rightarrow> string" where
  "doc_in fs docs f = (case map_of (zip (map f_Name fs) docs) (f_Name f) of Some d \<Rightarrow> d | None \<Rightarrow> [])"

definition f_Doc :: "Kind \<Rightarrow> Field \<Rightarrow> string" where
  "f_Doc kind = doc_in (Table kind) (Docs kind)"

section \<open>Cells\<close>

definition line_end :: char where "line_end = CHR 0x0A"
definition dash :: string where "dash = [CHR 0xE2, CHR 0x80, CHR 0x94]"

definition text_lines :: "string list \<Rightarrow> string" where
  "text_lines ls = concat (map (\<lambda>l. l @ [line_end]) ls)"

definition quote :: "string \<Rightarrow> string" where "quote s = ''`'' @ s @ ''`''"

fun Type_String :: "FieldType \<Rightarrow> string" where
  "Type_String TypeBool = ''bool''"
| "Type_String TypeInt = ''int''"
| "Type_String TypePort = ''port''"
| "Type_String TypeEnum = ''enum''"
| "Type_String TypeDomains = ''domains''"
| "Type_String TypeList = ''list''"
| "Type_String TypeCertificate = ''certificate''"
| "Type_String TypeString = ''string''"

definition labelCell :: "Field \<Rightarrow> string" where
  "labelCell f = (if f_Plus f then quote (f_Name f) @ '' **+**'' else quote (f_Name f))"

definition typeCell :: "Field \<Rightarrow> string" where
  "typeCell f = (if f_Type f = TypeEnum then ''`'' @ join ''`, `'' (f_Enum f) @ ''`'' else Type_String (f_Type f))"

definition undocumented :: string where "undocumented = ''**TODO: undocumented field**''"

definition docCell :: "string \<Rightarrow> string" where
  "docCell doc = (if doc = [] then undocumented else doc)"

definition aliasList :: "Field \<Rightarrow> string" where
  "aliasList f = (if f_Aliases f = [] then dash else join '', '' (map quote (f_Aliases f)))"

definition defaultValue :: "Field \<Rightarrow> string" where
  "defaultValue f = (if f_Default f = [] then dash else quote (f_Default f))"

text \<open>A row of a table is its cells between bars.\<close>

definition table_row :: "string list \<Rightarrow> string" where
  "table_row cells = ''| '' @ join '' | '' cells @ '' |'' @ [line_end]"

definition field_cells :: "Kind \<Rightarrow> Field \<Rightarrow> string list" where
  "field_cells kind f = [labelCell f, typeCell f, defaultValue f, docCell (f_Doc kind f), aliasList f,
     quote (envName (envPrefix @ envKind kind @ ''_'') (f_Name f)), quote (f_APIField f)]"

definition location_cells :: "Field \<Rightarrow> string list" where
  "location_cells f = [labelCell f, typeCell f, defaultValue f, docCell (doc_in LocationFields locationDocs f), aliasList f,
     quote (f_APIField f)]"

definition plus_cells :: "Kind \<Rightarrow> Field \<Rightarrow> string list" where
  "plus_cells kind f = [quote (kind_String kind), quote (f_Name f), quote (f_APIField f), docCell (f_Doc kind f)]"

section \<open>The page\<close>

definition md_intro :: string where
  "md_intro = text_lines [
     ''<!-- Generated from internal/fields; do not edit by hand. -->'',
     ''<!-- Run \"go test ./internal/fields -update\" after changing the table. -->'',
     [],
     ''# Field reference'',
     [],
     ''Every label this tool understands, what it does, the environment variable that'',
     ''changes its default and the NPM/NPMplus API field it ends up in. This page is'',
     ''generated from the field table in `internal/fields`, which is the same table the'',
     ''parser reads - it cannot be out of date. [LABELS.md](LABELS.md) explains the'',
     ''grammar around these names.'',
     [],
     ''A label is written `<prefix>.<kind>[.<index>].<field>`, so the `websockets` row'',
     ''of the proxy table is the label `npm.proxy.websockets`.'',
     [],
     ''* **Label** is the canonical spelling; **Aliases** are accepted just as well.'',
     ''  Inside a name `.`, `_` and `-` are interchangeable, so'',
     ''  `ssl.hsts_subdomains` and `ssl-hsts-subdomains` are the same field.'',
     ''* **Type** is the value domain: `bool` takes `true/false`, `1/0`, `yes/no` or'',
     ''  `on/off`; `domains` and `list` are comma, semicolon or whitespace'',
     ''  separated; `port` is `1-65535`; an enum lists its values.'',
     ''* **Default** is the built-in one. `auto` means it is derived at runtime: the'',
     ''  certificate from the certificate list, the port from the container's exposed'',
     ''  ports and `ssl.forced` from whether a certificate was attached. `'' @ dash @ ''` means'',
     ''  unset.'',
     ''* **Environment** sets the default for every container. The kind specific name'',
     ''  is shown; the cross-kind `NPM_DEFAULT_<FIELD>` works as well, and every'',
     ''  alias has its own variable (which is how `NPM_PROXY_SSL_FORCE` works). A'',
     ''  label on a container always wins.'',
     ''* **+** after the label marks a field that only exists in NPMplus. Against'',
     ''  upstream nginx-proxy-manager it is left out of the request and reported once,'',
     ''  rather than failing the write.'',
     [],
     ''## Resource kinds'',
     [],
     ''`<kind>` selects which of NPM's four collections the labels describe. It may be'',
     ''left out, in which case it is `proxy`.'',
     [],
     ''| Kind | Spellings | NPM calls it |'',
     ''|---|---|---|'',
     ''| `proxy` | `proxy`, `proxies` | Proxy Host |'',
     ''| `redirect` | `redirect`, `redirection` | Redirection Host |'',
     ''| `stream` | `stream` | Stream |'',
     ''| `dead` | `404`, `dead` | 404 Host |'',
     [],
     ''## Labels that are not fields'',
     [],
     ''These stand outside the per-resource tables below: they take no resource kind'',
     ''and do not end up in any API field.'',
     [],
     ''| Label | What it does |'',
     ''|---|---|'',
     ''| `npm.enable` | Whether the container is looked at at all. With `NPM_EXPOSED_BY_DEFAULT` (the default) every container carrying one label of the namespace is managed and `false` opts it out; with the flag off, `true` is required. |'',
     ''| `npm.<index>.enable` | Switches one index off entirely, labels and all - nothing is created for it and nothing is deleted. Note the difference to `npm.<kind>.enabled` in the tables below, which *does* create the resource and leaves it disabled in NPM. |'',
     []]"

definition md_plus :: string where
  "md_plus = text_lines [
     [],
     ''## NPMplus-only fields'',
     [],
     ''These exist only in NPMplus. Against upstream nginx-proxy-manager they are left'',
     ''out of the request and reported once per resource - but only when a label set'',
     ''them, never because of a default.'',
     [],
     ''| Kind | Label | API field | What it does |'',
     ''|---|---|---|---|'']"

definition md_inverted :: string where
  "md_inverted = text_lines [
     [],
     ''## Inverted switches'',
     [],
     ''NPMplus spells three settings as \"disable X\". The labels are positive, and the'',
     ''value is negated on the way into the API:'',
     [],
     ''| Label | API field | `true` means |'',
     ''|---|---|---|'',
     ''| `crowdsec_appsec` | `npmplus_crowdsec_appsec` | AppSec is **active** (the API field is set to `false`) |'',
     ''| `request_buffering` | `npmplus_proxy_request_buffering` | buffering is **active** |'',
     ''| `response_buffering` | `npmplus_proxy_response_buffering` | buffering is **active** |'',
     [],
     ''The explicit spellings `disable_crowdsec_appsec`, `disable_request_buffering` and'',
     ''`disable_response_buffering` are accepted too and mean the opposite.'']"

definition kind_title :: "Kind \<Rightarrow> string" where
  "kind_title kind = (let label = kind_Label kind in
     ''## '' @ to_upper (take 1 label) @ drop 1 label @ ''s ('' @ quote (kind_String kind) @ '')'')"

definition kind_head :: "Kind \<Rightarrow> string" where
  "kind_head kind = text_lines [kind_title kind, [],
     ''| Label | Type | Default | What it does | Aliases | Environment | API field |'',
     ''|---|---|---|---|---|---|---|'']"

definition kind_section :: "Kind \<Rightarrow> string" where
  "kind_section kind = kind_head kind @
     concat (map (\<lambda>f. table_row (field_cells kind f)) (List_fields kind)) @ [line_end]"

definition location_section :: string where
  "location_section =
     text_lines [''## Custom locations (`location.<n>.<field>`)'', [],
       ''Location blocks belong to a proxy host and inherit every switch from it.'', [],
       ''| Label | Type | Default | What it does | Aliases | API field |'',
       ''|---|---|---|---|---|---|''] @
     concat (map (\<lambda>f. table_row (location_cells f)) LocationFields)"

definition plus_section :: string where
  "plus_section = md_plus @
     concat (map (\<lambda>kind. concat (map (\<lambda>f. table_row (plus_cells kind f)) (filter f_Plus (List_fields kind)))) Kinds)"

definition Markdown :: string where
  "Markdown = md_intro @ concat (map kind_section Kinds) @ location_section @ plus_section @ md_inverted"

section \<open>What the page shows\<close>

lemma part_of_concat:
  assumes "x \<in> set xs"
  obtains pre post where "concat (map g xs) = pre @ g x @ post"
proof -
  from assms obtain ys zs where "xs = ys @ x # zs" by (meson split_list)
  then show thesis by (intro that [of "concat (map g ys)" "concat (map g zs)"]) simp
qed

lemma Docs_complete: "length (Docs kind) = length (Table kind)" "[] \<notin> set (Docs kind)" "undocumented \<notin> set (Docs kind)"
  by (cases kind; simp add: proxyDocs_def redirectDocs_def streamDocs_def deadDocs_def domainsDoc_def enabledDoc_def groupDoc_def
    sslDocs_def certificateDoc_def letsencryptDocs_def proxyFields_def redirectFields_def streamFields_def deadFields_def
    sslFields_def letsencryptFields_def undocumented_def)+

lemma f_Doc_documented:
  assumes "f \<in> set (Table kind)"
  shows "f_Doc kind f \<in> set (Docs kind)"
proof -
  let ?m = "map_of (zip (map f_Name (Table kind)) (Docs kind))"
  have "f_Name f \<in> set (map f_Name (Table kind))" using assms by simp
  then obtain d where d: "?m (f_Name f) = Some d"
    using Docs_complete(1) [of kind] by (metis length_map map_of_zip_is_Some)
  then have "d \<in> set (Docs kind)" by (metis map_of_SomeD set_zip_rightD)
  then show ?thesis by (simp add: f_Doc_def doc_in_def d)
qed

text \<open>Every row is on the page.\<close>

lemma row_on_page:
  assumes "f \<in> set (Table kind)"
  obtains pre post where "Markdown = pre @ table_row (field_cells kind f) @ post"
proof -
  have "f \<in> set (List_fields kind)" using assms by (simp add: List_fields_def)
  then obtain a b where "concat (map (\<lambda>f. table_row (field_cells kind f)) (List_fields kind)) = a @ table_row (field_cells kind f) @ b"
    by (rule part_of_concat)
  then have part: "kind_section kind = (kind_head kind @ a) @ table_row (field_cells kind f) @ b @ [line_end]"
    by (simp add: kind_section_def)
  have "kind \<in> set Kinds" by (cases kind) (simp_all add: Kinds_def)
  then obtain c d where "concat (map kind_section Kinds) = c @ kind_section kind @ d" by (rule part_of_concat)
  with part show thesis
    by (intro that [of "md_intro @ c @ kind_head kind @ a"]) (simp add: Markdown_def)
qed

lemma first_variable:
  assumes "trim_space (getenv v) \<noteq> []" "v = envName (envPrefix @ envKind kind @ ''_'') (f_Name f)"
  shows "first_set getenv (EnvNames kind f) = Some (v, trim_space (getenv v))"
  using assms(1) by (simp add: EnvNames_def Let_def assms(2) [symmetric] dedup_def first_set_def)

text \<open>C40: the reference page is true. Every field of a kind has a row with its name, its built-in default and its
  description, which is never the remark that it is missing; and the environment variable of the row
  is one that works: when it is set to a value of the field, that is the default of the field,
  whatever the other variables are.\<close>

theorem reference_page_is_true:
  assumes "f \<in> set (Table kind)" "field_cells kind f = [label, type, dflt, doc, aliases, quote v, api]"
    and "LoadDefaults getenv environ = (d, warnings, errs)" "Parse f (trim_space (getenv v)) = Inr x" "trim_space (getenv v) \<noteq> []"
  shows "(\<exists>pre post. Markdown = pre @ table_row [label, type, dflt, doc, aliases, quote v, api] @ post) \<and>
    doc \<noteq> undocumented \<and> dflt = defaultValue f \<and> Value (Some d) kind (f_Name f) = x \<and> Source (Some d) kind (f_Name f) = v"
proof -
  have v: "v = envName (envPrefix @ envKind kind @ ''_'') (f_Name f)" and doc: "doc = docCell (f_Doc kind f)" and "dflt = defaultValue f"
    using assms(2) by (simp_all add: field_cells_def quote_def)
  moreover have "\<exists>pre post. Markdown = pre @ table_row [label, type, dflt, doc, aliases, quote v, api] @ post"
    using row_on_page [OF assms(1)] assms(2) by metis
  moreover have "f_Doc kind f \<noteq> []" "f_Doc kind f \<noteq> undocumented"
    using f_Doc_documented [OF assms(1)] Docs_complete(2,3) [of kind] by metis+
  moreover have "Value (Some d) kind (f_Name f) = x \<and> Source (Some d) kind (f_Name f) = v"
    using loaded_default [OF assms(3,1)] assms(4) by (simp add: first_variable [of getenv v, OF assms(5) v])
  ultimately show ?thesis by (simp add: docCell_def)
qed

theorem reference_page_is_true_witness:
  "Value (Some (fst (LoadDefaults (\<lambda>n. if n = ''NPM_PROXY_WEBSOCKETS'' then ''off'' else []) []))) KindProxy F_Websockets = ''false''"
proof -
  let ?g = "\<lambda>n :: string. if n = ''NPM_PROXY_WEBSOCKETS'' then ''off'' else []"
  define f where "f = zero_field\<lparr> f_Name := F_Websockets,
       f_Aliases := [''websocket'', ''ws'', ''allow_websocket_upgrade''], f_Type := TypeBool,
       f_Default := ''true'', f_APIField := ''allow_websocket_upgrade'' \<rparr>"
  have f: "f \<in> set (Table KindProxy)" by (simp add: proxyFields_def f_def)
  have name: "envName (envPrefix @ envKind KindProxy @ ''_'') (f_Name f) = ''NPM_PROXY_WEBSOCKETS''" "f_Name f = F_Websockets"
    unfolding f_def by code_simp+
  have cells: "field_cells KindProxy f = [labelCell f, typeCell f, defaultValue f, docCell (f_Doc KindProxy f), aliasList f,
      quote ''NPM_PROXY_WEBSOCKETS'', quote (f_APIField f)]"
    using name(1) by (simp only: field_cells_def)
  have p: "Parse f (trim_space (?g ''NPM_PROXY_WEBSOCKETS'')) = Inr ''false''" "trim_space (?g ''NPM_PROXY_WEBSOCKETS'') \<noteq> []"
    unfolding f_def by code_simp+
  obtain d w e where l: "LoadDefaults ?g [] = (d, w, e)" by (metis surj_pair)
  from reference_page_is_true [OF f cells l p] show ?thesis by (simp add: l name)
qed

end
