(* ===== verification/Texts.thy ===== *)
theory Texts
  imports RunLoop Listener Client Diff
begin

text \<open>
  What the program says: the texts of resources, targets, certificate specs, dialects and errors, and the log
  lines of the worker and the client that are more than a constant. A line that is not written is \<open>None\<close>.
  Texts are bytes, the arrows are spelled in UTF-8.
\<close>

section \<open>Resources and targets\<close>

definition double_arrow :: string where "double_arrow = [CHR '' '', CHR 0xE2, CHR 0x87, CHR 0x92, CHR '' '']"

definition host_list :: "string list \<Rightarrow> string" where
  "host_list domains = join '','' (NormalizeDomains domains)"

definition ph_Describe :: "ProxyHost \<Rightarrow> string" where
  "ph_Describe h = host_list (ph_DomainNames h) @ arrow @ ph_ForwardScheme h @ ''://'' @ ph_ForwardHost h @ '':'' @
     itoa (ph_ForwardPort h)"

definition rh_Describe :: "RedirectionHost \<Rightarrow> string" where
  "rh_Describe h = host_list (rh_DomainNames h) @ double_arrow @ rh_ForwardScheme h @ ''://'' @ rh_ForwardDomainName h @
     '' ('' @ itoa (rh_ForwardHTTPCode h) @ '')''"

definition st_Describe :: "StreamHost \<Rightarrow> string" where
  "st_Describe s =
     (let protocols = (if st_TCPForwarding s then [''tcp''] else []) @ (if st_UDPForwarding s then [''udp''] else [])
      in '':'' @ port_raw (st_IncomingPort s) @ arrow @ st_ForwardingHost s @ '':'' @ port_raw (st_ForwardingPort s) @
         '' ('' @ join ''+'' protocols @ '')'')"

definition dh_Describe :: "DeadHost \<Rightarrow> string" where
  "dh_Describe h = host_list (dh_DomainNames h) @ arrow @ ''404''"

fun Describe :: "Resource \<Rightarrow> string" where
  "Describe (Proxy h) = ph_Describe h"
| "Describe (Redirect h) = rh_Describe h"
| "Describe (Strm s) = st_Describe s"
| "Describe (Dead h) = dh_Describe h"

definition t_Describe :: "Target \<Rightarrow> string" where
  "t_Describe t = t_ContainerName t @ ''#'' @ itoa (t_Index t) @ '' '' @ kind_String (t_Kind t) @ '' '' @ t_Key t"

section \<open>Dialects, sessions, certificates\<close>

fun Flavour_String :: "Flavour \<Rightarrow> string" where
  "Flavour_String FlavourAuto = ''auto''"
| "Flavour_String FlavourNPMplus = ''npmplus''"
| "Flavour_String FlavourNPM = ''npm''"

definition Version_String :: "Version \<Rightarrow> string" where
  "Version_String v = (if v_IsZero v then []
     else itoa (v_Major v) @ ''.'' @ itoa (v_Minor v) @ ''.'' @ itoa (v_Revision v))"

fun AuthMode_String :: "AuthMode \<Rightarrow> string" where
  "AuthMode_String AuthCookie = ''cookie''"
| "AuthMode_String AuthBearer = ''bearer''"
| "AuthMode_String AuthUnknown = ''unknown''"

fun Mode_String :: "Mode \<Rightarrow> string" where
  "Mode_String ModeID = ''id''"
| "Mode_String ModeDomain = ''domain''"
| "Mode_String ModeName = ''name''"
| "Mode_String ModeNew = ''new''"
| "Mode_String ModeNone = ''none''"
| "Mode_String ModeAuto = ''auto''"

definition Spec_String :: "Spec \<Rightarrow> string" where
  "Spec_String s =
     (case s_Mode s of
        ModeID \<Rightarrow> itoa (s_ID s)
      | ModeDomain \<Rightarrow> s_Domain s
      | ModeName \<Rightarrow> ''name:'' @ s_Name s
      | md \<Rightarrow> Mode_String md)"

fun method_String :: "http_method \<Rightarrow> string" where
  "method_String GET = ''GET''"
| "method_String POST = ''POST''"
| "method_String PUT = ''PUT''"
| "method_String DELETE = ''DELETE''"

definition APIError_Error :: "int \<Rightarrow> http_method \<Rightarrow> string \<Rightarrow> string \<Rightarrow> string" where
  "APIError_Error status m path message =
     (let aim = trim_space (method_String m @ '' '' @ path);
          failed = ''npm: '' @ aim @ '' failed with status '' @ itoa status
      in if message = [] then failed else failed @ '': '' @ message)"

section \<open>Log lines of the worker\<close>

definition result_LogValue :: "Result \<Rightarrow> (string \<times> int) list" where
  "result_LogValue r = [(''created'', rs_Created r), (''updated'', rs_Updated r), (''deleted'', rs_Deleted r),
     (''unchanged'', rs_Unchanged r), (''skipped'', rs_Skipped r), (''failed'', rs_Failed r)]"

text \<open>The line that ends a run: its level, its text and its counters.\<close>

datatype level = Debug | Info | Warning | Error

definition report_run :: "string \<Rightarrow> Result \<Rightarrow> bool \<Rightarrow> (level \<times> string \<times> (string \<times> int) list) option" where
  "report_run what r failed =
     (if failed then Some (Error, what @ '' finished with errors'', result_LogValue r)
      else if rs_Changed r then Some (Info, what @ '' applied changes'', result_LogValue r)
      else None)"

definition describeOrphans :: "orphan list \<Rightarrow> string" where
  "describeOrphans orphans =
     join '','' (sort (map (\<lambda>x. kind_String (or_kind x) @ ''/'' @ or_key x @ ''#'' @ itoa (or_id x)) orphans))"

definition ownerName :: "Resource \<Rightarrow> string" where
  "ownerName r = (let owner = Owner (ResourceMeta r) in if owner \<noteq> [] then owner else ''unmanaged'')"

definition describe :: "Event list \<Rightarrow> string" where
  "describe batch =
     join '','' (sort (dedup (map (\<lambda>e. if ev_Name e = [] then ev_ContainerID e else ev_Name e) batch)))"

text \<open>The diff of an edit that is about to be overwritten.\<close>

definition reportDrift ::
  "(json \<Rightarrow> string) \<Rightarrow> (rat \<Rightarrow> string) \<Rightarrow> Cache \<Rightarrow> Kind \<Rightarrow> string \<Rightarrow> int \<Rightarrow> (string \<Rightarrow> bool) \<times> Resource \<Rightarrow>
     (string \<Rightarrow> bool) \<times> Resource \<Rightarrow> string option" where
  "reportDrift enc num cache kind key i current desired =
     (case cache_Get cache kind key of
        None \<Rightarrow> None
      | Some cached \<Rightarrow>
          if en_ID cached \<noteq> i \<or> en_Hash cached = Fingerprint (snd current) then None
          else Some (Diff enc num (Some current) (Some desired)))"

section \<open>Log lines of the client\<close>

text \<open>\<open>debugging\<close> says whether the level is enabled, \<open>payloads\<close> is LOG_PAYLOADS; a body is its length and its
  JSON tree. \<open>enc\<close> is the text of a tree.\<close>

definition logRequest ::
  "(json \<Rightarrow> string) \<Rightarrow> bool \<Rightarrow> bool \<Rightarrow> Flavour \<Rightarrow> http_method \<Rightarrow> string \<Rightarrow> nat \<Rightarrow> json option \<Rightarrow> (string \<times> string) list option" where
  "logRequest enc debugging payloads flavour m path bytes body =
     (if bytes = 0 \<or> \<not> debugging then None
      else Some ([(''method'', method_String m), (''path'', path), (''flavour'', Flavour_String flavour),
          (''bytes'', itoa (int bytes)), (''fields'', join '','' (payloadKeys body))] @
        (if payloads then [(''body'', enc (redactPayload body))] else [])))"

section \<open>What the texts keep\<close>

text \<open>An edit that is overwritten is never overwritten in silence: the line names a field.\<close>

lemma overwritten_edit_is_named:
  assumes "cache_Get cache kind key = Some cached" "en_ID cached = i" "en_Hash cached \<noteq> Fingerprint current"
    and "r_Kind current = r_Kind desired" "resource_ok num current" "resource_ok num desired"
    and "telling enc (map snd (resource_members nils num current) @ map snd (resource_members nils' num desired))"
    and "Fingerprint current \<noteq> Fingerprint desired"
  shows "\<exists>line. reportDrift enc num cache kind key i (nils, current) (nils', desired) = Some line \<and> line \<noteq> []"
  using change_is_named [OF assms(4-8)] by (simp add: reportDrift_def assms(1-3))

text \<open>Without LOG_PAYLOADS a line tells of a body its length and the names of its members, nothing else.\<close>

lemma log_tells_keys_only:
  assumes "map fst fs = map fst gs"
  shows "logRequest enc debugging False flavour m path bytes (Some (JObj fs)) =
    logRequest enc debugging False flavour m path bytes (Some (JObj gs))"
  by (simp add: logRequest_def payloadKeys_def assms)

text \<open>A run that changed or failed something has a line with its counters, an idle one has none.\<close>

lemma report_run_silent: "report_run what r failed = None \<longleftrightarrow> \<not> failed \<and> \<not> rs_Changed r"
  by (simp add: report_run_def)

text \<open>A printed dialect or certificate spec is read back as the same.\<close>

lemma flavour_text_roundtrip: "ParseFlavour (Flavour_String f) = Inr f"
  by (cases f; hypsubst; code_simp)

lemma itoa_pos_plain:
  assumes "0 < i"
  shows "trim_space (itoa i) = itoa i" "\<forall>c\<in>set (to_lower (itoa i)). is_digit c"
proof -
  show "trim_space (itoa i) = itoa i" by (rule trim_space_no_space [OF itoa_no_space])
  have "itoa i = nat_str (nat i)" using assms by (simp add: itoa_def)
  then show "\<forall>c\<in>set (to_lower (itoa i)). is_digit c"
    by (auto simp: to_lower_def lower_digit dest: nat_str_digits)
qed

lemma letters_no_digits:
  "list_all (\<lambda>s. list_ex (\<lambda>c. \<not> is_digit c) s) [''auto'', ''new'', ''letsencrypt'', ''le'', ''request'', ''none'', ''off'', ''false'',
     ''no'', ''disable'', ''disabled'']"
  by code_simp

lemma spec_number:
  assumes "0 < i" "in_int64 i"
  shows "ParseSpec (itoa i) = Inr ((spec_of ModeID (itoa i))\<lparr> s_ID := i \<rparr>)"
proof -
  note p = itoa_pos_plain [OF assms(1)]
  have words: "to_lower (itoa i) \<noteq> w" if "list_ex (\<lambda>c. \<not> is_digit c) w" for w
    using p(2) that by (auto simp: list_ex_iff)
  have "to_lower (itoa i) \<noteq> ''0''"
  proof
    assume z: "to_lower (itoa i) = ''0''"
    have "\<forall>c\<in>set (itoa i). is_digit c"
      using assms(1) by (auto simp: itoa_def dest: nat_str_digits)
    then have "to_lower (itoa i) = itoa i" by (simp add: to_lower_def map_idI lower_digit)
    with z have "atoi (itoa i) = atoi ''0''" by simp
    moreover have "atoi ''0'' = Some 0" by code_simp
    ultimately show False using assms by (simp add: atoi_itoa)
  qed
  moreover have "cutPrefixFold (itoa i) ''name:'' = None"
  proof -
    have n: "CHR ''n'' \<in> set (to_lower ''name:'')" by code_simp
    have "to_lower (take (length ''name:'') (itoa i)) \<noteq> to_lower ''name:''"
    proof
      assume "to_lower (take (length ''name:'') (itoa i)) = to_lower ''name:''"
      with n have "CHR ''n'' \<in> set (take (length ''name:'') (to_lower (itoa i)))" by (simp only: to_lower_def take_map)
      then have "CHR ''n'' \<in> set (to_lower (itoa i))" by (rule in_set_takeD)
      with p(2) show False by (auto simp: is_digit_def)
    qed
    then show ?thesis by (simp only: cutPrefixFold_def equal_fold_def if_False simp_thms)
  qed
  ultimately show ?thesis
    using letters_no_digits assms words by (simp add: ParseSpec_def Let_def p(1) atoi_itoa)
qed

lemma words_without:
  "list_all (\<lambda>s. CHR '':'' \<notin> set s \<and> CHR ''.'' \<notin> set s) [[], ''auto'', ''new'', ''letsencrypt'', ''le'', ''request'', ''none'', ''off'',
     ''false'', ''no'', ''0'', ''disable'', ''disabled'']"
  by code_simp

lemma spec_name:
  assumes "trim_space name = name" "name \<noteq> []"
  shows "ParseSpec (''name:'' @ name) = Inr ((spec_of ModeName (''name:'' @ name))\<lparr> s_Name := name \<rparr>)"
proof -
  have t: "trim_space (''name:'' @ name) = ''name:'' @ name"
  proof -
    have "dropWhile is_space (rev name) = rev name"
      using trim_space_edges(2) [of name] assms(1) by (simp add: trim_right_def rev_swap)
    then have "\<not> is_space (last name)" using assms(2) by (simp add: dropWhile_eq_self_iff hd_rev)
    then show ?thesis using assms(2) by (intro trim_space_id) (simp add: is_space_def)
  qed
  define full where "full = ''name:'' @ name"
  have "CHR '':'' \<in> set (to_lower ''name:'')" by code_simp
  then have "CHR '':'' \<in> set (to_lower full)" by (simp only: full_def to_lower_def map_append set_append Un_iff simp_thms)
  then have "to_lower full \<noteq> w" if "CHR '':'' \<notin> set w" for w using that by metis
  moreover have "cutPrefixFold full ''name:'' = Some name" by (simp add: cutPrefixFold_def full_def)
  moreover have "trim_space full = full" "full \<noteq> []" using t by (simp_all only: full_def) simp
  ultimately have "ParseSpec full = Inr ((spec_of ModeName full)\<lparr> s_Name := name \<rparr>)"
    using words_without assms by (simp add: ParseSpec_def Let_def)
  then show ?thesis by (simp only: full_def)
qed

lemma atoi_no_dot: "atoi s = Some n \<Longrightarrow> CHR ''.'' \<notin> set s"
proof -
  have digits: "\<forall>c\<in>set ds. is_digit c" if "digits_val a ds = Some v" for a ds v
    using that by (induction a ds rule: digits_val.induct) (auto split: if_splits)
  assume "atoi s = Some n"
  then obtain neg ds v where "parse_sign s = (neg, ds)" "digits_val 0 ds = Some v"
    by (auto simp: atoi_def parse_nat_def split: prod.splits option.splits if_splits)
  with digits show ?thesis
    by (cases s) (force simp: parse_sign_def is_digit_def split: if_splits)+
qed

lemma spec_domain:
  assumes "looksLikeDomain d" "to_lower d = d" "trim_space d = d"
  shows "ParseSpec d = Inr ((spec_of ModeDomain d)\<lparr> s_Domain := d \<rparr>)"
proof -
  have dot: "CHR ''.'' \<in> set d" and colon: "CHR '':'' \<notin> set d"
    using assms(1) by (auto simp: looksLikeDomain_def contains_any_def list_ex_iff split: if_splits)
  have "d \<noteq> w" if "CHR ''.'' \<notin> set w" for w using that dot by metis
  moreover have "atoi d = None" using atoi_no_dot dot by (cases "atoi d") auto
  moreover have "cutPrefixFold d ''name:'' = None"
  proof -
    have n: "CHR '':'' \<in> set (to_lower ''name:'')" by code_simp
    have "to_lower (take (length ''name:'') d) \<noteq> to_lower ''name:''"
    proof
      assume "to_lower (take (length ''name:'') d) = to_lower ''name:''"
      with n have "CHR '':'' \<in> set (take (length ''name:'') (to_lower d))" by (simp only: to_lower_def take_map)
      then have "CHR '':'' \<in> set (to_lower d)" by (rule in_set_takeD)
      with colon assms(2) show False by simp
    qed
    then show ?thesis by (simp only: cutPrefixFold_def equal_fold_def if_False simp_thms)
  qed
  ultimately show ?thesis
    using words_without assms by (simp add: ParseSpec_def Let_def)
qed

text \<open>A certificate spec survives printing: what a label was read as is printed as a text that is read as the
  same spec again, whatever the spelling of the label was.\<close>

theorem spec_text_roundtrip:
  assumes "ParseSpec raw = Inr s"
  shows "\<exists>t. ParseSpec (Spec_String s) = Inr t \<and> t\<lparr> s_Raw := s_Raw s \<rparr> = s"
proof -
  let ?t = "trim_space raw" let ?l = "to_lower ?t"
  have short: "\<exists>t. ParseSpec (Spec_String (spec_of md r)) = Inr t \<and> t\<lparr> s_Raw := r \<rparr> = spec_of md r"
    if "md \<in> {ModeAuto, ModeNew, ModeNone}" for md r
  proof -
    have "ParseSpec ''auto'' = Inr (spec_of ModeAuto ''auto'')" "ParseSpec ''new'' = Inr (spec_of ModeNew ''new'')"
        "ParseSpec ''none'' = Inr (spec_of ModeNone ''none'')" by code_simp+
    then show ?thesis using that by (auto simp: Spec_String_def spec_of_def)
  qed
  consider (plain) md where "s = spec_of md ?t" "md \<in> {ModeAuto, ModeNew, ModeNone}"
    | (name) n where "s = (spec_of ModeName ?t)\<lparr> s_Name := n \<rparr>" "trim_space n = n" "n \<noteq> []"
    | (number) i where "s = (spec_of ModeID ?t)\<lparr> s_ID := i \<rparr>" "0 < i" "in_int64 i"
    | (domain) "s = (spec_of ModeDomain ?t)\<lparr> s_Domain := ?l \<rparr>" "looksLikeDomain ?l"
    using assms unfolding ParseSpec_def Let_def
    by (auto split: if_splits option.splits dest: atoi_in_int64)
  then show ?thesis
  proof cases
    case plain
    have "s_Raw (spec_of md ?t) = ?t" by (simp add: spec_of_def)
    then show ?thesis using short [OF plain(2), of ?t] by (simp only: plain(1))
  next
    case name
    then show ?thesis using spec_name [OF name(2,3)] by (simp add: Spec_String_def spec_of_def)
  next
    case number
    then show ?thesis using spec_number [OF number(2,3)] by (simp add: Spec_String_def spec_of_def)
  next
    case domain
    have "trim_space ?l = ?l" by (simp add: trim_space_to_lower)
    then show ?thesis using spec_domain [OF domain(2)] domain(1) by (simp add: Spec_String_def spec_of_def)
  qed
qed

theorem spec_text_roundtrip_witness:
  "\<exists>t. ParseSpec (Spec_String ((spec_of ModeDomain ''App.Example.COM'')\<lparr> s_Domain := ''app.example.com'' \<rparr>)) = Inr t \<and>
     t\<lparr> s_Raw := ''App.Example.COM'' \<rparr> = (spec_of ModeDomain ''App.Example.COM'')\<lparr> s_Domain := ''app.example.com'' \<rparr>"
proof -
  have "ParseSpec '' App.Example.COM '' = Inr ((spec_of ModeDomain ''App.Example.COM'')\<lparr> s_Domain := ''app.example.com'' \<rparr>)"
    by code_simp
  from spec_text_roundtrip [OF this] show ?thesis by (simp add: spec_of_def)
qed

end
