(* ===== verification/Surface.thy ===== *)
theory Surface
  imports Startup Health
begin

text \<open>
  The surface of the process: the options of the API client (\<open>npm.New\<close> in \<open>internal/npm/client.go\<close>), the HTTP
  endpoints, the usage text and the log lines of the start (\<open>src/main.go\<close>). Loggers and clocks are handles, 0 is
  the default one. An option that uses a nil pointer panics, which is \<open>None\<close>.
\<close>

section \<open>The options of the client\<close>

text \<open>A transport is absent, the one of \<open>net/http\<close> (with or without a check of certificates), or another.\<close>

datatype round_tripper = NoTransport | HttpTransport bool | OtherTransport

record http_client =
  hc_Timeout :: int
  hc_Transport :: round_tripper
  hc_Jar :: bool

record client_setup =
  su_hc :: "http_client option"
  su_log :: nat
  su_userAgent :: string
  su_logPayloads :: bool
  su_now :: nat
  su_flavour :: Flavour
  su_pinned :: bool

datatype client_option =
    WithHTTPClient "http_client option"
  | WithTimeout int
  | WithInsecureSkipVerify bool
  | WithLogger "nat option"
  | WithUserAgent string
  | WithPayloadLogging bool
  | WithClock "nat option"
  | WithFlavour Flavour

text \<open>Without verification a transport of another type is replaced.\<close>

definition insecure :: "http_client \<Rightarrow> http_client" where
  "insecure hc = hc\<lparr> hc_Transport := HttpTransport False \<rparr>"

fun apply_option :: "client_option \<Rightarrow> client_setup \<Rightarrow> client_setup option" where
  "apply_option (WithHTTPClient hc) s = Some (s\<lparr> su_hc := hc \<rparr>)"
| "apply_option (WithTimeout d) s = map_option (\<lambda>hc. s\<lparr> su_hc := Some (hc\<lparr> hc_Timeout := d \<rparr>) \<rparr>) (su_hc s)"
| "apply_option (WithInsecureSkipVerify skip) s =
     (if \<not> skip then Some s else map_option (\<lambda>hc. s\<lparr> su_hc := Some (insecure hc) \<rparr>) (su_hc s))"
| "apply_option (WithLogger l) s = Some (case l of None \<Rightarrow> s | Some x \<Rightarrow> s\<lparr> su_log := x \<rparr>)"
| "apply_option (WithUserAgent ua) s = Some (s\<lparr> su_userAgent := ua \<rparr>)"
| "apply_option (WithPayloadLogging b) s = Some (s\<lparr> su_logPayloads := b \<rparr>)"
| "apply_option (WithClock c) s = Some (case c of None \<Rightarrow> s | Some x \<Rightarrow> s\<lparr> su_now := x \<rparr>)"
| "apply_option (WithFlavour f) s = Some (if f \<noteq> FlavourAuto then s\<lparr> su_flavour := f, su_pinned := True \<rparr> else s)"

fun apply_options :: "client_option list \<Rightarrow> client_setup \<Rightarrow> client_setup option" where
  "apply_options [] s = Some s"
| "apply_options (x # xs) s = Option.bind (apply_option x s) (apply_options xs)"

definition fresh_http :: http_client where
  "fresh_http = \<lparr> hc_Timeout = 30 * second, hc_Transport = NoTransport, hc_Jar = False \<rparr>"

definition fresh_setup :: client_setup where
  "fresh_setup = \<lparr> su_hc = Some fresh_http, su_log = 0, su_userAgent = ''npm-docker-sync'', su_logPayloads = False,
     su_now = 0, su_flavour = FlavourAuto, su_pinned = False \<rparr>"

definition New_setup :: "client_option list \<Rightarrow> client_setup option" where
  "New_setup opts = map_option (\<lambda>s.
     let hc = (case su_hc s of None \<Rightarrow> fresh_http | Some hc \<Rightarrow> hc)
     in s\<lparr> su_hc := Some (hc\<lparr> hc_Jar := True \<rparr>) \<rparr>) (apply_options opts fresh_setup)"

text \<open>The client of the daemon.\<close>

definition main_options :: "string \<Rightarrow> nat \<Rightarrow> Config \<Rightarrow> client_option list" where
  "main_options version logger cfg =
     [WithTimeout (cf_NPMTimeout cfg), WithInsecureSkipVerify (cf_NPMInsecureSkipVerify cfg),
      WithUserAgent (''npmplus-docker-sync/'' @ version), WithLogger (Some logger), WithFlavour (cf_NPMFlavour cfg),
      WithPayloadLogging (cf_LogPayloads cfg)]"

text \<open>Every client has a cookie jar, which the sessions of NPMplus need, whatever its options are; it panics only
  when an option takes the HTTP client away and a later one configures it.\<close>

lemma New_setup_jar: "New_setup opts = Some s \<Longrightarrow> \<exists>hc. su_hc s = Some hc \<and> hc_Jar hc"
  by (auto simp: New_setup_def Let_def)

lemma apply_options_total:
  assumes "WithHTTPClient None \<notin> set opts" "su_hc s \<noteq> None"
  shows "\<exists>t. apply_options opts s = Some t \<and> su_hc t \<noteq> None"
  using assms
proof (induction opts arbitrary: s)
  case (Cons x xs)
  have "\<exists>t. apply_option x s = Some t \<and> su_hc t \<noteq> None"
    using Cons.prems by (cases x) (auto split: option.split dest: not_None_eq [THEN iffD1, OF not_sym])
  with Cons show ?case by auto
qed simp

lemma New_setup_total: "WithHTTPClient None \<notin> set opts \<Longrightarrow> New_setup opts \<noteq> None"
  using apply_options_total [of opts fresh_setup] by (auto simp: New_setup_def fresh_setup_def)

text \<open>What the client of the daemon is: certificates are checked unless the configuration says otherwise, the
  dialect is pinned exactly when it is configured, as in the client of \<open>Startup\<close>.\<close>

lemma main_setup:
  "New_setup (main_options version logger cfg) = Some \<lparr> su_hc = Some \<lparr> hc_Timeout = cf_NPMTimeout cfg,
       hc_Transport = (if cf_NPMInsecureSkipVerify cfg then HttpTransport False else NoTransport), hc_Jar = True \<rparr>,
     su_log = logger, su_userAgent = ''npmplus-docker-sync/'' @ version, su_logPayloads = cf_LogPayloads cfg, su_now = 0,
     su_flavour = cl_Flavour (NewClient i k (cf_NPMFlavour cfg)), su_pinned = cl_Pinned (NewClient i k (cf_NPMFlavour cfg)) \<rparr>"
  by (simp add: New_setup_def main_options_def fresh_setup_def fresh_http_def insecure_def NewClient_def)

section \<open>The endpoints\<close>

datatype reply_body = PlainBody string | ReadyBody readiness | StatusBody statusReport

record http_reply =
  hp_Status :: int
  hp_Type :: string
  hp_Body :: reply_body

definition plain_text :: string where "plain_text = ''text/plain; charset=utf-8''"

text \<open>\<open>None\<close> is a path no handler is registered for.\<close>

definition healthMux ::
  "(rat \<Rightarrow> string) \<Rightarrow> string list \<Rightarrow> string \<Rightarrow> bool \<Rightarrow> string \<Rightarrow> StreamStatus option \<Rightarrow> Worker \<Rightarrow> int \<Rightarrow> string \<Rightarrow> http_reply option" where
  "healthMux fmt classes version dryRun instanceID stream w now path =
     (if path = ''/healthz'' then Some \<lparr> hp_Status = 200, hp_Type = plain_text, hp_Body = PlainBody (''ok'' @ newline) \<rparr>
      else if path = ''/readyz'' then
        (let (code, body) = readyz (status_of stream w) now
         in Some \<lparr> hp_Status = code, hp_Type = plain_text, hp_Body = ReadyBody body \<rparr>)
      else if path = ''/status'' then
        Some \<lparr> hp_Status = 200, hp_Type = ''application/json; charset=utf-8'',
          hp_Body = StatusBody (statusDocument version dryRun instanceID stream w) \<rparr>
      else if path = ''/metrics'' then
        Some \<lparr> hp_Status = 200, hp_Type = ''text/plain; version=0.0.4; charset=utf-8'',
          hp_Body = PlainBody (renderMetrics fmt classes (Metrics_of w) (status_of stream w)) \<rparr>
      else None)"

definition startHealthServer :: "Config \<Rightarrow> (string \<Rightarrow> http_reply option) \<Rightarrow> (string \<times> (string \<Rightarrow> http_reply option)) option" where
  "startHealthServer cfg mux = (if cf_HealthAddr cfg = [] then None else Some (cf_HealthAddr cfg, mux))"

text \<open>Liveness never depends on the state; readiness is the only endpoint that refuses.\<close>

lemma only_readyz_refuses:
  assumes "healthMux fmt classes version dryRun instanceID stream w now path = Some r" "hp_Status r \<noteq> 200"
  shows "path = ''/readyz'' \<and> hp_Status r = 503 \<and> \<not> Ready (status_of stream w) now"
  using assms by (auto simp: healthMux_def readyz_def Ready_def Let_def split: if_splits prod.splits)

section \<open>What the start prints\<close>

text \<open>The line for each default the environment changed, or the remark that there is none.\<close>

definition logDefaults :: "Config \<Rightarrow> (string \<times> DefaultEntry option) list" where
  "logDefaults cfg =
     (let changed = FromEnv (Some (cf_Defaults cfg)) in
      if changed = [] then [(''field defaults: all built-in'', None)]
      else map (\<lambda>e. (''field default from environment'', Some e)) changed)"

datatype log_handler = TextHandler | JSONHandler

definition newLogger :: "Config \<Rightarrow> log_handler \<times> Level" where
  "newLogger cfg = (if cf_LogFormat cfg = ''json'' then JSONHandler else TextHandler, cf_LogLevel cfg)"

definition usage :: string where
  "usage = concat (map (\<lambda>l. l @ newline) [
     ''npmplus-docker-sync - sync Docker container labels to Nginx Proxy Manager / NPMplus'',
     [],
     ''Manages proxy hosts, redirection hosts, streams and 404 hosts from container'',
     ''labels such as npm.proxy.domains, npm.proxy.1.domains, npm.redirect.domains or'',
     ''npm.stream.incoming_port. One label is usually enough:'',
     [],
     ''  labels:'',
     ''    npm.proxy.domains: \"app.example.com\"'',
     [],
     ''Exclude a container with npm.enable=false.'',
     [],
     ''Usage:'',
     ''  npmplus-docker-sync            run the sync daemon (configured via environment)'',
     ''  npmplus-docker-sync sync       perform one reconcile and exit'',
     ''  npmplus-docker-sync validate [file]'',
     ''                                 parse the labels of the running containers -'',
     ''                                 or of a rendered compose configuration'',
     ''                                 (docker compose config --format json) - and'',
     ''                                 report what they would produce. Writes'',
     ''                                 nothing, never contacts NPM, exits non-zero'',
     ''                                 on an invalid label set.'',
     ''  npmplus-docker-sync version    print version information'',
     ''  npmplus-docker-sync healthcheck'',
     ''                                 probe HEALTH_ADDR/readyz; exit 0 when ready'',
     ''                                 (used by the container HEALTHCHECK)'',
     [],
     ''Required environment:'',
     ''  NPM_URL         base URL of the NPM/NPMplus API, e.g. http://npm:81'',
     ''  NPM_IDENTITY    admin e-mail'',
     ''  NPM_SECRET      admin password (or NPM_SECRET_FILE for Docker secrets)'',
     [],
     ''Optional environment:'',
     ''  NPM_FLAVOUR            api dialect: auto (default), npmplus or npm'',
     ''  NPM_EXPOSED_BY_DEFAULT manage every labelled container (default true)'',
     ''  NPM_CONTAINER_NAME     name of the npm container, for network discovery'',
     ''  NPM_PORT_PREFERENCE    order of exposed ports to pick from (default 80,8080,3000,8000,443)'',
     ''  NPM_DEFAULT_CERTIFICATE / NPM_<KIND>_<FIELD>'',
     ''                         global defaults for any label field, e.g.'',
     ''                         NPM_PROXY_SSL_FORCE, NPM_PROXY_WEBSOCKETS'',
     ''  NPM_CERTIFICATE_PARTIAL   primary (default) or none, when no certificate'',
     ''                         covers every domain of a host'',
     ''  NPM_CERTIFICATE_AUTO_CREATE  request a certificate when none matches (default false)'',
     ''  CERTIFICATE_POLL_INTERVAL    how often to look for new certificates (default 1m)'',
     ''  MIGRATE_FROM_REDTH     take over hosts created by npm-docker-sync (default false)'',
     ''  NPM_ON_STOP            stopped container: disable (default), keep or delete'',
     ''  NPM_STOP_GRACE         ignore a stopped container for this long (default 1m)'',
     ''  SYNC_INSTANCE_ID       only manage the resources of this instance'',
     ''  DELETE_GUARD           refuse a run deleting more than this share (default 0.5)'',
     ''  STRICT_LABELS          skip a resource that carries an unknown label (default false)'',
     ''  DOCKER_HOST            unix:///var/run/docker.sock (default) or tcp://docker-socket-proxy:2375'',
     ''  LABEL_PREFIX           label namespace (default \"npm\")'',
     ''  SYNC_KINDS             resource types to manage (default proxy,redirect,stream,404)'',
     ''  RESOLVE_CONTAINER_IP   use the container IP as upstream host (default true)'',
     ''  NPM_NETWORK            the docker network that IP is taken from'',
     ''  NPM_NETWORK_STRICT     skip containers that are not on NPM_NETWORK (default true)'',
     ''  DEBOUNCE_INTERVAL      quiet period after an event burst (default 3s)'',
     ''  DEBOUNCE_MAX_WAIT      hard cap for a burst (default 30s)'',
     ''  RESYNC_INTERVAL        periodic full reconcile (default 5m, 0 disables)'',
     ''  DELETE_ORPHANS         delete hosts whose container is gone (default true)'',
     ''  ADOPT_EXISTING         take over pre-existing hosts for a labelled domain (default true)'',
     ''  DRY_RUN                log intended changes without calling the API (default false)'',
     ''  HEALTH_ADDR            expose /healthz and /readyz, e.g. :8080'',
     ''  LOG_LEVEL              debug|info|warn|error (default info)'',
     ''  LOG_FORMAT             text|json (default text)'',
     ''  LOG_PAYLOADS           log full API request bodies at debug level (default false)'',
     [],
     ''See https://github.com/VentumPhoenix/npmplus-docker-sync for the full documentation.''])"

end
