(* ===== verification/Spec2Isabelle.thy ===== *)
theory Spec2Isabelle
  imports Refinement Convergence Findings Counters Debounce EditDistance LabelSafety OfflineCheck Daemon Transport Config
    Startup Health Diff Markdown Texts Surface
begin

text \<open>
  A verification library of npmplus-docker-sync, a daemon that reads the labels of Docker containers and
  keeps the hosts of an Nginx Proxy Manager server (NPM or its fork NPMplus) in step with them.

  \<^bold>\<open>The program.\<close> \<open>src/main.go\<close> parses the command line, loads the configuration
  (\<open>internal/config\<close>) and the field defaults (\<open>internal/fields\<close>), connects to Docker and to the server, and
  starts the parts: the listener (\<open>internal/docker/listener.go\<close>) lists containers and watches the event
  stream; the debouncer (\<open>internal/syncer/debounce.go\<close>) turns bursts of events into batches; the worker
  (\<open>internal/syncer/worker.go\<close>) runs a reconciliation for each batch and each tick. A run scans the labels
  into targets (\<open>internal/docker/labels.go\<close>, \<open>build.go\<close>, \<open>target.go\<close>), lists the live resources, builds the
  desired ones (\<open>internal/syncer/build.go\<close>, \<open>internal/npm/resources.go\<close>, certificates by \<open>internal/certs\<close>),
  compares fingerprints, writes what differs, and deletes what nobody wants. All requests go through the
  API client (\<open>internal/npm/client.go\<close>, bodies by \<open>payloads.go\<close>, the dialect by \<open>flavor.go\<close> and
  \<open>capabilities.go\<close>). Resources carry an ownership marker (\<open>internal/npm/marker.go\<close>), which is what keeps
  the tool off hosts it does not own.

  \<^bold>\<open>Theories.\<close> Each one models the file it names in its own opening text; a definition has the name of the
  Go function or type it translates (with a prefix where HOL or another record has the name already).

  \<^item> Foundations: \<open>Prelude\<close> and \<open>Slices\<close> (Go strings, slices, maps, \<open>strconv\<close>), \<open>GoTime\<close> (\<open>time.Parse\<close>),
    \<open>GoFloat\<close> (\<open>float64\<close> with its rounding, \<open>strconv.ParseFloat\<close>, \<open>time.ParseDuration\<close>, the 64-bit wrap).
  \<^item> Data: \<open>Models\<close>, \<open>Marker\<close>, \<open>Resources\<close>, \<open>Dialect\<close>, \<open>Payloads\<close> (\<open>internal/npm\<close>), \<open>Certs\<close>
    (\<open>internal/certs\<close>), \<open>Target\<close> (\<open>internal/docker/target.go\<close>), \<open>BuildResource\<close>; \<open>Codec\<close> (the struct tags and what
    \<open>encoding/json\<close> does with them) and \<open>Diff\<close> (\<open>internal/npm/diff.go\<close>).
  \<^item> Labels: \<open>FieldTable\<close>, \<open>EditDistance\<close>, \<open>Defaults\<close>, \<open>Markdown\<close> (\<open>internal/fields\<close>, the last with the reference page), \<open>LabelFields\<close>, \<open>Labels\<close>,
    \<open>BuildTarget\<close>, \<open>Scan\<close> (\<open>internal/docker\<close>), with \<open>WellFormed\<close> and \<open>LabelSafety\<close> about whole scans.
  \<^item> The worker: \<open>Cache\<close>, \<open>Backoff\<close>, \<open>Guard\<close>, \<open>Api\<close> (the server as the worker sees it), \<open>Worker\<close> (its state
    and single operations), \<open>Reconcile\<close> (one run), \<open>RunLoop\<close> (its life); \<open>Contract\<close> is the abstract
    specification of a run's calls, \<open>Refinement\<close> that of the whole process; \<open>Safety\<close>, \<open>Runs\<close>, \<open>Writes\<close>,
    \<open>Counters\<close> and \<open>Convergence\<close> hold what follows from them, \<open>Findings\<close> runs that contradict the documents.
  \<^item> Around it: \<open>Debounce\<close>, \<open>Listener\<close>, \<open>Daemon\<close> (watcher, debouncer and worker over their channels), \<open>Client\<close>
    with \<open>ClientInvariants\<close> and \<open>ClientSafety\<close>, \<open>Transport\<close> (the worker on top of the client), \<open>Config\<close>, \<open>Startup\<close>,
    \<open>Validate\<close>, \<open>OfflineCheck\<close>, \<open>Health\<close>, \<open>Surface\<close> (options of the client, endpoints, usage), \<open>Texts\<close> (descriptions
    and log lines).

  \<^bold>\<open>State and effects.\<close> The worker, the client, the listener and the debouncer are records that are passed
  on. The server of a run is a record of functions from the calls made so far to answers, the network of
  the client a function from the requests sent so far to replies: both may answer the same question
  differently every time, and may fail any of them. The worker keeps its calls as a trace, the client the
  requests it sent; properties about writes speak of these. Readings of a clock are numbered, and nothing
  is assumed of them unless a statement says so. The select loops (\<open>Worker.Run\<close>, \<open>Debouncer.Run\<close>,
  \<open>Listener.Watch\<close>) are labelled transition systems with the channel that fired as the label, so every
  order of events is covered; \<open>Daemon\<close> composes the three, one step of one part at a time. Errors are values: one constructor for each message of the code, the text
  itself is left out. Where the code ranges over a Go map, the model has an association list whose order
  stands for the order of the iteration.

  \<^bold>\<open>Interfaces.\<close> The locales \<open>managed_resource\<close>, \<open>keyed_cache\<close>, \<open>retry_policy\<close>, \<open>client_detection\<close>, \<open>client_invariant\<close> and
  \<open>budgeted_caller\<close> state what one part relies on in another; each is interpreted on the definitions of the
  model.

  \<^bold>\<open>What is shown.\<close> The process refines an abstract machine that may write only what the contract of a run
  allows (\<open>Refinement\<close>, \<open>Contract\<close>). From this: which deletions, updates and toggles a run can make and whose
  resources they reach, that a run cannot wipe the server, that a broken label protects its hosts, that
  every write carries the stamp of this instance and the access lists that were asked for, and that a
  settled system is left alone. \<open>Transport\<close> carries the results on deletions and on the switches to the requests
  that leave the process. Of the data: that ownership survives writing and reading, that a listing is read as it was
  written, that the diff names a change whenever the fingerprints differ, that unsupported
  fields are not sent, which certificate is chosen and when it changes. Of the labels: that every target
  is well formed, that the positions of an index agree, that suggestions are the nearest fields, that the reference page tells the
  truth about every field. Of the
  loops: no event is lost between Docker and the worker or delayed beyond the quiet period, the pipeline
  cannot get stuck, every event is followed by a snapshot, a shutdown ends the process. Of the client: sessions, replays, and the end of every call. Of the start: which
  configurations are accepted, how often a login is tried, that the offline check agrees with the scan.

  \<^bold>\<open>Bounds and fuel.\<close> Only \<open>do_call\<close> has fuel: it bounds how deep re-detections of the dialect nest, since a
  request of a re-detection may be rejected like any other and start one again after the cooldown of 30
  seconds. Fuel 1 is enough whenever a call takes less than that, and the call then sends at most twenty
  requests (\<open>calls_return\<close>). A login is tried at most ten times. \<open>int\<close> is the 64-bit \<open>int\<close> of Go in the
  ranges the code admits; where an overflow matters (durations, counters of the metrics) the wrap is
  written out, the counters are 64-bit words. A finite \<open>float64\<close> is its rational value, rounded to 53 bits
  after each operation. A fingerprint is symbolic: the digest of a shape is a constructor, so different
  shapes have different digests, which is what the code relies on of SHA-256.

  \<^bold>\<open>Parameters.\<close> Not under \<open>src/\<close>, and arguments of the definitions that use them: the Docker SDK (its
  answers and its event stream), the net, \<open>os.ReadFile\<close> and the environment, \<open>url.Parse\<close>, the step between a
  JSON text and its tree in both directions, which empty slices are \<open>nil\<close>, Punycode (\<open>golang.org/x/net/idna\<close>), and the formatting of
  numbers by \<open>%g\<close> and of times in a status document.

  \<^bold>\<open>Not modelled.\<close> Log lines that are a constant text with the values at hand, the texts of most errors
  and the calls of the Docker SDK behind \<open>NewClient\<close>, \<open>Ping\<close> and \<open>Close\<close> change no state. The HTTP server itself
  is the library's; its handlers are modelled. Mutexes have no counterpart: what they guard is one step
  of the model. The tests are not modelled.
\<close>

end
